(* ===== verification/Seat_Prelude.thy ===== *)
theory Seat_Prelude
  imports Main "HOL-Library.State_Monad" "HOL-Library.Stream" "HOL-Library.Sublist"
begin

text \<open>
  What every theory of the development shares: Go's strings, times and errors, the rules for
  programs of the library's state monad (their evaluation, and a small Hoare logic), and the list
  operations that the SQL statements of \<open>internal/store\<close> are made of.

  A Go \<open>string\<close> and a \<open>[]byte\<close> are both byte sequences; an Isabelle \<open>char\<close> is a byte, so both
  are \<open>string\<close> here and the conversions between them are the identity. A \<open>time.Time\<close> is the
  instant it denotes, in nanoseconds since the Unix epoch; a \<open>time.Duration\<close> is a number of
  nanoseconds. An \<open>error\<close> result is a sum: \<open>Inl\<close> of the error, \<open>Inr\<close> of the value.
\<close>

section \<open>Rule collections\<close>

named_theorems run_simps \<open>evaluation of programs of the state monad\<close>
named_theorems triple_rules \<open>Hoare rules, one per program\<close>
named_theorems table_simps \<open>facts on rows selected, updated and inserted\<close>

section \<open>Bytes, strings, times\<close>

type_synonym bytes = "char list"
type_synonym gotime = int
type_synonym duration = int

definition second :: duration where
  "second = 1000000000"

definition hour :: duration where
  "hour = 3600 * second"

lemmas duration_defs = hour_def second_def

text \<open>\<open>strings.Contains\<close>.\<close>

fun strings_contains :: "string \<Rightarrow> string \<Rightarrow> bool" where
  "strings_contains s sub =
     (prefix sub s \<or> (case s of [] \<Rightarrow> False | _ # cs \<Rightarrow> strings_contains cs sub))"

declare strings_contains.simps [simp del]

lemma strings_contains_iff: "strings_contains s sub \<longleftrightarrow> (\<exists>xs ys. s = xs @ sub @ ys)"
proof (induction s)
  case Nil
  show ?case by (subst strings_contains.simps) (auto simp: prefix_def)
next
  case (Cons c s)
  have "(\<exists>xs ys. c # s = xs @ sub @ ys) \<longleftrightarrow> prefix sub (c # s) \<or> (\<exists>xs ys. s = xs @ sub @ ys)"
    (is "?L \<longleftrightarrow> ?R")
  proof
    assume ?L
    then obtain xs ys where "c # s = xs @ sub @ ys" by blast
    then show ?R by (cases xs) (auto simp: prefix_def)
  next
    assume ?R
    then show ?L
      by (metis append_Cons append_Nil prefix_def)
  qed
  with Cons.IH show ?case by (subst strings_contains.simps) simp
qed

section \<open>Errors\<close>

text \<open>
  The error values of the program. \<open>ErrNotFound\<close> and \<open>ErrKeyExists\<close> are the sentinels of
  \<open>internal/store\<close>, \<open>ErrDeviceLimit\<close> and \<open>ErrLicenseStatus\<close> those of \<open>internal/license\<close>,
  \<open>ErrInvalidSignature\<close> that of \<open>internal/crypto\<close> and \<open>ErrWeakPassword\<close> that of \<open>internal/web\<close>.
  \<open>ErrNoRows\<close> is \<open>sql.ErrNoRows\<close>; \<open>DriverError\<close> is any other error of the SQL driver with its text;
  \<open>LibError\<close> an error of a library routine (base64, JSON, bcrypt, HTTP) with its text; \<open>Panicked\<close> a
  run-time panic. \<open>ErrWrap pre e post\<close> is \<open>fmt.Errorf\<close> with the verb \<open>%w\<close> applied to \<open>e\<close>.
\<close>

datatype gerror =
    ErrNotFound
  | ErrKeyExists
  | ErrDeviceLimit
  | ErrLicenseStatus
  | ErrInvalidSignature
  | ErrWeakPassword
  | ErrNoRows
  | DriverError string
  | LibError string
  | Panicked string
  | ErrWrap string gerror string

text \<open>\<open>err.Error()\<close>.\<close>

primrec error_text :: "gerror \<Rightarrow> string" where
  "error_text ErrNotFound = ''not found''"
| "error_text ErrKeyExists = ''license key already exists''"
| "error_text ErrDeviceLimit = ''device limit reached''"
| "error_text ErrLicenseStatus = ''license is not active''"
| "error_text ErrInvalidSignature = ''invalid signature''"
| "error_text ErrWeakPassword = ''password must be at least 8 characters''"
| "error_text ErrNoRows = ''sql: no rows in result set''"
| "error_text (DriverError s) = s"
| "error_text (LibError s) = s"
| "error_text (Panicked s) = s"
| "error_text (ErrWrap pre e post) = pre @ error_text e @ post"

text \<open>\<open>errors.Is err target\<close>: the error itself or one that it wraps.\<close>

primrec wrapped_error :: "gerror \<Rightarrow> gerror" where
  "wrapped_error ErrNotFound = ErrNotFound"
| "wrapped_error ErrKeyExists = ErrKeyExists"
| "wrapped_error ErrDeviceLimit = ErrDeviceLimit"
| "wrapped_error ErrLicenseStatus = ErrLicenseStatus"
| "wrapped_error ErrInvalidSignature = ErrInvalidSignature"
| "wrapped_error ErrWeakPassword = ErrWeakPassword"
| "wrapped_error ErrNoRows = ErrNoRows"
| "wrapped_error (DriverError s) = DriverError s"
| "wrapped_error (LibError s) = LibError s"
| "wrapped_error (Panicked s) = Panicked s"
| "wrapped_error (ErrWrap pre e post) = wrapped_error e"

definition errors_Is :: "gerror \<Rightarrow> gerror \<Rightarrow> bool" where
  "errors_Is e target \<longleftrightarrow> e = target \<or> wrapped_error e = target"

lemma errors_Is_refl [simp]: "errors_Is e e"
  by (simp add: errors_Is_def)

lemma errors_Is_wrap [simp]:
  "wrapped_error target = target \<Longrightarrow> \<forall>p u q. target \<noteq> ErrWrap p u q \<Longrightarrow>
    errors_Is (ErrWrap pre e post) target = errors_Is e target"
  by (auto simp: errors_Is_def)

lemma errors_Is_plain [simp]:
  "errors_Is ErrNotFound t = (ErrNotFound = t)"
  "errors_Is ErrKeyExists t = (ErrKeyExists = t)"
  "errors_Is ErrDeviceLimit t = (ErrDeviceLimit = t)"
  "errors_Is ErrLicenseStatus t = (ErrLicenseStatus = t)"
  "errors_Is ErrNoRows t = (ErrNoRows = t)"
  "errors_Is (DriverError s) t = (DriverError s = t)"
  "errors_Is (LibError s) t = (LibError s = t)"
  "errors_Is (Panicked s) t = (Panicked s = t)"
  by (auto simp: errors_Is_def)

section \<open>Programs of the state monad\<close>

declare run_state_bind [run_simps] run_state_return [run_simps]

abbreviation ok :: "'a \<Rightarrow> ('s, 'e + 'a) state" where
  "ok x \<equiv> State_Monad.return (Inr x)"

abbreviation fail :: "'e \<Rightarrow> ('s, 'e + 'a) state" where
  "fail e \<equiv> State_Monad.return (Inl e)"

text \<open>
  \<open>triple P m Q\<close>: from a state with \<open>P\<close>, the program \<open>m\<close> ends with a result and a state that
  satisfy \<open>Q\<close>. Programs of the state monad are total, so this is total correctness.
\<close>

definition triple :: "('s \<Rightarrow> bool) \<Rightarrow> ('s, 'a) state \<Rightarrow> ('a \<Rightarrow> 's \<Rightarrow> bool) \<Rightarrow> bool" where
  "triple P m Q \<longleftrightarrow> (\<forall>s. P s \<longrightarrow> (case run_state m s of (r, s') \<Rightarrow> Q r s'))"

lemma tripleI: "(\<And>s r s'. P s \<Longrightarrow> run_state m s = (r, s') \<Longrightarrow> Q r s') \<Longrightarrow> triple P m Q"
  by (auto simp: triple_def split: prod.splits)

lemma tripleD: "triple P m Q \<Longrightarrow> P s \<Longrightarrow> run_state m s = (r, s') \<Longrightarrow> Q r s'"
  by (force simp: triple_def)

lemma triple_snd: "triple P m Q \<Longrightarrow> P s \<Longrightarrow> Q (fst (run_state m s)) (snd (run_state m s))"
  by (auto simp: triple_def split: prod.splits)

lemma triple_conseq:
  "triple P' m Q' \<Longrightarrow> (\<And>s. P s \<Longrightarrow> P' s) \<Longrightarrow> (\<And>r s. Q' r s \<Longrightarrow> Q r s) \<Longrightarrow> triple P m Q"
  by (fastforce simp: triple_def split: prod.splits)

lemma triple_pre: "triple P' m Q \<Longrightarrow> (\<And>s. P s \<Longrightarrow> P' s) \<Longrightarrow> triple P m Q"
  by (auto simp: triple_def)

lemma triple_post: "triple P m Q' \<Longrightarrow> (\<And>r s. Q' r s \<Longrightarrow> Q r s) \<Longrightarrow> triple P m Q"
  by (fastforce simp: triple_def split: prod.splits)

lemma triple_conj: "triple P m Q \<Longrightarrow> triple P m R \<Longrightarrow> triple P m (\<lambda>r s. Q r s \<and> R r s)"
  by (fastforce simp: triple_def split: prod.splits)

lemma triple_False [intro!]: "triple (\<lambda>_. False) m Q"
  by (simp add: triple_def)

lemma triple_return: "(\<And>s. P s \<Longrightarrow> Q x s) \<Longrightarrow> triple P (State_Monad.return x) Q"
  by (simp add: triple_def)

lemma triple_bind:
  "triple P m R \<Longrightarrow> (\<And>x. triple (R x) (f x) Q) \<Longrightarrow> triple P (State_Monad.bind m f) Q"
  by (fastforce simp: triple_def split: prod.splits)

lemma triple_if:
  "(b \<Longrightarrow> triple P m Q) \<Longrightarrow> (\<not> b \<Longrightarrow> triple P n Q) \<Longrightarrow> triple P (if b then m else n) Q"
  by simp

lemma triple_case_sum:
  "(\<And>e. x = Inl e \<Longrightarrow> triple P (f e) Q) \<Longrightarrow> (\<And>v. x = Inr v \<Longrightarrow> triple P (g v) Q) \<Longrightarrow>
    triple P (case x of Inl e \<Rightarrow> f e | Inr v \<Rightarrow> g v) Q"
  by (cases x) auto

lemma triple_case_option:
  "(x = None \<Longrightarrow> triple P m Q) \<Longrightarrow> (\<And>v. x = Some v \<Longrightarrow> triple P (g v) Q) \<Longrightarrow>
    triple P (case x of None \<Rightarrow> m | Some v \<Rightarrow> g v) Q"
  by (cases x) auto

lemma triple_case_prod:
  "(\<And>a b. x = (a, b) \<Longrightarrow> triple P (f a b) Q) \<Longrightarrow> triple P (case x of (a, b) \<Rightarrow> f a b) Q"
  by (cases x) auto

lemma triple_assume: "(\<And>s. P s \<Longrightarrow> triple P m Q) \<Longrightarrow> triple P m Q"
  by (auto simp: triple_def)

lemmas triple_structure = triple_if triple_case_sum triple_case_option triple_case_prod

text \<open>A program keeps a predicate of the state, whatever it returns.\<close>

abbreviation keeps :: "('s \<Rightarrow> bool) \<Rightarrow> ('s, 'a) state \<Rightarrow> bool" where
  "keeps P m \<equiv> triple P m (\<lambda>_. P)"

lemma keeps_return: "keeps P (State_Monad.return x)"
  by (simp add: triple_return)

lemma keeps_bind: "keeps P m \<Longrightarrow> (\<And>x. keeps P (f x)) \<Longrightarrow> keeps P (State_Monad.bind m f)"
  by (rule triple_bind)

lemmas keeps_structure = keeps_return keeps_bind triple_structure

section \<open>Rows of a table\<close>

text \<open>\<open>UPDATE ... WHERE\<close>, and the number of rows it touches.\<close>

definition update_where :: "('r \<Rightarrow> bool) \<Rightarrow> ('r \<Rightarrow> 'r) \<Rightarrow> 'r list \<Rightarrow> 'r list" where
  "update_where c f = map (\<lambda>r. if c r then f r else r)"

definition count_where :: "('r \<Rightarrow> bool) \<Rightarrow> 'r list \<Rightarrow> int" where
  "count_where c rows = int (length (filter c rows))"

lemma update_where_Nil [simp, table_simps]: "update_where c f [] = []"
  by (simp add: update_where_def)

lemma update_where_Cons [simp, table_simps]:
  "update_where c f (r # rs) = (if c r then f r else r) # update_where c f rs"
  by (simp add: update_where_def)

lemma update_where_append [table_simps]:
  "update_where c f (rs @ ts) = update_where c f rs @ update_where c f ts"
  by (simp add: update_where_def)

lemma length_update_where [simp]: "length (update_where c f rs) = length rs"
  by (simp add: update_where_def)

lemma set_update_where:
  "set (update_where c f rs) = {r \<in> set rs. \<not> c r} \<union> f ` {r \<in> set rs. c r}"
  by (auto simp: update_where_def)

lemma Bex_update_where:
  "(\<exists>r \<in> set (update_where c f rs). Q r) \<longleftrightarrow> (\<exists>r \<in> set rs. if c r then Q (f r) else Q r)"
  by (induction rs) auto

lemma Ball_update_where:
  "(\<forall>r \<in> set (update_where c f rs). Q r) \<longleftrightarrow> (\<forall>r \<in> set rs. if c r then Q (f r) else Q r)"
  by (induction rs) auto

lemma map_update_where:
  "(\<And>r. c r \<Longrightarrow> g (f r) = g r) \<Longrightarrow> map g (update_where c f rs) = map g rs"
  by (simp add: update_where_def)

lemma update_where_id: "(\<And>r. r \<in> set rs \<Longrightarrow> c r \<Longrightarrow> f r = r) \<Longrightarrow> update_where c f rs = rs"
  by (induction rs) auto

lemma filter_update_where_same:
  "(\<And>r. c r \<Longrightarrow> Q (f r) = Q r) \<Longrightarrow>
    filter Q (update_where c f rs) = update_where c f (filter Q rs)"
  by (induction rs) auto

lemma count_where_Nil [simp, table_simps]: "count_where c [] = 0"
  by (simp add: count_where_def)

lemma count_where_Cons [simp, table_simps]:
  "count_where c (r # rs) = (if c r then 1 else 0) + count_where c rs"
  by (simp add: count_where_def)

lemma count_where_append [simp, table_simps]:
  "count_where c (rs @ ts) = count_where c rs + count_where c ts"
  by (simp add: count_where_def)

lemma count_where_nonneg [simp]: "0 \<le> count_where c rs"
  by (simp add: count_where_def)

lemma count_where_0_iff [simp]: "count_where c rs = 0 \<longleftrightarrow> (\<forall>r \<in> set rs. \<not> c r)"
  by (simp add: count_where_def filter_empty_conv)

lemma count_where_pos_iff [simp]: "0 < count_where c rs \<longleftrightarrow> (\<exists>r \<in> set rs. c r)"
  by (induction rs) (auto simp: add_pos_nonneg)

lemma count_where_mono: "(\<And>r. r \<in> set rs \<Longrightarrow> c r \<Longrightarrow> c' r) \<Longrightarrow> count_where c rs \<le> count_where c' rs"
proof (induction rs)
  case (Cons r rs)
  then have "count_where c rs \<le> count_where c' rs" by simp
  with Cons.prems [of r] show ?case by auto
qed simp

lemma count_where_cong:
  "(\<And>r. r \<in> set rs \<Longrightarrow> c r = c' r) \<Longrightarrow> count_where c rs = count_where c' rs"
  by (induction rs) auto

lemma count_where_update_same:
  "(\<And>r. r \<in> set rs \<Longrightarrow> c r \<Longrightarrow> Q (f r) = Q r) \<Longrightarrow>
    count_where Q (update_where c f rs) = count_where Q rs"
  by (induction rs) auto

lemma count_where_update_off:
  "(\<And>r. r \<in> set rs \<Longrightarrow> c r \<Longrightarrow> \<not> Q (f r)) \<Longrightarrow>
    count_where Q (update_where c f rs) = count_where (\<lambda>r. Q r \<and> \<not> c r) rs"
  by (induction rs) auto

lemma count_where_le_length: "count_where c rs \<le> int (length rs)"
  by (simp add: count_where_def)

text \<open>The row a key column singles out.\<close>

lemma find_Some_in: "find c rs = Some r \<Longrightarrow> r \<in> set rs \<and> c r"
  by (metis find_Some_iff nth_mem)

lemma find_distinct:
  assumes "distinct (map k rs)" and "r \<in> set rs" and "k r = key"
  shows "find (\<lambda>x. k x = key) rs = Some r"
  using assms by (induction rs) auto

lemma find_update_where_key:
  "(\<And>r. c r \<Longrightarrow> k (f r) = k r) \<Longrightarrow>
    find (\<lambda>x. k x = key) (update_where c f rs) =
      map_option (\<lambda>r. if c r then f r else r) (find (\<lambda>x. k x = key) rs)"
  by (induction rs) auto

text \<open>\<open>ORDER BY\<close> leaves a table that is in order as it is.\<close>

lemma sort_key_sorted: "sorted (map f rs) \<Longrightarrow> sort_key f rs = rs"
  by (induction rs) (simp_all add: insort_is_Cons)

end
