(* ===== verification/Encoding.thy ===== *)
theory Encoding
  imports Seat_Prelude
begin

text \<open>
  The text encodings of Go's standard library that the program uses: \<open>base64.StdEncoding\<close> (for the
  two halves of an envelope, for the key seed and for the public key) and \<open>hex.EncodeToString\<close> (for
  session tokens and webhook signatures). The contract that the rest of the development relies on
  is the locale \<open>byte_codec\<close>, interpreted at the end for base64.
\<close>

section \<open>The contract of an encoding\<close>

locale byte_codec =
  fixes enc :: "bytes \<Rightarrow> string"
    and dec :: "string \<Rightarrow> gerror + bytes"
  assumes dec_enc: "dec (enc b) = Inr b"
begin

lemma enc_inject [simp]: "enc a = enc b \<longleftrightarrow> a = b"
  by (metis dec_enc sum.inject(2))

lemma dec_enc_eq [simp]: "dec (enc b) = Inr c \<longleftrightarrow> c = b"
  by (auto simp: dec_enc)

end

section \<open>Bytes and numbers\<close>

abbreviation byte_val :: "char \<Rightarrow> nat" where
  "byte_val \<equiv> of_char"

abbreviation byte_of :: "nat \<Rightarrow> char" where
  "byte_of \<equiv> char_of"

lemma byte_val_less [simp]: "byte_val c < 256"
  using nat_of_char_less_256 [of c] by simp

lemma byte_of_val [simp]: "byte_of (byte_val c) = c"
  by simp

section \<open>base64.StdEncoding\<close>

definition b64_alphabet :: string where
  "b64_alphabet = ''ABCDEFGHIJKLMNOPQRSTUVWXYZabcdefghijklmnopqrstuvwxyz0123456789+/''"

definition b64_digit :: "nat \<Rightarrow> char" where
  "b64_digit n = b64_alphabet ! n"

fun index_of :: "'a \<Rightarrow> 'a list \<Rightarrow> nat option" where
  "index_of _ [] = None"
| "index_of x (y # ys) = (if x = y then Some 0 else map_option Suc (index_of x ys))"

definition b64_value :: "char \<Rightarrow> nat option" where
  "b64_value c = index_of c b64_alphabet"

text \<open>
  Three bytes become four digits of six bits; a group of one or two bytes is padded with \<open>=\<close>.
\<close>

fun b64_encode :: "bytes \<Rightarrow> string" where
  "b64_encode [] = []"
| "b64_encode [a] =
     (let x = byte_val a in
      [b64_digit (x div 4), b64_digit (x mod 4 * 16), CHR ''='', CHR ''=''])"
| "b64_encode [a, b] =
     (let x = byte_val a; y = byte_val b in
      [b64_digit (x div 4), b64_digit (x mod 4 * 16 + y div 16), b64_digit (y mod 16 * 4), CHR ''=''])"
| "b64_encode (a # b # c # rest) =
     (let x = byte_val a; y = byte_val b; z = byte_val c in
      b64_digit (x div 4) # b64_digit (x mod 4 * 16 + y div 16)
        # b64_digit (y mod 16 * 4 + z div 64) # b64_digit (z mod 64) # b64_encode rest)"

text \<open>
  Decoding skips line breaks anywhere, accepts padding in the last group only and, as
  \<open>StdEncoding\<close> is not strict, ignores the unused low bits of a padded group. What it refuses is
  Go's \<open>CorruptInputError\<close>; the offset in that error's text is left out.
\<close>

definition b64_corrupt :: gerror where
  "b64_corrupt = LibError ''illegal base64 data''"

fun b64_groups :: "string \<Rightarrow> gerror + bytes" where
  "b64_groups [] = Inr []"
| "b64_groups [p, q, r, s] =
     (case (b64_value p, b64_value q) of
        (Some i, Some j) \<Rightarrow>
          let a = byte_of (i * 4 + j div 16) in
          if r = CHR ''='' then (if s = CHR ''='' then Inr [a] else Inl b64_corrupt)
          else (case b64_value r of
            None \<Rightarrow> Inl b64_corrupt
          | Some k \<Rightarrow>
              let b = byte_of (j mod 16 * 16 + k div 4) in
              if s = CHR ''='' then Inr [a, b]
              else (case b64_value s of
                None \<Rightarrow> Inl b64_corrupt
              | Some l \<Rightarrow> Inr [a, b, byte_of (k mod 4 * 64 + l)]))
      | _ \<Rightarrow> Inl b64_corrupt)"
| "b64_groups (p # q # r # s # rest) =
     (case (b64_value p, b64_value q, b64_value r, b64_value s) of
        (Some i, Some j, Some k, Some l) \<Rightarrow>
          (case b64_groups rest of
             Inl e \<Rightarrow> Inl e
           | Inr bs \<Rightarrow>
               Inr (byte_of (i * 4 + j div 16) # byte_of (j mod 16 * 16 + k div 4)
                      # byte_of (k mod 4 * 64 + l) # bs))
      | _ \<Rightarrow> Inl b64_corrupt)"
| "b64_groups _ = Inl b64_corrupt"

definition line_break :: "char \<Rightarrow> bool" where
  "line_break c \<longleftrightarrow> c = CHR 0x0A \<or> c = CHR 0x0D"

definition b64_decode :: "string \<Rightarrow> gerror + bytes" where
  "b64_decode s = b64_groups (filter (\<lambda>c. \<not> line_break c) s)"

lemma b64_digit_table:
  "\<forall>n \<in> set [0..<64]. b64_value (b64_digit n) = Some n \<and> b64_digit n \<noteq> CHR ''=''
      \<and> \<not> line_break (b64_digit n)"
  by code_simp

lemma b64_digit [simp]:
  "n < 64 \<Longrightarrow> b64_value (b64_digit n) = Some n"
  "n < 64 \<Longrightarrow> b64_digit n \<noteq> CHR ''=''"
  "n < 64 \<Longrightarrow> \<not> line_break (b64_digit n)"
  using b64_digit_table by auto

lemma b64_digit_mem: "n < 64 \<Longrightarrow> b64_digit n \<in> set b64_alphabet"
  unfolding b64_digit_def by (rule nth_mem) (simp add: b64_alphabet_def)

lemma pad_not_line_break [simp]: "\<not> line_break (CHR ''='')"
  by (simp add: line_break_def)

text \<open>The four digits of a group give its three bytes back.\<close>

lemma digit_div: "(b::nat) < d \<Longrightarrow> (a * d + b) div d = a"
  by simp

lemma digit_mod: "(b::nat) < d \<Longrightarrow> (a * d + b) mod d = b"
  by simp

lemma div_bound: "(x::nat) < d * k \<Longrightarrow> x div d < k"
  by (simp add: less_mult_imp_div_less mult.commute)

lemma sextet_bounds:
  fixes x y z :: nat
  assumes "x < 256" "y < 256" "z < 256"
  shows "x div 4 < 64" "x mod 4 * 16 < 64" "x mod 4 * 16 + y div 16 < 64"
    "y mod 16 * 4 < 64" "y mod 16 * 4 + z div 64 < 64" "z mod 64 < 64"
proof -
  have "x div 4 < 64" "y div 16 < 16" "z div 64 < 4" "x mod 4 < 4" "y mod 16 < 16"
    using assms by (auto intro: div_bound)
  then show "x div 4 < 64" "x mod 4 * 16 < 64" "x mod 4 * 16 + y div 16 < 64"
    "y mod 16 * 4 < 64" "y mod 16 * 4 + z div 64 < 64" "z mod 64 < 64"
    by auto
qed

lemma sextet_join:
  fixes x y z :: nat
  assumes "x < 256" "y < 256" "z < 256"
  shows "x div 4 * 4 + x mod 4 * 16 div 16 = x"
    "x div 4 * 4 + (x mod 4 * 16 + y div 16) div 16 = x"
    "(x mod 4 * 16 + y div 16) mod 16 * 16 + y mod 16 * 4 div 4 = y"
    "(x mod 4 * 16 + y div 16) mod 16 * 16 + (y mod 16 * 4 + z div 64) div 4 = y"
    "(y mod 16 * 4 + z div 64) mod 4 * 64 + z mod 64 = z"
proof -
  have yz: "y div 16 < 16" "z div 64 < 4"
    using assms by (auto intro: div_bound)
  show "x div 4 * 4 + x mod 4 * 16 div 16 = x"
    by simp
  show "x div 4 * 4 + (x mod 4 * 16 + y div 16) div 16 = x"
    by (simp only: digit_div [OF yz(1)] div_mult_mod_eq)
  show "(x mod 4 * 16 + y div 16) mod 16 * 16 + y mod 16 * 4 div 4 = y"
    by (simp only: digit_mod [OF yz(1)]) simp
  show "(x mod 4 * 16 + y div 16) mod 16 * 16 + (y mod 16 * 4 + z div 64) div 4 = y"
    by (simp only: digit_mod [OF yz(1)] digit_div [OF yz(2)] div_mult_mod_eq)
  show "(y mod 16 * 4 + z div 64) mod 4 * 64 + z mod 64 = z"
    by (simp only: digit_mod [OF yz(2)] div_mult_mod_eq)
qed

lemmas sextets =
  sextet_bounds [OF byte_val_less byte_val_less byte_val_less]
  sextet_join [OF byte_val_less byte_val_less byte_val_less]

text \<open>A full group followed by at least one more character is an inner group.\<close>

lemma b64_groups_inner:
  assumes "i < 64" "j < 64" "k < 64" "l < 64"
  shows "b64_groups (b64_digit i # b64_digit j # b64_digit k # b64_digit l # rest) =
    (case b64_groups rest of
       Inl e \<Rightarrow> Inl e
     | Inr bs \<Rightarrow> Inr (byte_of (i * 4 + j div 16) # byte_of (j mod 16 * 16 + k div 4)
                 # byte_of (k mod 4 * 64 + l) # bs))"
  using assms by (cases rest) (simp_all add: Let_def)

lemma b64_groups_encode: "b64_groups (b64_encode bs) = Inr bs"
proof (induction bs rule: b64_encode.induct)
  case (2 a)
  show ?case
    by (simp only: b64_encode.simps b64_groups.simps Let_def b64_digit sextets simp_thms if_True
        prod.case option.case byte_of_val)
next
  case (3 a b)
  show ?case
    by (simp only: b64_encode.simps b64_groups.simps Let_def b64_digit sextets simp_thms if_True
        if_False prod.case option.case byte_of_val)
next
  case (4 a b c rest)
  then show ?case
    by (simp only: b64_encode.simps b64_groups_inner Let_def sextets sum.case byte_of_val)
qed simp

lemma b64_encode_chars: "\<forall>c \<in> set (b64_encode bs). c \<in> set b64_alphabet \<or> c = CHR ''=''"
  by (induction bs rule: b64_encode.induct) (auto simp: Let_def sextets b64_digit_mem)

lemma b64_encode_no_line_break: "\<forall>c \<in> set (b64_encode bs). \<not> line_break c"
  by (induction bs rule: b64_encode.induct) (auto simp: Let_def sextets)

lemma b64_decode_encode: "b64_decode (b64_encode bs) = Inr bs"
  using b64_encode_no_line_break [of bs]
  by (simp add: b64_decode_def b64_groups_encode filter_id_conv [THEN iffD2])

lemma length_b64_encode: "length (b64_encode bs) = 4 * ((length bs + 2) div 3)"
proof (induction bs rule: b64_encode.induct)
  case (4 a b c rest)
  have "(5 + length rest) div 3 = Suc (Suc (Suc (length rest)) div 3)"
    by simp
  with 4 show ?case by (simp add: Let_def)
qed (simp_all add: Let_def)

interpretation b64: byte_codec b64_encode b64_decode
  by unfold_locales (rule b64_decode_encode)

text \<open>A line break in an encoded text changes nothing.\<close>

lemma b64_decode_line_break:
  "line_break c \<Longrightarrow> b64_decode (xs @ c # ys) = b64_decode (xs @ ys)"
  by (simp add: b64_decode_def)

section \<open>hex.EncodeToString\<close>

definition hex_digit :: "nat \<Rightarrow> char" where
  "hex_digit n = ''0123456789abcdef'' ! n"

definition hex_encode :: "bytes \<Rightarrow> string" where
  "hex_encode bs = concat (map (\<lambda>b. [hex_digit (byte_val b div 16), hex_digit (byte_val b mod 16)]) bs)"

lemma hex_digit_table:
  "\<forall>n \<in> set [0..<16]. index_of (hex_digit n) ''0123456789abcdef'' = Some n"
  by code_simp

lemma hex_digit_inject: "m < 16 \<Longrightarrow> n < 16 \<Longrightarrow> hex_digit m = hex_digit n \<longleftrightarrow> m = n"
  using hex_digit_table by (metis atLeast0LessThan lessThan_iff option.inject set_upt)

lemma hex_encode_simps [simp]:
  "hex_encode [] = []"
  "hex_encode (b # bs) = hex_digit (byte_val b div 16) # hex_digit (byte_val b mod 16) # hex_encode bs"
  by (simp_all add: hex_encode_def)

lemma nibbles_less [simp]: "byte_val b div 16 < 16" "byte_val b mod 16 < 16"
  by (auto intro: div_bound)

lemma hex_byte_inject:
  "hex_digit (byte_val a div 16) = hex_digit (byte_val b div 16) \<Longrightarrow>
    hex_digit (byte_val a mod 16) = hex_digit (byte_val b mod 16) \<Longrightarrow> a = b"
  unfolding hex_digit_inject [OF nibbles_less(1) nibbles_less(1)]
    hex_digit_inject [OF nibbles_less(2) nibbles_less(2)]
  by (metis byte_of_val div_mult_mod_eq)

lemma hex_encode_inject: "hex_encode a = hex_encode b \<longleftrightarrow> a = b"
proof (induction a arbitrary: b)
  case Nil
  show ?case by (cases b) simp_all
next
  case (Cons x a)
  show ?case
    by (cases b) (auto simp only: hex_encode_simps list.inject list.distinct Cons.IH
        dest: hex_byte_inject)
qed

lemma length_hex_encode [simp]: "length (hex_encode bs) = 2 * length bs"
  by (induction bs) simp_all

lemma hex_encode_chars: "set (hex_encode bs) \<subseteq> set ''0123456789abcdef''"
proof (induction bs)
  case (Cons b bs)
  have "hex_digit n \<in> set ''0123456789abcdef''" if "n < 16" for n
    unfolding hex_digit_def by (rule nth_mem) (use that in simp)
  from this [OF nibbles_less(1)] this [OF nibbles_less(2)] Cons.IH show ?case
    by (simp only: hex_encode_simps set_simps insert_subset)
qed simp

definition in_range :: "nat \<Rightarrow> nat \<Rightarrow> char \<Rightarrow> bool" where
  "in_range lo hi c \<longleftrightarrow> lo \<le> byte_val c \<and> byte_val c \<le> hi"

text \<open>The value of a hexadecimal digit, in either case.\<close>

definition hex_value :: "char \<Rightarrow> nat option" where
  "hex_value c =
     (if in_range 48 57 c then Some (byte_val c - 48)
      else if in_range 65 70 c then Some (byte_val c - 55)
      else if in_range 97 102 c then Some (byte_val c - 87) else None)"

lemma less_16: "n < 16 \<Longrightarrow> n \<in> {0, 1, 2, 3, 4, 5, 6, 7, 8, 9, 10, 11, 12, 13, 14, 15 :: nat}"
  by simp presburger

lemma hex_value_digit: "n < 16 \<Longrightarrow> hex_value (hex_digit n) = Some n"
  using less_16 [of n] by (auto simp: hex_value_def hex_digit_def in_range_def)

section \<open>unicode/utf8\<close>

text \<open>
  \<open>utf8.ValidString\<close>: sequences of one to four bytes, without overlong forms, surrogates and code
  points above 0x10FFFF (the ranges of the second byte after E0, ED, F0 and F4).
\<close>

definition utf8_second :: "char \<Rightarrow> char \<Rightarrow> bool" where
  "utf8_second c d =
     in_range (if byte_val c = 0xE0 then 0xA0 else if byte_val c = 0xF0 then 0x90 else 0x80)
       (if byte_val c = 0xED then 0x9F else if byte_val c = 0xF4 then 0x8F else 0xBF) d"

definition utf8_size :: "char \<Rightarrow> nat" where
  "utf8_size c =
     (if byte_val c < 0x80 then 1 else if in_range 0xC2 0xDF c then 2
      else if in_range 0xE0 0xEF c then 3 else if in_range 0xF0 0xF4 c then 4 else 0)"

fun utf8_valid :: "string \<Rightarrow> bool" where
  "utf8_valid [] = True"
| "utf8_valid (c # cs) =
     (case utf8_size c of
        0 \<Rightarrow> False
      | Suc n \<Rightarrow>
          n \<le> length cs \<and> (n = 0 \<or> utf8_second c (hd cs)) \<and>
          list_all (in_range 0x80 0xBF) (take n cs) \<and> utf8_valid (drop n cs))"

declare utf8_valid.simps [simp del]

lemma utf8_valid_Nil [simp]: "utf8_valid []"
  by (simp add: utf8_valid.simps)

lemma utf8_valid_ascii_Cons [simp]: "byte_val c < 0x80 \<Longrightarrow> utf8_valid (c # cs) = utf8_valid cs"
  by (simp add: utf8_valid.simps utf8_size_def)

lemma utf8_valid_ascii: "\<forall>c \<in> set s. byte_val c < 0x80 \<Longrightarrow> utf8_valid s"
  by (induction s) (simp_all add: utf8_valid.simps utf8_size_def)

section \<open>strconv\<close>

definition digit :: "nat \<Rightarrow> char" where
  "digit n = byte_of (48 + n)"

definition is_digit :: "char \<Rightarrow> bool" where
  "is_digit c \<longleftrightarrow> in_range 48 57 c"

definition digit_value :: "char \<Rightarrow> nat option" where
  "digit_value c = (if in_range 48 57 c then Some (byte_val c - 48) else None)"

fun nat_dec :: "nat \<Rightarrow> string" where
  "nat_dec n = (if n < 10 then [digit n] else nat_dec (n div 10) @ [digit (n mod 10)])"

declare nat_dec.simps [simp del]

definition Itoa :: "int \<Rightarrow> string" where
  "Itoa i = (if i < 0 then CHR ''-'' # nat_dec (nat (- i)) else nat_dec (nat i))"

fun digits_value :: "nat \<Rightarrow> string \<Rightarrow> nat option" where
  "digits_value acc [] = Some acc"
| "digits_value acc (c # cs) =
     (case digit_value c of None \<Rightarrow> None | Some n \<Rightarrow> digits_value (acc * 10 + n) cs)"

definition parse_nat :: "string \<Rightarrow> nat option" where
  "parse_nat s = (if s = [] then None else digits_value 0 s)"

text \<open>\<open>Atoi\<close> on a platform with an \<open>int\<close> of 64 bits: an optional sign, digits, the range.\<close>

definition Atoi :: "string \<Rightarrow> gerror + int" where
  "Atoi s =
     (let (sg, ds) = (case s of
          [] \<Rightarrow> (1, [])
        | c # cs \<Rightarrow> if c = CHR ''-'' then (-1, cs) else if c = CHR ''+'' then (1, cs) else (1, s))
      in case parse_nat ds of
          None \<Rightarrow> Inl (LibError ''strconv.Atoi: invalid syntax'')
        | Some n \<Rightarrow>
            let i = sg * int n in
            if - (2 ^ 63) \<le> i \<and> i < 2 ^ 63 then Inr i
            else Inl (LibError ''strconv.Atoi: value out of range''))"

lemma byte_val_digit: "n < 10 \<Longrightarrow> byte_val (digit n) = 48 + n"
  by (simp add: digit_def of_char_of)

lemma digit_value_digit [simp]: "n < 10 \<Longrightarrow> digit_value (digit n) = Some n"
  by (simp add: digit_value_def in_range_def byte_val_digit)

lemma digit_not_sign: "n < 10 \<Longrightarrow> digit n \<noteq> CHR ''-'' \<and> digit n \<noteq> CHR ''+''"
  using byte_val_digit [of n] by auto

lemma digits_value_append:
  "digits_value acc (s @ t) = (case digits_value acc s of None \<Rightarrow> None | Some n \<Rightarrow> digits_value n t)"
  by (induction s arbitrary: acc) (auto split: option.split)

lemma digits_value_dec: "digits_value 0 (nat_dec n) = Some n"
proof (induction n rule: nat_dec.induct)
  case (1 n)
  show ?case
  proof (cases "n < 10")
    case True
    then show ?thesis by (subst nat_dec.simps) simp
  next
    case False
    with 1 show ?thesis by (subst nat_dec.simps) (simp add: digits_value_append)
  qed
qed

lemma nat_dec_Cons: "\<exists>k ds. nat_dec n = digit k # ds \<and> k < 10"
proof (induction n rule: nat_dec.induct)
  case (1 n)
  then show ?case by (subst (1) nat_dec.simps) (cases "n < 10"; force)
qed

lemma parse_nat_dec [simp]: "parse_nat (nat_dec n) = Some n"
  using nat_dec_Cons [of n] by (auto simp: parse_nat_def digits_value_dec)

lemma nat_dec_digits: "list_all is_digit (nat_dec n)"
proof (induction n rule: nat_dec.induct)
  case (1 n)
  have d: "is_digit (digit k)" if "k < 10" for k
    using that by (simp add: is_digit_def in_range_def byte_val_digit)
  from 1 show ?case
    by (subst nat_dec.simps) (simp add: d)
qed

lemma Atoi_Itoa:
  assumes "- (2 ^ 63) \<le> i" and "i < 2 ^ 63"
  shows "Atoi (Itoa i) = Inr i"
proof (cases "i < 0")
  case True
  with assms show ?thesis by (simp add: Atoi_def Itoa_def)
next
  case False
  obtain k ds where k: "nat_dec (nat i) = digit k # ds" "k < 10"
    using nat_dec_Cons [of "nat i"] by blast
  have "parse_nat (digit k # ds) = Some (nat i)"
    using parse_nat_dec [of "nat i"] k(1) by simp
  with False assms digit_not_sign [OF k(2)] show ?thesis
    by (simp add: Atoi_def Itoa_def k(1))
qed

end
