(* ===== verification/Models.thy ===== *)
theory Models
  imports Encoding
begin

text \<open>
  The data of \<open>internal/store\<close>: the Go structs of models.go, the tables of schema.go, and the world
  that a running server acts on. A statement is a function of the database that either fails and
  changes nothing, as an SQLite statement does, or returns a value and the new database. The
  driver can also fail for reasons of its own (\<open>faults\<close>), and then the statement has no effect.
\<close>

section \<open>models.go\<close>

record product =
  prod_id :: string
  prod_name :: string
  prod_created_at :: gotime

record license =
  lic_id :: string
  lic_product_id :: string
  lic_product_name :: string
  lic_key :: string
  lic_customer_name :: string
  lic_customer_email :: string
  lic_max_devices :: int
  lic_expires_at :: "gotime option"
  lic_revoked_at :: "gotime option"
  lic_created_at :: gotime

record device =
  dev_id :: int
  dev_license_id :: string
  dev_device_id :: string
  dev_device_name :: string
  dev_activated_at :: gotime
  dev_last_seen_at :: gotime
  dev_deactivated_at :: "gotime option"

definition time_After :: "gotime \<Rightarrow> gotime \<Rightarrow> bool" where
  "time_After t u \<longleftrightarrow> u < t"

definition time_Before :: "gotime \<Rightarrow> gotime \<Rightarrow> bool" where
  "time_Before t u \<longleftrightarrow> t < u"

definition Status :: "license \<Rightarrow> gotime \<Rightarrow> string" where
  "Status l now =
     (if lic_revoked_at l \<noteq> None then ''revoked''
      else case lic_expires_at l of
          Some x \<Rightarrow> if time_After now x then ''expired'' else ''active''
        | None \<Rightarrow> ''active'')"

definition Active :: "device \<Rightarrow> bool" where
  "Active d \<longleftrightarrow> dev_deactivated_at d = None"

lemma Status_active_iff:
  "Status l now = ''active'' \<longleftrightarrow>
     lic_revoked_at l = None \<and> (\<forall>x. lic_expires_at l = Some x \<longrightarrow> now \<le> x)"
  by (auto simp: Status_def time_After_def split: option.splits)

lemma Status_revoked: "lic_revoked_at l = Some t \<Longrightarrow> Status l now = ''revoked''"
  by (simp add: Status_def)

lemma Status_expired:
  "lic_revoked_at l = None \<Longrightarrow> lic_expires_at l = Some x \<Longrightarrow> x < now \<Longrightarrow> Status l now = ''expired''"
  by (simp add: Status_def time_After_def)

lemma Status_cases:
  obtains (revoked) "Status l now = ''revoked''" "lic_revoked_at l \<noteq> None"
  | (expired) "Status l now = ''expired''" "lic_revoked_at l = None"
      "\<exists>x. lic_expires_at l = Some x \<and> x < now"
  | (active) "Status l now = ''active''" "lic_revoked_at l = None"
      "\<forall>x. lic_expires_at l = Some x \<longrightarrow> now \<le> x"
proof (cases "lic_revoked_at l")
  case (Some t)
  then show thesis by (intro revoked) (simp_all add: Status_def)
next
  case None
  show thesis
  proof (cases "\<exists>x. lic_expires_at l = Some x \<and> x < now")
    case True
    with None show thesis by (intro expired) (auto simp: Status_def time_After_def)
  next
    case False
    with None show thesis
      by (intro active) (auto simp: Status_def time_After_def split: option.split)
  qed
qed

section \<open>schema.go\<close>

text \<open>
  A row of \<open>licenses\<close> has no product name: the queries join it in from \<open>products\<close>. Tables that the
  program only reads by their primary key are maps, the others are row lists in \<open>rowid\<close> order.
  \<open>device_seq\<close> and \<open>admin_seq\<close> are the \<open>AUTOINCREMENT\<close> counters, and \<open>foreign_keys\<close> is the pragma
  that the connection string sets.
\<close>

record license_row =
  row_id :: string
  row_product_id :: string
  row_key :: string
  row_customer_name :: string
  row_customer_email :: string
  row_max_devices :: int
  row_expires_at :: "gotime option"
  row_revoked_at :: "gotime option"
  row_created_at :: gotime

record admin_row =
  adm_id :: int
  adm_password_hash :: string
  adm_created_at :: gotime

record database =
  foreign_keys :: bool
  settings :: "string \<Rightarrow> string option"
  admins :: "admin_row list"
  admin_seq :: int
  sessions :: "string \<Rightarrow> (gotime \<times> gotime) option"
  products :: "product list"
  licenses :: "license_row list"
  devices :: "device list"
  device_seq :: int

text \<open>What \<open>CREATE TABLE IF NOT EXISTS\<close> leaves in a fresh file.\<close>

definition empty_database :: "bool \<Rightarrow> database" where
  "empty_database fk =
     \<lparr>foreign_keys = fk, settings = Map.empty, admins = [], admin_seq = 0, sessions = Map.empty,
      products = [], licenses = [], devices = [], device_seq = 0\<rparr>"

section \<open>The world of a running server\<close>

text \<open>The map that \<open>Service.notify\<close> builds for a notifier.\<close>

record notification =
  n_event :: string
  n_license_key :: string
  n_product :: string
  n_customer_name :: string
  n_device_id :: string
  n_timestamp :: gotime

text \<open>A goroutine that \<open>Sender.Notify\<close> starts: the arguments of \<open>deliver\<close>.\<close>

record delivery =
  dl_url :: string
  dl_secret :: string
  dl_data :: notification

text \<open>
  \<open>faults\<close> says for each coming call of the driver whether it fails, and with which text; \<open>clock\<close>
  holds the instants that the coming calls of \<open>time.Now\<close> return, \<open>entropy\<close> the bytes that
  \<open>crypto/rand\<close> delivers next, \<open>uuids\<close> what the coming calls of \<open>uuid.NewString\<close> return.
  \<open>spawned\<close> lists the deliveries started so far, oldest first. The driver keeps a time as a text:
  \<open>unreadable\<close> is what the \<open>Scan\<close> of a column reports when it cannot read a stored time back.
\<close>

record world =
  db :: database
  faults :: "string option stream"
  clock :: "gotime stream"
  entropy :: "char stream"
  uuids :: "string stream"
  spawned :: "delivery list"
  unreadable :: "gotime \<Rightarrow> string option"

type_synonym 'a program = "(world, 'a) state"
type_synonym 'a stmt = "database \<Rightarrow> gerror + 'a \<times> database"

definition time_Now :: "gotime program" where
  "time_Now = State (\<lambda>w. (shd (clock w), w\<lparr>clock := stl (clock w)\<rparr>))"

definition rand_Read :: "nat \<Rightarrow> (gerror + bytes) program" where
  "rand_Read n = State (\<lambda>w. (Inr (stake n (entropy w)), w\<lparr>entropy := sdrop n (entropy w)\<rparr>))"

definition uuid_NewString :: "string program" where
  "uuid_NewString = State (\<lambda>w. (shd (uuids w), w\<lparr>uuids := stl (uuids w)\<rparr>))"

definition exec_sql :: "'a stmt \<Rightarrow> (gerror + 'a) program" where
  "exec_sql q = State (\<lambda>w.
     let w' = w\<lparr>faults := stl (faults w)\<rparr> in
     case shd (faults w) of
       Some msg \<Rightarrow> (Inl (DriverError msg), w')
     | None \<Rightarrow>
         (case q (db w) of
            Inl e \<Rightarrow> (Inl e, w')
          | Inr (x, d) \<Rightarrow> (Inr x, w'\<lparr>db := d\<rparr>)))"

definition spawn :: "delivery \<Rightarrow> unit program" where
  "spawn x = State (\<lambda>w. ((), w\<lparr>spawned := spawned w @ [x]\<rparr>))"

lemma run_time_Now [run_simps, simp]:
  "run_state time_Now w = (shd (clock w), w\<lparr>clock := stl (clock w)\<rparr>)"
  by (simp add: time_Now_def)

lemma run_rand_Read [run_simps, simp]:
  "run_state (rand_Read n) w = (Inr (stake n (entropy w)), w\<lparr>entropy := sdrop n (entropy w)\<rparr>)"
  by (simp add: rand_Read_def)

lemma run_uuid_NewString [run_simps, simp]:
  "run_state uuid_NewString w = (shd (uuids w), w\<lparr>uuids := stl (uuids w)\<rparr>)"
  by (simp add: uuid_NewString_def)

lemma run_spawn [run_simps, simp]:
  "run_state (spawn x) w = ((), w\<lparr>spawned := spawned w @ [x]\<rparr>)"
  by (simp add: spawn_def)

lemma run_exec_sql [run_simps]:
  "run_state (exec_sql q) w =
     (case shd (faults w) of
        Some msg \<Rightarrow> (Inl (DriverError msg), w\<lparr>faults := stl (faults w)\<rparr>)
      | None \<Rightarrow>
          (case q (db w) of
             Inl e \<Rightarrow> (Inl e, w\<lparr>faults := stl (faults w)\<rparr>)
           | Inr (x, d) \<Rightarrow> (Inr x, w\<lparr>faults := stl (faults w), db := d\<rparr>)))"
  by (simp add: exec_sql_def Let_def)

text \<open>
  A world whose driver fails no statement and can read back every time of the stored licenses, whose
  expiry a form sets to any date. The times of the other tables are instants of the clock; they are
  read without such a check.
\<close>

definition faultless :: "world \<Rightarrow> bool" where
  "faultless w \<longleftrightarrow> faults w = sconst None"

definition row_times :: "license_row \<Rightarrow> gotime set" where
  "row_times r = insert (row_created_at r) (set_option (row_expires_at r) \<union> set_option (row_revoked_at r))"

definition rows_readable :: "(gotime \<Rightarrow> string option) \<Rightarrow> license_row list \<Rightarrow> bool" where
  "rows_readable u rs \<longleftrightarrow> (\<forall>r \<in> set rs. \<forall>t \<in> row_times r. u t = None)"

definition healthy :: "world \<Rightarrow> bool" where
  "healthy w \<longleftrightarrow> faultless w \<and> rows_readable (unreadable w) (licenses (db w))"

lemma row_times_update [simp]:
  "row_times (r\<lparr>row_key := k\<rparr>) = row_times r" "row_times (r\<lparr>row_max_devices := n\<rparr>) = row_times r"
  by (simp_all add: row_times_def)

lemma faultless_stream [simp]:
  "faultless w \<Longrightarrow> shd (faults w) = None"
  "faultless w \<Longrightarrow> stl (faults w) = faults w"
  by (simp_all add: faultless_def)

lemma healthyD [simp]:
  "healthy w \<Longrightarrow> faultless w"
  "healthy w \<Longrightarrow> rows_readable (unreadable w) (licenses (db w))"
  by (simp_all add: healthy_def)

lemma run_exec_sql_faultless:
  assumes "faultless w"
  shows "run_state (exec_sql q) w =
    (case q (db w) of Inl e \<Rightarrow> (Inl e, w) | Inr (x, d) \<Rightarrow> (Inr x, w\<lparr>db := d\<rparr>))"
  using assms by (simp add: run_exec_sql split: sum.split prod.split)

lemmas run_exec_sql_healthy [run_simps] = run_exec_sql_faultless [OF healthyD(1)]

lemma faultless_update [simp]:
  "faultless (w\<lparr>db := d\<rparr>) = faultless w"
  "faultless (w\<lparr>clock := c\<rparr>) = faultless w"
  "faultless (w\<lparr>entropy := b\<rparr>) = faultless w"
  "faultless (w\<lparr>uuids := u\<rparr>) = faultless w"
  "faultless (w\<lparr>spawned := p\<rparr>) = faultless w"
  by (simp_all add: faultless_def)

lemma healthy_update [simp]:
  "healthy (w\<lparr>db := d\<rparr>) \<longleftrightarrow> faultless w \<and> rows_readable (unreadable w) (licenses d)"
  "healthy (w\<lparr>clock := c\<rparr>) = healthy w"
  "healthy (w\<lparr>entropy := b\<rparr>) = healthy w"
  "healthy (w\<lparr>uuids := u\<rparr>) = healthy w"
  "healthy (w\<lparr>spawned := p\<rparr>) = healthy w"
  "healthy (w\<lparr>faults := faults w, spawned := p\<rparr>) = healthy w"
  by (simp_all add: healthy_def faultless_def del: healthyD)

text \<open>Statements that keep a predicate of the database, under any driver.\<close>

lemma keeps_exec_sql:
  assumes "\<And>d x d'. P d \<Longrightarrow> q d = Inr (x, d') \<Longrightarrow> P d'"
  shows "keeps (\<lambda>w. P (db w)) (exec_sql q)"
  using assms
  by (auto simp: triple_def run_exec_sql split: option.splits sum.splits prod.splits)

lemma triple_exec_sql:
  assumes "\<And>w e. P (db w) \<Longrightarrow> Q (Inl e) w"
    and "\<And>w x d. P d \<Longrightarrow> q d = Inr (x, db w) \<Longrightarrow> Q (Inr x) w"
  shows "triple (\<lambda>w. P (db w)) (exec_sql q) Q"
  using assms
  by (fastforce simp: triple_def run_exec_sql split: option.splits sum.splits prod.splits)

lemma keeps_time_Now [triple_rules]: "keeps (\<lambda>w. P (db w)) time_Now"
  by (simp add: triple_def)

lemma keeps_rand_Read [triple_rules]: "keeps (\<lambda>w. P (db w)) (rand_Read n)"
  by (simp add: triple_def)

lemma keeps_uuid_NewString [triple_rules]: "keeps (\<lambda>w. P (db w)) uuid_NewString"
  by (simp add: triple_def)

lemma keeps_spawn [triple_rules]: "keeps (\<lambda>w. P (db w)) (spawn x)"
  by (simp add: triple_def)

end
