(* ===== verification/Store_Devices.thy ===== *)
theory Store_Devices
  imports Models
begin

text \<open>
  \<open>internal/store/devices.go\<close>: the activations of a license. Each method is its SQL statement (a
  function of the database, named \<open>sql_...\<close>) run through \<open>exec_sql\<close>, and what the Go code does
  around it. The seat-accounting contract that the licensing rules rely on is the locale
  \<open>seat_table\<close>, interpreted at the end on these statements.
\<close>

section \<open>Statements\<close>

definition is_activation :: "string \<Rightarrow> string \<Rightarrow> device \<Rightarrow> bool" where
  "is_activation licenseID deviceID r \<longleftrightarrow>
     dev_license_id r = licenseID \<and> dev_device_id r = deviceID"

definition holds_seat :: "string \<Rightarrow> device \<Rightarrow> bool" where
  "holds_seat licenseID r \<longleftrightarrow> dev_license_id r = licenseID \<and> dev_deactivated_at r = None"

definition sql_active_count :: "string \<Rightarrow> int stmt" where
  "sql_active_count licenseID d = Inr (count_where (holds_seat licenseID) (devices d), d)"

definition sql_active_device :: "string \<Rightarrow> string \<Rightarrow> device stmt" where
  "sql_active_device licenseID deviceID d =
     (case find (\<lambda>r. is_activation licenseID deviceID r \<and> dev_deactivated_at r = None) (devices d) of
        None \<Rightarrow> Inl ErrNoRows
      | Some r \<Rightarrow> Inr (r, d))"

definition foreign_key_error :: gerror where
  "foreign_key_error = DriverError ''constraint failed: FOREIGN KEY constraint failed (787)''"

definition sql_upsert_device :: "device \<Rightarrow> int stmt" where
  "sql_upsert_device x d =
     (let same = is_activation (dev_license_id x) (dev_device_id x) in
      case find same (devices d) of
        Some r \<Rightarrow>
          Inr (dev_id r,
            d\<lparr>devices := update_where same
                (\<lambda>r. r\<lparr>dev_device_name := dev_device_name x, dev_activated_at := dev_activated_at x,
                       dev_last_seen_at := dev_last_seen_at x, dev_deactivated_at := None\<rparr>)
                (devices d)\<rparr>)
      | None \<Rightarrow>
          if foreign_keys d \<and> \<not> list_ex (\<lambda>l. row_id l = dev_license_id x) (licenses d)
          then Inl foreign_key_error
          else let i = device_seq d + 1 in
            Inr (i, d\<lparr>devices := devices d @ [x\<lparr>dev_id := i, dev_deactivated_at := None\<rparr>],
                      device_seq := i\<rparr>))"

definition sql_touch_device :: "gotime \<Rightarrow> int \<Rightarrow> unit stmt" where
  "sql_touch_device t i d =
     Inr ((), d\<lparr>devices :=
       update_where (\<lambda>r. dev_id r = i) (\<lambda>r. r\<lparr>dev_last_seen_at := t\<rparr>) (devices d)\<rparr>)"

text \<open>The value of an \<open>UPDATE\<close> is what \<open>res.RowsAffected()\<close> reports.\<close>

definition sql_deactivate_device :: "gotime \<Rightarrow> string \<Rightarrow> string \<Rightarrow> int stmt" where
  "sql_deactivate_device t licenseID deviceID d =
     (let c = (\<lambda>r. is_activation licenseID deviceID r \<and> dev_deactivated_at r = None) in
      Inr (count_where c (devices d),
        d\<lparr>devices := update_where c (\<lambda>r. r\<lparr>dev_deactivated_at := Some t\<rparr>) (devices d)\<rparr>))"

definition sql_list_devices :: "string \<Rightarrow> device list stmt" where
  "sql_list_devices licenseID d =
     Inr (sort_key (\<lambda>r. - dev_activated_at r)
            (filter (\<lambda>r. dev_license_id r = licenseID) (devices d)), d)"

lemmas sql_device_defs = sql_active_count_def sql_active_device_def sql_upsert_device_def
  sql_touch_device_def sql_deactivate_device_def sql_list_devices_def

section \<open>Methods of the store\<close>

definition ActiveDeviceCount :: "string \<Rightarrow> (gerror + int) program" where
  "ActiveDeviceCount licenseID = exec_sql (sql_active_count licenseID)"

definition GetActiveDevice :: "string \<Rightarrow> string \<Rightarrow> (gerror + device) program" where
  "GetActiveDevice licenseID deviceID = do {
     r \<leftarrow> exec_sql (sql_active_device licenseID deviceID);
     case r of
       Inl e \<Rightarrow> if errors_Is e ErrNoRows then fail ErrNotFound else fail e
     | Inr d \<Rightarrow> ok d
   }"

definition ActivateDevice :: "string \<Rightarrow> string \<Rightarrow> string \<Rightarrow> (gerror + device) program" where
  "ActivateDevice licenseID deviceID deviceName = do {
     now \<leftarrow> time_Now;
     let d = \<lparr>dev_id = 0, dev_license_id = licenseID, dev_device_id = deviceID,
              dev_device_name = deviceName, dev_activated_at = now, dev_last_seen_at = now,
              dev_deactivated_at = None\<rparr>;
     r \<leftarrow> exec_sql (sql_upsert_device d);
     case r of Inl e \<Rightarrow> fail e | Inr i \<Rightarrow> ok (d\<lparr>dev_id := i\<rparr>)
   }"

definition TouchDevice :: "int \<Rightarrow> (gerror + unit) program" where
  "TouchDevice i = do { t \<leftarrow> time_Now; exec_sql (sql_touch_device t i) }"

definition DeactivateDevice :: "string \<Rightarrow> string \<Rightarrow> (gerror + unit) program" where
  "DeactivateDevice licenseID deviceID = do {
     t \<leftarrow> time_Now;
     res \<leftarrow> exec_sql (sql_deactivate_device t licenseID deviceID);
     case res of Inl e \<Rightarrow> fail e | Inr n \<Rightarrow> if n = 0 then fail ErrNotFound else ok ()
   }"

definition ListDevices :: "string \<Rightarrow> (gerror + device list) program" where
  "ListDevices licenseID = exec_sql (sql_list_devices licenseID)"

lemmas device_method_defs = ActiveDeviceCount_def GetActiveDevice_def ActivateDevice_def
  TouchDevice_def DeactivateDevice_def ListDevices_def

section \<open>The activations as a set of seats\<close>

text \<open>The rows are well formed: no activation and no row id twice.\<close>

definition devices_ok :: "database \<Rightarrow> bool" where
  "devices_ok d \<longleftrightarrow>
     distinct (map (\<lambda>r. (dev_license_id r, dev_device_id r)) (devices d)) \<and>
     distinct (map dev_id (devices d)) \<and>
     (\<forall>r \<in> set (devices d). dev_id r \<le> device_seq d)"

text \<open>The seats taken: pairs of a license and a device id.\<close>

definition seats_of :: "device list \<Rightarrow> (string \<times> string) set" where
  "seats_of rs = {(dev_license_id r, dev_device_id r) | r. r \<in> set rs \<and> dev_deactivated_at r = None}"

definition seats :: "database \<Rightarrow> (string \<times> string) set" where
  "seats d = seats_of (devices d)"

definition seat_count :: "string \<Rightarrow> database \<Rightarrow> int" where
  "seat_count l d = count_where (holds_seat l) (devices d)"

lemma seats_update [simp]:
  "seats (d\<lparr>products := p\<rparr>) = seats d" "seats (d\<lparr>licenses := ls\<rparr>) = seats d"
  "seats (d\<lparr>settings := m\<rparr>) = seats d" "seats (d\<lparr>admins := a\<rparr>) = seats d"
  "seats (d\<lparr>sessions := ss\<rparr>) = seats d" "seats (d\<lparr>admin_seq := i\<rparr>) = seats d"
  by (simp_all add: seats_def)

lemma seat_count_update [simp]:
  "seat_count l (d\<lparr>products := p\<rparr>) = seat_count l d"
  "seat_count l (d\<lparr>licenses := ls\<rparr>) = seat_count l d"
  "seat_count l (d\<lparr>settings := m\<rparr>) = seat_count l d"
  "seat_count l (d\<lparr>admins := a\<rparr>) = seat_count l d"
  "seat_count l (d\<lparr>sessions := ss\<rparr>) = seat_count l d"
  "seat_count l (d\<lparr>admin_seq := i\<rparr>) = seat_count l d"
  by (simp_all add: seat_count_def)

lemma seats_iff:
  "(l, x) \<in> seats d \<longleftrightarrow> (\<exists>r \<in> set (devices d). is_activation l x r \<and> dev_deactivated_at r = None)"
  by (auto simp: seats_def seats_of_def is_activation_def)

text \<open>The count of the code is the number of devices in the set.\<close>

lemma finite_seats: "finite {x. (l, x) \<in> seats d}"
proof -
  have "{x. (l, x) \<in> seats d} \<subseteq> dev_device_id ` set (devices d)"
    by (auto simp: seats_def seats_of_def)
  then show ?thesis by (rule finite_subset) simp
qed

lemma seat_count_card:
  assumes "devices_ok d"
  shows "seat_count l d = int (card {x. (l, x) \<in> seats d})"
proof -
  let ?rs = "filter (holds_seat l) (devices d)"
  have "distinct (map (\<lambda>r. (dev_license_id r, dev_device_id r)) ?rs)"
    using assms by (simp add: devices_ok_def distinct_map_filter)
  then have "distinct (map dev_device_id ?rs)"
    by (auto simp: distinct_map inj_on_def holds_seat_def)
  moreover have "set (map dev_device_id ?rs) = {x. (l, x) \<in> seats d}"
    by (force simp: seats_def seats_of_def holds_seat_def)
  ultimately have "card {x. (l, x) \<in> seats d} = length ?rs"
    by (metis distinct_card length_map)
  then show ?thesis by (simp add: seat_count_def count_where_def)
qed

section \<open>What each statement does to the seats\<close>

lemma keys_distinct_find:
  assumes "devices_ok d" and "r \<in> set (devices d)"
  shows "find (is_activation (dev_license_id r) (dev_device_id r)) (devices d) = Some r"
proof -
  let ?k = "\<lambda>x. (dev_license_id x, dev_device_id x)"
  have "find (\<lambda>x. ?k x = ?k r) (devices d) = Some r"
    using assms by (intro find_distinct) (auto simp: devices_ok_def)
  moreover have "(\<lambda>x. ?k x = ?k r) = is_activation (dev_license_id r) (dev_device_id r)"
    by (auto simp: is_activation_def fun_eq_iff)
  ultimately show ?thesis by simp
qed

lemma sql_active_device_Inr:
  "sql_active_device l x d = Inr (r, d') \<Longrightarrow>
    d' = d \<and> r \<in> set (devices d) \<and> is_activation l x r \<and> dev_deactivated_at r = None"
  by (auto simp: sql_active_device_def dest!: find_Some_in split: option.splits)

lemma sql_active_device_Inl:
  "sql_active_device l x d = Inl e \<Longrightarrow> e = ErrNoRows \<and> (l, x) \<notin> seats d"
  by (auto simp: sql_active_device_def seats_def seats_of_def is_activation_def find_None_iff
      split: option.splits)

lemma sql_active_device_seat:
  "(\<exists>r. sql_active_device l x d = Inr (r, d)) \<longleftrightarrow> (l, x) \<in> seats d"
proof (cases "sql_active_device l x d")
  case (Inl e)
  with sql_active_device_Inl [OF Inl] show ?thesis by simp
next
  case (Inr p)
  obtain r d' where p: "p = (r, d')" by (cases p)
  from sql_active_device_Inr [OF Inr [unfolded p]] show ?thesis
    using Inr p by (auto simp: seats_iff)
qed

text \<open>
  Every \<open>UPDATE\<close> of the program keeps the key columns of the rows it writes; then the table stays
  well formed, and a seat is taken after it exactly when some row says so.
\<close>

definition keeps_keys :: "(device \<Rightarrow> device) \<Rightarrow> bool" where
  "keeps_keys f \<longleftrightarrow> (\<forall>r. dev_license_id (f r) = dev_license_id r \<and> dev_device_id (f r) = dev_device_id r
      \<and> dev_id (f r) = dev_id r)"

lemma keeps_keys_update [simp]:
  "keeps_keys (\<lambda>r. r\<lparr>dev_last_seen_at := t\<rparr>)"
  "keeps_keys (\<lambda>r. r\<lparr>dev_deactivated_at := u\<rparr>)"
  "keeps_keys (\<lambda>r. r\<lparr>dev_device_name := n, dev_activated_at := a, dev_last_seen_at := t,
     dev_deactivated_at := u\<rparr>)"
  by (simp_all add: keeps_keys_def)

lemma devices_ok_update_where:
  assumes "keeps_keys f"
  shows "devices_ok (d\<lparr>devices := update_where c f (devices d)\<rparr>) = devices_ok d"
proof -
  have "(\<forall>r \<in> set (update_where c f (devices d)). dev_id r \<le> device_seq d) =
      (\<forall>r \<in> set (devices d). dev_id r \<le> device_seq d)"
    using assms by (simp add: Ball_update_where keeps_keys_def)
  with assms show ?thesis
    by (simp add: devices_ok_def map_update_where keeps_keys_def)
qed

lemma seats_update_where:
  assumes "keeps_keys f"
  shows "(l, x) \<in> seats (d\<lparr>devices := update_where c f (devices d)\<rparr>) \<longleftrightarrow>
    (\<exists>r \<in> set (devices d). is_activation l x r \<and>
       (if c r then dev_deactivated_at (f r) else dev_deactivated_at r) = None)"
proof -
  have eq: "is_activation l x (f r) = is_activation l x r" for r
    using assms by (simp add: keeps_keys_def is_activation_def)
  show ?thesis
    by (auto simp: seats_iff Bex_update_where eq split: if_splits)
qed

lemma sql_upsert_device_cases:
  assumes "sql_upsert_device x d = Inr (i, d')"
  obtains (revive) r where
      "find (is_activation (dev_license_id x) (dev_device_id x)) (devices d) = Some r"
      "i = dev_id r"
      "d' = d\<lparr>devices := update_where (is_activation (dev_license_id x) (dev_device_id x))
         (\<lambda>r. r\<lparr>dev_device_name := dev_device_name x, dev_activated_at := dev_activated_at x,
                dev_last_seen_at := dev_last_seen_at x, dev_deactivated_at := None\<rparr>) (devices d)\<rparr>"
  | (insert)
      "find (is_activation (dev_license_id x) (dev_device_id x)) (devices d) = None"
      "i = device_seq d + 1"
      "d' = d\<lparr>devices := devices d @ [x\<lparr>dev_id := i, dev_deactivated_at := None\<rparr>], device_seq := i\<rparr>"
  using assms
  by (auto simp: sql_upsert_device_def Let_def split: option.splits if_splits)

lemma sql_upsert_device_seats:
  assumes "sql_upsert_device x d = Inr (i, d')"
  shows "seats d' = insert (dev_license_id x, dev_device_id x) (seats d)"
  using assms
proof (cases rule: sql_upsert_device_cases)
  case (revive r)
  have r: "is_activation (dev_license_id x) (dev_device_id x) r" "r \<in> set (devices d)"
    using find_Some_in [OF revive(1)] by auto
  have "(l, k) \<in> seats d' \<longleftrightarrow> (l, k) = (dev_license_id x, dev_device_id x) \<or> (l, k) \<in> seats d" for l k
  proof (cases "(l, k) = (dev_license_id x, dev_device_id x)")
    case True
    with r show ?thesis by (auto simp: revive(3) seats_update_where)
  next
    case False
    then have "is_activation l k q \<Longrightarrow> \<not> is_activation (dev_license_id x) (dev_device_id x) q" for q
      by (auto simp: is_activation_def)
    with False show ?thesis
      by (simp add: revive(3) seats_update_where) (auto simp: seats_iff)
  qed
  then show ?thesis by auto
next
  case insert
  have "(l, k) \<in> seats d' \<longleftrightarrow> (l, k) = (dev_license_id x, dev_device_id x) \<or> (l, k) \<in> seats d" for l k
    by (auto simp: insert(3) seats_iff is_activation_def)
  then show ?thesis by auto
qed

lemma sql_upsert_device_ok:
  assumes "sql_upsert_device x d = Inr (i, d')" and "devices_ok d"
  shows "devices_ok d'"
  using assms(1)
proof (cases rule: sql_upsert_device_cases)
  case (revive r)
  with assms(2) show ?thesis
    by (simp add: devices_ok_update_where)
next
  case insert
  with assms(2) show ?thesis
    by (force simp: devices_ok_def find_None_iff is_activation_def)
qed

lemma sql_deactivate_device_value:
  "sql_deactivate_device t l x d = Inr (n, d') \<Longrightarrow> n = 0 \<longleftrightarrow> (l, x) \<notin> seats d"
  by (auto simp: sql_deactivate_device_def Let_def seats_iff)

lemma sql_deactivate_device_seats:
  assumes "sql_deactivate_device t l x d = Inr (n, d')"
  shows "seats d' = seats d - {(l, x)}"
proof -
  have "(m, k) \<in> seats d' \<longleftrightarrow> (m, k) \<in> seats d \<and> (m, k) \<noteq> (l, x)" for m k
    using assms
    by (clarsimp simp: sql_deactivate_device_def Let_def seats_update_where)
      (auto simp: seats_iff is_activation_def split: if_splits)
  then show ?thesis by auto
qed

lemma sql_deactivate_device_ok:
  "sql_deactivate_device t l x d = Inr (n, d') \<Longrightarrow> devices_ok d \<Longrightarrow> devices_ok d'"
  by (auto simp: sql_deactivate_device_def Let_def devices_ok_update_where)

lemma sql_deactivate_device_none:
  assumes "sql_deactivate_device t l x d = Inr (0, d')"
  shows "d' = d"
proof -
  let ?c = "\<lambda>r. is_activation l x r \<and> dev_deactivated_at r = None"
  have "update_where ?c f (devices d) = devices d" for f
    using assms by (intro update_where_id) (auto simp: sql_deactivate_device_def Let_def)
  with assms show ?thesis by (simp add: sql_deactivate_device_def Let_def)
qed

lemma sql_touch_device_seats:
  assumes "sql_touch_device t i d = Inr (u, d')"
  shows "seats d' = seats d"
proof -
  have "(l, x) \<in> seats d' \<longleftrightarrow> (l, x) \<in> seats d" for l x
    using assms by (clarsimp simp: sql_touch_device_def seats_update_where) (simp add: seats_iff)
  then show ?thesis by auto
qed

lemma sql_touch_device_ok:
  "sql_touch_device t i d = Inr (u, d') \<Longrightarrow> devices_ok d \<Longrightarrow> devices_ok d'"
  by (auto simp: sql_touch_device_def devices_ok_update_where)

lemma sql_device_reads:
  "sql_active_count l d = Inr (n, d') \<Longrightarrow> d' = d \<and> n = seat_count l d"
  "sql_list_devices l d = Inr (rs, d') \<Longrightarrow> d' = d"
  by (auto simp: sql_active_count_def sql_list_devices_def seat_count_def)

section \<open>The contract of seat accounting\<close>

text \<open>
  What a client of the table may rely on: taking and freeing a seat act on the set of seats as
  they should, and the count is the number of seats.
\<close>

locale seat_table =
  fixes ok_table :: "'d \<Rightarrow> bool"
    and holds :: "'d \<Rightarrow> ('l \<times> 'k) set"
    and tally :: "'l \<Rightarrow> 'd \<Rightarrow> int"
    and takes :: "'l \<Rightarrow> 'k \<Rightarrow> 'd \<Rightarrow> 'd \<Rightarrow> bool"
    and frees :: "'l \<Rightarrow> 'k \<Rightarrow> 'd \<Rightarrow> 'd \<Rightarrow> bool"
  assumes ok_takes: "takes l k d d' \<Longrightarrow> ok_table d \<Longrightarrow> ok_table d'"
    and ok_frees: "frees l k d d' \<Longrightarrow> ok_table d \<Longrightarrow> ok_table d'"
    and holds_takes: "takes l k d d' \<Longrightarrow> holds d' = insert (l, k) (holds d)"
    and holds_frees: "frees l k d d' \<Longrightarrow> holds d' = holds d - {(l, k)}"
    and holds_finite: "finite {k. (l, k) \<in> holds d}"
    and tally_card: "ok_table d \<Longrightarrow> tally l d = int (card {k. (l, k) \<in> holds d})"
begin

lemma holders_takes:
  "takes l k d d' \<Longrightarrow> {x. (m, x) \<in> holds d'} = (if m = l then insert k else id) {x. (m, x) \<in> holds d}"
  by (auto simp: holds_takes)

lemma holders_frees:
  "frees l k d d' \<Longrightarrow> {x. (m, x) \<in> holds d'} = {x. (m, x) \<in> holds d} - (if m = l then {k} else {})"
  by (auto simp: holds_frees)

lemma tally_takes:
  assumes "takes l k d d'" and "ok_table d"
  shows "tally m d' = tally m d + (if m = l \<and> (l, k) \<notin> holds d then 1 else 0)"
proof (cases "m = l \<and> (l, k) \<notin> holds d")
  case True
  then show ?thesis
    using holders_takes [OF assms(1), of m] holds_finite [of m d]
    by (simp add: tally_card assms(2) ok_takes [OF assms])
next
  case False
  then have "{x. (m, x) \<in> holds d'} = {x. (m, x) \<in> holds d}"
    using holders_takes [OF assms(1), of m] by auto
  with False show ?thesis
    by (simp add: tally_card assms(2) ok_takes [OF assms])
qed

lemma tally_frees:
  assumes "frees l k d d'" and "ok_table d"
  shows "tally m d' = tally m d - (if m = l \<and> (l, k) \<in> holds d then 1 else 0)"
proof (cases "m = l \<and> (l, k) \<in> holds d")
  case True
  then have "0 < card {x. (m, x) \<in> holds d}"
    using holds_finite [of m d] by (auto simp: card_gt_0_iff)
  with True show ?thesis
    using holders_frees [OF assms(1), of m] holds_finite [of m d]
    by (simp add: tally_card assms(2) ok_frees [OF assms] of_nat_diff)
next
  case False
  then have "{x. (m, x) \<in> holds d'} = {x. (m, x) \<in> holds d}"
    using holders_frees [OF assms(1), of m] by auto
  with False show ?thesis
    by (simp add: tally_card assms(2) ok_frees [OF assms])
qed

text \<open>The check before the insert: a seat is taken only while the count is below the limit.\<close>

lemma guarded_takes:
  assumes "takes l k d d'" and "ok_table d" and "tally l d < limit" and "\<forall>m. tally m d \<le> lim m"
    and "lim l = limit"
  shows "\<forall>m. tally m d' \<le> lim m"
  using assms(3-5) by (auto simp: tally_takes [OF assms(1,2)])

text \<open>Freeing a seat makes room for another device.\<close>

lemma frees_makes_room:
  assumes "frees l k d d'" and "ok_table d" and "(l, k) \<in> holds d" and "tally l d \<le> limit"
  shows "tally l d' < limit"
  using assms(3,4) by (simp add: tally_frees [OF assms(1,2)])

end

definition takes_seat :: "string \<Rightarrow> string \<Rightarrow> database \<Rightarrow> database \<Rightarrow> bool" where
  "takes_seat l k d d' \<longleftrightarrow>
     (\<exists>x i. dev_license_id x = l \<and> dev_device_id x = k \<and> sql_upsert_device x d = Inr (i, d'))"

definition frees_seat :: "string \<Rightarrow> string \<Rightarrow> database \<Rightarrow> database \<Rightarrow> bool" where
  "frees_seat l k d d' \<longleftrightarrow> (\<exists>t n. sql_deactivate_device t l k d = Inr (n, d'))"

interpretation device_table: seat_table devices_ok seats seat_count takes_seat frees_seat
proof unfold_locales
  fix l k d d'
  show "takes_seat l k d d' \<Longrightarrow> devices_ok d \<Longrightarrow> devices_ok d'"
    by (auto simp: takes_seat_def dest: sql_upsert_device_ok)
  show "frees_seat l k d d' \<Longrightarrow> devices_ok d \<Longrightarrow> devices_ok d'"
    by (auto simp: frees_seat_def dest: sql_deactivate_device_ok)
  show "takes_seat l k d d' \<Longrightarrow> seats d' = insert (l, k) (seats d)"
    by (auto simp: takes_seat_def dest: sql_upsert_device_seats)
  show "frees_seat l k d d' \<Longrightarrow> seats d' = seats d - {(l, k)}"
    by (auto simp: frees_seat_def dest: sql_deactivate_device_seats)
qed (rule finite_seats, rule seat_count_card)

end
