(* ===== verification/Store_Licenses.thy ===== *)
theory Store_Licenses
  imports Store_Devices
begin

text \<open>
  \<open>internal/store/products.go\<close> and \<open>internal/store/licenses.go\<close>: products, license keys and
  licenses. A query reads a license through its join with the product, so a row without a product
  is not found; statements that violate a constraint fail with the text of SQLite's driver, which
  \<open>CreateLicense\<close> inspects. Where both the id and the key of a new license are taken, the model
  reports the id (the driver may name either; both leave the table as it was).
\<close>

section \<open>products.go\<close>

definition unique_error :: "string \<Rightarrow> string \<Rightarrow> gerror" where
  "unique_error column code =
     DriverError (''constraint failed: UNIQUE constraint failed: '' @ column @ '' ('' @ code @ '')'')"

definition sql_insert_product :: "product \<Rightarrow> unit stmt" where
  "sql_insert_product p d =
     (if list_ex (\<lambda>q. prod_id q = prod_id p) (products d)
      then Inl (unique_error ''products.id'' ''1555'')
      else Inr ((), d\<lparr>products := products d @ [p]\<rparr>))"

definition sql_select_product :: "string \<Rightarrow> product stmt" where
  "sql_select_product i d =
     (case find (\<lambda>p. prod_id p = i) (products d) of None \<Rightarrow> Inl ErrNoRows | Some p \<Rightarrow> Inr (p, d))"

definition sql_list_products :: "product list stmt" where
  "sql_list_products d = Inr (sort_key (\<lambda>p. - prod_created_at p) (products d), d)"

definition CreateProduct :: "string \<Rightarrow> (gerror + product) program" where
  "CreateProduct name = do {
     i \<leftarrow> uuid_NewString;
     t \<leftarrow> time_Now;
     let p = \<lparr>prod_id = i, prod_name = name, prod_created_at = t\<rparr>;
     r \<leftarrow> exec_sql (sql_insert_product p);
     case r of Inl e \<Rightarrow> fail e | Inr _ \<Rightarrow> ok p
   }"

definition GetProduct :: "string \<Rightarrow> (gerror + product) program" where
  "GetProduct i = do {
     r \<leftarrow> exec_sql (sql_select_product i);
     case r of
       Inl e \<Rightarrow> if e = ErrNoRows then fail ErrNotFound else fail e
     | Inr p \<Rightarrow> ok p
   }"

definition ListProducts :: "(gerror + product list) program" where
  "ListProducts = exec_sql sql_list_products"

section \<open>License keys\<close>

definition crockford :: string where
  "crockford = ''0123456789ABCDEFGHJKMNPQRSTVWXYZ''"

text \<open>The four groups of four characters that the two loops write.\<close>

definition key_char :: "char \<Rightarrow> char" where
  "key_char b = crockford ! (byte_val b mod length crockford)"

definition key_of_bytes :: "bytes \<Rightarrow> string" where
  "key_of_bytes buf =
     ''SEAT'' @ concat (map (\<lambda>g. CHR ''-'' # map (\<lambda>i. key_char (buf ! (g * 4 + i))) [0..<4]) [0..<4])"

definition GenerateLicenseKey :: "(gerror + string) program" where
  "GenerateLicenseKey = do {
     r \<leftarrow> rand_Read 16;
     case r of Inl e \<Rightarrow> fail e | Inr buf \<Rightarrow> ok (key_of_bytes buf)
   }"

section \<open>licenses.go\<close>

record create_license_params =
  clp_product_id :: string
  clp_customer_name :: string
  clp_customer_email :: string
  clp_max_devices :: int
  clp_expires_at :: "gotime option"

definition sql_insert_license :: "license_row \<Rightarrow> unit stmt" where
  "sql_insert_license l d =
     (if list_ex (\<lambda>r. row_id r = row_id l) (licenses d)
      then Inl (unique_error ''licenses.id'' ''1555'')
      else if list_ex (\<lambda>r. row_key r = row_key l) (licenses d)
      then Inl (unique_error ''licenses.key'' ''2067'')
      else if foreign_keys d \<and> \<not> list_ex (\<lambda>p. prod_id p = row_product_id l) (products d)
      then Inl foreign_key_error
      else Inr ((), d\<lparr>licenses := licenses d @ [l]\<rparr>))"

definition license_of_row :: "string \<Rightarrow> license_row \<Rightarrow> license" where
  "license_of_row product_name r =
     \<lparr>lic_id = row_id r, lic_product_id = row_product_id r, lic_product_name = product_name,
      lic_key = row_key r, lic_customer_name = row_customer_name r,
      lic_customer_email = row_customer_email r, lic_max_devices = row_max_devices r,
      lic_expires_at = row_expires_at r, lic_revoked_at = row_revoked_at r,
      lic_created_at = row_created_at r\<rparr>"

text \<open>\<open>licenseSelect\<close>: the rows joined with the product they name.\<close>

definition join_product :: "database \<Rightarrow> license_row \<Rightarrow> license option" where
  "join_product d r =
     map_option (\<lambda>p. license_of_row (prod_name p) r)
       (find (\<lambda>p. prod_id p = row_product_id r) (products d))"

definition license_select :: "(license_row \<Rightarrow> bool) \<Rightarrow> database \<Rightarrow> license list" where
  "license_select c d = List.map_filter (join_product d) (filter c (licenses d))"

definition sql_select_license :: "(license_row \<Rightarrow> bool) \<Rightarrow> license stmt" where
  "sql_select_license c d =
     (case license_select c d of [] \<Rightarrow> Inl ErrNoRows | l # _ \<Rightarrow> Inr (l, d))"

definition sql_list_licenses :: "(license_row \<Rightarrow> bool) \<Rightarrow> license list stmt" where
  "sql_list_licenses c d = Inr (sort_key (\<lambda>l. - lic_created_at l) (license_select c d), d)"

text \<open>
  \<open>scanLicense\<close>: the columns are read in the order of the query, and a time that the driver cannot read
  back is an error.
\<close>

definition scan_times :: "license \<Rightarrow> gotime list" where
  "scan_times l =
     (case lic_expires_at l of None \<Rightarrow> [] | Some t \<Rightarrow> [t]) @
     (case lic_revoked_at l of None \<Rightarrow> [] | Some t \<Rightarrow> [t]) @ [lic_created_at l]"

definition scanLicense :: "license \<Rightarrow> (gerror + license) program" where
  "scanLicense l = State (\<lambda>w.
     (case List.map_filter (unreadable w) (scan_times l) of
        [] \<Rightarrow> Inr l
      | msg # _ \<Rightarrow> Inl (DriverError msg), w))"

text \<open>The loop of \<open>ListLicenses\<close> ends at the first row that cannot be read.\<close>

primrec scan_rows :: "license list \<Rightarrow> (gerror + license list) program" where
  "scan_rows [] = ok []"
| "scan_rows (l # ls) = do {
     r \<leftarrow> scanLicense l;
     case r of
       Inl e \<Rightarrow> fail e
     | Inr x \<Rightarrow> do {
         rest \<leftarrow> scan_rows ls;
         case rest of Inl e \<Rightarrow> fail e | Inr xs \<Rightarrow> ok (x # xs)
       }
   }"

definition sql_revoke_license :: "gotime \<Rightarrow> string \<Rightarrow> int stmt" where
  "sql_revoke_license t i d =
     (let c = (\<lambda>r. row_id r = i \<and> row_revoked_at r = None) in
      Inr (count_where c (licenses d),
        d\<lparr>licenses := update_where c (\<lambda>r. r\<lparr>row_revoked_at := Some t\<rparr>) (licenses d)\<rparr>))"

definition CreateLicense :: "create_license_params \<Rightarrow> (gerror + license) program" where
  "CreateLicense p = do {
     k \<leftarrow> GenerateLicenseKey;
     case k of
       Inl e \<Rightarrow> fail (ErrWrap ''generate key: '' e '''')
     | Inr key \<Rightarrow> do {
         i \<leftarrow> uuid_NewString;
         t \<leftarrow> time_Now;
         let l = \<lparr>lic_id = i, lic_product_id = clp_product_id p, lic_product_name = '''',
                  lic_key = key, lic_customer_name = clp_customer_name p,
                  lic_customer_email = clp_customer_email p, lic_max_devices = clp_max_devices p,
                  lic_expires_at = clp_expires_at p, lic_revoked_at = None, lic_created_at = t\<rparr>;
         r \<leftarrow> exec_sql (sql_insert_license
                \<lparr>row_id = lic_id l, row_product_id = lic_product_id l, row_key = lic_key l,
                 row_customer_name = lic_customer_name l, row_customer_email = lic_customer_email l,
                 row_max_devices = lic_max_devices l, row_expires_at = lic_expires_at l,
                 row_revoked_at = None, row_created_at = lic_created_at l\<rparr>);
         case r of
           Inl e \<Rightarrow>
             if strings_contains (error_text e) ''UNIQUE constraint failed: licenses.key''
             then fail ErrKeyExists else fail e
         | Inr _ \<Rightarrow> ok l
       }
   }"

definition GetLicense :: "string \<Rightarrow> (gerror + license) program" where
  "GetLicense i = do {
     r \<leftarrow> exec_sql (sql_select_license (\<lambda>l. row_id l = i));
     case r of
       Inl e \<Rightarrow> if errors_Is e ErrNoRows then fail ErrNotFound else fail e
     | Inr l \<Rightarrow> scanLicense l
   }"

definition GetLicenseByKey :: "string \<Rightarrow> (gerror + license) program" where
  "GetLicenseByKey key = do {
     r \<leftarrow> exec_sql (sql_select_license (\<lambda>l. row_key l = key));
     case r of
       Inl e \<Rightarrow> if errors_Is e ErrNoRows then fail ErrNotFound else fail e
     | Inr l \<Rightarrow> scanLicense l
   }"

definition ListLicenses :: "string \<Rightarrow> (gerror + license list) program" where
  "ListLicenses productID = do {
     r \<leftarrow> (if productID \<noteq> '''' then exec_sql (sql_list_licenses (\<lambda>l. row_product_id l = productID))
          else exec_sql (sql_list_licenses (\<lambda>l. True)));
     case r of Inl e \<Rightarrow> fail e | Inr rows \<Rightarrow> scan_rows rows
   }"

definition RevokeLicense :: "string \<Rightarrow> (gerror + unit) program" where
  "RevokeLicense i = do {
     t \<leftarrow> time_Now;
     res \<leftarrow> exec_sql (sql_revoke_license t i);
     case res of Inl e \<Rightarrow> fail e | Inr n \<Rightarrow> if n = 0 then fail ErrNotFound else ok ()
   }"

lemmas sql_license_defs = sql_insert_product_def sql_select_product_def sql_list_products_def
  sql_insert_license_def sql_select_license_def sql_list_licenses_def sql_revoke_license_def

lemmas license_method_defs = CreateProduct_def GetProduct_def ListProducts_def
  GenerateLicenseKey_def CreateLicense_def scanLicense_def GetLicense_def GetLicenseByKey_def ListLicenses_def
  RevokeLicense_def

end
