(* ===== verification/Store_Admin.thy ===== *)
theory Store_Admin
  imports Store_Licenses
begin

text \<open>
  \<open>internal/store/admin.go\<close> and \<open>internal/store/settings.go\<close>: the admin account, the dashboard's
  sessions, and the key-value settings. The contracts that the clients of settings and sessions
  rely on are the locales \<open>key_value\<close> and \<open>session_table\<close>, interpreted on the statements.
\<close>

section \<open>settings.go\<close>

definition sql_select_setting :: "string \<Rightarrow> string stmt" where
  "sql_select_setting k d = (case settings d k of None \<Rightarrow> Inl ErrNoRows | Some v \<Rightarrow> Inr (v, d))"

definition sql_upsert_setting :: "string \<Rightarrow> string \<Rightarrow> unit stmt" where
  "sql_upsert_setting k v d = Inr ((), d\<lparr>settings := (settings d)(k \<mapsto> v)\<rparr>)"

text \<open>The Go method returns a value, a flag and an error.\<close>

definition GetSetting :: "string \<Rightarrow> (string \<times> bool \<times> gerror option) program" where
  "GetSetting key = do {
     r \<leftarrow> exec_sql (sql_select_setting key);
     case r of
       Inl e \<Rightarrow>
         if e = ErrNoRows then State_Monad.return ('''', False, None)
         else State_Monad.return ('''', False, Some e)
     | Inr value \<Rightarrow> State_Monad.return (value, True, None)
   }"

definition SetSetting :: "string \<Rightarrow> string \<Rightarrow> (gerror + unit) program" where
  "SetSetting key value = exec_sql (sql_upsert_setting key value)"

section \<open>admin.go: the account\<close>

definition sql_count_admins :: "int stmt" where
  "sql_count_admins d = Inr (int (length (admins d)), d)"

definition sql_insert_admin :: "string \<Rightarrow> gotime \<Rightarrow> unit stmt" where
  "sql_insert_admin h t d =
     (let i = admin_seq d + 1 in
      Inr ((), d\<lparr>admins := admins d @ [\<lparr>adm_id = i, adm_password_hash = h, adm_created_at = t\<rparr>],
               admin_seq := i\<rparr>))"

text \<open>\<open>SELECT ... FROM admins ORDER BY id LIMIT 1\<close>.\<close>

definition first_admin :: "database \<Rightarrow> admin_row option" where
  "first_admin d = (case sort_key adm_id (admins d) of [] \<Rightarrow> None | a # _ \<Rightarrow> Some a)"

definition sql_select_admin_hash :: "string stmt" where
  "sql_select_admin_hash d =
     (case first_admin d of None \<Rightarrow> Inl ErrNoRows | Some a \<Rightarrow> Inr (adm_password_hash a, d))"

definition sql_update_admin_hash :: "string \<Rightarrow> unit stmt" where
  "sql_update_admin_hash h d =
     Inr ((), d\<lparr>admins := update_where (\<lambda>a. map_option adm_id (first_admin d) = Some (adm_id a))
                (\<lambda>a. a\<lparr>adm_password_hash := h\<rparr>) (admins d)\<rparr>)"

definition HasAdmin :: "(gerror + bool) program" where
  "HasAdmin = do {
     r \<leftarrow> exec_sql sql_count_admins;
     case r of Inl e \<Rightarrow> fail e | Inr n \<Rightarrow> ok (0 < n)
   }"

definition CreateAdmin :: "string \<Rightarrow> (gerror + unit) program" where
  "CreateAdmin passwordHash = do { t \<leftarrow> time_Now; exec_sql (sql_insert_admin passwordHash t) }"

definition AdminPasswordHash :: "(gerror + string) program" where
  "AdminPasswordHash = do {
     r \<leftarrow> exec_sql sql_select_admin_hash;
     case r of
       Inl e \<Rightarrow> if e = ErrNoRows then fail ErrNotFound else fail e
     | Inr h \<Rightarrow> ok h
   }"

definition SetAdminPassword :: "string \<Rightarrow> (gerror + unit) program" where
  "SetAdminPassword passwordHash = exec_sql (sql_update_admin_hash passwordHash)"

section \<open>admin.go: sessions\<close>

definition sql_insert_session :: "string \<Rightarrow> gotime \<Rightarrow> gotime \<Rightarrow> unit stmt" where
  "sql_insert_session token created expires d =
     (if sessions d token \<noteq> None then Inl (unique_error ''sessions.token'' ''1555'')
      else Inr ((), d\<lparr>sessions := (sessions d)(token \<mapsto> (created, expires))\<rparr>))"

definition sql_select_session :: "string \<Rightarrow> gotime stmt" where
  "sql_select_session token d =
     (case sessions d token of None \<Rightarrow> Inl ErrNoRows | Some (_, expires) \<Rightarrow> Inr (expires, d))"

definition sql_delete_session :: "string \<Rightarrow> unit stmt" where
  "sql_delete_session token d = Inr ((), d\<lparr>sessions := (sessions d)(token := None)\<rparr>)"

definition CreateSession :: "string \<Rightarrow> gotime \<Rightarrow> (gerror + unit) program" where
  "CreateSession token expiresAt = do {
     t \<leftarrow> time_Now;
     exec_sql (sql_insert_session token t expiresAt)
   }"

definition ValidSession :: "string \<Rightarrow> (gerror + bool) program" where
  "ValidSession token = do {
     r \<leftarrow> exec_sql (sql_select_session token);
     case r of
       Inl e \<Rightarrow> if e = ErrNoRows then ok False else fail e
     | Inr expiresAt \<Rightarrow> do { t \<leftarrow> time_Now; ok (time_Before t expiresAt) }
   }"

definition DeleteSession :: "string \<Rightarrow> (gerror + unit) program" where
  "DeleteSession token = exec_sql (sql_delete_session token)"

lemmas sql_admin_defs = sql_select_setting_def sql_upsert_setting_def sql_count_admins_def
  sql_insert_admin_def sql_select_admin_hash_def sql_update_admin_hash_def sql_insert_session_def
  sql_select_session_def sql_delete_session_def

lemmas admin_method_defs = GetSetting_def SetSetting_def HasAdmin_def CreateAdmin_def
  AdminPasswordHash_def SetAdminPassword_def CreateSession_def ValidSession_def DeleteSession_def

section \<open>The contract of the settings\<close>

locale key_value =
  fixes fetch :: "'k \<Rightarrow> 'd \<Rightarrow> 'v option"
    and put :: "'k \<Rightarrow> 'v \<Rightarrow> 'd \<Rightarrow> 'd"
  assumes fetch_put: "fetch k (put l v d) = (if k = l then Some v else fetch k d)"
begin

lemma fetch_put_same [simp]: "fetch k (put k v d) = Some v"
  by (simp add: fetch_put)

lemma fetch_put_other [simp]: "k \<noteq> l \<Longrightarrow> fetch k (put l v d) = fetch k d"
  by (simp add: fetch_put)

text \<open>A list of writes leaves a key alone that none of them names, and else the last value.\<close>

lemma fetch_fold_put:
  "fetch k (fold (\<lambda>(l, v). put l v) ws d) =
     (case map_of (rev ws) k of None \<Rightarrow> fetch k d | Some v \<Rightarrow> Some v)"
  by (induction ws arbitrary: d) (auto simp: fetch_put map_add_def split: option.splits)

end

definition put_setting :: "string \<Rightarrow> string \<Rightarrow> database \<Rightarrow> database" where
  "put_setting k v d = d\<lparr>settings := (settings d)(k \<mapsto> v)\<rparr>"

definition fetch_setting :: "string \<Rightarrow> database \<Rightarrow> string option" where
  "fetch_setting k d = settings d k"

interpretation settings_table: key_value fetch_setting put_setting
  by unfold_locales (simp add: fetch_setting_def put_setting_def)

lemma sql_upsert_setting_put: "sql_upsert_setting k v d = Inr ((), put_setting k v d)"
  by (simp add: sql_upsert_setting_def put_setting_def)

lemma sql_select_setting_fetch:
  "sql_select_setting k d = (case fetch_setting k d of None \<Rightarrow> Inl ErrNoRows | Some v \<Rightarrow> Inr (v, d))"
  by (simp add: sql_select_setting_def fetch_setting_def)

section \<open>The contract of the sessions\<close>

locale session_table =
  fixes valid_at :: "'t \<Rightarrow> gotime \<Rightarrow> 'd \<Rightarrow> bool"
    and opens :: "'t \<Rightarrow> gotime \<Rightarrow> 'd \<Rightarrow> 'd \<Rightarrow> bool"
    and closes :: "'t \<Rightarrow> 'd \<Rightarrow> 'd \<Rightarrow> bool"
  assumes valid_opens:
      "opens t e d d' \<Longrightarrow> valid_at u n d' \<longleftrightarrow> (if u = t then n < e else valid_at u n d)"
    and valid_closes: "closes t d d' \<Longrightarrow> valid_at u n d' \<longleftrightarrow> u \<noteq> t \<and> valid_at u n d"
    and valid_earlier: "valid_at u n d \<Longrightarrow> m \<le> n \<Longrightarrow> valid_at u m d"
begin

lemma opens_until: "opens t e d d' \<Longrightarrow> valid_at t n d' \<longleftrightarrow> n < e"
  by (simp add: valid_opens)

lemma closes_for_good: "closes t d d' \<Longrightarrow> \<not> valid_at t n d'"
  by (simp add: valid_closes)

lemma closes_only: "closes t d d' \<Longrightarrow> valid_at u n d' \<Longrightarrow> valid_at u n d"
  by (simp add: valid_closes)

lemma expired_stays: "\<not> valid_at u m d \<Longrightarrow> m \<le> n \<Longrightarrow> \<not> valid_at u n d"
  using valid_earlier by blast

end

definition session_valid :: "string \<Rightarrow> gotime \<Rightarrow> database \<Rightarrow> bool" where
  "session_valid token now d \<longleftrightarrow> (\<exists>c e. sessions d token = Some (c, e) \<and> now < e)"

definition opens_session :: "string \<Rightarrow> gotime \<Rightarrow> database \<Rightarrow> database \<Rightarrow> bool" where
  "opens_session token e d d' \<longleftrightarrow> (\<exists>c. sql_insert_session token c e d = Inr ((), d'))"

definition closes_session :: "string \<Rightarrow> database \<Rightarrow> database \<Rightarrow> bool" where
  "closes_session token d d' \<longleftrightarrow> sql_delete_session token d = Inr ((), d')"

interpretation dashboard_sessions: session_table session_valid opens_session closes_session
  by unfold_locales
    (auto simp: opens_session_def closes_session_def session_valid_def sql_insert_session_def
      sql_delete_session_def split: if_splits)

section \<open>The account\<close>

definition admins_ok :: "database \<Rightarrow> bool" where
  "admins_ok d \<longleftrightarrow> distinct (map adm_id (admins d)) \<and> sorted (map adm_id (admins d)) \<and>
     (\<forall>a \<in> set (admins d). adm_id a \<le> admin_seq d)"

lemma first_admin_hd: "admins_ok d \<Longrightarrow> first_admin d = (case admins d of [] \<Rightarrow> None | a # _ \<Rightarrow> Some a)"
  by (simp add: first_admin_def admins_ok_def sort_key_sorted)

end
