(* ===== verification/Store.thy ===== *)
theory Store
  imports Store_Admin
begin

text \<open>
  \<open>internal/store/store.go\<close> and the invariant of the whole database: the unique columns are unique,
  rows refer to rows that exist, and no license has more devices than it allows. Every statement
  is shown to keep it; the one that can take a seat keeps it where its caller has made the check
  that \<open>ActivateDevice\<close> asks for.
\<close>

section \<open>store.go\<close>

text \<open>
  \<open>Open\<close> on a path: \<open>disk\<close> is what the file holds (\<open>None\<close> for a new one), and the two faults are
  the errors that \<open>sql.Open\<close> and the execution of the schema report, if any.
\<close>

definition open_dsn :: "string \<Rightarrow> string" where
  "open_dsn path =
     (if path \<noteq> '':memory:'' then path @ ''?_pragma=busy_timeout(5000)&_pragma=foreign_keys(1)''
      else path)"

definition Open :: "string option \<Rightarrow> string option \<Rightarrow> string \<Rightarrow> database option \<Rightarrow> gerror + database" where
  "Open open_fault schema_fault path disk =
     (case open_fault of
        Some e \<Rightarrow> Inl (ErrWrap ''open sqlite: '' (DriverError e) '''')
      | None \<Rightarrow>
          (case schema_fault of
             Some e \<Rightarrow> Inl (ErrWrap ''migrate schema: '' (DriverError e) '''')
           | None \<Rightarrow>
               let fk = strings_contains (open_dsn path) ''_pragma=foreign_keys(1)'' in
               Inr (case disk of None \<Rightarrow> empty_database fk | Some d \<Rightarrow> d\<lparr>foreign_keys := fk\<rparr>)))"

section \<open>The invariant\<close>

definition keys_ok :: "database \<Rightarrow> bool" where
  "keys_ok d \<longleftrightarrow> distinct (map prod_id (products d)) \<and> distinct (map row_id (licenses d)) \<and>
     distinct (map row_key (licenses d)) \<and> devices_ok d \<and> admins_ok d"

definition refs_ok :: "database \<Rightarrow> bool" where
  "refs_ok d \<longleftrightarrow> dev_license_id ` set (devices d) \<subseteq> row_id ` set (licenses d)"

definition limits_ok :: "database \<Rightarrow> bool" where
  "limits_ok d \<longleftrightarrow> (\<forall>l \<in> set (licenses d). seat_count (row_id l) d \<le> max 0 (row_max_devices l))"

definition db_ok :: "database \<Rightarrow> bool" where
  "db_ok d \<longleftrightarrow> keys_ok d \<and> refs_ok d \<and> limits_ok d"

lemmas db_ok_defs = db_ok_def keys_ok_def refs_ok_def limits_ok_def

lemma db_ok_empty: "db_ok (empty_database fk)"
  by (simp add: db_ok_defs empty_database_def devices_ok_def admins_ok_def)

lemma devices_ok_other [simp]:
  "devices_ok (d\<lparr>products := p\<rparr>) = devices_ok d" "devices_ok (d\<lparr>licenses := ls\<rparr>) = devices_ok d"
  "devices_ok (d\<lparr>settings := m\<rparr>) = devices_ok d" "devices_ok (d\<lparr>sessions := ss\<rparr>) = devices_ok d"
  "devices_ok (d\<lparr>admins := a\<rparr>) = devices_ok d" "devices_ok (d\<lparr>admin_seq := i\<rparr>) = devices_ok d"
  by (simp_all add: devices_ok_def)

lemma admins_ok_other [simp]:
  "admins_ok (d\<lparr>products := p\<rparr>) = admins_ok d" "admins_ok (d\<lparr>licenses := ls\<rparr>) = admins_ok d"
  "admins_ok (d\<lparr>settings := m\<rparr>) = admins_ok d" "admins_ok (d\<lparr>sessions := ss\<rparr>) = admins_ok d"
  "admins_ok (d\<lparr>devices := v\<rparr>) = admins_ok d" "admins_ok (d\<lparr>device_seq := i\<rparr>) = admins_ok d"
  by (simp_all add: admins_ok_def)

lemma refs_ok_other [simp]:
  "refs_ok (d\<lparr>products := p\<rparr>) = refs_ok d" "refs_ok (d\<lparr>settings := m\<rparr>) = refs_ok d"
  "refs_ok (d\<lparr>sessions := ss\<rparr>) = refs_ok d" "refs_ok (d\<lparr>admins := a\<rparr>) = refs_ok d"
  "refs_ok (d\<lparr>admin_seq := i\<rparr>) = refs_ok d"
  by (simp_all add: refs_ok_def)

lemma limits_ok_other [simp]:
  "limits_ok (d\<lparr>products := p\<rparr>) = limits_ok d" "limits_ok (d\<lparr>settings := m\<rparr>) = limits_ok d"
  "limits_ok (d\<lparr>sessions := ss\<rparr>) = limits_ok d" "limits_ok (d\<lparr>admins := a\<rparr>) = limits_ok d"
  "limits_ok (d\<lparr>admin_seq := i\<rparr>) = limits_ok d"
  by (simp_all add: limits_ok_def)

lemmas db_parts = db_ok_def keys_ok_def

text \<open>A license without activations takes no seat.\<close>

lemma seat_count_no_device: "l \<notin> dev_license_id ` set (devices d) \<Longrightarrow> seat_count l d = 0"
  by (auto simp: seat_count_def holds_seat_def)

section \<open>Statements keep the invariant\<close>

named_theorems sql_ok \<open>statements that keep the invariant of the database\<close>

lemma insert_product_ok [sql_ok]:
  "db_ok d \<Longrightarrow> sql_insert_product p d = Inr (u, d') \<Longrightarrow> db_ok d'"
  by (fastforce simp: sql_insert_product_def db_parts list_ex_iff split: if_splits)

lemma insert_license_ok [sql_ok]:
  assumes "db_ok d" and "sql_insert_license l d = Inr (u, d')"
  shows "db_ok d'"
proof -
  have new: "row_id l \<notin> row_id ` set (licenses d)" "row_key l \<notin> row_key ` set (licenses d)"
    and d': "d' = d\<lparr>licenses := licenses d @ [l]\<rparr>"
    using assms(2) by (auto simp: sql_insert_license_def list_ex_iff split: if_splits)
  have "seat_count (row_id l) d = 0"
    using assms(1) new(1) by (intro seat_count_no_device) (auto simp: db_ok_def refs_ok_def)
  with assms(1) new d' show ?thesis
    by (auto simp: db_ok_defs)
qed

lemma revoke_license_ok [sql_ok]:
  assumes "db_ok d" and "sql_revoke_license t i d = Inr (n, d')"
  shows "db_ok d'"
proof -
  let ?c = "\<lambda>r. row_id r = i \<and> row_revoked_at r = None"
  let ?ls = "update_where ?c (\<lambda>r. r\<lparr>row_revoked_at := Some t\<rparr>) (licenses d)"
  have d': "d' = d\<lparr>licenses := ?ls\<rparr>"
    using assms(2) by (auto simp: sql_revoke_license_def Let_def)
  have "map row_id ?ls = map row_id (licenses d)" "map row_key ?ls = map row_key (licenses d)"
    by (simp_all add: map_update_where)
  moreover have "row_id ` set ?ls = row_id ` set (licenses d)"
    by (metis calculation(1) list.set_map)
  moreover have "\<forall>l \<in> set ?ls. seat_count (row_id l) d \<le> max 0 (row_max_devices l)"
    using assms(1) by (auto simp: Ball_update_where db_ok_defs)
  ultimately show ?thesis
    using assms(1) by (simp add: d' db_ok_defs)
qed

lemma deactivate_device_ok [sql_ok]:
  assumes "db_ok d" and "sql_deactivate_device t l x d = Inr (n, d')"
  shows "db_ok d'"
proof -
  have dev: "devices_ok d" using assms(1) by (simp add: db_ok_defs)
  have fr: "frees_seat l x d d'" using assms(2) by (auto simp: frees_seat_def)
  obtain c f where d': "d' = d\<lparr>devices := update_where c f (devices d)\<rparr>" "keeps_keys f"
    using assms(2) by (auto simp: sql_deactivate_device_def Let_def)
  have "seat_count m d' \<le> seat_count m d" for m
    using device_table.tally_frees [OF fr dev, of m] by simp
  moreover have "dev_license_id ` set (devices d') = dev_license_id ` set (devices d)"
    by (simp add: d'(1)) (metis (no_types, lifting) d'(2) keeps_keys_def list.set_map map_update_where)
  ultimately show ?thesis
    using assms(1) sql_deactivate_device_ok [OF assms(2) dev] d'(1)
    by (simp add: db_ok_defs) (meson order_trans)
qed

lemma touch_device_ok [sql_ok]:
  assumes "db_ok d" and "sql_touch_device t i d = Inr (u, d')"
  shows "db_ok d'"
proof -
  have dev: "devices_ok d" using assms(1) by (simp add: db_ok_defs)
  have dev': "devices_ok d'" using sql_touch_device_ok [OF assms(2) dev] .
  obtain c f where d': "d' = d\<lparr>devices := update_where c f (devices d)\<rparr>" "keeps_keys f"
    using assms(2) by (auto simp: sql_touch_device_def)
  have "seat_count m d' = seat_count m d" for m
    using sql_touch_device_seats [OF assms(2)] by (simp add: seat_count_card dev dev')
  moreover have "dev_license_id ` set (devices d') = dev_license_id ` set (devices d)"
    by (simp add: d'(1)) (metis (no_types, lifting) d'(2) keeps_keys_def list.set_map map_update_where)
  ultimately show ?thesis
    using assms(1) dev' d'(1) by (simp add: db_ok_defs)
qed

text \<open>
  Taking a seat: the caller has looked the license up and seen a free seat, or the device holds
  its seat already.
\<close>

lemma upsert_device_ok:
  assumes "db_ok d" and "sql_upsert_device x d = Inr (i, d')"
    and "r \<in> set (licenses d)" and "row_id r = dev_license_id x"
    and "seat_count (row_id r) d < row_max_devices r"
  shows "db_ok d'"
proof -
  have dev: "devices_ok d" using assms(1) by (simp add: db_ok_defs)
  have dev': "devices_ok d'" using sql_upsert_device_ok [OF assms(2) dev] .
  have tk: "takes_seat (dev_license_id x) (dev_device_id x) d d'"
    using assms(2) by (auto simp: takes_seat_def)
  have lic: "licenses d' = licenses d" "products d' = products d" "admins d' = admins d"
    "admin_seq d' = admin_seq d"
    using assms(2) by (cases rule: sql_upsert_device_cases; simp)+
  have "dev_license_id ` set (devices d') \<subseteq> insert (row_id r) (dev_license_id ` set (devices d))"
    using assms(2,4) by (cases rule: sql_upsert_device_cases) (auto simp: set_update_where)
  then have refs: "refs_ok d'"
    using assms(1,3) lic by (auto simp: db_ok_defs)
  have "limits_ok d'"
    unfolding limits_ok_def lic
  proof
    fix q assume q: "q \<in> set (licenses d)"
    have le: "seat_count (row_id q) d \<le> max 0 (row_max_devices q)"
      using assms(1) q by (simp add: db_ok_defs)
    show "seat_count (row_id q) d' \<le> max 0 (row_max_devices q)"
    proof (cases "row_id q = row_id r")
      case True
      then have "q = r"
        using assms(1,3) q by (auto simp: db_ok_defs distinct_map dest: inj_onD)
      then show ?thesis
        using device_table.tally_takes [OF tk dev, of "row_id q"] assms(4,5)
        by (cases "(dev_license_id x, dev_device_id x) \<in> seats d") simp_all
    next
      case False
      then show ?thesis
        using device_table.tally_takes [OF tk dev, of "row_id q"] assms(4) le by simp
    qed
  qed
  with refs dev' lic assms(1) show ?thesis
    by (simp add: db_ok_defs admins_ok_def)
qed

lemma setting_ok [sql_ok]: "db_ok d \<Longrightarrow> sql_upsert_setting k v d = Inr (u, d') \<Longrightarrow> db_ok d'"
  by (auto simp: sql_upsert_setting_def db_parts)

lemma insert_session_ok [sql_ok]:
  "db_ok d \<Longrightarrow> sql_insert_session t c e d = Inr (u, d') \<Longrightarrow> db_ok d'"
  by (auto simp: sql_insert_session_def db_parts split: if_splits)

lemma delete_session_ok [sql_ok]: "db_ok d \<Longrightarrow> sql_delete_session t d = Inr (u, d') \<Longrightarrow> db_ok d'"
  by (auto simp: sql_delete_session_def db_parts)

lemma insert_admin_ok [sql_ok]: "db_ok d \<Longrightarrow> sql_insert_admin h t d = Inr (u, d') \<Longrightarrow> db_ok d'"
  by (force simp: sql_insert_admin_def Let_def db_parts admins_ok_def sorted_append)

lemma update_admin_ok [sql_ok]:
  assumes "db_ok d" and "sql_update_admin_hash h d = Inr (u, d')"
  shows "db_ok d'"
proof -
  let ?as = "update_where (\<lambda>a. map_option adm_id (first_admin d) = Some (adm_id a))
                (\<lambda>a. a\<lparr>adm_password_hash := h\<rparr>) (admins d)"
  have "map adm_id ?as = map adm_id (admins d)" by (simp add: map_update_where)
  moreover have "\<forall>a \<in> set ?as. adm_id a \<le> admin_seq d"
    using assms(1) by (simp add: Ball_update_where db_ok_defs admins_ok_def)
  ultimately show ?thesis
    using assms by (auto simp: sql_update_admin_hash_def db_parts admins_ok_def devices_ok_def)
qed

text \<open>Queries change nothing.\<close>

definition reads :: "'a stmt \<Rightarrow> bool" where
  "reads q \<longleftrightarrow> (\<forall>d x d'. q d = Inr (x, d') \<longrightarrow> d' = d)"

lemma reads_sql [simp]:
  "reads (sql_active_count l)" "reads (sql_active_device l x)" "reads (sql_list_devices l)"
  "reads (sql_select_product i)" "reads sql_list_products" "reads (sql_select_license c)"
  "reads (sql_list_licenses c)" "reads (sql_select_setting k)" "reads sql_count_admins"
  "reads sql_select_admin_hash" "reads (sql_select_session t)"
  by (auto simp: reads_def sql_device_defs sql_license_defs sql_admin_defs
      split: option.splits list.splits prod.splits)

lemma reads_ok: "reads q \<Longrightarrow> P d \<Longrightarrow> q d = Inr (x, d') \<Longrightarrow> P d'"
  by (auto simp: reads_def)

end
