(* ===== verification/Store_Runs.thy ===== *)
theory Store_Runs
  imports Store
begin

text \<open>
  What the store's methods do when they run: their outcome while the driver does not fail (the
  lemmas \<open>run_...\<close>, in the collection \<open>run_simps\<close>), and what they keep and establish whatever the
  driver does (the lemmas \<open>keeps_...\<close> and \<open>triple_...\<close>).
\<close>

section \<open>Lookups as functions of the database\<close>

definition license_where :: "(license_row \<Rightarrow> bool) \<Rightarrow> database \<Rightarrow> license option" where
  "license_where c d = (case license_select c d of [] \<Rightarrow> None | l # _ \<Rightarrow> Some l)"

definition license_by_key :: "string \<Rightarrow> database \<Rightarrow> license option" where
  "license_by_key key = license_where (\<lambda>l. row_key l = key)"

definition license_by_id :: "string \<Rightarrow> database \<Rightarrow> license option" where
  "license_by_id i = license_where (\<lambda>l. row_id l = i)"

definition active_device :: "string \<Rightarrow> string \<Rightarrow> database \<Rightarrow> device option" where
  "active_device l x d = find (\<lambda>r. is_activation l x r \<and> dev_deactivated_at r = None) (devices d)"

definition touched :: "gotime \<Rightarrow> int \<Rightarrow> database \<Rightarrow> database" where
  "touched t i d =
     d\<lparr>devices := update_where (\<lambda>r. dev_id r = i) (\<lambda>r. r\<lparr>dev_last_seen_at := t\<rparr>) (devices d)\<rparr>"

lemma sql_select_license_where:
  "sql_select_license c d = (case license_where c d of None \<Rightarrow> Inl ErrNoRows | Some l \<Rightarrow> Inr (l, d))"
  by (simp add: sql_select_license_def license_where_def split: list.split)

lemma sql_active_device_find:
  "sql_active_device l x d = (case active_device l x d of None \<Rightarrow> Inl ErrNoRows | Some r \<Rightarrow> Inr (r, d))"
  by (simp add: sql_active_device_def active_device_def)

lemma sql_touch_touched: "sql_touch_device t i d = Inr ((), touched t i d)"
  by (simp add: sql_touch_device_def touched_def)

lemma seats_touched [simp]: "seats (touched t i d) = seats d"
  using sql_touch_device_seats [OF sql_touch_touched] .

lemma devices_ok_touched [simp]: "devices_ok (touched t i d) = devices_ok d"
  by (simp add: touched_def devices_ok_update_where)

lemma seat_count_touched [simp]: "seat_count l (touched t i d) = seat_count l d"
proof -
  have "count_where (holds_seat l) (update_where c (\<lambda>r. r\<lparr>dev_last_seen_at := t\<rparr>) rs) =
      count_where (holds_seat l) rs" for c rs
    by (rule count_where_update_same) (simp add: holds_seat_def)
  then show ?thesis by (simp add: seat_count_def touched_def)
qed

lemma touched_fields [simp]:
  "licenses (touched t i d) = licenses d" "products (touched t i d) = products d"
  "settings (touched t i d) = settings d" "sessions (touched t i d) = sessions d"
  "admins (touched t i d) = admins d"
  by (simp_all add: touched_def)

lemma active_device_None_iff: "active_device l x d = None \<longleftrightarrow> (l, x) \<notin> seats d"
  by (auto simp: active_device_def find_None_iff seats_iff)

lemma active_device_Some:
  "active_device l x d = Some r \<Longrightarrow>
    r \<in> set (devices d) \<and> is_activation l x r \<and> dev_deactivated_at r = None \<and> (l, x) \<in> seats d"
  by (auto simp: active_device_def seats_iff dest!: find_Some_in)

lemma set_map_filter_iff: "y \<in> set (List.map_filter f xs) \<longleftrightarrow> (\<exists>x \<in> set xs. f x = Some y)"
  by (force simp: List.map_filter_def)

text \<open>A license that a query returns comes from a row, joined with its product.\<close>

lemma license_where_row:
  assumes "license_where c d = Some l"
  obtains r p where "r \<in> set (licenses d)" "c r" "p \<in> set (products d)"
    "prod_id p = row_product_id r" "l = license_of_row (prod_name p) r"
proof -
  from assms obtain ls where "license_select c d = l # ls"
    by (auto simp: license_where_def split: list.splits)
  then have "l \<in> set (license_select c d)" by simp
  then obtain r where r: "r \<in> set (licenses d)" "c r" "join_product d r = Some l"
    by (auto simp: license_select_def set_map_filter_iff)
  then obtain p where "find (\<lambda>p. prod_id p = row_product_id r) (products d) = Some p"
    "l = license_of_row (prod_name p) r"
    by (auto simp: join_product_def)
  then show thesis
    using that [OF r(1,2)] by (auto dest!: find_Some_in)
qed

lemma license_of_row_sel [simp]:
  "lic_id (license_of_row n r) = row_id r" "lic_key (license_of_row n r) = row_key r"
  "lic_product_id (license_of_row n r) = row_product_id r"
  "lic_product_name (license_of_row n r) = n"
  "lic_customer_name (license_of_row n r) = row_customer_name r"
  "lic_customer_email (license_of_row n r) = row_customer_email r"
  "lic_max_devices (license_of_row n r) = row_max_devices r"
  "lic_expires_at (license_of_row n r) = row_expires_at r"
  "lic_revoked_at (license_of_row n r) = row_revoked_at r"
  "lic_created_at (license_of_row n r) = row_created_at r"
  by (simp_all add: license_of_row_def)

lemma license_by_key_row:
  assumes "license_by_key key d = Some l"
  shows "\<exists>r \<in> set (licenses d). row_id r = lic_id l \<and> row_key r = key \<and> lic_key l = key \<and>
    row_max_devices r = lic_max_devices l \<and> row_expires_at r = lic_expires_at l \<and>
    row_revoked_at r = lic_revoked_at l"
  using assms unfolding license_by_key_def
  by (elim license_where_row) auto

lemma license_where_fields [simp]:
  "license_where c (d\<lparr>devices := v\<rparr>) = license_where c d"
  "license_where c (d\<lparr>device_seq := i\<rparr>) = license_where c d"
  "license_where c (d\<lparr>sessions := ss\<rparr>) = license_where c d"
  "license_where c (d\<lparr>settings := m\<rparr>) = license_where c d"
  by (simp_all add: license_where_def license_select_def join_product_def [abs_def])

text \<open>Scanning changes nothing, and succeeds on the rows of a healthy world.\<close>

lemma set_scan_times: "set (scan_times (license_of_row n r)) = row_times r"
  by (auto simp: scan_times_def row_times_def split: option.split)

lemma map_filter_Nil: "List.map_filter f xs = [] \<longleftrightarrow> (\<forall>x \<in> set xs. f x = None)"
  by (induction xs) (auto simp: List.map_filter_simps split: option.split)

lemma scanLicense_world [simp]: "snd (run_state (scanLicense l) w) = w"
  by (simp add: scanLicense_def)

lemma run_scanLicense:
  assumes "license_where c (db w) = Some l" and "rows_readable (unreadable w) (licenses (db w))"
  shows "run_state (scanLicense l) w = (Inr l, w)"
proof -
  from assms(1) obtain r and p :: product where "r \<in> set (licenses (db w))" "l = license_of_row (prod_name p) r"
    by (rule license_where_row)
  with assms(2) have "List.map_filter (unreadable w) (scan_times l) = []"
    by (simp add: map_filter_Nil set_scan_times rows_readable_def)
  then show ?thesis by (simp add: scanLicense_def)
qed

lemma scan_rows_world [simp]: "snd (run_state (scan_rows ls) w) = w"
proof (induction ls)
  case (Cons l ls)
  then show ?case
    using scanLicense_world [of l w]
    by (cases "run_state (scanLicense l) w"; cases "run_state (scan_rows ls) w") (auto split: sum.split)
qed simp

text \<open>A row that cannot be read makes every query that reaches it fail.\<close>

definition scan_fails :: "world \<Rightarrow> license \<Rightarrow> bool" where
  "scan_fails w l \<longleftrightarrow> (\<exists>t \<in> set (scan_times l). unreadable w t \<noteq> None)"

lemma run_scan_rows_fails:
  "l \<in> set ls \<Longrightarrow> scan_fails w l \<Longrightarrow> \<exists>msg. run_state (scan_rows ls) w = (Inl (DriverError msg), w)"
proof (induction ls)
  case (Cons x xs)
  show ?case
  proof (cases "List.map_filter (unreadable w) (scan_times x)")
    case Nil
    then have "l \<noteq> x" using Cons.prems(2) by (auto simp: scan_fails_def map_filter_Nil)
    with Cons Nil show ?thesis by (auto simp: scanLicense_def)
  next
    case (Cons msg msgs)
    then show ?thesis by (auto simp: scanLicense_def)
  qed
qed simp

lemma run_scanLicense_expiry:
  assumes "lic_expires_at l = Some t" and "unreadable w t = Some msg"
  shows "run_state (scanLicense l) w = (Inl (DriverError msg), w)"
  using assms by (simp add: scanLicense_def scan_times_def List.map_filter_simps)

lemma run_license_queries:
  assumes "faultless w"
  shows "run_state (exec_sql (sql_select_license c)) w =
      ((case license_where c (db w) of None \<Rightarrow> Inl ErrNoRows | Some l \<Rightarrow> Inr l), w)"
    "run_state (exec_sql (sql_list_licenses c)) w =
      (Inr (sort_key (\<lambda>l. - lic_created_at l) (license_select c (db w))), w)"
  using assms
  by (auto simp: run_exec_sql_faultless sql_select_license_where sql_list_licenses_def split: option.split)

section \<open>Runs without driver errors\<close>

lemma run_ActiveDeviceCount [run_simps]:
  "healthy w \<Longrightarrow> run_state (ActiveDeviceCount l) w = (Inr (seat_count l (db w)), w)"
  by (simp add: ActiveDeviceCount_def run_exec_sql_healthy sql_active_count_def seat_count_def)

lemma run_GetActiveDevice [run_simps]:
  "healthy w \<Longrightarrow> run_state (GetActiveDevice l x) w =
    ((case active_device l x (db w) of None \<Rightarrow> Inl ErrNotFound | Some r \<Rightarrow> Inr r), w)"
  by (simp add: GetActiveDevice_def run_exec_sql_healthy sql_active_device_find split: option.split)

lemma run_GetLicenseByKey [run_simps]:
  "healthy w \<Longrightarrow> run_state (GetLicenseByKey key) w =
    ((case license_by_key key (db w) of None \<Rightarrow> Inl ErrNotFound | Some l \<Rightarrow> Inr l), w)"
  by (simp add: GetLicenseByKey_def run_exec_sql_healthy sql_select_license_where license_by_key_def
      run_scanLicense split: option.split)

lemma run_GetLicense [run_simps]:
  "healthy w \<Longrightarrow> run_state (GetLicense i) w =
    ((case license_by_id i (db w) of None \<Rightarrow> Inl ErrNotFound | Some l \<Rightarrow> Inr l), w)"
  by (simp add: GetLicense_def run_exec_sql_healthy sql_select_license_where license_by_id_def
      run_scanLicense split: option.split)

lemma run_TouchDevice [run_simps]:
  "healthy w \<Longrightarrow> run_state (TouchDevice i) w =
    (Inr (), w\<lparr>clock := stl (clock w), db := touched (shd (clock w)) i (db w)\<rparr>)"
  by (simp add: TouchDevice_def run_exec_sql_healthy sql_touch_touched)

lemma run_GetSetting [run_simps]:
  "healthy w \<Longrightarrow> run_state (GetSetting k) w =
    ((case settings (db w) k of None \<Rightarrow> ('''', False, None) | Some v \<Rightarrow> (v, True, None)), w)"
  by (simp add: GetSetting_def run_exec_sql_healthy sql_select_setting_def split: option.split)

lemma run_SetSetting [run_simps]:
  "healthy w \<Longrightarrow> run_state (SetSetting k v) w = (Inr (), w\<lparr>db := put_setting k v (db w)\<rparr>)"
  by (simp add: SetSetting_def run_exec_sql_healthy sql_upsert_setting_put)

text \<open>An activation inserts or revives a row: no constraint stops it when its license exists.\<close>

definition new_device :: "string \<Rightarrow> string \<Rightarrow> string \<Rightarrow> gotime \<Rightarrow> device" where
  "new_device l x name now =
     \<lparr>dev_id = 0, dev_license_id = l, dev_device_id = x, dev_device_name = name,
      dev_activated_at = now, dev_last_seen_at = now, dev_deactivated_at = None\<rparr>"

lemma new_device_sel [simp]:
  "dev_license_id (new_device l x name now) = l" "dev_device_id (new_device l x name now) = x"
  "dev_device_name (new_device l x name now) = name"
  by (simp_all add: new_device_def)

lemma sql_upsert_device_total:
  assumes "l \<in> row_id ` set (licenses d)"
  obtains i d' where "sql_upsert_device (new_device l x name now) d = Inr (i, d')"
proof (cases "find (is_activation l x) (devices d)")
  case None
  have "list_ex (\<lambda>r. row_id r = l) (licenses d)"
    using assms by (auto simp: list_ex_iff)
  with None that show thesis
    by (simp add: sql_upsert_device_def Let_def)
next
  case (Some r)
  with that show thesis by (simp add: sql_upsert_device_def Let_def)
qed

lemma run_ActivateDevice:
  assumes "healthy w"
    and "sql_upsert_device (new_device l x name (shd (clock w))) (db w) = Inr (i, d')"
  shows "run_state (ActivateDevice l x name) w =
    (Inr ((new_device l x name (shd (clock w)))\<lparr>dev_id := i\<rparr>), w\<lparr>clock := stl (clock w), db := d'\<rparr>)"
  using assms by (simp add: ActivateDevice_def Let_def run_exec_sql_healthy new_device_def)

lemma run_DeactivateDevice:
  assumes "healthy w" and "sql_deactivate_device (shd (clock w)) l x (db w) = Inr (n, d')"
  shows "run_state (DeactivateDevice l x) w =
    ((if n = 0 then Inl ErrNotFound else Inr ()), w\<lparr>clock := stl (clock w), db := d'\<rparr>)"
  using assms by (simp add: DeactivateDevice_def run_exec_sql_healthy)

lemma sql_deactivate_device_total:
  obtains n d' where "sql_deactivate_device t l x d = Inr (n, d')"
  by (simp add: sql_deactivate_device_def Let_def)

section \<open>What the methods keep, whatever the driver does\<close>

lemma keeps_reads: "reads q \<Longrightarrow> keeps (\<lambda>w. P (db w)) (exec_sql q)"
  by (rule keeps_exec_sql) (rule reads_ok)

lemmas keeps_steps = keeps_structure keeps_time_Now keeps_rand_Read keeps_uuid_NewString keeps_spawn

lemma keeps_ActiveDeviceCount [triple_rules]: "keeps (\<lambda>w. P (db w)) (ActiveDeviceCount l)"
  unfolding ActiveDeviceCount_def by (rule keeps_reads) simp

lemma keeps_GetActiveDevice [triple_rules]: "keeps (\<lambda>w. P (db w)) (GetActiveDevice l x)"
  unfolding GetActiveDevice_def by (intro keeps_steps keeps_reads) simp

lemma keeps_ListDevices [triple_rules]: "keeps (\<lambda>w. P (db w)) (ListDevices l)"
  unfolding ListDevices_def by (rule keeps_reads) simp

lemma keeps_GetProduct [triple_rules]: "keeps (\<lambda>w. P (db w)) (GetProduct i)"
  unfolding GetProduct_def by (intro keeps_steps keeps_reads) simp

lemma keeps_ListProducts [triple_rules]: "keeps (\<lambda>w. P (db w)) ListProducts"
  unfolding ListProducts_def by (rule keeps_reads) simp

lemma scanLicense_result: "fst (run_state (scanLicense l) w) = Inr x \<Longrightarrow> x = l"
  by (simp add: scanLicense_def split: list.splits)

lemma keeps_scan:
  "keeps (\<lambda>w. P (db w)) (scanLicense l)" "keeps (\<lambda>w. P (db w)) (scan_rows ls)"
  using scanLicense_world [of l] scan_rows_world [of ls] by (metis tripleI snd_conv)+

lemma keeps_GetLicense [triple_rules]: "keeps (\<lambda>w. P (db w)) (GetLicense i)"
  unfolding GetLicense_def by (intro keeps_steps keeps_reads keeps_scan) simp

lemma keeps_GetLicenseByKey [triple_rules]: "keeps (\<lambda>w. P (db w)) (GetLicenseByKey k)"
  unfolding GetLicenseByKey_def by (intro keeps_steps keeps_reads keeps_scan) simp

lemma keeps_ListLicenses [triple_rules]: "keeps (\<lambda>w. P (db w)) (ListLicenses p)"
  unfolding ListLicenses_def by (intro keeps_steps keeps_reads keeps_scan) simp_all

lemma keeps_GetSetting [triple_rules]: "keeps (\<lambda>w. P (db w)) (GetSetting k)"
  unfolding GetSetting_def by (intro keeps_steps keeps_reads) simp

lemma keeps_HasAdmin [triple_rules]: "keeps (\<lambda>w. P (db w)) HasAdmin"
  unfolding HasAdmin_def by (intro keeps_steps keeps_reads) simp

lemma keeps_AdminPasswordHash [triple_rules]: "keeps (\<lambda>w. P (db w)) AdminPasswordHash"
  unfolding AdminPasswordHash_def by (intro keeps_steps keeps_reads) simp

lemma keeps_ValidSession [triple_rules]: "keeps (\<lambda>w. P (db w)) (ValidSession t)"
  unfolding ValidSession_def by (intro keeps_steps keeps_reads) simp

text \<open>The methods that write keep the invariant; \<open>ActivateDevice\<close> does where a seat is free.\<close>

lemma keeps_TouchDevice [triple_rules]: "keeps (\<lambda>w. db_ok (db w)) (TouchDevice i)"
  unfolding TouchDevice_def by (intro keeps_steps keeps_exec_sql) (rule sql_ok)

lemma keeps_DeactivateDevice [triple_rules]: "keeps (\<lambda>w. db_ok (db w)) (DeactivateDevice l x)"
  unfolding DeactivateDevice_def by (intro keeps_steps keeps_exec_sql) (rule sql_ok)

lemma keeps_CreateProduct [triple_rules]: "keeps (\<lambda>w. db_ok (db w)) (CreateProduct n)"
  unfolding CreateProduct_def Let_def by (intro keeps_steps keeps_exec_sql) (rule sql_ok)

lemma keeps_GenerateLicenseKey [triple_rules]: "keeps (\<lambda>w. P (db w)) GenerateLicenseKey"
  unfolding GenerateLicenseKey_def by (intro keeps_steps)

lemma keeps_CreateLicense [triple_rules]: "keeps (\<lambda>w. db_ok (db w)) (CreateLicense p)"
  unfolding CreateLicense_def Let_def
  by (intro keeps_steps keeps_exec_sql keeps_GenerateLicenseKey) (rule sql_ok)

lemma keeps_RevokeLicense [triple_rules]: "keeps (\<lambda>w. db_ok (db w)) (RevokeLicense i)"
  unfolding RevokeLicense_def by (intro keeps_steps keeps_exec_sql) (rule sql_ok)

lemma keeps_SetSetting [triple_rules]: "keeps (\<lambda>w. db_ok (db w)) (SetSetting k v)"
  unfolding SetSetting_def by (intro keeps_exec_sql) (rule sql_ok)

lemma keeps_CreateAdmin [triple_rules]: "keeps (\<lambda>w. db_ok (db w)) (CreateAdmin h)"
  unfolding CreateAdmin_def by (intro keeps_steps keeps_exec_sql) (rule sql_ok)

lemma keeps_SetAdminPassword [triple_rules]: "keeps (\<lambda>w. db_ok (db w)) (SetAdminPassword h)"
  unfolding SetAdminPassword_def by (intro keeps_exec_sql) (rule sql_ok)

lemma keeps_CreateSession [triple_rules]: "keeps (\<lambda>w. db_ok (db w)) (CreateSession t e)"
  unfolding CreateSession_def by (intro keeps_steps keeps_exec_sql) (rule sql_ok)

lemma keeps_DeleteSession [triple_rules]: "keeps (\<lambda>w. db_ok (db w)) (DeleteSession t)"
  unfolding DeleteSession_def by (intro keeps_exec_sql) (rule sql_ok)

definition seat_free :: "license \<Rightarrow> database \<Rightarrow> bool" where
  "seat_free lic d \<longleftrightarrow> (\<exists>r \<in> set (licenses d). row_id r = lic_id lic \<and> row_max_devices r = lic_max_devices lic)
     \<and> seat_count (lic_id lic) d < lic_max_devices lic"

text \<open>Identifiers and keys pick out the same row.\<close>

lemma filter_unique:
  "distinct (map f xs) \<Longrightarrow> x \<in> set xs \<Longrightarrow> filter (\<lambda>y. f y = f x) xs = [x]"
  by (induction xs) (auto simp: filter_empty_conv image_iff)

lemma license_by_id_key:
  assumes "db_ok d" and "license_by_id i d = Some l"
  shows "license_by_key (lic_key l) d = Some l"
proof -
  obtain r and p :: product where r: "r \<in> set (licenses d)" "row_id r = i" "l = license_of_row (prod_name p) r"
    using assms(2) unfolding license_by_id_def by (rule license_where_row) blast
  have "filter (\<lambda>l. row_id l = row_id r) (licenses d) = [r]" "filter (\<lambda>l. row_key l = row_key r) (licenses d) = [r]"
    using assms(1) r(1) by (auto simp: db_ok_defs intro!: filter_unique)
  with assms(2) r show ?thesis
    by (simp add: license_by_id_def license_by_key_def license_where_def license_select_def)
qed

end
