(* ===== verification/Envelope.thy ===== *)
theory Envelope
  imports Models
begin

text \<open>
  \<open>internal/crypto\<close>: signed envelopes (envelope.go) and the Ed25519 key pair (keys.go). The curve
  arithmetic is a parameter, the record \<open>ed25519\<close>: the public key of a seed, the signature of a
  message under a private key, and the verification of a signature. What the package documentation
  promises of it is \<open>ed25519_laws\<close>. A private key is, as Go documents it, the seed followed by the
  public key. The JSON codec of a payload is an argument of \<open>Sign\<close> and \<open>Verify\<close>, as the payload's
  type is in the code.
\<close>

section \<open>crypto/ed25519\<close>

record ed25519 =
  ed_public :: "bytes \<Rightarrow> bytes"
  ed_signature :: "bytes \<Rightarrow> bytes \<Rightarrow> bytes"
  ed_accepts :: "bytes \<Rightarrow> bytes \<Rightarrow> bytes \<Rightarrow> bool"

definition SeedSize :: nat where
  "SeedSize = 32"

definition PublicKeySize :: nat where
  "PublicKeySize = 32"

definition PrivateKeySize :: nat where
  "PrivateKeySize = 64"

lemmas key_sizes = SeedSize_def PublicKeySize_def PrivateKeySize_def

definition NewKeyFromSeed :: "ed25519 \<Rightarrow> bytes \<Rightarrow> bytes" where
  "NewKeyFromSeed E seed = seed @ ed_public E seed"

definition PrivateKey_Seed :: "bytes \<Rightarrow> bytes" where
  "PrivateKey_Seed priv = take SeedSize priv"

definition PrivateKey_Public :: "bytes \<Rightarrow> bytes" where
  "PrivateKey_Public priv = drop SeedSize priv"

text \<open>Both panic on a key of the wrong length.\<close>

definition ed25519_Sign :: "ed25519 \<Rightarrow> bytes \<Rightarrow> bytes \<Rightarrow> gerror + bytes" where
  "ed25519_Sign E priv data =
     (if length priv \<noteq> PrivateKeySize then Inl (Panicked ''ed25519: bad private key length'')
      else Inr (ed_signature E priv data))"

definition ed25519_Verify :: "ed25519 \<Rightarrow> bytes \<Rightarrow> bytes \<Rightarrow> bytes \<Rightarrow> gerror + bool" where
  "ed25519_Verify E pub data sig =
     (if length pub \<noteq> PublicKeySize then Inl (Panicked ''ed25519: bad public key length'')
      else Inr (ed_accepts E pub data sig))"

definition ed25519_laws :: "ed25519 \<Rightarrow> bool" where
  "ed25519_laws E \<longleftrightarrow>
     (\<forall>seed. length seed = SeedSize \<longrightarrow> length (ed_public E seed) = PublicKeySize) \<and>
     (\<forall>seed data. length seed = SeedSize \<longrightarrow>
        ed_accepts E (ed_public E seed) data (ed_signature E (NewKeyFromSeed E seed) data))"

section \<open>envelope.go\<close>

record envelope =
  env_payload :: string
  env_signature :: string

definition Sign :: "ed25519 \<Rightarrow> ('p \<Rightarrow> gerror + bytes) \<Rightarrow> bytes \<Rightarrow> 'p \<Rightarrow> gerror + envelope" where
  "Sign E json_Marshal priv payload =
     (case json_Marshal payload of
        Inl err \<Rightarrow> Inl err
      | Inr data \<Rightarrow>
          (case ed25519_Sign E priv data of
             Inl p \<Rightarrow> Inl p
           | Inr sig \<Rightarrow> Inr \<lparr>env_payload = b64_encode data, env_signature = b64_encode sig\<rparr>))"

definition Verify :: "ed25519 \<Rightarrow> (bytes \<Rightarrow> gerror + 'p) \<Rightarrow> bytes \<Rightarrow> envelope \<Rightarrow> gerror + 'p" where
  "Verify E json_Unmarshal pub env =
     (case b64_decode (env_payload env) of
        Inl err \<Rightarrow> Inl err
      | Inr data \<Rightarrow>
          (case b64_decode (env_signature env) of
             Inl err \<Rightarrow> Inl err
           | Inr sig \<Rightarrow>
               (case ed25519_Verify E pub data sig of
                  Inl p \<Rightarrow> Inl p
                | Inr good \<Rightarrow> if \<not> good then Inl ErrInvalidSignature else json_Unmarshal data)))"

section \<open>keys.go\<close>

definition GenerateSeed :: "(gerror + string) program" where
  "GenerateSeed = do {
     r \<leftarrow> rand_Read SeedSize;
     case r of
       Inl err \<Rightarrow> fail err
     | Inr seed \<Rightarrow> ok (b64_encode seed)
   }"

definition KeypairFromSeed :: "ed25519 \<Rightarrow> string \<Rightarrow> gerror + bytes \<times> bytes" where
  "KeypairFromSeed E seed =
     (case b64_decode seed of
        Inl err \<Rightarrow> Inl (ErrWrap ''decode seed: '' err '''')
      | Inr raw \<Rightarrow>
          if length raw \<noteq> SeedSize then Inl (LibError (''seed must be 32 bytes, got '' @ Itoa (int (length raw))))
          else let priv = NewKeyFromSeed E raw in Inr (priv, PrivateKey_Public priv))"

definition EncodePublicKey :: "bytes \<Rightarrow> string" where
  "EncodePublicKey pub = b64_encode pub"

definition DecodePublicKey :: "string \<Rightarrow> gerror + bytes" where
  "DecodePublicKey s =
     (case b64_decode s of
        Inl err \<Rightarrow> Inl err
      | Inr raw \<Rightarrow>
          if length raw \<noteq> PublicKeySize
          then Inl (LibError (''public key must be 32 bytes, got '' @ Itoa (int (length raw))))
          else Inr raw)"

lemma decode_encode_key:
  "DecodePublicKey (EncodePublicKey pub) =
    (if length pub = PublicKeySize then Inr pub
     else Inl (LibError (''public key must be 32 bytes, got '' @ Itoa (int (length pub)))))"
  by (simp add: DecodePublicKey_def EncodePublicKey_def b64_decode_encode)

lemmas envelope_defs = Sign_def Verify_def ed25519_Sign_def ed25519_Verify_def

section \<open>Key pairs\<close>

definition keypair :: "ed25519 \<Rightarrow> bytes \<Rightarrow> bytes \<Rightarrow> bool" where
  "keypair E priv pub \<longleftrightarrow>
     (\<exists>seed. length seed = SeedSize \<and> priv = NewKeyFromSeed E seed \<and> pub = ed_public E seed)"

lemma KeypairFromSeed_keypair: "KeypairFromSeed E s = Inr (priv, pub) \<Longrightarrow> keypair E priv pub"
  by (auto simp: KeypairFromSeed_def keypair_def NewKeyFromSeed_def PrivateKey_Public_def Let_def
      split: sum.splits if_splits)

lemma keypair_length:
  "ed25519_laws E \<Longrightarrow> keypair E priv pub \<Longrightarrow> length priv = PrivateKeySize \<and> length pub = PublicKeySize"
  by (auto simp: keypair_def ed25519_laws_def NewKeyFromSeed_def key_sizes)

lemma keypair_accepts:
  "ed25519_laws E \<Longrightarrow> keypair E priv pub \<Longrightarrow> ed_accepts E pub data (ed_signature E priv data)"
  by (auto simp: keypair_def ed25519_laws_def)

lemma KeypairFromSeed_encode:
  "length raw = SeedSize \<Longrightarrow>
    KeypairFromSeed E (b64_encode raw) = Inr (NewKeyFromSeed E raw, ed_public E raw)"
  by (simp add: KeypairFromSeed_def b64_decode_encode Let_def NewKeyFromSeed_def PrivateKey_Public_def)

text \<open>Go's round trip through \<open>Seed\<close>: a private key is rebuilt from its own seed.\<close>

lemma NewKeyFromSeed_Seed:
  "length seed = SeedSize \<Longrightarrow> PrivateKey_Seed (NewKeyFromSeed E seed) = seed"
  by (simp add: PrivateKey_Seed_def NewKeyFromSeed_def)

section \<open>Signing and verifying\<close>

lemma Sign_Inr_iff:
  "Sign E m priv p = Inr env \<longleftrightarrow>
    (\<exists>data. m p = Inr data \<and> length priv = PrivateKeySize \<and>
       env = \<lparr>env_payload = b64_encode data, env_signature = b64_encode (ed_signature E priv data)\<rparr>)"
  by (auto simp: envelope_defs split: sum.splits)

lemma Verify_Inr_iff:
  "Verify E u pub env = Inr p \<longleftrightarrow>
    (\<exists>data sig. b64_decode (env_payload env) = Inr data \<and> b64_decode (env_signature env) = Inr sig \<and>
       length pub = PublicKeySize \<and> ed_accepts E pub data sig \<and> u data = Inr p)"
  by (auto simp: envelope_defs split: sum.splits if_splits)

lemma Verify_Sign:
  assumes "ed25519_laws E" and "keypair E priv pub" and "Sign E m priv p = Inr env"
  shows "Verify E u pub env = (case m p of Inl e \<Rightarrow> Inl e | Inr data \<Rightarrow> u data)"
  using assms keypair_length [OF assms(1,2)] keypair_accepts [OF assms(1,2)]
  by (auto simp: envelope_defs b64_decode_encode split: sum.splits)

end
