(* ===== verification/Service.thy ===== *)
theory Service
  imports Store_Runs Envelope
begin

text \<open>
  \<open>internal/license\<close>: tokens (token.go) and the licensing rules (service.go): activation with the
  seat limit, validation, deactivation and offline activation. A program takes the platform it
  runs on (Ed25519 and the JSON codec of tokens) and the service's own fields. The notifier is an
  interface of the code, \<open>Notifier\<close>; what the service relies on of it is the locale
  \<open>quiet_notifier\<close>.
\<close>

section \<open>token.go\<close>

record token =
  tok_license_key :: string
  tok_product :: string
  tok_customer_name :: string
  tok_device_id :: string
  tok_seats_max :: int
  tok_seats_used :: int
  tok_status :: string
  tok_issued_at :: gotime
  tok_valid_until :: gotime
  tok_license_exp :: "gotime option"
  tok_offline :: bool

definition OnlineGracePeriod :: duration where
  "OnlineGracePeriod = 7 * 24 * hour"

text \<open>
  What the service takes from Go's library: the signatures and the JSON text of a token.
  \<open>encoding/json\<close> replaces bytes that are not UTF-8, and an \<open>int\<close> has 64 bits: the tokens that are
  read back as they were.
\<close>

record platform =
  ed :: ed25519
  json_Marshal_token :: "token \<Rightarrow> gerror + bytes"
  json_Unmarshal_token :: "bytes \<Rightarrow> gerror + token"

definition int64 :: "int \<Rightarrow> bool" where
  "int64 i \<longleftrightarrow> - (2 ^ 63) \<le> i \<and> i < 2 ^ 63"

definition token_ok :: "token \<Rightarrow> bool" where
  "token_ok tok \<longleftrightarrow> utf8_valid (tok_license_key tok) \<and> utf8_valid (tok_product tok) \<and>
     utf8_valid (tok_customer_name tok) \<and> utf8_valid (tok_device_id tok) \<and>
     utf8_valid (tok_status tok) \<and> int64 (tok_seats_max tok) \<and> int64 (tok_seats_used tok)"

section \<open>service.go\<close>

definition offlineHorizon :: duration where
  "offlineHorizon = 100 * 365 * 24 * hour"

type_synonym notifier = "string \<Rightarrow> notification \<Rightarrow> unit program"

definition noop_Notify :: notifier where
  "noop_Notify event data = State_Monad.return ()"

record service =
  svc_priv :: bytes
  svc_pub :: bytes
  svc_notifier :: notifier

definition NewService :: "bytes \<Rightarrow> bytes \<Rightarrow> service" where
  "NewService priv pub = \<lparr>svc_priv = priv, svc_pub = pub, svc_notifier = noop_Notify\<rparr>"

definition SetNotifier :: "notifier option \<Rightarrow> service \<Rightarrow> service" where
  "SetNotifier n s = (case n of None \<Rightarrow> s | Some f \<Rightarrow> s\<lparr>svc_notifier := f\<rparr>)"

definition PublicKey :: "service \<Rightarrow> bytes" where
  "PublicKey s = svc_pub s"

definition token_for :: "license \<Rightarrow> string \<Rightarrow> int \<Rightarrow> gotime \<Rightarrow> bool \<Rightarrow> token" where
  "token_for lic deviceID seatsUsed now offline =
     (let validUntil = (if offline then now + offlineHorizon else now + OnlineGracePeriod);
          validUntil' = (case lic_expires_at lic of
              Some x \<Rightarrow> if time_Before x validUntil then x else validUntil
            | None \<Rightarrow> validUntil)
      in \<lparr>tok_license_key = lic_key lic, tok_product = lic_product_name lic,
          tok_customer_name = lic_customer_name lic, tok_device_id = deviceID,
          tok_seats_max = lic_max_devices lic, tok_seats_used = seatsUsed,
          tok_status = Status lic now, tok_issued_at = now, tok_valid_until = validUntil',
          tok_license_exp = lic_expires_at lic, tok_offline = offline\<rparr>)"

definition sign :: "platform \<Rightarrow> service \<Rightarrow> license \<Rightarrow> string \<Rightarrow> int \<Rightarrow> gotime \<Rightarrow> bool \<Rightarrow> gerror + envelope" where
  "sign P s lic deviceID seatsUsed now offline =
     Sign (ed P) (json_Marshal_token P) (svc_priv s) (token_for lic deviceID seatsUsed now offline)"

definition notify :: "service \<Rightarrow> string \<Rightarrow> license \<Rightarrow> string \<Rightarrow> unit program" where
  "notify s event lic deviceID = do {
     t \<leftarrow> time_Now;
     svc_notifier s event
       \<lparr>n_event = event, n_license_key = lic_key lic, n_product = lic_product_name lic,
        n_customer_name = lic_customer_name lic, n_device_id = deviceID, n_timestamp = t\<rparr>
   }"

definition status_error :: "string \<Rightarrow> gerror" where
  "status_error status = ErrWrap '''' ErrLicenseStatus ('': '' @ status)"

text \<open>
  The switch of \<open>activate\<close> on the result of \<open>GetActiveDevice\<close>: a device without a seat is counted
  against the limit and inserted, a device with one is touched.
\<close>

definition take_or_touch :: "service \<Rightarrow> license \<Rightarrow> string \<Rightarrow> string \<Rightarrow> gerror + device \<Rightarrow> (gerror + unit) program" where
  "take_or_touch s lic deviceID deviceName found =
     (case found of
        Inl err \<Rightarrow>
          if errors_Is err ErrNotFound then do {
            c \<leftarrow> ActiveDeviceCount (lic_id lic);
            case c of
              Inl cerr \<Rightarrow> fail cerr
            | Inr count \<Rightarrow>
                if lic_max_devices lic \<le> count then fail ErrDeviceLimit
                else do {
                  d \<leftarrow> ActivateDevice (lic_id lic) deviceID deviceName;
                  case d of
                    Inl err \<Rightarrow> fail err
                  | Inr dev \<Rightarrow> do { notify s ''activation'' lic (dev_device_id dev); ok () }
                }
          }
          else fail err
      | Inr dev \<Rightarrow> TouchDevice (dev_id dev))"

definition activate :: "platform \<Rightarrow> service \<Rightarrow> string \<Rightarrow> string \<Rightarrow> string \<Rightarrow> bool \<Rightarrow> (gerror + envelope) program" where
  "activate P s key deviceID deviceName offline = do {
     l \<leftarrow> GetLicenseByKey key;
     case l of
       Inl err \<Rightarrow> fail err
     | Inr lic \<Rightarrow> do {
         now \<leftarrow> time_Now;
         if Status lic now \<noteq> ''active'' then fail (status_error (Status lic now))
         else do {
           found \<leftarrow> GetActiveDevice (lic_id lic) deviceID;
           r \<leftarrow> take_or_touch s lic deviceID deviceName found;
           case r of
             Inl err \<Rightarrow> fail err
           | Inr _ \<Rightarrow> do {
               c \<leftarrow> ActiveDeviceCount (lic_id lic);
               case c of
                 Inl err \<Rightarrow> fail err
               | Inr seats_used \<Rightarrow>
                   State_Monad.return (sign P s lic deviceID seats_used now offline)
             }
         }
       }
   }"

definition Activate :: "platform \<Rightarrow> service \<Rightarrow> string \<Rightarrow> string \<Rightarrow> string \<Rightarrow> (gerror + envelope) program" where
  "Activate P s key deviceID deviceName = activate P s key deviceID deviceName False"

definition OfflineActivate :: "platform \<Rightarrow> service \<Rightarrow> string \<Rightarrow> string \<Rightarrow> string \<Rightarrow> (gerror + envelope) program" where
  "OfflineActivate P s key deviceID deviceName = activate P s key deviceID deviceName True"

definition Validate :: "platform \<Rightarrow> service \<Rightarrow> string \<Rightarrow> string \<Rightarrow> (gerror + envelope) program" where
  "Validate P s key deviceID = do {
     l \<leftarrow> GetLicenseByKey key;
     case l of
       Inl err \<Rightarrow> fail err
     | Inr lic \<Rightarrow> do {
         now \<leftarrow> time_Now;
         if Status lic now \<noteq> ''active'' then fail (status_error (Status lic now))
         else do {
           found \<leftarrow> GetActiveDevice (lic_id lic) deviceID;
           case found of
             Inl err \<Rightarrow> fail err
           | Inr dev \<Rightarrow> do {
               t \<leftarrow> TouchDevice (dev_id dev);
               case t of
                 Inl err \<Rightarrow> fail err
               | Inr _ \<Rightarrow> do {
                   c \<leftarrow> ActiveDeviceCount (lic_id lic);
                   case c of
                     Inl err \<Rightarrow> fail err
                   | Inr seats_used \<Rightarrow>
                       State_Monad.return (sign P s lic deviceID seats_used now False)
                 }
             }
         }
       }
   }"

definition Deactivate :: "service \<Rightarrow> string \<Rightarrow> string \<Rightarrow> (gerror + unit) program" where
  "Deactivate s key deviceID = do {
     l \<leftarrow> GetLicenseByKey key;
     case l of
       Inl err \<Rightarrow> fail err
     | Inr lic \<Rightarrow> do {
         r \<leftarrow> DeactivateDevice (lic_id lic) deviceID;
         case r of
           Inl err \<Rightarrow> fail err
         | Inr _ \<Rightarrow> do { notify s ''deactivation'' lic deviceID; ok () }
       }
   }"

end
