(* ===== verification/Web_Http.thy ===== *)
theory Web_Http
  imports Store_Runs Service
begin

text \<open>
  The HTTP values of \<open>internal/web\<close>: requests as the handlers see them, responses as they write
  them, and the writers that the handlers share (server.go, the first part of api.go). A page is
  the name of its template with the data handed to it; executing a template is \<open>html/template\<close>'s,
  of which the server's field \<open>srv_template\<close> says only whether it fails. A handler is a program
  that returns its response.
\<close>

section \<open>Requests\<close>

text \<open>
  \<open>rq_form\<close> is \<open>r.FormValue\<close>, \<open>rq_query\<close> is \<open>r.URL.Query().Get\<close> (both give the empty string for a
  missing name), \<open>rq_cookie\<close> is \<open>r.Cookie(sessionCookieName)\<close>, with \<open>None\<close> for \<open>ErrNoCookie\<close>.
\<close>

record http_request =
  rq_method :: string
  rq_path :: "string list"
  rq_form :: "string \<Rightarrow> string"
  rq_query :: "string \<Rightarrow> string"
  rq_cookie :: "string option"
  rq_body :: bytes

section \<open>Responses\<close>

record license_view =
  lv_license :: license
  lv_status_text :: string
  lv_device_count :: int
  lv_expires_text :: string
  lv_created_text :: string

datatype page =
    SetupPage "string option"
  | LoginPage "string option"
  | ProductsPage "product list"
  | ProductPage product "license_view list"
  | LicensePage license_view "device list" "string option"
  | SettingsPage string string string string

datatype content =
    Html string bool page
  | JsonError string string
  | JsonEnvelope envelope
  | JsonOk
  | JsonPubkey string string
  | PlainText string
  | NoBody

record cookie =
  ck_name :: string
  ck_value :: string
  ck_path :: string
  ck_http_only :: bool
  ck_secure :: bool
  ck_same_site_lax :: bool
  ck_expires :: "gotime option"
  ck_max_age :: int

record response =
  rs_status :: int
  rs_location :: "string option"
  rs_cookie :: "cookie option"
  rs_content :: content

text \<open>\<open>srv_template s name p\<close> is the error of \<open>s.tmpl.ExecuteTemplate\<close> on the template \<open>name\<close>.\<close>

record server =
  srv_licenses :: service
  srv_cookie_secure :: bool
  srv_template :: "string \<Rightarrow> page \<Rightarrow> gerror option"

definition respond :: "int \<Rightarrow> content \<Rightarrow> response" where
  "respond status c = \<lparr>rs_status = status, rs_location = None, rs_cookie = None, rs_content = c\<rparr>"

definition http_Redirect :: "string \<Rightarrow> response" where
  "http_Redirect url = \<lparr>rs_status = 303, rs_location = Some url, rs_cookie = None, rs_content = NoBody\<rparr>"

definition http_NotFound :: response where
  "http_NotFound = respond 404 (PlainText (''404 page not found'' @ [CHR 0x0A]))"

definition serverError :: "gerror \<Rightarrow> response" where
  "serverError err = respond 500 (PlainText (''internal error'' @ [CHR 0x0A]))"

text \<open>\<open>pageMeta\<close>: the title of a page and whether it belongs to the dashboard.\<close>

definition page_name :: "page \<Rightarrow> string" where
  "page_name p = (case p of
       SetupPage _ \<Rightarrow> ''setup'' | LoginPage _ \<Rightarrow> ''login'' | ProductsPage _ \<Rightarrow> ''products''
     | ProductPage _ _ \<Rightarrow> ''product'' | LicensePage _ _ _ \<Rightarrow> ''license'' | SettingsPage _ _ _ _ \<Rightarrow> ''settings'')"

definition pageMeta :: "string \<Rightarrow> (string \<times> bool) option" where
  "pageMeta = map_of
     [(''setup'', (''Setup'', False)), (''login'', (''Log in'', False)),
      (''products'', (''Products'', True)), (''product'', (''Product'', True)),
      (''license'', (''License'', True)), (''settings'', (''Settings'', True))]"

definition render :: "server \<Rightarrow> page \<Rightarrow> response" where
  "render s p =
     (case pageMeta (page_name p) of
        None \<Rightarrow> serverError (LibError ''render: unknown page'')
      | Some (title, authed) \<Rightarrow>
          (case srv_template s (page_name p) p of
             Some err \<Rightarrow> serverError err
           | None \<Rightarrow>
               (case srv_template s ''layout'' p of
                  Some err \<Rightarrow> serverError err
                | None \<Rightarrow> respond 200 (Html title authed p))))"

definition handleHealthz :: response where
  "handleHealthz = respond 200 (PlainText ''ok'')"

definition handleHome :: response where
  "handleHome = http_Redirect ''/products''"

lemma status_respond [simp]:
  "rs_status (respond n c) = n" "rs_cookie (respond n c) = None" "rs_location (respond n c) = None"
  "rs_content (respond n c) = c"
  "rs_status (http_Redirect u) = 303" "rs_cookie (http_Redirect u) = None"
  "rs_location (http_Redirect u) = Some u"
  "rs_status (serverError e) = 500" "rs_cookie (serverError e) = None"
  "rs_location (serverError e) = None"
  by (simp_all add: respond_def http_Redirect_def serverError_def)

lemma page_meta_known: "pageMeta (page_name p) \<noteq> None"
  by (cases p) (simp_all add: page_name_def pageMeta_def)

lemma render_status: "rs_status (render s p) = 200 \<or> rs_status (render s p) = 500"
  by (auto simp: render_def split: option.splits)

lemma render_sel [simp]: "rs_cookie (render s p) = None" "rs_location (render s p) = None"
  by (auto simp: render_def split: option.splits)

text \<open>Where the templates execute, a page is rendered as its own.\<close>

definition templates_work :: "server \<Rightarrow> bool" where
  "templates_work s \<longleftrightarrow> (\<forall>name p. srv_template s name p = None)"

lemma render_works:
  "templates_work s \<Longrightarrow> rs_status (render s p) = 200"
  "templates_work s \<Longrightarrow> \<exists>t a. rs_content (render s p) = Html t a p"
  using page_meta_known [of p] by (auto simp: render_def templates_work_def split: option.splits)

section \<open>Answers of the API\<close>

definition writeAPIError :: "int \<Rightarrow> string \<Rightarrow> string \<Rightarrow> response" where
  "writeAPIError status code message = respond status (JsonError code message)"

definition mapLicenseError :: "gerror \<Rightarrow> response" where
  "mapLicenseError err =
     (if errors_Is err ErrNotFound
      then writeAPIError 404 ''not_found'' ''license key or device not found''
      else if errors_Is err ErrDeviceLimit
      then writeAPIError 409 ''device_limit_reached'' ''this license has reached its device limit''
      else if errors_Is err ErrLicenseStatus
      then writeAPIError 403 ''license_not_active'' (error_text err)
      else writeAPIError 500 ''internal_error'' ''internal error'')"

lemma writeAPIError_sel [simp]:
  "rs_status (writeAPIError n c m) = n" "rs_content (writeAPIError n c m) = JsonError c m"
  "rs_cookie (writeAPIError n c m) = None"
  by (simp_all add: writeAPIError_def)

end
