(* ===== verification/Web_Auth.thy ===== *)
theory Web_Auth
  imports Web_Http
begin

text \<open>
  \<open>internal/web/auth.go\<close>: the admin's password, sessions, and the handlers of setup, login, logout
  and password change. bcrypt is a parameter: hashing takes the salt that it draws (16 bytes) and
  refuses a password of more than 72 bytes; comparing tells whether a hash is one of the password.
  What bcrypt promises is that a hash matches the password it was made of; nothing is assumed of
  what else may match it.
\<close>

section \<open>auth.go\<close>

record bcrypt =
  bcrypt_hash :: "bytes \<Rightarrow> string \<Rightarrow> gerror + string"
  bcrypt_matches :: "string \<Rightarrow> string \<Rightarrow> bool"

definition bcrypt_laws :: "bcrypt \<Rightarrow> bool" where
  "bcrypt_laws B \<longleftrightarrow>
     (\<forall>salt pw h. length salt = 16 \<longrightarrow> bcrypt_hash B salt pw = Inr h \<longrightarrow> bcrypt_matches B h pw) \<and>
     (\<forall>salt pw. length salt = 16 \<longrightarrow> (\<exists>h. bcrypt_hash B salt pw = Inr h) \<longleftrightarrow> length pw \<le> 72)"

definition sessionCookieName :: string where
  "sessionCookieName = ''seatkey_session''"

definition sessionTTL :: duration where
  "sessionTTL = 30 * 24 * hour"

definition newSessionToken :: "(gerror + string) program" where
  "newSessionToken = do {
     r \<leftarrow> rand_Read 32;
     case r of Inl err \<Rightarrow> fail err | Inr buf \<Rightarrow> ok (hex_encode buf)
   }"

definition hashPassword :: "bcrypt \<Rightarrow> string \<Rightarrow> (gerror + string) program" where
  "hashPassword B password = do {
     salt \<leftarrow> rand_Read 16;
     case salt of Inl err \<Rightarrow> fail err | Inr s \<Rightarrow> State_Monad.return (bcrypt_hash B s password)
   }"

definition checkPassword :: "bcrypt \<Rightarrow> string \<Rightarrow> string \<Rightarrow> bool" where
  "checkPassword B h password = bcrypt_matches B h password"

type_synonym handler = "http_request \<Rightarrow> response program"

definition requireAuth :: "handler \<Rightarrow> handler" where
  "requireAuth next r = do {
     a \<leftarrow> HasAdmin;
     case a of
       Inl err \<Rightarrow> State_Monad.return (serverError err)
     | Inr hasAdmin \<Rightarrow>
         if \<not> hasAdmin then State_Monad.return (http_Redirect ''/setup'')
         else (case rq_cookie r of
             None \<Rightarrow> State_Monad.return (http_Redirect ''/login'')
           | Some value \<Rightarrow> do {
               v \<leftarrow> ValidSession value;
               case v of
                 Inl err \<Rightarrow> State_Monad.return (serverError err)
               | Inr valid \<Rightarrow>
                   if \<not> valid then State_Monad.return (http_Redirect ''/login'') else next r
             })
   }"

text \<open>The value of \<open>startSession\<close> is the cookie it sets.\<close>

definition startSession :: "server \<Rightarrow> (gerror + cookie) program" where
  "startSession s = do {
     t \<leftarrow> newSessionToken;
     case t of
       Inl err \<Rightarrow> fail err
     | Inr token \<Rightarrow> do {
         now \<leftarrow> time_Now;
         let expiresAt = now + sessionTTL;
         c \<leftarrow> CreateSession token expiresAt;
         case c of
           Inl err \<Rightarrow> fail err
         | Inr _ \<Rightarrow>
             ok \<lparr>ck_name = sessionCookieName, ck_value = token, ck_path = ''/'',
                 ck_http_only = True, ck_secure = srv_cookie_secure s, ck_same_site_lax = True,
                 ck_expires = Some expiresAt, ck_max_age = 0\<rparr>
       }
   }"

definition endSession :: "server \<Rightarrow> http_request \<Rightarrow> cookie program" where
  "endSession s r = do {
     (case rq_cookie r of
        None \<Rightarrow> State_Monad.return ()
      | Some value \<Rightarrow> do { _ \<leftarrow> DeleteSession value; State_Monad.return () });
     State_Monad.return
       \<lparr>ck_name = sessionCookieName, ck_value = '''', ck_path = ''/'', ck_http_only = True,
        ck_secure = srv_cookie_secure s, ck_same_site_lax = True, ck_expires = None,
        ck_max_age = -1\<rparr>
   }"

definition validatePassword :: "string \<Rightarrow> gerror option" where
  "validatePassword password = (if length password < 8 then Some ErrWeakPassword else None)"

text \<open>How \<open>handleSetup\<close> and \<open>handleLogin\<close> end: a new session and a redirect to the dashboard.\<close>

definition session_redirect :: "server \<Rightarrow> response program" where
  "session_redirect s = do {
     c \<leftarrow> startSession s;
     case c of
       Inl err \<Rightarrow> State_Monad.return (serverError err)
     | Inr ck \<Rightarrow> State_Monad.return ((http_Redirect ''/'')\<lparr>rs_cookie := Some ck\<rparr>)
   }"

text \<open>
  \<open>handleSetup\<close> in two parts, with everything behind the answer of \<open>HasAdmin\<close> in the second, since
  another request may be served in between.
\<close>

definition setup_rest :: "bcrypt \<Rightarrow> server \<Rightarrow> http_request \<Rightarrow> gerror + bool \<Rightarrow> response program" where
  "setup_rest B s r a =
     (case a of
        Inl err \<Rightarrow> State_Monad.return (serverError err)
      | Inr hasAdmin \<Rightarrow>
          if hasAdmin then State_Monad.return (http_Redirect ''/login'')
          else if rq_method r = ''GET'' then State_Monad.return (render s (SetupPage None))
          else
            let password = rq_form r ''password''; confirm = rq_form r ''confirm'' in
            if password \<noteq> confirm
            then State_Monad.return (render s (SetupPage (Some ''Passwords do not match'')))
            else (case validatePassword password of
                Some err \<Rightarrow> State_Monad.return (render s (SetupPage (Some (error_text err))))
              | None \<Rightarrow> do {
                  h \<leftarrow> hashPassword B password;
                  case h of
                    Inl err \<Rightarrow> State_Monad.return (serverError err)
                  | Inr hash \<Rightarrow> do {
                      c \<leftarrow> CreateAdmin hash;
                      case c of
                        Inl err \<Rightarrow> State_Monad.return (serverError err)
                      | Inr _ \<Rightarrow> session_redirect s
                    }
                }))"

definition handleSetup :: "bcrypt \<Rightarrow> server \<Rightarrow> handler" where
  "handleSetup B s r = do {
     a \<leftarrow> HasAdmin;
     setup_rest B s r a
   }"

definition handleLogin :: "bcrypt \<Rightarrow> server \<Rightarrow> handler" where
  "handleLogin B s r = do {
     a \<leftarrow> HasAdmin;
     case a of
       Inl err \<Rightarrow> State_Monad.return (serverError err)
     | Inr hasAdmin \<Rightarrow>
         if \<not> hasAdmin then State_Monad.return (http_Redirect ''/setup'')
         else if rq_method r = ''GET'' then State_Monad.return (render s (LoginPage None))
         else do {
           h \<leftarrow> AdminPasswordHash;
           case h of
             Inl err \<Rightarrow> State_Monad.return (serverError err)
           | Inr hash \<Rightarrow>
               if \<not> checkPassword B hash (rq_form r ''password'')
               then State_Monad.return (render s (LoginPage (Some ''Incorrect password'')))
               else session_redirect s
         }
   }"

definition handleLogout :: "server \<Rightarrow> handler" where
  "handleLogout s r = do {
     ck \<leftarrow> endSession s r;
     State_Monad.return ((http_Redirect ''/login'')\<lparr>rs_cookie := Some ck\<rparr>)
   }"

text \<open>\<open>renderSettings\<close> of admin.go, which drops the errors of its two lookups.\<close>

definition renderSettings :: "server \<Rightarrow> string \<Rightarrow> response program" where
  "renderSettings s errMsg = do {
     u \<leftarrow> GetSetting ''webhook_url'';
     k \<leftarrow> GetSetting ''webhook_secret'';
     State_Monad.return
       (render s (SettingsPage (fst u) (fst k) (EncodePublicKey (PublicKey (srv_licenses s))) errMsg))
   }"

definition handleChangePassword :: "bcrypt \<Rightarrow> server \<Rightarrow> handler" where
  "handleChangePassword B s r =
     (if rq_method r \<noteq> ''POST'' then State_Monad.return (http_Redirect ''/settings'')
      else do {
        h \<leftarrow> AdminPasswordHash;
        case h of
          Inl err \<Rightarrow> State_Monad.return (serverError err)
        | Inr hash \<Rightarrow>
            if \<not> checkPassword B hash (rq_form r ''current_password'')
            then renderSettings s ''Current password is incorrect''
            else
              let newPassword = rq_form r ''new_password'' in
              if newPassword \<noteq> rq_form r ''confirm_password''
              then renderSettings s ''New passwords do not match''
              else (case validatePassword newPassword of
                  Some err \<Rightarrow> renderSettings s (error_text err)
                | None \<Rightarrow> do {
                    n \<leftarrow> hashPassword B newPassword;
                    case n of
                      Inl err \<Rightarrow> State_Monad.return (serverError err)
                    | Inr newHash \<Rightarrow> do {
                        u \<leftarrow> SetAdminPassword newHash;
                        case u of
                          Inl err \<Rightarrow> State_Monad.return (serverError err)
                        | Inr _ \<Rightarrow> State_Monad.return (http_Redirect ''/settings'')
                      }
                  })
      })"

end
