(* ===== verification/Web_Api.thy ===== *)
theory Web_Api
  imports Web_Http
begin

text \<open>
  \<open>internal/web/api.go\<close>: the public license-check API. Reading a request body is a field of
  \<open>web_json\<close>, the JSON codec of the web layer; writing one cannot fail for the values the API
  writes. The answer to a failed request is \<open>mapLicenseError\<close>'s.
\<close>

record activateRequest =
  req_license_key :: string
  req_device_id :: string
  req_device_name :: string

record offline_request =
  off_device_id :: string
  off_device_name :: string

text \<open>
  \<open>decode_activate\<close> is \<open>decodeJSON[activateRequest]\<close>, with unknown fields refused;
  \<open>unmarshal_offline\<close> and \<open>indent_envelope\<close> are the two calls of \<open>handleLicenseOfflineActivate\<close>.
\<close>

record web_json =
  decode_activate :: "bytes \<Rightarrow> gerror + activateRequest"
  unmarshal_offline :: "string \<Rightarrow> gerror + offline_request"
  indent_envelope :: "envelope \<Rightarrow> gerror + string"

definition invalid_request :: "string \<Rightarrow> response" where
  "invalid_request message = writeAPIError 400 ''invalid_request'' message"

definition handleAPIActivate :: "platform \<Rightarrow> web_json \<Rightarrow> server \<Rightarrow> http_request \<Rightarrow> response program" where
  "handleAPIActivate P J s r =
     (case decode_activate J (rq_body r) of
        Inl err \<Rightarrow> State_Monad.return (invalid_request (error_text err))
      | Inr req \<Rightarrow>
          if req_license_key req = '''' \<or> req_device_id req = ''''
          then State_Monad.return (invalid_request ''license_key and device_id are required'')
          else do {
            res \<leftarrow> Activate P (srv_licenses s) (req_license_key req) (req_device_id req)
                     (req_device_name req);
            case res of
              Inl err \<Rightarrow> State_Monad.return (mapLicenseError err)
            | Inr env \<Rightarrow> State_Monad.return (respond 200 (JsonEnvelope env))
          })"

definition handleAPIValidate :: "platform \<Rightarrow> web_json \<Rightarrow> server \<Rightarrow> http_request \<Rightarrow> response program" where
  "handleAPIValidate P J s r =
     (case decode_activate J (rq_body r) of
        Inl err \<Rightarrow> State_Monad.return (invalid_request (error_text err))
      | Inr req \<Rightarrow>
          if req_license_key req = '''' \<or> req_device_id req = ''''
          then State_Monad.return (invalid_request ''license_key and device_id are required'')
          else do {
            res \<leftarrow> Validate P (srv_licenses s) (req_license_key req) (req_device_id req);
            case res of
              Inl err \<Rightarrow> State_Monad.return (mapLicenseError err)
            | Inr env \<Rightarrow> State_Monad.return (respond 200 (JsonEnvelope env))
          })"

definition handleAPIDeactivate :: "web_json \<Rightarrow> server \<Rightarrow> http_request \<Rightarrow> response program" where
  "handleAPIDeactivate J s r =
     (case decode_activate J (rq_body r) of
        Inl err \<Rightarrow> State_Monad.return (invalid_request (error_text err))
      | Inr req \<Rightarrow>
          if req_license_key req = '''' \<or> req_device_id req = ''''
          then State_Monad.return (invalid_request ''license_key and device_id are required'')
          else do {
            res \<leftarrow> Deactivate (srv_licenses s) (req_license_key req) (req_device_id req);
            case res of
              Inl err \<Rightarrow> State_Monad.return (mapLicenseError err)
            | Inr _ \<Rightarrow> State_Monad.return (respond 200 JsonOk)
          })"

definition handleAPIPubkey :: "server \<Rightarrow> response" where
  "handleAPIPubkey s =
     respond 200 (JsonPubkey (EncodePublicKey (PublicKey (srv_licenses s))) ''ed25519'')"

lemmas api_defs = handleAPIActivate_def handleAPIValidate_def handleAPIDeactivate_def

lemma invalid_request_sel [simp]:
  "rs_status (invalid_request m) = 400" "rs_content (invalid_request m) = JsonError ''invalid_request'' m"
  "rs_cookie (invalid_request m) = None" "rs_location (invalid_request m) = None"
  by (simp_all add: invalid_request_def writeAPIError_def)

section \<open>One shape for the three endpoints\<close>

text \<open>
  The endpoints differ in the call of the service and in how a success is written: a body that
  cannot be read, or that lacks the key or the device, is refused before the service is called.
\<close>

definition well_formed_request :: "gerror + activateRequest \<Rightarrow> bool" where
  "well_formed_request d \<longleftrightarrow>
     (case d of Inl _ \<Rightarrow> False | Inr req \<Rightarrow> req_license_key req \<noteq> '''' \<and> req_device_id req \<noteq> '''')"

definition refusal :: "gerror + activateRequest \<Rightarrow> response" where
  "refusal d = invalid_request
     (case d of Inl err \<Rightarrow> error_text err | Inr _ \<Rightarrow> ''license_key and device_id are required'')"

definition reply_of :: "('a \<Rightarrow> content) \<Rightarrow> gerror + 'a \<Rightarrow> response" where
  "reply_of c r = (case r of Inl err \<Rightarrow> mapLicenseError err | Inr x \<Rightarrow> respond 200 (c x))"

lemma run_api_refused:
  assumes "\<not> well_formed_request (decode_activate J (rq_body r))"
  shows "run_state (handleAPIActivate P J s r) w = (refusal (decode_activate J (rq_body r)), w)"
    "run_state (handleAPIValidate P J s r) w = (refusal (decode_activate J (rq_body r)), w)"
    "run_state (handleAPIDeactivate J s r) w = (refusal (decode_activate J (rq_body r)), w)"
  using assms by (auto simp: api_defs well_formed_request_def refusal_def split: sum.splits)

lemma run_api:
  assumes "decode_activate J (rq_body r) = Inr req"
    and "req_license_key req \<noteq> ''''" and "req_device_id req \<noteq> ''''"
  shows "run_state (handleAPIActivate P J s r) w =
      apfst (reply_of JsonEnvelope) (run_state (Activate P (srv_licenses s) (req_license_key req)
        (req_device_id req) (req_device_name req)) w)"
    "run_state (handleAPIValidate P J s r) w =
      apfst (reply_of JsonEnvelope) (run_state (Validate P (srv_licenses s) (req_license_key req)
        (req_device_id req)) w)"
    "run_state (handleAPIDeactivate J s r) w =
      apfst (reply_of (\<lambda>_. JsonOk)) (run_state (Deactivate (srv_licenses s) (req_license_key req)
        (req_device_id req)) w)"
  using assms by (auto simp: api_defs reply_of_def split: prod.split sum.split)

section \<open>Status codes\<close>

lemma mapLicenseError_cases:
  "rs_status (mapLicenseError err) =
    (if errors_Is err ErrNotFound then 404 else if errors_Is err ErrDeviceLimit then 409
     else if errors_Is err ErrLicenseStatus then 403 else 500)"
  by (simp add: mapLicenseError_def)

lemma reply_of_status:
  "rs_status (reply_of c r) = 200 \<longleftrightarrow> (\<exists>x. r = Inr x)"
  by (cases r) (auto simp: reply_of_def mapLicenseError_cases)

lemma mapLicenseError_status_error:
  "mapLicenseError (status_error st) =
    writeAPIError 403 ''license_not_active'' (''license is not active: '' @ st)"
  by (simp add: mapLicenseError_def status_error_def)

end
