(* ===== verification/Calendar.thy ===== *)
theory Calendar
  imports Encoding
begin

text \<open>
  Go's calendar as far as the dashboard uses it: the layout \<open>2006-01-02\<close> of \<open>time.Parse\<close> and
  \<open>Time.Format\<close>, in UTC. Days are counted from the Unix epoch; a date is read back off its day
  number by way of the 400-, 100-, 4- and 1-year cycles, as \<open>time.absDate\<close> does it.
\<close>

section \<open>Days and dates\<close>

definition leap_year :: "int \<Rightarrow> bool" where
  "leap_year y \<longleftrightarrow> y mod 4 = 0 \<and> (y mod 100 \<noteq> 0 \<or> y mod 400 = 0)"

definition month_lengths :: "int \<Rightarrow> int list" where
  "month_lengths y = [31, if leap_year y then 29 else 28, 31, 30, 31, 30, 31, 31, 30, 31, 30, 31]"

text \<open>Months and days are counted from 1, as \<open>time.Month\<close> is.\<close>

definition daysIn :: "int \<Rightarrow> int \<Rightarrow> int" where
  "daysIn m y = month_lengths y ! nat (m - 1)"

definition year_day :: "int \<Rightarrow> int \<Rightarrow> int \<Rightarrow> int" where
  "year_day y m d = sum_list (take (nat (m - 1)) (month_lengths y)) + (d - 1)"

text \<open>The days from the first of January of the year 1 to that of the year \<open>y\<close>.\<close>

definition days_before_year :: "int \<Rightarrow> int" where
  "days_before_year y = (let k = y - 1 in 365 * k + k div 4 - k div 100 + k div 400)"

definition unix_epoch_day :: int where
  "unix_epoch_day = 719162"

definition day_number :: "int \<Rightarrow> int \<Rightarrow> int \<Rightarrow> int" where
  "day_number y m d = days_before_year y + year_day y m d - unix_epoch_day"

fun split_months :: "int list \<Rightarrow> int \<Rightarrow> int \<Rightarrow> int \<times> int" where
  "split_months [] m d = (m, d)"
| "split_months (l # ls) m d = (if d < l then (m, d + 1) else split_months ls (m + 1) (d - l))"

definition split_years :: "int \<Rightarrow> int \<times> int" where
  "split_years z =
     (let n400 = z div 146097; r400 = z mod 146097;
          n100 = min 3 (r400 div 36524); r100 = r400 - 36524 * n100;
          n4 = r100 div 1461; r4 = r100 mod 1461;
          n1 = min 3 (r4 div 365)
      in (400 * n400 + 100 * n100 + 4 * n4 + n1 + 1, r4 - 365 * n1))"

definition civil_date :: "int \<Rightarrow> int \<times> int \<times> int" where
  "civil_date days =
     (let (y, yday) = split_years (days + unix_epoch_day) in (y, split_months (month_lengths y) 1 yday))"

definition valid_date :: "int \<Rightarrow> int \<Rightarrow> int \<Rightarrow> bool" where
  "valid_date y m d \<longleftrightarrow> 1 \<le> m \<and> m \<le> 12 \<and> 1 \<le> d \<and> d \<le> daysIn m y"

lemma length_month_lengths [simp]: "length (month_lengths y) = 12"
  by (simp add: month_lengths_def)

lemma month_lengths_nonneg: "\<forall>l \<in> set (month_lengths y). 0 \<le> l"
  by (simp add: month_lengths_def)

lemma sum_month_lengths: "sum_list (month_lengths y) = (if leap_year y then 366 else 365)"
  by (simp add: month_lengths_def)

lemma split_months_nth:
  "i < length ls \<Longrightarrow> 0 \<le> d \<Longrightarrow> d < ls ! i \<Longrightarrow> \<forall>l \<in> set ls. 0 \<le> l \<Longrightarrow>
    split_months ls m (sum_list (take i ls) + d) = (m + int i, d + 1)"
proof (induction ls arbitrary: m i)
  case (Cons l ls)
  show ?case
  proof (cases i)
    case (Suc j)
    have "0 \<le> sum_list (take j ls)"
      using Cons.prems(4) by (intro sum_list_nonneg) (auto dest: in_set_takeD)
    with Suc Cons show ?thesis by (simp add: algebra_simps)
  qed (use Cons in simp)
qed simp

lemma sum_take_less:
  fixes ls :: "int list"
  shows "i < length ls \<Longrightarrow> d < ls ! i \<Longrightarrow> \<forall>l \<in> set ls. 0 \<le> l \<Longrightarrow>
    sum_list (take i ls) + d < sum_list ls"
proof (induction ls arbitrary: i)
  case (Cons l ls)
  show ?case
  proof (cases i)
    case 0
    have "0 \<le> sum_list ls" using Cons.prems(3) by (intro sum_list_nonneg) auto
    with 0 Cons.prems show ?thesis by simp
  next
    case (Suc j)
    with Cons.IH [of j] Cons.prems show ?thesis by simp
  qed
qed simp

lemma year_day_bounds:
  assumes "valid_date y m d"
  shows "0 \<le> year_day y m d" "year_day y m d < (if leap_year y then 366 else 365)"
proof -
  let ?i = "nat (m - 1)"
  have i: "?i < length (month_lengths y)" "d - 1 < month_lengths y ! ?i"
    using assms by (auto simp: valid_date_def daysIn_def)
  show "year_day y m d < (if leap_year y then 366 else 365)"
    using sum_take_less [OF i month_lengths_nonneg] by (simp add: year_day_def sum_month_lengths)
  have "0 \<le> sum_list (take ?i (month_lengths y))"
    using month_lengths_nonneg by (intro sum_list_nonneg) (auto dest: in_set_takeD)
  then show "0 \<le> year_day y m d"
    using assms by (simp add: year_day_def valid_date_def)
qed

lemma split_months_year_day:
  assumes "valid_date y m d"
  shows "split_months (month_lengths y) 1 (year_day y m d) = (m, d)"
proof -
  have i: "nat (m - 1) < length (month_lengths y)" "d - 1 < month_lengths y ! nat (m - 1)"
    "0 \<le> d - 1" "1 + int (nat (m - 1)) = m"
    using assms by (auto simp: valid_date_def daysIn_def)
  show ?thesis
    using split_months_nth [OF i(1,3,2) month_lengths_nonneg, of 1] i(4)
    by (simp add: year_day_def)
qed

text \<open>A year in its cycles.\<close>

lemma year_cycles:
  fixes k :: int
  obtains a b c e where "k = 400 * a + 100 * b + 4 * c + e"
    "0 \<le> b" "b < 4" "0 \<le> c" "c < 25" "0 \<le> e" "e < 4"
proof
  have "k mod 400 = 100 * (k mod 400 div 100) + k mod 100"
    using mult_div_mod_eq [of 100 "k mod 400"] by (simp add: mod_mod_cancel)
  moreover have "k mod 100 = 4 * (k mod 100 div 4) + k mod 4"
    using mult_div_mod_eq [of 4 "k mod 100"] by (simp add: mod_mod_cancel)
  ultimately show "k = 400 * (k div 400) + 100 * (k mod 400 div 100) + 4 * (k mod 100 div 4) + k mod 4"
    using mult_div_mod_eq [of 400 k] by linarith
  show "0 \<le> k mod 400 div 100" "0 \<le> k mod 100 div 4"
    by (simp_all add: pos_imp_zdiv_nonneg_iff)
  show "k mod 400 div 100 < 4" "k mod 100 div 4 < 25"
    using pos_mod_bound [of 400 k] pos_mod_bound [of 100 k] by linarith+
qed simp_all

lemma cycles_divs:
  fixes a b c e :: int
  assumes "0 \<le> b" "b < 4" "0 \<le> c" "c < 25" "0 \<le> e" "e < 4"
  shows "(400 * a + 100 * b + 4 * c + e) div 4 = 100 * a + 25 * b + c"
    "(400 * a + 100 * b + 4 * c + e) div 100 = 4 * a + b"
    "(400 * a + 100 * b + 4 * c + e) div 400 = a"
proof -
  show "(400 * a + 100 * b + 4 * c + e) div 4 = 100 * a + 25 * b + c"
    by (rule int_div_pos_eq [of _ _ _ e]) (use assms in simp_all)
  show "(400 * a + 100 * b + 4 * c + e) div 100 = 4 * a + b"
    by (rule int_div_pos_eq [of _ _ _ "4 * c + e"]) (use assms in simp_all)
  show "(400 * a + 100 * b + 4 * c + e) div 400 = a"
    by (rule int_div_pos_eq [of _ _ _ "100 * b + 4 * c + e"]) (use assms in simp_all)
qed

lemma cycles_leap:
  fixes a b c e :: int
  assumes "0 \<le> b" "b < 4" "0 \<le> c" "c < 25" "0 \<le> e" "e < 4"
  shows "leap_year (400 * a + 100 * b + 4 * c + e + 1) \<longleftrightarrow> e = 3 \<and> (c \<noteq> 24 \<or> b = 3)"
proof -
  let ?y = "400 * a + 100 * b + 4 * c + e + 1"
  have m4: "?y mod 4 = (e + 1) mod 4"
    using mod_mult_self2 [of "e + 1" 4 "100 * a + 25 * b + c"] by (simp add: algebra_simps)
  have m100: "?y mod 100 = (4 * c + (e + 1)) mod 100"
    using mod_mult_self2 [of "4 * c + (e + 1)" 100 "4 * a + b"] by (simp add: algebra_simps)
  have m400: "?y mod 400 = (100 * b + (4 * c + (e + 1))) mod 400"
    using mod_mult_self2 [of "100 * b + (4 * c + (e + 1))" 400 a] by (simp add: algebra_simps)
  show ?thesis
  proof (cases "e = 3")
    case False
    with assms have "(e + 1) mod 4 = e + 1" by (simp add: mod_pos_pos_trivial)
    with False assms m4 show ?thesis by (simp add: leap_year_def)
  next
    case e: True
    show ?thesis
    proof (cases "c = 24")
      case False
      with assms have "(4 * c + 4) mod 100 = 4 * c + 4" by (simp add: mod_pos_pos_trivial)
      with e False assms m4 m100 show ?thesis by (simp add: leap_year_def)
    next
      case c: True
      have "b = 0 \<or> b = 1 \<or> b = 2 \<or> b = 3" using assms by auto
      with e c m4 m100 m400 show ?thesis by (auto simp: leap_year_def)
    qed
  qed
qed

lemma split_years_days:
  assumes "0 \<le> t" and "t < (if leap_year y then 366 else 365)"
  shows "split_years (days_before_year y + t) = (y, t)"
proof -
  obtain a b c e where k: "y - 1 = 400 * a + 100 * b + 4 * c + e"
    and r: "0 \<le> b" "b < 4" "0 \<le> c" "c < 25" "0 \<le> e" "e < 4"
    using year_cycles [of "y - 1"] by blast
  have y: "y = 400 * a + 100 * b + 4 * c + e + 1" using k by simp
  have leap: "leap_year y \<longleftrightarrow> e = 3 \<and> (c \<noteq> 24 \<or> b = 3)"
    unfolding y by (rule cycles_leap [OF r])
  define z where "z = days_before_year y + t"
  have z: "z = 146097 * a + (36524 * b + (1461 * c + (365 * e + t)))"
    by (simp add: z_def days_before_year_def Let_def k cycles_divs [OF r])
  have t: "t \<le> 365" "t = 365 \<Longrightarrow> e = 3 \<and> (c \<noteq> 24 \<or> b = 3)"
    using assms leap by (auto split: if_splits)
  have s4: "0 \<le> 365 * e + t" "365 * e + t < 1461"
    using t r assms(1) by auto
  have s100: "0 \<le> 1461 * c + (365 * e + t)" "1461 * c + (365 * e + t) < 36524 + (if b = 3 then 1 else 0)"
  proof -
    show "0 \<le> 1461 * c + (365 * e + t)" using r assms(1) by simp
    show "1461 * c + (365 * e + t) < 36524 + (if b = 3 then 1 else 0)"
    proof (cases "c = 24")
      case True
      have "365 * e + t < 1460 + (if b = 3 then 1 else 0)"
      proof (cases "t = 365")
        case True
        with t(2) \<open>c = 24\<close> show ?thesis by simp
      next
        case False
        with t(1) have "t \<le> 364" by simp
        with r show ?thesis by simp
      qed
      with True show ?thesis by simp
    next
      case False
      with r s4 show ?thesis by simp
    qed
  qed
  have s400: "0 \<le> 36524 * b + (1461 * c + (365 * e + t))"
    "36524 * b + (1461 * c + (365 * e + t)) < 146097"
    using s100 r by (auto split: if_splits)
  have d400: "z div 146097 = a" "z mod 146097 = 36524 * b + (1461 * c + (365 * e + t))"
    unfolding z using s400 by (simp_all add: div_pos_pos_trivial mod_pos_pos_trivial)
  have d100: "min 3 ((36524 * b + (1461 * c + (365 * e + t))) div 36524) = b"
  proof (cases "1461 * c + (365 * e + t) < 36524")
    case True
    then have "(36524 * b + (1461 * c + (365 * e + t))) div 36524 = b"
      using s100(1) by (simp add: div_pos_pos_trivial)
    with r show ?thesis by simp
  next
    case False
    with s100 have "b = 3" "1461 * c + (365 * e + t) = 36524" by (auto split: if_splits)
    then show ?thesis by simp
  qed
  have m1461: "(365 * e + t) mod 1461 = 365 * e + t"
    using s4 by (simp add: mod_pos_pos_trivial)
  have d4: "(1461 * c + (365 * e + t)) div 1461 = c" "(1461 * c + (365 * e + t)) mod 1461 = 365 * e + t"
    using s4 by (simp_all add: div_pos_pos_trivial mod_pos_pos_trivial)
  have d1: "min 3 (e + t div 365) = e"
  proof (cases "t = 365")
    case True
    with t r show ?thesis by simp
  next
    case False
    then have "t div 365 = 0"
      using t(1) assms(1) by (simp add: div_pos_pos_trivial)
    with r show ?thesis by simp
  qed
  show ?thesis
    unfolding z_def [symmetric] split_years_def Let_def d400 d100
    by (simp add: d4 m1461 d1 y)
qed

lemma civil_date_day_number:
  "valid_date y m d \<Longrightarrow> civil_date (day_number y m d) = (y, m, d)"
  using split_years_days [OF year_day_bounds]
  by (simp add: civil_date_def day_number_def split_months_year_day)

section \<open>The layout 2006-01-02\<close>

definition pad_left :: "nat \<Rightarrow> string \<Rightarrow> string" where
  "pad_left n s = replicate (n - length s) (CHR ''0'') @ s"

definition day_length :: duration where
  "day_length = 24 * hour"

text \<open>\<open>t.Format("2006-01-02")\<close> of an instant in UTC; \<open>appendInt\<close> writes a sign before the padding.\<close>

definition append_int :: "nat \<Rightarrow> int \<Rightarrow> string" where
  "append_int width i =
     (if i < 0 then CHR ''-'' # pad_left width (nat_dec (nat (- i))) else pad_left width (nat_dec (nat i)))"

definition format_date :: "gotime \<Rightarrow> string" where
  "format_date t =
     (let (y, m, d) = civil_date (t div day_length)
      in append_int 4 y @ ''-'' @ append_int 2 m @ ''-'' @ append_int 2 d)"

definition bad_date :: gerror where
  "bad_date = LibError ''parsing time''"

text \<open>\<open>time.Parse("2006-01-02", value)\<close>: four digits, two, two, and a day that the month has.\<close>

definition parse_date :: "string \<Rightarrow> gerror + gotime" where
  "parse_date s =
     (if length s = 10 \<and> s ! 4 = CHR ''-'' \<and> s ! 7 = CHR ''-'' then
        (case (parse_nat (take 4 s), parse_nat (take 2 (drop 5 s)), parse_nat (drop 8 s)) of
           (Some y, Some m, Some d) \<Rightarrow>
             if valid_date (int y) (int m) (int d)
             then Inr (day_number (int y) (int m) (int d) * day_length)
             else Inl bad_date
         | _ \<Rightarrow> Inl bad_date)
      else Inl bad_date)"

lemma day_length_pos: "0 < day_length"
  by (simp add: day_length_def duration_defs)

lemma parse_date_midnight:
  assumes "parse_date s = Inr t"
  obtains y m d where "valid_date y m d" "t = day_number y m d * day_length" "0 \<le> y"
  using assms by (auto simp: parse_date_def split: if_splits option.splits)

lemma format_day_number:
  assumes "valid_date y m d" and "0 \<le> r" and "r < day_length"
  shows "format_date (day_number y m d * day_length + r) =
    append_int 4 y @ ''-'' @ append_int 2 m @ ''-'' @ append_int 2 d"
proof -
  have "(day_number y m d * day_length + r) div day_length = day_number y m d"
    using assms(2,3) day_length_pos by (simp add: div_pos_pos_trivial)
  with assms(1) show ?thesis by (simp add: format_date_def civil_date_day_number)
qed

section \<open>Reading and writing a date\<close>

lemma digit_value_Some: "digit_value c = Some k \<Longrightarrow> k < 10 \<and> c = digit k"
  by (auto simp: digit_value_def digit_def in_range_def split: if_splits)

lemma digit_0: "digit 0 = CHR ''0''"
  by code_simp

lemma pad_left_snoc: "pad_left (Suc n) (s @ [c]) = pad_left n s @ [c]"
  by (simp add: pad_left_def)

lemma nat_dec_digit: "n < 10 \<Longrightarrow> nat_dec n = [digit n]"
  by (subst nat_dec.simps) simp

lemma nat_dec_step: "0 < m \<Longrightarrow> k < 10 \<Longrightarrow> nat_dec (m * 10 + k) = nat_dec m @ [digit k]"
  by (subst nat_dec.simps) simp

text \<open>A row of digits is the number it reads as, padded to the row's length.\<close>

lemma pad_digits:
  assumes "digits_value 0 ds = Some n" and "ds \<noteq> []"
  shows "pad_left (length ds) (nat_dec n) = ds"
  using assms
proof (induction ds arbitrary: n rule: rev_induct)
  case (snoc c ds)
  obtain m k where m: "digits_value 0 ds = Some m" "digit_value c = Some k" "n = m * 10 + k"
    using snoc.prems(1) by (auto simp: digits_value_append split: option.splits)
  have k: "k < 10" "c = digit k" using digit_value_Some [OF m(2)] by auto
  show ?case
  proof (cases "m = 0")
    case True
    have "replicate (length ds) (CHR ''0'') = ds"
    proof (cases "ds = []")
      case False
      then obtain l where "length ds = Suc l" by (cases ds) auto
      with snoc.IH [OF m(1) False] True show ?thesis
        by (simp add: pad_left_def nat_dec_digit digit_0 flip: replicate_append_same)
    qed simp
    with True m(3) k show ?thesis by (simp add: nat_dec_digit pad_left_def)
  next
    case False
    then have "ds \<noteq> []" using m(1) by auto
    with snoc.IH [OF m(1)] False m(3) k show ?thesis by (simp add: nat_dec_step pad_left_snoc)
  qed
qed simp

lemma append_int_parse:
  assumes "parse_nat ds = Some n" and "length ds = width"
  shows "append_int width (int n) = ds"
  using assms pad_digits [of ds n] by (auto simp: append_int_def parse_nat_def split: if_splits)

lemma date_text_split:
  assumes "length s = 10" and "s ! 4 = c" and "s ! 7 = d"
  shows "take 4 s @ [c] @ take 2 (drop 5 s) @ [d] @ drop 8 s = s"
proof -
  have "s = take 4 s @ s ! 4 # drop 5 s" "drop 5 s = take 2 (drop 5 s) @ s ! 7 # drop 8 s"
    using assms(1) id_take_nth_drop [of 4 s] id_take_nth_drop [of 2 "drop 5 s"] by simp_all
  with assms(2,3) show ?thesis by simp
qed

lemma format_parse_date:
  assumes "parse_date s = Inr t"
  shows "format_date t = s"
proof -
  obtain y m d where p: "length s = 10" "s ! 4 = CHR ''-''" "s ! 7 = CHR ''-''"
      "parse_nat (take 4 s) = Some y" "parse_nat (take 2 (drop 5 s)) = Some m" "parse_nat (drop 8 s) = Some d"
      "valid_date (int y) (int m) (int d)" "t = day_number (int y) (int m) (int d) * day_length"
    using assms by (auto simp: parse_date_def split: if_splits option.splits)
  have "format_date (t + 0) = append_int 4 (int y) @ ''-'' @ append_int 2 (int m) @ ''-'' @ append_int 2 (int d)"
    unfolding p(8) by (rule format_day_number [OF p(7)]) (simp_all add: day_length_pos)
  also have "\<dots> = s"
    using append_int_parse [OF p(4)] append_int_parse [OF p(5)] append_int_parse [OF p(6)]
      date_text_split [OF p(1-3)] p(1) by simp
  finally show ?thesis by simp
qed

end
