(* ===== verification/Web_Admin.thy ===== *)
theory Web_Admin
  imports Web_Auth Web_Api Calendar
begin

text \<open>
  \<open>internal/web/admin.go\<close> and helpers.go: the dashboard's handlers. A path value of the route is an
  argument of its handler. Times of the store are in UTC, so the texts of a license view are those
  of the UTC calendar.
\<close>

section \<open>url.QueryEscape\<close>

definition unreserved :: "char \<Rightarrow> bool" where
  "unreserved c \<longleftrightarrow> in_range 97 122 c \<or> in_range 65 90 c \<or> in_range 48 57 c \<or> c \<in> set ''-_.~''"

definition upper_hex :: "nat \<Rightarrow> char" where
  "upper_hex n = ''0123456789ABCDEF'' ! n"

definition escape_char :: "char \<Rightarrow> string" where
  "escape_char c =
     (if unreserved c then [c] else if c = CHR '' '' then ''+''
      else [CHR ''%'', upper_hex (byte_val c div 16), upper_hex (byte_val c mod 16)])"

definition urlEscape :: "string \<Rightarrow> string" where
  "urlEscape s = concat (map escape_char s)"

definition encodedPublicKey :: "service \<Rightarrow> string" where
  "encodedPublicKey svc = EncodePublicKey (PublicKey svc)"

section \<open>Products\<close>

definition handleProductsList :: "server \<Rightarrow> handler" where
  "handleProductsList s r = do {
     p \<leftarrow> ListProducts;
     case p of
       Inl err \<Rightarrow> State_Monad.return (serverError err)
     | Inr ps \<Rightarrow> State_Monad.return (render s (ProductsPage ps))
   }"

definition handleProductCreate :: "server \<Rightarrow> handler" where
  "handleProductCreate s r =
     (let name = rq_form r ''name'' in
      if name = '''' then State_Monad.return (http_Redirect ''/products'')
      else do {
        c \<leftarrow> CreateProduct name;
        case c of
          Inl err \<Rightarrow> State_Monad.return (serverError err)
        | Inr p \<Rightarrow> State_Monad.return (http_Redirect (''/products/'' @ prod_id p))
      })"

definition toLicenseView :: "license \<Rightarrow> (gerror + license_view) program" where
  "toLicenseView l = do {
     c \<leftarrow> ActiveDeviceCount (lic_id l);
     case c of
       Inl err \<Rightarrow> fail err
     | Inr count \<Rightarrow> do {
         let expires = (case lic_expires_at l of None \<Rightarrow> ''never'' | Some t \<Rightarrow> format_date t);
         now \<leftarrow> time_Now;
         ok \<lparr>lv_license = l, lv_status_text = Status l now, lv_device_count = count,
             lv_expires_text = expires, lv_created_text = format_date (lic_created_at l)\<rparr>
       }
   }"

text \<open>The loop of \<open>handleProductDetail\<close>, which stops at the first error.\<close>

fun license_views :: "license list \<Rightarrow> license_view list \<Rightarrow> (gerror + license_view list) program" where
  "license_views [] views = ok views"
| "license_views (l # ls) views = do {
     v \<leftarrow> toLicenseView l;
     case v of Inl err \<Rightarrow> fail err | Inr x \<Rightarrow> license_views ls (views @ [x])
   }"

definition handleProductDetail :: "server \<Rightarrow> string \<Rightarrow> handler" where
  "handleProductDetail s i r = do {
     p \<leftarrow> GetProduct i;
     case p of
       Inl err \<Rightarrow>
         if errors_Is err ErrNotFound then State_Monad.return http_NotFound
         else State_Monad.return (serverError err)
     | Inr product \<Rightarrow> do {
         l \<leftarrow> ListLicenses i;
         case l of
           Inl err \<Rightarrow> State_Monad.return (serverError err)
         | Inr ls \<Rightarrow> do {
             vs \<leftarrow> license_views ls [];
             case vs of
               Inl err \<Rightarrow> State_Monad.return (serverError err)
             | Inr views \<Rightarrow> State_Monad.return (render s (ProductPage product views))
           }
       }
   }"

section \<open>Licenses\<close>

definition form_max_devices :: "string \<Rightarrow> int" where
  "form_max_devices raw =
     (case Atoi raw of Inl _ \<Rightarrow> 1 | Inr maxDevices \<Rightarrow> if maxDevices < 1 then 1 else maxDevices)"

definition form_expires_at :: "string \<Rightarrow> gotime option" where
  "form_expires_at raw =
     (if raw \<noteq> '''' then (case parse_date raw of Inl _ \<Rightarrow> None | Inr t \<Rightarrow> Some (t + 24 * hour))
      else None)"

definition handleLicenseCreate :: "server \<Rightarrow> string \<Rightarrow> handler" where
  "handleLicenseCreate s productID r = do {
     p \<leftarrow> GetProduct productID;
     case p of
       Inl err \<Rightarrow>
         if errors_Is err ErrNotFound then State_Monad.return http_NotFound
         else State_Monad.return (serverError err)
     | Inr _ \<Rightarrow> do {
         c \<leftarrow> CreateLicense
                \<lparr>clp_product_id = productID, clp_customer_name = rq_form r ''customer_name'',
                 clp_customer_email = rq_form r ''customer_email'',
                 clp_max_devices = form_max_devices (rq_form r ''max_devices''),
                 clp_expires_at = form_expires_at (rq_form r ''expires_at'')\<rparr>;
         case c of
           Inl err \<Rightarrow> State_Monad.return (serverError err)
         | Inr l \<Rightarrow> State_Monad.return (http_Redirect (''/licenses/'' @ lic_id l))
       }
   }"

definition handleLicenseDetail :: "server \<Rightarrow> string \<Rightarrow> handler" where
  "handleLicenseDetail s i r = do {
     g \<leftarrow> GetLicense i;
     case g of
       Inl err \<Rightarrow>
         if errors_Is err ErrNotFound then State_Monad.return http_NotFound
         else State_Monad.return (serverError err)
     | Inr l \<Rightarrow> do {
         d \<leftarrow> ListDevices i;
         case d of
           Inl err \<Rightarrow> State_Monad.return (serverError err)
         | Inr ds \<Rightarrow> do {
             v \<leftarrow> toLicenseView l;
             case v of
               Inl err \<Rightarrow> State_Monad.return (serverError err)
             | Inr view \<Rightarrow>
                 let raw = rq_query r ''offline_result''; result = (if raw \<noteq> '''' then Some raw else None)
                 in State_Monad.return (render s (LicensePage view ds result))
           }
       }
   }"

definition handleLicenseRevoke :: "server \<Rightarrow> string \<Rightarrow> handler" where
  "handleLicenseRevoke s i r = do {
     res \<leftarrow> RevokeLicense i;
     case res of
       Inl err \<Rightarrow>
         if \<not> errors_Is err ErrNotFound then State_Monad.return (serverError err)
         else State_Monad.return (http_Redirect (''/licenses/'' @ i))
     | Inr _ \<Rightarrow> State_Monad.return (http_Redirect (''/licenses/'' @ i))
   }"

definition handleDeviceDeactivate :: "server \<Rightarrow> string \<Rightarrow> string \<Rightarrow> handler" where
  "handleDeviceDeactivate s licenseID deviceID r = do {
     g \<leftarrow> GetLicense licenseID;
     case g of
       Inl err \<Rightarrow>
         if errors_Is err ErrNotFound then State_Monad.return http_NotFound
         else State_Monad.return (serverError err)
     | Inr l \<Rightarrow> do {
         d \<leftarrow> Deactivate (srv_licenses s) (lic_key l) deviceID;
         case d of
           Inl err \<Rightarrow>
             if \<not> errors_Is err ErrNotFound then State_Monad.return (serverError err)
             else State_Monad.return (http_Redirect (''/licenses/'' @ licenseID))
         | Inr _ \<Rightarrow> State_Monad.return (http_Redirect (''/licenses/'' @ licenseID))
       }
   }"

definition offline_redirect :: "string \<Rightarrow> string \<Rightarrow> response" where
  "offline_redirect licenseID msg =
     http_Redirect (''/licenses/'' @ licenseID @ ''?offline_result='' @ urlEscape msg)"

definition offline_error_message :: "gerror \<Rightarrow> string" where
  "offline_error_message err =
     (if errors_Is err ErrDeviceLimit then ''device limit reached for this license''
      else if errors_Is err ErrLicenseStatus then ''license is not active''
      else ''could not issue offline activation'')"

definition handleLicenseOfflineActivate :: "platform \<Rightarrow> web_json \<Rightarrow> server \<Rightarrow> string \<Rightarrow> handler" where
  "handleLicenseOfflineActivate P J s licenseID r = do {
     g \<leftarrow> GetLicense licenseID;
     case g of
       Inl err \<Rightarrow>
         if errors_Is err ErrNotFound then State_Monad.return http_NotFound
         else State_Monad.return (serverError err)
     | Inr l \<Rightarrow>
         let bad = State_Monad.return (offline_redirect licenseID
                     ''invalid request file: could not find a device_id field'')
         in case unmarshal_offline J (rq_form r ''request_json'') of
           Inl err \<Rightarrow> bad
         | Inr req \<Rightarrow>
             if off_device_id req = '''' then bad
             else do {
               a \<leftarrow> OfflineActivate P (srv_licenses s) (lic_key l) (off_device_id req)
                      (off_device_name req);
               case a of
                 Inl err \<Rightarrow>
                   State_Monad.return (offline_redirect licenseID (offline_error_message err))
               | Inr env \<Rightarrow>
                   (case indent_envelope J env of
                      Inl err \<Rightarrow> State_Monad.return (serverError err)
                    | Inr out \<Rightarrow> State_Monad.return (offline_redirect licenseID out))
             }
   }"

section \<open>Settings\<close>

definition handleSettings :: "server \<Rightarrow> handler" where
  "handleSettings s r = renderSettings s ''''"

definition handleWebhookSettings :: "server \<Rightarrow> handler" where
  "handleWebhookSettings s r = do {
     u \<leftarrow> SetSetting ''webhook_url'' (rq_form r ''webhook_url'');
     case u of
       Inl err \<Rightarrow> State_Monad.return (serverError err)
     | Inr _ \<Rightarrow> do {
         k \<leftarrow> SetSetting ''webhook_secret'' (rq_form r ''webhook_secret'');
         case k of
           Inl err \<Rightarrow> State_Monad.return (serverError err)
         | Inr _ \<Rightarrow> State_Monad.return (http_Redirect ''/settings'')
       }
   }"

end
