(* ===== verification/Web_Server.thy ===== *)
theory Web_Server
  imports Web_Admin
begin

text \<open>
  \<open>internal/web/server.go\<close>: the routes, and what the server answers to a request. A path is the
  list of its segments, already cleaned and unescaped as \<open>http.ServeMux\<close> hands it on, so \<open>[]\<close> is
  the root and a trailing slash is a last segment that is empty. A pattern for \<open>GET\<close> matches \<open>HEAD\<close>
  as well, a wildcard matches one segment that is not empty, and a path that is known under other
  methods only is answered with 405. The files under \<open>static/\<close> are served by \<open>http.FileServerFS\<close>,
  a parameter.
\<close>

datatype route =
    APIActivate
  | APIValidate
  | APIDeactivate
  | APIPubkey
  | Healthz
  | Setup
  | Login
  | Logout
  | Home
  | ProductsList
  | ProductCreate
  | ProductDetail string
  | LicenseCreate string
  | LicenseDetail string
  | LicenseRevoke string
  | LicenseOfflineActivate string
  | DeviceDeactivate string string
  | SettingsShow
  | WebhookSettings
  | ChangePassword
  | Static

text \<open>The registered patterns: a method and segments, \<open>None\<close> being a wildcard.\<close>

datatype pattern =
    Exactly string "string option list"
  | Below string string

definition routes :: "(pattern \<times> (string list \<Rightarrow> route)) list" where
  "routes =
    [(Exactly ''POST'' [Some ''v1'', Some ''activate''], \<lambda>_. APIActivate),
     (Exactly ''POST'' [Some ''v1'', Some ''validate''], \<lambda>_. APIValidate),
     (Exactly ''POST'' [Some ''v1'', Some ''deactivate''], \<lambda>_. APIDeactivate),
     (Exactly ''GET'' [Some ''v1'', Some ''pubkey''], \<lambda>_. APIPubkey),
     (Exactly ''GET'' [Some ''healthz''], \<lambda>_. Healthz),
     (Exactly ''GET'' [Some ''setup''], \<lambda>_. Setup),
     (Exactly ''POST'' [Some ''setup''], \<lambda>_. Setup),
     (Exactly ''GET'' [Some ''login''], \<lambda>_. Login),
     (Exactly ''POST'' [Some ''login''], \<lambda>_. Login),
     (Exactly ''POST'' [Some ''logout''], \<lambda>_. Logout),
     (Exactly ''GET'' [], \<lambda>_. Home),
     (Exactly ''GET'' [Some ''products''], \<lambda>_. ProductsList),
     (Exactly ''POST'' [Some ''products''], \<lambda>_. ProductCreate),
     (Exactly ''GET'' [Some ''products'', None], \<lambda>v. ProductDetail (v ! 0)),
     (Exactly ''POST'' [Some ''products'', None, Some ''licenses''], \<lambda>v. LicenseCreate (v ! 0)),
     (Exactly ''GET'' [Some ''licenses'', None], \<lambda>v. LicenseDetail (v ! 0)),
     (Exactly ''POST'' [Some ''licenses'', None, Some ''revoke''], \<lambda>v. LicenseRevoke (v ! 0)),
     (Exactly ''POST'' [Some ''licenses'', None, Some ''offline-activate''],
        \<lambda>v. LicenseOfflineActivate (v ! 0)),
     (Exactly ''POST'' [Some ''licenses'', None, Some ''devices'', None, Some ''deactivate''],
        \<lambda>v. DeviceDeactivate (v ! 0) (v ! 1)),
     (Exactly ''GET'' [Some ''settings''], \<lambda>_. SettingsShow),
     (Exactly ''POST'' [Some ''settings'', Some ''webhook''], \<lambda>_. WebhookSettings),
     (Exactly ''POST'' [Some ''settings'', Some ''password''], \<lambda>_. ChangePassword),
     (Below ''GET'' ''static'', \<lambda>_. Static)]"

definition method_matches :: "string \<Rightarrow> string \<Rightarrow> bool" where
  "method_matches m method \<longleftrightarrow> method = m \<or> (m = ''GET'' \<and> method = ''HEAD'')"

text \<open>The values of the wildcards where the segments match.\<close>

fun match_segments :: "string option list \<Rightarrow> string list \<Rightarrow> string list option" where
  "match_segments [] [] = Some []"
| "match_segments (Some x # ps) (seg # segs) = (if seg = x then match_segments ps segs else None)"
| "match_segments (None # ps) (seg # segs) =
     (if seg = '''' then None else map_option ((#) seg) (match_segments ps segs))"
| "match_segments _ _ = None"

definition match_path :: "pattern \<Rightarrow> string list \<Rightarrow> string list option" where
  "match_path p path =
     (case p of
        Exactly _ segs \<Rightarrow> match_segments segs path
      | Below _ x \<Rightarrow> (case path of seg # _ # _ \<Rightarrow> if seg = x then Some [] else None | _ \<Rightarrow> None))"

definition pattern_method :: "pattern \<Rightarrow> string" where
  "pattern_method p = (case p of Exactly m _ \<Rightarrow> m | Below m _ \<Rightarrow> m)"

text \<open>No two patterns of the table match the same request, so the first match is the only one.\<close>

fun find_route :: "(pattern \<times> (string list \<Rightarrow> route)) list \<Rightarrow> string \<Rightarrow> string list \<Rightarrow> route option" where
  "find_route [] method path = None"
| "find_route ((p, f) # rs) method path =
     (case match_path p path of
        Some v \<Rightarrow> if method_matches (pattern_method p) method then Some (f v)
                  else find_route rs method path
      | None \<Rightarrow> find_route rs method path)"

definition path_known :: "string list \<Rightarrow> bool" where
  "path_known path \<longleftrightarrow> list_ex (\<lambda>(p, f). match_path p path \<noteq> None) routes"

text \<open>The pages that \<open>routes\<close> wraps in \<open>requireAuth\<close>.\<close>

fun dashboard :: "platform \<Rightarrow> web_json \<Rightarrow> bcrypt \<Rightarrow> server \<Rightarrow> route \<Rightarrow> handler option" where
  "dashboard P J B s Home = Some (\<lambda>r. State_Monad.return handleHome)"
| "dashboard P J B s ProductsList = Some (handleProductsList s)"
| "dashboard P J B s ProductCreate = Some (handleProductCreate s)"
| "dashboard P J B s (ProductDetail i) = Some (handleProductDetail s i)"
| "dashboard P J B s (LicenseCreate i) = Some (handleLicenseCreate s i)"
| "dashboard P J B s (LicenseDetail i) = Some (handleLicenseDetail s i)"
| "dashboard P J B s (LicenseRevoke i) = Some (handleLicenseRevoke s i)"
| "dashboard P J B s (LicenseOfflineActivate i) = Some (handleLicenseOfflineActivate P J s i)"
| "dashboard P J B s (DeviceDeactivate i x) = Some (handleDeviceDeactivate s i x)"
| "dashboard P J B s SettingsShow = Some (handleSettings s)"
| "dashboard P J B s WebhookSettings = Some (handleWebhookSettings s)"
| "dashboard P J B s ChangePassword = Some (handleChangePassword B s)"
| "dashboard P J B s _ = None"

definition dispatch ::
  "platform \<Rightarrow> web_json \<Rightarrow> bcrypt \<Rightarrow> handler \<Rightarrow> server \<Rightarrow> route \<Rightarrow> handler" where
  "dispatch P J B static s rt =
     (case dashboard P J B s rt of
        Some h \<Rightarrow> requireAuth h
      | None \<Rightarrow>
          (case rt of
             APIActivate \<Rightarrow> handleAPIActivate P J s
           | APIValidate \<Rightarrow> handleAPIValidate P J s
           | APIDeactivate \<Rightarrow> handleAPIDeactivate J s
           | APIPubkey \<Rightarrow> (\<lambda>r. State_Monad.return (handleAPIPubkey s))
           | Healthz \<Rightarrow> (\<lambda>r. State_Monad.return handleHealthz)
           | Setup \<Rightarrow> handleSetup B s
           | Login \<Rightarrow> handleLogin B s
           | Logout \<Rightarrow> handleLogout s
           | _ \<Rightarrow> static))"

definition ServeHTTP ::
  "platform \<Rightarrow> web_json \<Rightarrow> bcrypt \<Rightarrow> handler \<Rightarrow> server \<Rightarrow> handler" where
  "ServeHTTP P J B static s r =
     (case find_route routes (rq_method r) (rq_path r) of
        Some rt \<Rightarrow> dispatch P J B static s rt r
      | None \<Rightarrow>
          if path_known (rq_path r)
          then State_Monad.return (respond 405 (PlainText (''Method Not Allowed'' @ [CHR 0x0A])))
          else State_Monad.return http_NotFound)"

text \<open>The answers to a sequence of requests, one at a time.\<close>

fun serve_requests :: "handler \<Rightarrow> http_request list \<Rightarrow> response list program" where
  "serve_requests h [] = State_Monad.return []"
| "serve_requests h (r # rs) = do {
     p \<leftarrow> h r;
     ps \<leftarrow> serve_requests h rs;
     State_Monad.return (p # ps)
   }"

text \<open>The endpoints that a client calls.\<close>

lemma ServeHTTP_activate:
  assumes "rq_method r = ''POST''" and "rq_path r = [''v1'', ''activate'']"
  shows "ServeHTTP P J B static s r = handleAPIActivate P J s r"
proof -
  have "find_route routes ''POST'' [''v1'', ''activate''] = Some APIActivate"
    by (simp add: routes_def match_path_def pattern_method_def method_matches_def)
  with assms show ?thesis by (simp add: ServeHTTP_def dispatch_def)
qed

lemma ServeHTTP_pubkey:
  assumes "rq_method r = ''GET''" and "rq_path r = [''v1'', ''pubkey'']"
  shows "ServeHTTP P J B static s r = State_Monad.return (handleAPIPubkey s)"
proof -
  have "find_route routes ''GET'' [''v1'', ''pubkey''] = Some APIPubkey"
    by (simp add: routes_def match_path_def pattern_method_def method_matches_def)
  with assms show ?thesis by (simp add: ServeHTTP_def dispatch_def)
qed

lemma ServeHTTP_validate:
  assumes "rq_method r = ''POST''" and "rq_path r = [''v1'', ''validate'']"
  shows "ServeHTTP P J B static s r = handleAPIValidate P J s r"
proof -
  have "find_route routes ''POST'' [''v1'', ''validate''] = Some APIValidate"
    by (simp add: routes_def match_path_def pattern_method_def method_matches_def)
  with assms show ?thesis by (simp add: ServeHTTP_def dispatch_def)
qed

lemma ServeHTTP_deactivate:
  assumes "rq_method r = ''POST''" and "rq_path r = [''v1'', ''deactivate'']"
  shows "ServeHTTP P J B static s r = handleAPIDeactivate J s r"
proof -
  have "find_route routes ''POST'' [''v1'', ''deactivate''] = Some APIDeactivate"
    by (simp add: routes_def match_path_def pattern_method_def method_matches_def)
  with assms show ?thesis by (simp add: ServeHTTP_def dispatch_def)
qed

end
