(* ===== verification/Licensing.thy ===== *)
theory Licensing
  imports Service
begin

text \<open>
  The correctness of \<open>internal/license\<close>. The specification is a machine on the set of seats alone:
  who holds one, how many a license has, and what activating, validating and deactivating mean.
  The programs of the service refine it while the driver works; whatever the driver does, they
  keep the invariant of the database, and so the seat limit.
\<close>

section \<open>What the service relies on of its notifier\<close>

locale quiet_notifier =
  fixes nf :: notifier
  assumes quiet: "\<exists>f p. snd (run_state (nf e n) w) = w\<lparr>faults := f, spawned := p\<rparr> \<and>
      (healthy w \<longrightarrow> f = faults w)"
begin

lemma run_quiet:
  obtains f p where "run_state (nf e n) w = ((), w\<lparr>faults := f, spawned := p\<rparr>)"
    "healthy w \<Longrightarrow> f = faults w"
  using quiet [of e n w] by (metis (full_types) old.unit.exhaust prod.collapse)

lemma db_kept: "db (snd (run_state (nf e n) w)) = db w"
  using run_quiet [of e n w] by (metis snd_conv world.select_convs(1) world.surjective world.update_convs(2) world.update_convs(6))

lemma keeps_db: "keeps (\<lambda>w. Q (db w)) (nf e n)"
  by (rule tripleI) (metis db_kept snd_conv)

lemma healthy_kept: "healthy w \<Longrightarrow> healthy (snd (run_state (nf e n) w))"
  using run_quiet [of e n w] by (metis healthy_update(6) snd_conv)

lemma clock_kept: "clock (snd (run_state (nf e n) w)) = clock w"
  using run_quiet [of e n w] by (metis snd_conv world.select_convs(3) world.surjective world.update_convs(2) world.update_convs(6))

end

interpretation noop_notifier: quiet_notifier noop_Notify
  by unfold_locales (simp add: noop_Notify_def, metis world.surjective world.update_convs(2,6))

section \<open>The abstract licensing machine\<close>

type_synonym seat_set = "(string \<times> string) set"

definition abs_count :: "string \<Rightarrow> seat_set \<Rightarrow> int" where
  "abs_count l S = int (card {x. (l, x) \<in> S})"

definition abs_activate ::
  "license option \<Rightarrow> gotime \<Rightarrow> string \<Rightarrow> seat_set \<Rightarrow> (gerror + license \<times> int) \<times> seat_set" where
  "abs_activate found now x S =
     (case found of
        None \<Rightarrow> (Inl ErrNotFound, S)
      | Some lic \<Rightarrow>
          if Status lic now \<noteq> ''active'' then (Inl (status_error (Status lic now)), S)
          else if (lic_id lic, x) \<in> S then (Inr (lic, abs_count (lic_id lic) S), S)
          else if lic_max_devices lic \<le> abs_count (lic_id lic) S then (Inl ErrDeviceLimit, S)
          else (Inr (lic, abs_count (lic_id lic) S + 1), insert (lic_id lic, x) S))"

definition abs_validate ::
  "license option \<Rightarrow> gotime \<Rightarrow> string \<Rightarrow> seat_set \<Rightarrow> (gerror + license \<times> int) \<times> seat_set" where
  "abs_validate found now x S =
     (case found of
        None \<Rightarrow> (Inl ErrNotFound, S)
      | Some lic \<Rightarrow>
          if Status lic now \<noteq> ''active'' then (Inl (status_error (Status lic now)), S)
          else if (lic_id lic, x) \<in> S then (Inr (lic, abs_count (lic_id lic) S), S)
          else (Inl ErrNotFound, S))"

definition abs_deactivate ::
  "license option \<Rightarrow> string \<Rightarrow> seat_set \<Rightarrow> (gerror + unit) \<times> seat_set" where
  "abs_deactivate found x S =
     (case found of
        None \<Rightarrow> (Inl ErrNotFound, S)
      | Some lic \<Rightarrow>
          if (lic_id lic, x) \<in> S then (Inr (), S - {(lic_id lic, x)}) else (Inl ErrNotFound, S))"

lemmas abs_defs = abs_activate_def abs_validate_def abs_deactivate_def

text \<open>The answer that the service gives for a verdict of the machine.\<close>

definition answer ::
  "platform \<Rightarrow> service \<Rightarrow> string \<Rightarrow> gotime \<Rightarrow> bool \<Rightarrow> gerror + license \<times> int \<Rightarrow> gerror + envelope" where
  "answer P s x now offline v =
     (case v of Inl e \<Rightarrow> Inl e | Inr (lic, n) \<Rightarrow> sign P s lic x n now offline)"

lemma answer_simps [simp]:
  "answer P s x now off (Inl e) = Inl e"
  "answer P s x now off (Inr (lic, n)) = sign P s lic x n now off"
  by (simp_all add: answer_def)

section \<open>Refinement\<close>

lemma seat_count_abs: "db_ok d \<Longrightarrow> seat_count l d = abs_count l (seats d)"
  by (simp add: abs_count_def seat_count_card db_ok_def keys_ok_def)

text \<open>Taking a seat, from the insert to the notification.\<close>

lemma license_row_exists:
  "license_by_key key d = Some lic \<Longrightarrow> lic_id lic \<in> row_id ` set (licenses d)"
  using license_by_key_row [of key d lic] by force

lemma license_seat_free:
  "license_by_key key d = Some lic \<Longrightarrow> seat_count (lic_id lic) d < lic_max_devices lic \<Longrightarrow>
    seat_free lic d"
  using license_by_key_row [of key d lic] by (auto simp: seat_free_def)

lemma run_take_new:
  assumes h: "healthy w" and ok: "db_ok (db w)" and q: "quiet_notifier (svc_notifier s)"
    and key: "license_by_key key (db w) = Some lic"
    and room: "seat_count (lic_id lic) (db w) < lic_max_devices lic"
  obtains w' n w0 where
    "run_state (take_or_touch s lic x name (Inl ErrNotFound)) w = (Inr (), w')"
    "w' = snd (run_state (svc_notifier s ''activation'' n) w0)" "spawned w0 = spawned w"
    "db w0 = db w'" "healthy w0"
    "n_event n = ''activation''" "n_license_key n = lic_key lic" "n_device_id n = x"
    "healthy w'" "db_ok (db w')" "seats (db w') = insert (lic_id lic, x) (seats (db w))"
    "licenses (db w') = licenses (db w)" "settings (db w') = settings (db w)"
proof -
  let ?dev = "new_device (lic_id lic) x name (shd (clock w))"
  obtain i d' where up: "sql_upsert_device ?dev (db w) = Inr (i, d')"
    using sql_upsert_device_total [OF license_row_exists [OF key]] by blast
  obtain r where r: "r \<in> set (licenses (db w))" "row_id r = lic_id lic"
      "row_max_devices r = lic_max_devices lic"
    using license_by_key_row [OF key] by blast
  have ok': "db_ok d'"
    using upsert_device_ok [OF ok up r(1)] r room by simp
  have fields: "licenses d' = licenses (db w)" "settings d' = settings (db w)"
    using up by (cases rule: sql_upsert_device_cases; simp)+
  define w0 where "w0 = w\<lparr>db := d', clock := stl (stl (clock w))\<rparr>"
  define n where "n = \<lparr>n_event = ''activation'', n_license_key = lic_key lic,
    n_product = lic_product_name lic, n_customer_name = lic_customer_name lic,
    n_device_id = x, n_timestamp = shd (stl (clock w))\<rparr>"
  define w' where "w' = snd (run_state (svc_notifier s ''activation'' n) w0)"
  have run: "run_state (take_or_touch s lic x name (Inl ErrNotFound)) w = (Inr (), w')"
    using room h
    by (simp add: take_or_touch_def run_ActiveDeviceCount run_ActivateDevice [OF h up] notify_def
        case_prod_unfold w'_def w0_def n_def)
  show thesis
  proof (rule that [OF run w'_def])
    show "db w0 = db w'" "healthy w'" "db_ok (db w')"
      using h ok' fields unfolding w'_def
      by (simp_all add: quiet_notifier.db_kept [OF q] quiet_notifier.healthy_kept [OF q] w0_def)
    show "seats (db w') = insert (lic_id lic, x) (seats (db w))"
      "licenses (db w') = licenses (db w)" "settings (db w') = settings (db w)"
      using sql_upsert_device_seats [OF up] fields unfolding w'_def
      by (simp_all add: quiet_notifier.db_kept [OF q] w0_def)
  qed (use h fields in \<open>simp_all add: w0_def n_def\<close>)
qed

lemma run_touch_held:
  "healthy w \<Longrightarrow> active_device (lic_id lic) x (db w) = Some r \<Longrightarrow>
    run_state (take_or_touch s lic x name (Inr r)) w =
      (Inr (), w\<lparr>clock := stl (clock w), db := touched (shd (clock w)) (dev_id r) (db w)\<rparr>)"
  by (simp add: take_or_touch_def run_TouchDevice)

lemma db_ok_touched: "db_ok d \<Longrightarrow> db_ok (touched t i d)"
  by (rule touch_device_ok [OF _ sql_touch_touched])

lemma run_activate_abs:
  assumes h: "healthy w" and ok: "db_ok (db w)" and q: "quiet_notifier (svc_notifier s)"
    and run: "run_state (activate P s key x name off) w = (r, w')"
  shows "(r, seats (db w')) =
      apfst (answer P s x (shd (clock w)) off)
        (abs_activate (license_by_key key (db w)) (shd (clock w)) x (seats (db w)))
    \<and> db_ok (db w') \<and> healthy w'"
proof (cases "license_by_key key (db w)")
  case None
  with h run ok show ?thesis
    by (auto simp: activate_def run_GetLicenseByKey abs_activate_def)
next
  case (Some lic)
  let ?w1 = "w\<lparr>clock := stl (clock w)\<rparr>"
  let ?now = "shd (clock w)"
  note count = seat_count_abs [OF ok]
  have h1: "healthy ?w1" using h by simp
  show ?thesis
  proof (cases "Status lic ?now = ''active''")
    case False
    with h run ok Some show ?thesis
      by (auto simp: activate_def run_GetLicenseByKey abs_activate_def)
  next
    case active: True
    show ?thesis
    proof (cases "active_device (lic_id lic) x (db w)")
      case held: (Some dev)
      then have "(lic_id lic, x) \<in> seats (db w)" using active_device_Some by blast
      with h run ok Some active held show ?thesis
        by (auto simp: activate_def run_GetLicenseByKey run_GetActiveDevice run_touch_held
            run_ActiveDeviceCount abs_activate_def count db_ok_touched)
    next
      case None
      then have new: "(lic_id lic, x) \<notin> seats (db w)" by (simp add: active_device_None_iff)
      show ?thesis
      proof (cases "seat_count (lic_id lic) (db w) < lic_max_devices lic")
        case full: False
        with h run ok Some active None new show ?thesis
          by (auto simp: activate_def run_GetLicenseByKey run_GetActiveDevice take_or_touch_def
              run_ActiveDeviceCount abs_activate_def count)
      next
        case room: True
        obtain w2 n w0 where t: "run_state (take_or_touch s lic x name (Inl ErrNotFound)) ?w1 = (Inr (), w2)"
            "healthy w2" "db_ok (db w2)" "seats (db w2) = insert (lic_id lic, x) (seats (db w))"
          using run_take_new [OF h1, of s key lic x name] ok q Some room by auto
        have "{y. (lic_id lic, y) \<in> seats (db w2)} = insert x {y. (lic_id lic, y) \<in> seats (db w)}"
          using t(4) by auto
        then have "seat_count (lic_id lic) (db w2) = abs_count (lic_id lic) (seats (db w)) + 1"
          using new finite_seats [of "lic_id lic" "db w"]
          by (simp add: seat_count_abs [OF t(3)] abs_count_def)
        with h run ok Some active None new room t show ?thesis
          by (auto simp: activate_def run_GetLicenseByKey run_GetActiveDevice
              run_ActiveDeviceCount abs_activate_def count)
      qed
    qed
  qed
qed

lemma run_Validate_abs:
  assumes h: "healthy w" and ok: "db_ok (db w)"
    and run: "run_state (Validate P s key x) w = (r, w')"
  shows "(r, seats (db w')) =
      apfst (answer P s x (shd (clock w)) False)
        (abs_validate (license_by_key key (db w)) (shd (clock w)) x (seats (db w)))
    \<and> db_ok (db w') \<and> healthy w'"
proof (cases "license_by_key key (db w)")
  case None
  with h run ok show ?thesis
    by (auto simp: Validate_def run_GetLicenseByKey abs_validate_def)
next
  case (Some lic)
  note count = seat_count_abs [OF ok]
  show ?thesis
  proof (cases "active_device (lic_id lic) x (db w)")
    case None
    then have "(lic_id lic, x) \<notin> seats (db w)" by (simp add: active_device_None_iff)
    with h run ok Some None show ?thesis
      by (auto simp: Validate_def run_GetLicenseByKey run_GetActiveDevice abs_validate_def
          split: if_splits)
  next
    case held: (Some dev)
    then have "(lic_id lic, x) \<in> seats (db w)" using active_device_Some by blast
    with h run ok Some held show ?thesis
      by (auto simp: Validate_def run_GetLicenseByKey run_GetActiveDevice run_TouchDevice
          run_ActiveDeviceCount abs_validate_def count db_ok_touched split: if_splits)
  qed
qed

lemma run_free_held:
  assumes h: "healthy w" and ok: "db_ok (db w)" and q: "quiet_notifier (svc_notifier s)"
    and key: "license_by_key key (db w) = Some lic" and held: "(lic_id lic, x) \<in> seats (db w)"
  obtains w' n w0 where
    "run_state (Deactivate s key x) w = (Inr (), w')"
    "w' = snd (run_state (svc_notifier s ''deactivation'' n) w0)" "spawned w0 = spawned w"
    "db w0 = db w'" "healthy w0"
    "n_event n = ''deactivation''" "n_license_key n = lic_key lic" "n_device_id n = x"
    "healthy w'" "db_ok (db w')" "seats (db w') = seats (db w) - {(lic_id lic, x)}"
    "licenses (db w') = licenses (db w)" "settings (db w') = settings (db w)"
proof -
  obtain m d' where up: "sql_deactivate_device (shd (clock w)) (lic_id lic) x (db w) = Inr (m, d')"
    by (rule sql_deactivate_device_total)
  have fields: "licenses d' = licenses (db w)" "settings d' = settings (db w)"
    using up by (auto simp: sql_deactivate_device_def Let_def)
  have "m \<noteq> 0" using sql_deactivate_device_value [OF up] held by simp
  define w0 where "w0 = w\<lparr>db := d', clock := stl (stl (clock w))\<rparr>"
  define n where "n = \<lparr>n_event = ''deactivation'', n_license_key = lic_key lic,
    n_product = lic_product_name lic, n_customer_name = lic_customer_name lic,
    n_device_id = x, n_timestamp = shd (stl (clock w))\<rparr>"
  define w' where "w' = snd (run_state (svc_notifier s ''deactivation'' n) w0)"
  have run: "run_state (Deactivate s key x) w = (Inr (), w')"
    using h key \<open>m \<noteq> 0\<close>
    by (simp add: Deactivate_def run_GetLicenseByKey run_DeactivateDevice [OF h up] notify_def
        case_prod_unfold w'_def w0_def n_def)
  show thesis
  proof (rule that [OF run w'_def])
    show "db w0 = db w'" "healthy w'" "db_ok (db w')"
      using h deactivate_device_ok [OF ok up] fields unfolding w'_def
      by (simp_all add: quiet_notifier.db_kept [OF q] quiet_notifier.healthy_kept [OF q] w0_def)
    show "seats (db w') = seats (db w) - {(lic_id lic, x)}"
      "licenses (db w') = licenses (db w)" "settings (db w') = settings (db w)"
      using sql_deactivate_device_seats [OF up] fields unfolding w'_def
      by (simp_all add: quiet_notifier.db_kept [OF q] w0_def)
  qed (use h fields in \<open>simp_all add: w0_def n_def\<close>)
qed

lemma run_Deactivate_abs:
  assumes h: "healthy w" and ok: "db_ok (db w)" and q: "quiet_notifier (svc_notifier s)"
    and run: "run_state (Deactivate s key x) w = (r, w')"
  shows "(r, seats (db w')) = abs_deactivate (license_by_key key (db w)) x (seats (db w))
    \<and> db_ok (db w') \<and> healthy w'"
proof (cases "license_by_key key (db w)")
  case None
  with h run ok show ?thesis
    by (auto simp: Deactivate_def run_GetLicenseByKey abs_deactivate_def)
next
  case (Some lic)
  show ?thesis
  proof (cases "(lic_id lic, x) \<in> seats (db w)")
    case False
    obtain n d' where up: "sql_deactivate_device (shd (clock w)) (lic_id lic) x (db w) = Inr (n, d')"
      by (rule sql_deactivate_device_total)
    have "n = 0" "d' = db w"
      using False sql_deactivate_device_value [OF up] sql_deactivate_device_none up by auto
    with False Some h run ok show ?thesis
      by (auto simp: Deactivate_def run_GetLicenseByKey run_DeactivateDevice [OF h up]
          abs_deactivate_def)
  next
    case True
    obtain w2 where "run_state (Deactivate s key x) w = (Inr (), w2)" "healthy w2" "db_ok (db w2)"
        "seats (db w2) = seats (db w) - {(lic_id lic, x)}"
      using run_free_held [OF h ok q Some True] by metis
    with True Some run show ?thesis by (simp add: abs_deactivate_def)
  qed
qed

section \<open>Requests, one after another\<close>

datatype request =
    RActivate string string string
  | ROffline string string string
  | RValidate string string
  | RDeactivate string string

text \<open>What a request returns: an envelope, an error, or nothing for \<open>Deactivate\<close>.\<close>

definition serve :: "platform \<Rightarrow> service \<Rightarrow> request \<Rightarrow> (gerror + envelope option) program" where
  "serve P s q =
     (case q of
        RActivate key x name \<Rightarrow> do { r \<leftarrow> Activate P s key x name; State_Monad.return (map_sum id Some r) }
      | ROffline key x name \<Rightarrow> do { r \<leftarrow> OfflineActivate P s key x name; State_Monad.return (map_sum id Some r) }
      | RValidate key x \<Rightarrow> do { r \<leftarrow> Validate P s key x; State_Monad.return (map_sum id Some r) }
      | RDeactivate key x \<Rightarrow> do { r \<leftarrow> Deactivate s key x; State_Monad.return (map_sum id (\<lambda>_. None) r) })"

text \<open>The same request on the abstract machine, which looks licenses up in a fixed database.\<close>

definition abs_serve ::
  "platform \<Rightarrow> service \<Rightarrow> (string \<Rightarrow> license option) \<Rightarrow> gotime \<Rightarrow> request \<Rightarrow> seat_set \<Rightarrow>
     (gerror + envelope option) \<times> seat_set" where
  "abs_serve P s find_lic now q S =
     (case q of
        RActivate key x _ \<Rightarrow>
          apfst (map_sum id Some \<circ> answer P s x now False) (abs_activate (find_lic key) now x S)
      | ROffline key x _ \<Rightarrow>
          apfst (map_sum id Some \<circ> answer P s x now True) (abs_activate (find_lic key) now x S)
      | RValidate key x \<Rightarrow>
          apfst (map_sum id Some \<circ> answer P s x now False) (abs_validate (find_lic key) now x S)
      | RDeactivate key x \<Rightarrow>
          apfst (map_sum id (\<lambda>_. None)) (abs_deactivate (find_lic key) x S))"

lemma run_map_result:
  "run_state (State_Monad.bind m (\<lambda>r. State_Monad.return (g r))) w =
    (g (fst (run_state m w)), snd (run_state m w))"
  by (simp add: case_prod_unfold)

lemma serve_abs:
  assumes h: "healthy w" and ok: "db_ok (db w)" and q: "quiet_notifier (svc_notifier s)"
  shows "(fst (run_state (serve P s rq) w), seats (db (snd (run_state (serve P s rq) w)))) =
      abs_serve P s (\<lambda>key. license_by_key key (db w)) (shd (clock w)) rq (seats (db w))
    \<and> db_ok (db (snd (run_state (serve P s rq) w))) \<and> healthy (snd (run_state (serve P s rq) w))"
proof (cases rq)
  case (RActivate key x name)
  with run_activate_abs [OF h ok q, of P key x name False] show ?thesis
    by (simp add: serve_def abs_serve_def run_map_result Activate_def case_prod_unfold)
      (metis (no_types, lifting) apfst_conv comp_apply fst_conv prod.collapse snd_conv)
next
  case (ROffline key x name)
  with run_activate_abs [OF h ok q, of P key x name True] show ?thesis
    by (simp add: serve_def abs_serve_def run_map_result OfflineActivate_def case_prod_unfold)
      (metis (no_types, lifting) apfst_conv comp_apply fst_conv prod.collapse snd_conv)
next
  case (RValidate key x)
  with run_Validate_abs [OF h ok, of P s key x] show ?thesis
    by (simp add: serve_def abs_serve_def run_map_result case_prod_unfold)
      (metis (no_types, lifting) apfst_conv comp_apply fst_conv prod.collapse snd_conv)
next
  case (RDeactivate key x)
  with run_Deactivate_abs [OF h ok q, of key x] show ?thesis
    by (simp add: serve_def abs_serve_def run_map_result case_prod_unfold)
      (metis (no_types, lifting) apfst_conv comp_apply fst_conv prod.collapse snd_conv)
qed

section \<open>The token of an activation\<close>

lemma abs_activate_count:
  assumes "abs_activate f now x S = (Inr (lic, n), S')" and "finite {y. (lic_id lic, y) \<in> S}"
  shows "n = abs_count (lic_id lic) S' \<and> f = Some lic \<and> Status lic now = ''active''"
proof -
  have "{y. (lic_id lic, y) \<in> insert (lic_id lic, x) S} = insert x {y. (lic_id lic, y) \<in> S}" by auto
  with assms show ?thesis
    by (auto simp: abs_activate_def abs_count_def split: option.splits if_splits)
qed

text \<open>An activation that succeeds has signed the seats as they then are.\<close>

lemma activate_signs:
  assumes "healthy w" and "db_ok (db w)" and "quiet_notifier (svc_notifier s)"
    and "license_by_key key (db w) = Some lic"
    and "run_state (activate P s key x name off) w = (Inr env, w')"
  shows "sign P s lic x (seat_count (lic_id lic) (db w')) (shd (clock w)) off = Inr env"
    "Status lic (shd (clock w)) = ''active''"
proof -
  let ?now = "shd (clock w)"
  obtain v S' where v: "abs_activate (license_by_key key (db w)) ?now x (seats (db w)) = (v, S')"
    by fastforce
  have "(Inr env, seats (db w')) = (answer P s x ?now off v, S')" and ok: "db_ok (db w')"
    using run_activate_abs [OF assms(1-3,5)] v by simp_all
  then have env: "answer P s x ?now off v = Inr env" and S': "S' = seats (db w')" by simp_all
  then obtain lic' n where "v = Inr (lic', n)" by (cases v) auto
  with v abs_activate_count finite_seats assms(4) S' have n: "n = abs_count (lic_id lic) (seats (db w'))"
    "Status lic ?now = ''active''" "v = Inr (lic, n)"
    by (metis option.inject)+
  show "Status lic ?now = ''active''" by (rule n(2))
  show "sign P s lic x (seat_count (lic_id lic) (db w')) ?now off = Inr env"
    using env n seat_count_abs [OF ok, of "lic_id lic"] by simp
qed

lemma validate_signs:
  assumes "healthy w" and "db_ok (db w)" and "license_by_key key (db w) = Some lic"
    and "run_state (Validate P s key x) w = (Inr env, w')"
  shows "sign P s lic x (seat_count (lic_id lic) (db w')) (shd (clock w)) False = Inr env"
proof -
  from run_Validate_abs [OF assms(1,2,4)] assms(3) show ?thesis
    by (auto simp: abs_validate_def seat_count_abs split: if_splits)
qed

end
