(* ===== verification/Seat_Safety.thy ===== *)
theory Seat_Safety
  imports Licensing
begin

text \<open>
  What the licensing rules guarantee whatever the database driver does: a predicate that the
  device statements keep (with the seat check made) is kept by every request, so no sequence of
  requests takes a license above its limit; and no envelope is issued to a device without a seat.
\<close>

section \<open>Predicates that every request keeps\<close>

locale device_invariant =
  fixes I :: "database \<Rightarrow> bool"
  assumes I_touch: "I d \<Longrightarrow> sql_touch_device t i d = Inr (u, d') \<Longrightarrow> I d'"
    and I_free: "I d \<Longrightarrow> sql_deactivate_device t l x d = Inr (n, d') \<Longrightarrow> I d'"
    and I_take: "I d \<Longrightarrow> seat_free lic d \<Longrightarrow> dev_license_id v = lic_id lic \<Longrightarrow>
        sql_upsert_device v d = Inr (j, d') \<Longrightarrow> I d'"
begin

lemma keeps_Touch: "keeps (\<lambda>w. I (db w)) (TouchDevice i)"
  unfolding TouchDevice_def by (intro keeps_steps keeps_exec_sql) (rule I_touch)

lemma keeps_Free: "keeps (\<lambda>w. I (db w)) (DeactivateDevice l x)"
  unfolding DeactivateDevice_def by (intro keeps_steps keeps_exec_sql) (rule I_free)

lemma triple_Take:
  "triple (\<lambda>w. I (db w) \<and> seat_free lic (db w)) (ActivateDevice (lic_id lic) x name)
     (\<lambda>_ w. I (db w))"
  unfolding ActivateDevice_def Let_def
proof (rule triple_bind [OF keeps_time_Now], rule triple_bind)
  show "triple (\<lambda>w. I (db w) \<and> seat_free lic (db w))
      (exec_sql (sql_upsert_device (\<lparr>dev_id = 0, dev_license_id = lic_id lic, dev_device_id = x,
         dev_device_name = name, dev_activated_at = t, dev_last_seen_at = t,
         dev_deactivated_at = None\<rparr>))) (\<lambda>_ w. I (db w))" for t
    by (rule triple_exec_sql) (fastforce dest: I_take [rotated 3])+
qed (auto intro!: triple_structure triple_return)

end

text \<open>The row of a license that a query has returned; the licenses table then stays as it is.\<close>

definition license_on_file :: "license \<Rightarrow> database \<Rightarrow> bool" where
  "license_on_file lic d \<longleftrightarrow>
     (\<exists>r \<in> set (licenses d). row_id r = lic_id lic \<and> row_max_devices r = lic_max_devices lic)"

lemma seat_free_iff:
  "seat_free lic d \<longleftrightarrow> license_on_file lic d \<and> seat_count (lic_id lic) d < lic_max_devices lic"
  by (simp add: seat_free_def license_on_file_def)

lemma license_on_file_by_key: "license_by_key key d = Some lic \<Longrightarrow> license_on_file lic d"
  using license_by_key_row [of key d lic] by (auto simp: license_on_file_def)

lemma triple_GetLicenseByKey:
  "triple (\<lambda>w. Q (db w)) (GetLicenseByKey key)
     (\<lambda>r w. Q (db w) \<and> (\<forall>lic. r = Inr lic \<longrightarrow> license_by_key key (db w) = Some lic))"
  unfolding GetLicenseByKey_def
proof (rule triple_bind)
  show "triple (\<lambda>w. Q (db w)) (exec_sql (sql_select_license (\<lambda>l. row_key l = key)))
      (\<lambda>r w. Q (db w) \<and> (\<forall>lic. r = Inr lic \<longrightarrow> license_by_key key (db w) = Some lic))"
    by (rule triple_exec_sql)
      (auto simp: sql_select_license_where license_by_key_def split: option.splits)
  have "triple (\<lambda>w. Q (db w) \<and> license_by_key key (db w) = Some l) (scanLicense l)
      (\<lambda>r w. Q (db w) \<and> (\<forall>lic. r = Inr lic \<longrightarrow> license_by_key key (db w) = Some lic))" for l
    by (rule tripleI) (metis fst_conv scanLicense_result scanLicense_world snd_conv)
  then show "triple (\<lambda>w. Q (db w) \<and> (\<forall>lic. a = Inr lic \<longrightarrow> license_by_key key (db w) = Some lic))
      (case a of Inl e \<Rightarrow> if errors_Is e ErrNoRows then fail ErrNotFound else fail e | Inr l \<Rightarrow> scanLicense l)
      (\<lambda>r w. Q (db w) \<and> (\<forall>lic. r = Inr lic \<longrightarrow> license_by_key key (db w) = Some lic))" for a
    by (cases a) (auto intro!: triple_structure triple_return)
qed

lemma triple_ActiveDeviceCount:
  "triple (\<lambda>w. Q (db w)) (ActiveDeviceCount l)
     (\<lambda>r w. Q (db w) \<and> (\<forall>n. r = Inr n \<longrightarrow> n = seat_count l (db w)))"
  unfolding ActiveDeviceCount_def
  by (rule triple_exec_sql) (auto dest: sql_device_reads)

lemma triple_GetActiveDevice:
  "triple (\<lambda>w. Q (db w)) (GetActiveDevice l x)
     (\<lambda>r w. Q (db w) \<and> (\<forall>v. r = Inr v \<longrightarrow> (l, x) \<in> seats (db w)))"
  unfolding GetActiveDevice_def
proof (rule triple_bind)
  show "triple (\<lambda>w. Q (db w)) (exec_sql (sql_active_device l x))
      (\<lambda>r w. Q (db w) \<and> (\<forall>v. r = Inr v \<longrightarrow> (l, x) \<in> seats (db w)))"
    by (rule triple_exec_sql) (auto simp: seats_iff dest!: sql_active_device_Inr)
qed (auto intro!: triple_structure triple_return)

lemma keeps_notify:
  "quiet_notifier (svc_notifier s) \<Longrightarrow> keeps (\<lambda>w. Q (db w)) (notify s e lic x)"
  unfolding notify_def by (intro keeps_steps quiet_notifier.keeps_db)

context device_invariant
begin

lemma triple_take_or_touch:
  assumes q: "quiet_notifier (svc_notifier s)"
  shows "triple (\<lambda>w. I (db w) \<and> license_on_file lic (db w)) (take_or_touch s lic x name found)
    (\<lambda>_ w. I (db w))"
proof (cases found)
  case (Inl err)
  have new: "triple (\<lambda>w. I (db w) \<and> license_on_file lic (db w))
      (do { c \<leftarrow> ActiveDeviceCount (lic_id lic);
            case c of
              Inl cerr \<Rightarrow> fail cerr
            | Inr count \<Rightarrow>
                if lic_max_devices lic \<le> count then fail ErrDeviceLimit
                else do {
                  d \<leftarrow> ActivateDevice (lic_id lic) x name;
                  case d of
                    Inl err \<Rightarrow> fail err
                  | Inr dev \<Rightarrow> do { notify s ''activation'' lic (dev_device_id dev); ok () }
                }
      }) (\<lambda>_ w. I (db w))"
    by (intro triple_bind [OF triple_ActiveDeviceCount] triple_structure triple_return
        triple_bind [OF triple_pre [OF triple_Take]] triple_bind [OF keeps_notify [OF q]])
      (auto simp: seat_free_iff)
  with Inl show ?thesis
    by (auto simp: take_or_touch_def intro!: triple_return)
next
  case (Inr v)
  then show ?thesis
    by (auto simp: take_or_touch_def intro: triple_pre [OF keeps_Touch])
qed

lemma keeps_activate:
  assumes q: "quiet_notifier (svc_notifier s)"
  shows "keeps (\<lambda>w. I (db w)) (activate P s key x name off)"
  unfolding activate_def
  by (intro triple_bind [OF triple_GetLicenseByKey] triple_structure triple_return
      triple_bind [OF triple_pre [OF triple_take_or_touch [OF q]]]
      triple_bind [OF keeps_time_Now] triple_bind [OF keeps_GetActiveDevice]
      triple_bind [OF keeps_ActiveDeviceCount])
    (auto dest: license_on_file_by_key)

lemma keeps_Validate: "keeps (\<lambda>w. I (db w)) (Validate P s key x)"
  unfolding Validate_def
  by (intro keeps_steps keeps_GetLicenseByKey keeps_GetActiveDevice keeps_Touch
      keeps_ActiveDeviceCount)

lemma keeps_Deactivate:
  "quiet_notifier (svc_notifier s) \<Longrightarrow> keeps (\<lambda>w. I (db w)) (Deactivate s key x)"
  unfolding Deactivate_def
  by (intro keeps_steps keeps_GetLicenseByKey keeps_Free keeps_notify)

lemma keeps_serve:
  assumes "quiet_notifier (svc_notifier s)"
  shows "keeps (\<lambda>w. I (db w)) (serve P s rq)"
  unfolding serve_def Activate_def OfflineActivate_def
  by (cases rq)
    (auto intro!: keeps_bind keeps_return keeps_activate keeps_Validate keeps_Deactivate assms)

end

interpretation whole_db: device_invariant db_ok
  by unfold_locales (auto intro: touch_device_ok deactivate_device_ok
      simp: seat_free_def dest: upsert_device_ok)

text \<open>No request writes a table other than that of the devices.\<close>

definition other_tables :: "database \<Rightarrow> database" where
  "other_tables d = d\<lparr>devices := [], device_seq := 0\<rparr>"

lemma other_tables_devices [simp]:
  "other_tables (d\<lparr>devices := v\<rparr>) = other_tables d"
  "other_tables (d\<lparr>device_seq := i\<rparr>) = other_tables d"
  by (cases d; simp add: other_tables_def)+

lemma other_tables_upsert: "sql_upsert_device v d = Inr (i, d') \<Longrightarrow> other_tables d' = other_tables d"
  by (erule sql_upsert_device_cases) simp_all

lemma other_tables_eqD:
  assumes "other_tables d' = other_tables d"
  shows "licenses d' = licenses d" "products d' = products d" "settings d' = settings d"
    "admins d' = admins d" "sessions d' = sessions d"
  using assms by (cases d; cases d'; simp add: other_tables_def)+

interpretation license_frame: device_invariant "\<lambda>d. other_tables d = other_tables d0" for d0
  by unfold_locales
    (auto simp: sql_touch_device_def sql_deactivate_device_def Let_def dest: other_tables_upsert)

section \<open>Grants\<close>

text \<open>An envelope is the last thing a request computes: with one, the device holds its seat.\<close>

definition granted :: "string \<Rightarrow> string \<Rightarrow> database \<Rightarrow> bool" where
  "granted key x d \<longleftrightarrow> (\<exists>lic. license_by_key key d = Some lic \<and> (lic_id lic, x) \<in> seats d)"

lemma license_by_key_cong:
  "licenses d' = licenses d \<Longrightarrow> products d' = products d \<Longrightarrow>
    license_by_key k d' = license_by_key k d"
  by (simp add: license_by_key_def license_where_def license_select_def join_product_def [abs_def])

lemma license_by_key_upsert:
  assumes "sql_upsert_device v d = Inr (i, d')"
  shows "license_by_key k d' = license_by_key k d"
  using assms by (cases rule: sql_upsert_device_cases) (auto intro: license_by_key_cong)

lemma license_by_key_touched: "license_by_key k (touched t i d) = license_by_key k d"
  by (rule license_by_key_cong) simp_all

lemma triple_ActivateDevice_seat:
  "triple (\<lambda>w. license_by_key key (db w) = Some lic) (ActivateDevice l x name)
    (\<lambda>r w. license_by_key key (db w) = Some lic \<and>
       (\<forall>v. r = Inr v \<longrightarrow> (l, x) \<in> seats (db w) \<and> dev_device_id v = x))"
  unfolding ActivateDevice_def Let_def
proof (rule triple_bind [OF keeps_time_Now], rule triple_bind)
  fix t
  show "triple (\<lambda>w. license_by_key key (db w) = Some lic)
      (exec_sql (sql_upsert_device (\<lparr>dev_id = 0, dev_license_id = l, dev_device_id = x,
         dev_device_name = name, dev_activated_at = t, dev_last_seen_at = t,
         dev_deactivated_at = None\<rparr>)))
      (\<lambda>r w. license_by_key key (db w) = Some lic \<and> (\<forall>i. r = Inr i \<longrightarrow> (l, x) \<in> seats (db w)))"
    by (rule triple_exec_sql)
      (auto simp: sql_upsert_device_seats license_by_key_upsert)
qed (auto intro!: triple_structure triple_return)

lemma triple_TouchDevice_seats:
  "triple (\<lambda>w. license_by_key key (db w) = Some lic \<and> (l, x) \<in> seats (db w)) (TouchDevice i)
    (\<lambda>_ w. license_by_key key (db w) = Some lic \<and> (l, x) \<in> seats (db w))"
  unfolding TouchDevice_def
proof (rule triple_bind [OF keeps_time_Now])
  show "triple (\<lambda>w. license_by_key key (db w) = Some lic \<and> (l, x) \<in> seats (db w))
      (exec_sql (sql_touch_device t i))
      (\<lambda>_ w. license_by_key key (db w) = Some lic \<and> (l, x) \<in> seats (db w))" for t
    by (rule keeps_exec_sql [where P = "\<lambda>d. license_by_key key d = Some lic \<and> (l, x) \<in> seats d"])
      (auto simp: sql_touch_touched license_by_key_touched)
qed

lemma triple_take_or_touch_grants:
  assumes q: "quiet_notifier (svc_notifier s)"
  shows "triple (\<lambda>w. license_by_key key (db w) = Some lic \<and>
        (\<forall>v. found = Inr v \<longrightarrow> (lic_id lic, x) \<in> seats (db w)))
      (take_or_touch s lic x name found)
      (\<lambda>r w. \<forall>u. r = Inr u \<longrightarrow> license_by_key key (db w) = Some lic \<and> (lic_id lic, x) \<in> seats (db w))"
    (is "triple ?P _ ?Q")
proof (cases found)
  case (Inl err)
  have new: "triple (\<lambda>w. license_by_key key (db w) = Some lic)
      (do { c \<leftarrow> ActiveDeviceCount (lic_id lic);
            case c of
              Inl cerr \<Rightarrow> fail cerr
            | Inr count \<Rightarrow>
                if lic_max_devices lic \<le> count then fail ErrDeviceLimit
                else do {
                  d \<leftarrow> ActivateDevice (lic_id lic) x name;
                  case d of
                    Inl err \<Rightarrow> fail err
                  | Inr dev \<Rightarrow> do { notify s ''activation'' lic (dev_device_id dev); ok () }
                }
      }) ?Q"
  proof (intro triple_bind [OF keeps_ActiveDeviceCount] triple_structure triple_return
      triple_bind [OF triple_ActivateDevice_seat])
    fix c n d v
    show "triple (\<lambda>w. license_by_key key (db w) = Some lic \<and>
          (\<forall>v. d = Inr v \<longrightarrow> (lic_id lic, x) \<in> seats (db w) \<and> dev_device_id v = x))
        (do { notify s ''activation'' lic (dev_device_id v); ok () }) ?Q" if "d = Inr v"
      using that
      by (intro triple_bind [OF keeps_notify [OF q]] triple_return) auto
  qed auto
  with Inl show ?thesis
    by (auto simp: take_or_touch_def intro!: triple_return)
next
  case (Inr v)
  then show ?thesis
    by (auto simp: take_or_touch_def intro: triple_conseq [OF triple_TouchDevice_seats])
qed

lemma triple_activate_grants:
  assumes q: "quiet_notifier (svc_notifier s)"
  shows "triple (\<lambda>_. True) (activate P s key x name off)
      (\<lambda>r w. \<forall>env. r = Inr env \<longrightarrow> granted key x (db w))"
proof -
  let ?Q = "\<lambda>r w. \<forall>env. r = Inr env \<longrightarrow> granted key x (db w)"
  have tail: "triple (\<lambda>w. license_by_key key (db w) = Some lic)
     (do { found \<leftarrow> GetActiveDevice (lic_id lic) x;
           r \<leftarrow> take_or_touch s lic x name found;
           case r of
             Inl err \<Rightarrow> fail err
           | Inr _ \<Rightarrow> do {
               c \<leftarrow> ActiveDeviceCount (lic_id lic);
               case c of
                 Inl err \<Rightarrow> fail err
               | Inr n \<Rightarrow> State_Monad.return (sign P s lic x n now off)
             }
         }) ?Q" for lic now
  proof (rule triple_bind [OF triple_GetActiveDevice [where Q = "\<lambda>d. license_by_key key d = Some lic"]],
      rule triple_bind [OF triple_pre [OF triple_take_or_touch_grants [OF q, where key = key]]])
    fix found r
    let ?R = "\<lambda>w. license_by_key key (db w) = Some lic \<and> (lic_id lic, x) \<in> seats (db w)"
    show "triple (\<lambda>w. \<forall>u. r = Inr u \<longrightarrow> ?R w)
        (case r of
             Inl err \<Rightarrow> fail err
           | Inr _ \<Rightarrow> do {
               c \<leftarrow> ActiveDeviceCount (lic_id lic);
               case c of
                 Inl err \<Rightarrow> fail err
               | Inr n \<Rightarrow> State_Monad.return (sign P s lic x n now off)
             }) ?Q"
    proof (intro triple_structure triple_return)
      show "triple (\<lambda>w. \<forall>u. r = Inr u \<longrightarrow> ?R w)
         (do { c \<leftarrow> ActiveDeviceCount (lic_id lic);
               case c of
                 Inl err \<Rightarrow> fail err
               | Inr n \<Rightarrow> State_Monad.return (sign P s lic x n now off) }) ?Q" if "r = Inr u" for u
        using that
        by (intro triple_bind [OF keeps_ActiveDeviceCount] triple_structure triple_return)
          (auto simp: granted_def)
    qed auto
  qed auto
  show ?thesis
    unfolding activate_def
    by (intro triple_bind [OF triple_GetLicenseByKey [where Q = "\<lambda>_. True"]] triple_structure
        triple_return triple_bind [OF keeps_time_Now] triple_pre [OF tail]) auto
qed

end
