(* ===== verification/Web_Safety.thy ===== *)
theory Web_Safety
  imports Web_Server Seat_Safety
begin

text \<open>
  What the HTTP surface guarantees whatever the driver does. A predicate of the database that the
  statements of the program keep is kept by every request (\<open>http_invariant\<close>), and a request
  without a valid session runs no page of the dashboard and writes none of its tables.
\<close>

section \<open>Predicates that every request to the server keeps\<close>

text \<open>
  \<open>public_invariant\<close>: the statements behind the routes that need no session, those of the API, of
  setup, login and logout. \<open>http_invariant\<close>: all statements of the server.
\<close>

locale public_invariant = device_invariant I for I :: "database \<Rightarrow> bool" +
  assumes I_login: "I d \<Longrightarrow> sql_insert_session k c e d = Inr (u, d') \<Longrightarrow> I d'"
    and I_logout: "I d \<Longrightarrow> sql_delete_session k d = Inr (u, d') \<Longrightarrow> I d'"
    and I_setup: "I d \<Longrightarrow> admins d = [] \<Longrightarrow> sql_insert_admin h t d = Inr (u, d') \<Longrightarrow> I d'"

locale http_invariant = public_invariant I for I :: "database \<Rightarrow> bool" +
  assumes I_product: "I d \<Longrightarrow> sql_insert_product p d = Inr (u, d') \<Longrightarrow> I d'"
    and I_license: "I d \<Longrightarrow> sql_insert_license l d = Inr (u, d') \<Longrightarrow> I d'"
    and I_revoke: "I d \<Longrightarrow> sql_revoke_license t i d = Inr (n, d') \<Longrightarrow> I d'"
    and I_setting: "I d \<Longrightarrow> k = ''webhook_url'' \<or> k = ''webhook_secret'' \<Longrightarrow>
        sql_upsert_setting k v d = Inr (u, d') \<Longrightarrow> I d'"
    and I_password: "I d \<Longrightarrow> sql_update_admin_hash h d = Inr (u, d') \<Longrightarrow> I d'"

text \<open>What is relied on of the file server: it leaves the database alone.\<close>

definition files_only :: "handler \<Rightarrow> bool" where
  "files_only static \<longleftrightarrow> (\<forall>r w. db (snd (run_state (static r) w)) = db w)"

lemma keeps_static: "files_only static \<Longrightarrow> keeps (\<lambda>w. Q (db w)) (static r)"
  by (intro tripleI) (metis files_only_def snd_conv)

text \<open>Requests served one after another.\<close>

lemma keeps_serve_requests:
  "(\<And>r. keeps P (h r)) \<Longrightarrow> keeps P (serve_requests h rs)"
  by (induction rs) (auto intro!: keeps_return keeps_bind)

lemma triple_HasAdmin:
  "triple (\<lambda>w. Q (db w)) HasAdmin (\<lambda>r w. Q (db w) \<and> (\<forall>b. r = Inr b \<longrightarrow> b = (admins (db w) \<noteq> [])))"
  by (rule tripleI)
    (auto simp: HasAdmin_def run_exec_sql sql_count_admins_def split: option.splits)

context public_invariant
begin

lemma keeps_create_session: "keeps (\<lambda>w. I (db w)) (CreateSession t e)"
  unfolding CreateSession_def by (intro keeps_steps keeps_exec_sql) (rule I_login)

lemma keeps_delete_session: "keeps (\<lambda>w. I (db w)) (DeleteSession t)"
  unfolding DeleteSession_def by (intro keeps_exec_sql) (rule I_logout)

lemma keeps_hash: "keeps (\<lambda>w. I (db w)) (hashPassword B p)"
  unfolding hashPassword_def by (intro keeps_steps)

lemma keeps_session_redirect: "keeps (\<lambda>w. I (db w)) (session_redirect s)"
  unfolding session_redirect_def startSession_def newSessionToken_def Let_def
  by (intro keeps_steps keeps_create_session)

lemma triple_create_admin:
  "triple (\<lambda>w. I (db w) \<and> admins (db w) = []) (CreateAdmin h) (\<lambda>_ w. I (db w))"
  unfolding CreateAdmin_def
  by (rule triple_bind [OF keeps_time_Now], rule triple_exec_sql) (auto intro: I_setup)

lemma keeps_setup: "keeps (\<lambda>w. I (db w)) (handleSetup B s r)"
  unfolding handleSetup_def setup_rest_def Let_def
proof (rule triple_bind [OF triple_HasAdmin [where Q = I]])
  fix a :: "gerror + bool"
  let ?J = "\<lambda>w. I (db w) \<and> admins (db w) = []"
  have create: "triple ?J (do {
      h \<leftarrow> hashPassword B p;
      case h of
        Inl err \<Rightarrow> State_Monad.return (serverError err)
      | Inr hash \<Rightarrow> do {
          c \<leftarrow> CreateAdmin hash;
          case c of
            Inl err \<Rightarrow> State_Monad.return (serverError err)
          | Inr _ \<Rightarrow> session_redirect s
        }
    }) (\<lambda>_ w. I (db w))" for p
    unfolding hashPassword_def
    by (intro triple_bind [OF triple_create_admin] triple_bind [OF keeps_rand_Read [where P = "\<lambda>d. I d \<and> admins d = []"]]
        triple_bind [of ?J _ "\<lambda>_. ?J"] triple_structure triple_return keeps_session_redirect) auto
  show "triple (\<lambda>w. I (db w) \<and> (\<forall>b. a = Inr b \<longrightarrow> b = (admins (db w) \<noteq> [])))
      (case a of
         Inl err \<Rightarrow> State_Monad.return (serverError err)
       | Inr hasAdmin \<Rightarrow>
           if hasAdmin then State_Monad.return (http_Redirect ''/login'')
           else if rq_method r = ''GET'' then State_Monad.return (render s (SetupPage None))
           else if rq_form r ''password'' \<noteq> rq_form r ''confirm''
           then State_Monad.return (render s (SetupPage (Some ''Passwords do not match'')))
           else (case validatePassword (rq_form r ''password'') of
               Some err \<Rightarrow> State_Monad.return (render s (SetupPage (Some (error_text err))))
             | None \<Rightarrow> do {
                 h \<leftarrow> hashPassword B (rq_form r ''password'');
                 case h of
                   Inl err \<Rightarrow> State_Monad.return (serverError err)
                 | Inr hash \<Rightarrow> do {
                     c \<leftarrow> CreateAdmin hash;
                     case c of
                       Inl err \<Rightarrow> State_Monad.return (serverError err)
                     | Inr _ \<Rightarrow> session_redirect s
                   }
               }))
      (\<lambda>_ w. I (db w))"
    by (intro triple_structure triple_return triple_pre [OF create]) auto
qed

lemma keeps_login: "keeps (\<lambda>w. I (db w)) (handleLogin B s r)"
  unfolding handleLogin_def
  by (intro keeps_steps keeps_HasAdmin keeps_AdminPasswordHash keeps_session_redirect)

lemma keeps_logout: "keeps (\<lambda>w. I (db w)) (handleLogout s r)"
  unfolding handleLogout_def endSession_def by (intro keeps_steps keeps_delete_session)

lemma keeps_requireAuth:
  assumes "keeps (\<lambda>w. I (db w)) (next r)"
  shows "keeps (\<lambda>w. I (db w)) (requireAuth next r)"
  unfolding requireAuth_def by (intro keeps_steps keeps_HasAdmin keeps_ValidSession assms)

lemma keeps_api:
  assumes q: "quiet_notifier (svc_notifier (srv_licenses s))"
  shows "keeps (\<lambda>w. I (db w)) (handleAPIActivate P J s r)"
    "keeps (\<lambda>w. I (db w)) (handleAPIValidate P J s r)"
    "keeps (\<lambda>w. I (db w)) (handleAPIDeactivate J s r)"
  unfolding api_defs Activate_def
  by (intro keeps_steps keeps_activate keeps_Validate keeps_Deactivate q)+

end

section \<open>The store's methods and the handlers\<close>

context http_invariant
begin

lemma keeps_create_product: "keeps (\<lambda>w. I (db w)) (CreateProduct n)"
  unfolding CreateProduct_def Let_def by (intro keeps_steps keeps_exec_sql) (rule I_product)

lemma keeps_create_license: "keeps (\<lambda>w. I (db w)) (CreateLicense p)"
  unfolding CreateLicense_def Let_def
  by (intro keeps_steps keeps_exec_sql keeps_GenerateLicenseKey) (rule I_license)

lemma keeps_revoke: "keeps (\<lambda>w. I (db w)) (RevokeLicense i)"
  unfolding RevokeLicense_def by (intro keeps_steps keeps_exec_sql) (rule I_revoke)

lemma keeps_set_setting:
  "k = ''webhook_url'' \<or> k = ''webhook_secret'' \<Longrightarrow> keeps (\<lambda>w. I (db w)) (SetSetting k v)"
  unfolding SetSetting_def by (intro keeps_exec_sql) (rule I_setting)

lemma keeps_set_password: "keeps (\<lambda>w. I (db w)) (SetAdminPassword h)"
  unfolding SetAdminPassword_def by (intro keeps_exec_sql) (rule I_password)

lemma keeps_settings_page: "keeps (\<lambda>w. I (db w)) (renderSettings s m)"
  unfolding renderSettings_def by (intro keeps_steps keeps_GetSetting)

lemma keeps_change_password: "keeps (\<lambda>w. I (db w)) (handleChangePassword B s r)"
  unfolding handleChangePassword_def Let_def
  by (intro keeps_steps keeps_AdminPasswordHash keeps_settings_page keeps_hash keeps_set_password)

lemma keeps_license_view: "keeps (\<lambda>w. I (db w)) (toLicenseView l)"
  unfolding toLicenseView_def Let_def by (intro keeps_steps keeps_ActiveDeviceCount)

lemma keeps_license_views: "keeps (\<lambda>w. I (db w)) (license_views ls vs)"
  by (induction ls vs rule: license_views.induct)
    (auto intro!: keeps_steps keeps_license_view)

lemma keeps_dashboard:
  assumes q: "quiet_notifier (svc_notifier (srv_licenses s))"
    and h: "dashboard P J B s rt = Some h"
  shows "keeps (\<lambda>w. I (db w)) (h r)"
proof (cases rt)
  case (ProductDetail i)
  with h show ?thesis
    by (auto simp: handleProductDetail_def
        intro!: keeps_steps keeps_GetProduct keeps_ListLicenses keeps_license_views)
next
  case (LicenseDetail i)
  with h show ?thesis
    by (auto simp: handleLicenseDetail_def Let_def
        intro!: keeps_steps keeps_GetLicense keeps_ListDevices keeps_license_view)
next
  case (LicenseOfflineActivate i)
  with h show ?thesis
    by (auto simp: handleLicenseOfflineActivate_def Let_def OfflineActivate_def
        intro!: keeps_steps keeps_GetLicense keeps_activate [OF q])
next
  case (DeviceDeactivate i x)
  with h show ?thesis
    by (auto simp: handleDeviceDeactivate_def
        intro!: keeps_steps keeps_GetLicense keeps_Deactivate [OF q])
next
  case ChangePassword
  with h show ?thesis by (auto intro: keeps_change_password)
next
  case (LicenseCreate i)
  with h show ?thesis
    by (auto simp: handleLicenseCreate_def
        intro!: keeps_steps keeps_GetProduct keeps_create_license)
qed (use h in \<open>auto simp: handleProductsList_def handleProductCreate_def handleLicenseRevoke_def
    handleSettings_def handleWebhookSettings_def Let_def
    intro!: keeps_steps keeps_ListProducts keeps_create_product keeps_revoke keeps_settings_page
      keeps_set_setting\<close>)

lemma keeps_dispatch:
  assumes q: "quiet_notifier (svc_notifier (srv_licenses s))"
    and st: "\<And>r. keeps (\<lambda>w. I (db w)) (static r)"
  shows "keeps (\<lambda>w. I (db w)) (dispatch P J B static s rt r)"
proof (cases "dashboard P J B s rt")
  case (Some h)
  then show ?thesis
    by (simp add: dispatch_def keeps_requireAuth keeps_dashboard [OF q Some])
next
  case None
  then show ?thesis
    by (cases rt) (simp_all add: dispatch_def st keeps_api [OF q] keeps_setup keeps_login keeps_logout
        keeps_return)
qed

lemma keeps_ServeHTTP:
  assumes q: "quiet_notifier (svc_notifier (srv_licenses s))" and st: "files_only static"
  shows "keeps (\<lambda>w. I (db w)) (ServeHTTP P J B static s r)"
  unfolding ServeHTTP_def by (intro keeps_steps keeps_dispatch [OF q keeps_static [OF st]])

lemma run_requests:
  assumes "quiet_notifier (svc_notifier (srv_licenses s))" and "files_only static" and "I (db w)"
  shows "I (db (snd (run_state (serve_requests (ServeHTTP P J B static s) rs) w)))"
  by (rule triple_snd [OF keeps_serve_requests [OF keeps_ServeHTTP [OF assms(1,2)]] assms(3)])

end

interpretation whole_server: http_invariant db_ok
proof unfold_locales
  fix d d' k v h t n c e i p l and u :: unit and m :: int
  assume d: "db_ok d"
  show "sql_insert_session k c e d = Inr (u, d') \<Longrightarrow> db_ok d'"
    by (rule insert_session_ok [OF d])
  show "sql_delete_session k d = Inr (u, d') \<Longrightarrow> db_ok d'"
    by (rule delete_session_ok [OF d])
  show "sql_insert_admin h t d = Inr (u, d') \<Longrightarrow> db_ok d'"
    by (rule insert_admin_ok [OF d])
  show "sql_insert_product p d = Inr (u, d') \<Longrightarrow> db_ok d'"
    by (rule insert_product_ok [OF d])
  show "sql_insert_license l d = Inr (u, d') \<Longrightarrow> db_ok d'"
    by (rule insert_license_ok [OF d])
  show "sql_revoke_license t i d = Inr (m, d') \<Longrightarrow> db_ok d'"
    by (rule revoke_license_ok [OF d])
  show "sql_upsert_setting k v d = Inr (u, d') \<Longrightarrow> db_ok d'"
    by (rule setting_ok [OF d])
  show "sql_update_admin_hash h d = Inr (u, d') \<Longrightarrow> db_ok d'"
    by (rule update_admin_ok [OF d])
qed

text \<open>The signing key's seed is not a setting that a request can write.\<close>

interpretation signing_seed: http_invariant "\<lambda>d. settings d ''signing_key_seed'' = x" for x
proof unfold_locales
  fix d d' v j
  show "settings d ''signing_key_seed'' = x \<Longrightarrow> sql_upsert_device v d = Inr (j, d') \<Longrightarrow>
      settings d' ''signing_key_seed'' = x"
    using other_tables_eqD(3) [OF other_tables_upsert] by metis
qed (auto simp: sql_touch_device_def sql_deactivate_device_def Let_def
    sql_insert_product_def sql_insert_license_def sql_revoke_license_def sql_admin_defs
    split: if_splits)

text \<open>
  The row of a license is final, but for its revocation, and that is never undone: no request
  changes the key, the product, the limit or the expiry, or deletes the row.
\<close>

definition license_kept :: "license_row \<Rightarrow> database \<Rightarrow> bool" where
  "license_kept r d \<longleftrightarrow>
     (\<exists>t. r\<lparr>row_revoked_at := t\<rparr> \<in> set (licenses d) \<and>
        (row_revoked_at r \<noteq> None \<longrightarrow> t = row_revoked_at r))"

lemma license_kept_mono:
  "license_kept r d \<Longrightarrow> set (licenses d) \<subseteq> set (licenses d') \<Longrightarrow> license_kept r d'"
  by (auto simp: license_kept_def)

lemma license_kept_revoke:
  assumes "license_kept r d" and "sql_revoke_license t i d = Inr (n, d')"
  shows "license_kept r d'"
proof -
  obtain u where u: "r\<lparr>row_revoked_at := u\<rparr> \<in> set (licenses d)"
      "row_revoked_at r \<noteq> None \<longrightarrow> u = row_revoked_at r"
    using assms(1) by (auto simp: license_kept_def)
  let ?c = "\<lambda>q. row_id q = i \<and> row_revoked_at q = None"
  have d': "set (licenses d') = {q \<in> set (licenses d). \<not> ?c q} \<union>
      (\<lambda>q. q\<lparr>row_revoked_at := Some t\<rparr>) ` {q \<in> set (licenses d). ?c q}"
    using assms(2) by (auto simp: sql_revoke_license_def Let_def set_update_where)
  show ?thesis
  proof (cases "?c (r\<lparr>row_revoked_at := u\<rparr>)")
    case True
    then have "r\<lparr>row_revoked_at := Some t\<rparr> \<in> set (licenses d')"
      using u(1) unfolding d' by (auto intro!: image_eqI [of _ _ "r\<lparr>row_revoked_at := u\<rparr>"])
    with True u(2) show ?thesis by (auto simp: license_kept_def)
  next
    case False
    with u have "r\<lparr>row_revoked_at := u\<rparr> \<in> set (licenses d')" unfolding d' by simp
    with u(2) show ?thesis by (auto simp: license_kept_def)
  qed
qed

interpretation kept_license: http_invariant "license_kept r" for r
proof unfold_locales
  fix d d' v j t i n
  show "license_kept r d \<Longrightarrow> sql_upsert_device v d = Inr (j, d') \<Longrightarrow> license_kept r d'"
    using other_tables_eqD(1) [OF other_tables_upsert] license_kept_mono by (metis order_refl)
  show "license_kept r d \<Longrightarrow> sql_revoke_license t i d = Inr (n, d') \<Longrightarrow> license_kept r d'"
    by (rule license_kept_revoke)
qed (erule license_kept_mono; auto simp: sql_touch_device_def sql_deactivate_device_def Let_def
    sql_insert_product_def sql_insert_license_def sql_admin_defs split: if_splits)+

text \<open>One account at most, while requests are served one at a time.\<close>

definition one_admin :: "database \<Rightarrow> bool" where
  "one_admin d \<longleftrightarrow> length (admins d) \<le> 1"

interpretation single_account: http_invariant one_admin
proof unfold_locales
  fix d d' v j
  show "one_admin d \<Longrightarrow> sql_upsert_device v d = Inr (j, d') \<Longrightarrow> one_admin d'"
    using other_tables_eqD(4) [OF other_tables_upsert] by (metis one_admin_def)
qed (auto simp: one_admin_def sql_touch_device_def sql_deactivate_device_def Let_def
    sql_insert_product_def sql_insert_license_def sql_revoke_license_def sql_admin_defs
    split: if_splits)

end
