(* ===== verification/Web_Sessions.thy ===== *)
theory Web_Sessions
  imports Web_Safety
begin

text \<open>
  Who may use the dashboard: what \<open>requireAuth\<close> lets through, what a request without a session can
  write, and how setup, login, logout and a change of password act on the account and its sessions.
\<close>

section \<open>The guard\<close>

text \<open>The session is checked at the instant that \<open>ValidSession\<close> reads from the clock.\<close>

definition authenticated :: "http_request \<Rightarrow> world \<Rightarrow> bool" where
  "authenticated r w \<longleftrightarrow> admins (db w) \<noteq> [] \<and>
     (\<exists>token. rq_cookie r = Some token \<and> session_valid token (shd (clock w)) (db w))"

definition turned_away :: "response \<Rightarrow> bool" where
  "turned_away p \<longleftrightarrow> p = http_Redirect ''/setup'' \<or> p = http_Redirect ''/login'' \<or> (\<exists>e. p = serverError e)"

text \<open>What a request that only reads leaves as it was.\<close>

definition untouched :: "world \<Rightarrow> world \<Rightarrow> bool" where
  "untouched w w' \<longleftrightarrow> db w' = db w \<and> spawned w' = spawned w \<and> entropy w' = entropy w \<and> uuids w' = uuids w"

lemma run_requireAuth_denied:
  assumes "\<not> authenticated r w"
  shows "turned_away (fst (run_state (requireAuth next r) w))"
    "untouched w (snd (run_state (requireAuth next r) w))"
    "run_state (requireAuth next r) w = run_state (requireAuth next' r) w"
  using assms
  by (auto simp: requireAuth_def HasAdmin_def ValidSession_def run_exec_sql authenticated_def
      sql_count_admins_def sql_select_session_def session_valid_def time_Before_def turned_away_def
      untouched_def split: option.split sum.split prod.split if_split)

lemma run_requireAuth_allowed:
  assumes "healthy w" and "authenticated r w"
  shows "run_state (requireAuth next r) w = run_state (next r) (w\<lparr>clock := stl (clock w)\<rparr>)"
  using assms
  by (auto simp: requireAuth_def HasAdmin_def ValidSession_def run_exec_sql_healthy authenticated_def
      sql_count_admins_def sql_select_session_def session_valid_def time_Before_def)

section \<open>Requests without a session\<close>

context public_invariant
begin

lemma keeps_public:
  assumes q: "quiet_notifier (svc_notifier (srv_licenses s))"
    and st: "files_only static" and rt: "dashboard P J B s rt = None"
  shows "keeps (\<lambda>w. I (db w)) (dispatch P J B static s rt r)"
  using rt
  by (cases rt) (simp_all add: dispatch_def keeps_static [OF st] keeps_api [OF q] keeps_setup keeps_login keeps_logout
      keeps_return)

lemma ServeHTTP_unauthenticated:
  assumes q: "quiet_notifier (svc_notifier (srv_licenses s))"
    and st: "files_only static"
    and I: "I (db w)" and no: "\<not> authenticated r w"
  shows "I (db (snd (run_state (ServeHTTP P J B static s r) w)))"
proof (cases "find_route routes (rq_method r) (rq_path r)")
  case None
  with I show ?thesis by (simp add: ServeHTTP_def)
next
  case (Some rt)
  show ?thesis
  proof (cases "dashboard P J B s rt")
    case None
    with triple_snd [OF keeps_public [OF q st None], of w] I Some show ?thesis
      by (simp add: ServeHTTP_def)
  next
    case (Some h)
    with run_requireAuth_denied(2) [OF no, of h] I \<open>find_route _ _ _ = Some rt\<close> show ?thesis
      by (simp add: ServeHTTP_def dispatch_def untouched_def)
  qed
qed

end

text \<open>The tables that only the dashboard writes.\<close>

definition dashboard_tables ::
  "database \<Rightarrow> product list \<times> license_row list \<times> (string \<Rightarrow> string option)" where
  "dashboard_tables d = (products d, licenses d, settings d)"

interpretation dashboard_frame: public_invariant "\<lambda>d. dashboard_tables d = dashboard_tables d0" for d0
proof unfold_locales
  fix d d' v j
  show "dashboard_tables d = dashboard_tables d0 \<Longrightarrow> sql_upsert_device v d = Inr (j, d') \<Longrightarrow>
      dashboard_tables d' = dashboard_tables d0"
    using other_tables_eqD [OF other_tables_upsert] by (metis dashboard_tables_def)
qed (auto simp: dashboard_tables_def sql_touch_device_def sql_deactivate_device_def Let_def
    sql_admin_defs split: if_splits)

section \<open>Sessions\<close>

definition fresh_token :: "world \<Rightarrow> string" where
  "fresh_token w = hex_encode (stake 32 (entropy w))"

definition session_cookie :: "server \<Rightarrow> string \<Rightarrow> gotime \<Rightarrow> cookie" where
  "session_cookie s token e =
     \<lparr>ck_name = sessionCookieName, ck_value = token, ck_path = ''/'', ck_http_only = True,
      ck_secure = srv_cookie_secure s, ck_same_site_lax = True, ck_expires = Some e, ck_max_age = 0\<rparr>"

definition with_session :: "string \<Rightarrow> gotime \<Rightarrow> gotime \<Rightarrow> database \<Rightarrow> database" where
  "with_session token c e d = d\<lparr>sessions := (sessions d)(token \<mapsto> (c, e))\<rparr>"

lemma opens_with_session:
  "sessions d token = None \<Longrightarrow> opens_session token e d (with_session token c e d)"
  by (auto simp: opens_session_def sql_insert_session_def with_session_def)

lemma run_session_redirect:
  assumes "healthy w" and "sessions (db w) (fresh_token w) = None"
  shows "run_state (session_redirect s) w =
    ((http_Redirect ''/'')\<lparr>rs_cookie := Some (session_cookie s (fresh_token w) (shd (clock w) + sessionTTL))\<rparr>,
     w\<lparr>entropy := sdrop 32 (entropy w), clock := stl (stl (clock w)),
       db := with_session (fresh_token w) (shd (stl (clock w))) (shd (clock w) + sessionTTL) (db w)\<rparr>)"
  using assms
  by (simp add: session_redirect_def startSession_def newSessionToken_def CreateSession_def
      run_exec_sql_healthy sql_insert_session_def fresh_token_def session_cookie_def
      with_session_def Let_def)

text \<open>Whatever happens, a cookie is set only for a session that the table then holds.\<close>

lemma run_HasAdmin [run_simps]:
  "healthy w \<Longrightarrow> run_state HasAdmin w = (Inr (admins (db w) \<noteq> []), w)"
  by (simp add: HasAdmin_def run_exec_sql_healthy sql_count_admins_def)

lemma run_AdminPasswordHash [run_simps]:
  "healthy w \<Longrightarrow> run_state AdminPasswordHash w =
    ((case first_admin (db w) of None \<Rightarrow> Inl ErrNotFound | Some a \<Rightarrow> Inr (adm_password_hash a)), w)"
  by (simp add: AdminPasswordHash_def run_exec_sql_healthy sql_select_admin_hash_def split: option.split)

section \<open>Login\<close>

definition logs_in :: "bcrypt \<Rightarrow> http_request \<Rightarrow> database \<Rightarrow> bool" where
  "logs_in B r d \<longleftrightarrow> rq_method r \<noteq> ''GET'' \<and>
     (\<exists>a. first_admin d = Some a \<and> bcrypt_matches B (adm_password_hash a) (rq_form r ''password''))"

lemma first_admin_None: "first_admin d = None \<longleftrightarrow> admins d = []"
proof -
  have "sort_key adm_id (admins d) = [] \<longleftrightarrow> admins d = []"
    by (metis length_0_conv length_sort)
  then show ?thesis by (auto simp: first_admin_def split: list.split)
qed

lemma run_handleLogin_in:
  assumes "healthy w" and "logs_in B r (db w)"
  shows "run_state (handleLogin B s r) w = run_state (session_redirect s) w"
proof -
  have "admins (db w) \<noteq> []"
    using assms(2) first_admin_None [of "db w"] by (auto simp: logs_in_def)
  with assms show ?thesis
    by (auto simp: handleLogin_def run_HasAdmin run_AdminPasswordHash checkPassword_def logs_in_def)
qed

text \<open>Without the password nothing is written and no cookie is set, whatever the driver does.\<close>

lemma run_handleLogin_out:
  assumes "\<not> logs_in B r (db w)"
  shows "rs_cookie (fst (run_state (handleLogin B s r) w)) = None"
    "untouched w (snd (run_state (handleLogin B s r) w))"
  using assms
  by (auto simp: handleLogin_def HasAdmin_def AdminPasswordHash_def run_exec_sql logs_in_def
      sql_count_admins_def sql_select_admin_hash_def checkPassword_def untouched_def
      split: option.split sum.split prod.split if_split)

section \<open>Logout\<close>

definition without_session :: "string \<Rightarrow> database \<Rightarrow> database" where
  "without_session token d = d\<lparr>sessions := (sessions d)(token := None)\<rparr>"

lemma closes_without_session: "closes_session token d (without_session token d)"
  by (simp add: closes_session_def sql_delete_session_def without_session_def)

definition cleared_cookie :: "server \<Rightarrow> cookie" where
  "cleared_cookie s =
     \<lparr>ck_name = sessionCookieName, ck_value = '''', ck_path = ''/'', ck_http_only = True,
      ck_secure = srv_cookie_secure s, ck_same_site_lax = True, ck_expires = None, ck_max_age = -1\<rparr>"

lemma run_handleLogout:
  assumes "healthy w"
  shows "run_state (handleLogout s r) w =
    ((http_Redirect ''/login'')\<lparr>rs_cookie := Some (cleared_cookie s)\<rparr>,
     case rq_cookie r of None \<Rightarrow> w | Some token \<Rightarrow> w\<lparr>db := without_session token (db w)\<rparr>)"
  using assms
  by (auto simp: handleLogout_def endSession_def DeleteSession_def run_exec_sql_healthy
      sql_delete_session_def without_session_def cleared_cookie_def split: option.split)

section \<open>Setup\<close>

definition new_admin :: "int \<Rightarrow> string \<Rightarrow> gotime \<Rightarrow> admin_row" where
  "new_admin i h t = \<lparr>adm_id = i, adm_password_hash = h, adm_created_at = t\<rparr>"

definition with_admin :: "string \<Rightarrow> gotime \<Rightarrow> database \<Rightarrow> database" where
  "with_admin h t d =
     d\<lparr>admins := admins d @ [new_admin (admin_seq d + 1) h t], admin_seq := admin_seq d + 1\<rparr>"

text \<open>What setup has done when it hands over to \<open>startSession\<close>.\<close>

definition after_setup :: "string \<Rightarrow> world \<Rightarrow> world" where
  "after_setup h w =
     w\<lparr>entropy := sdrop 16 (entropy w), clock := stl (clock w),
       db := with_admin h (shd (clock w)) (db w)\<rparr>"

lemma run_setup_rest:
  assumes "healthy w" and "rq_method r \<noteq> ''GET''"
    and "rq_form r ''password'' = rq_form r ''confirm''" and "8 \<le> length (rq_form r ''password'')"
    and "bcrypt_hash B (stake 16 (entropy w)) (rq_form r ''password'') = Inr h"
  shows "run_state (setup_rest B s r (Inr False)) w = run_state (session_redirect s) (after_setup h w)"
  using assms
  by (simp add: setup_rest_def validatePassword_def hashPassword_def CreateAdmin_def
      run_exec_sql_healthy sql_insert_admin_def Let_def after_setup_def with_admin_def new_admin_def)

lemma run_handleSetup:
  assumes "healthy w" and "admins (db w) = []" and "rq_method r \<noteq> ''GET''"
    and "rq_form r ''password'' = rq_form r ''confirm''" and "8 \<le> length (rq_form r ''password'')"
    and "bcrypt_hash B (stake 16 (entropy w)) (rq_form r ''password'') = Inr h"
  shows "run_state (handleSetup B s r) w = run_state (session_redirect s) (after_setup h w)"
  using run_setup_rest [OF assms(1,3-6)] assms(1,2) by (simp add: handleSetup_def run_HasAdmin)

text \<open>Once there is an account, setup is closed.\<close>

lemma run_handleSetup_closed:
  assumes "admins (db w) \<noteq> []"
  shows "untouched w (snd (run_state (handleSetup B s r) w))"
    "turned_away (fst (run_state (handleSetup B s r) w))"
  using assms
  by (auto simp: handleSetup_def setup_rest_def HasAdmin_def run_exec_sql sql_count_admins_def untouched_def
      turned_away_def split: option.split)

section \<open>Change of password\<close>

definition with_password :: "string \<Rightarrow> database \<Rightarrow> database" where
  "with_password h d =
     d\<lparr>admins := update_where (\<lambda>a. map_option adm_id (first_admin d) = Some (adm_id a))
        (\<lambda>a. a\<lparr>adm_password_hash := h\<rparr>) (admins d)\<rparr>"

lemma first_admin_with_password:
  assumes "admins_ok d" and "first_admin d = Some a"
  shows "first_admin (with_password h d) = Some (a\<lparr>adm_password_hash := h\<rparr>)"
proof -
  obtain as where as: "admins d = a # as"
    using assms by (auto simp: first_admin_hd split: list.splits)
  have "map adm_id (admins (with_password h d)) = map adm_id (admins d)"
    by (simp add: with_password_def map_update_where)
  then have "sorted (map adm_id (admins (with_password h d)))"
    using assms(1) by (simp add: admins_ok_def)
  then have "first_admin (with_password h d) =
      (case admins (with_password h d) of [] \<Rightarrow> None | b # _ \<Rightarrow> Some b)"
    by (simp only: first_admin_def sort_key_sorted)
  moreover obtain bs where "admins (with_password h d) = a\<lparr>adm_password_hash := h\<rparr> # bs"
    using as assms(2) by (simp add: with_password_def)
  ultimately show ?thesis by simp
qed

lemma run_handleChangePassword:
  assumes "healthy w" and "rq_method r = ''POST''" and "first_admin (db w) = Some a"
    and "bcrypt_matches B (adm_password_hash a) (rq_form r ''current_password'')"
    and "rq_form r ''new_password'' = rq_form r ''confirm_password''"
    and "8 \<le> length (rq_form r ''new_password'')"
    and "bcrypt_hash B (stake 16 (entropy w)) (rq_form r ''new_password'') = Inr h"
  shows "run_state (handleChangePassword B s r) w =
    (http_Redirect ''/settings'',
     w\<lparr>entropy := sdrop 16 (entropy w), db := with_password h (db w)\<rparr>)"
  using assms
  by (simp add: handleChangePassword_def run_AdminPasswordHash checkPassword_def validatePassword_def
      hashPassword_def SetAdminPassword_def run_exec_sql_healthy sql_update_admin_hash_def Let_def
      with_password_def)

text \<open>Without the current password the account keeps its hash, whatever the driver does.\<close>

lemma run_handleChangePassword_denied:
  assumes "\<And>a. first_admin (db w) = Some a \<Longrightarrow>
      \<not> bcrypt_matches B (adm_password_hash a) (rq_form r ''current_password'')"
  shows "untouched w (snd (run_state (handleChangePassword B s r) w))"
  using assms
  by (auto simp: handleChangePassword_def AdminPasswordHash_def run_exec_sql renderSettings_def
      GetSetting_def sql_select_admin_hash_def sql_select_setting_def checkPassword_def untouched_def
      split: option.split sum.split prod.split if_split)

text \<open>A new session leaves the accounts alone, also when it cannot be stored.\<close>

lemma run_session_redirect_admins:
  assumes "healthy w" and "run_state (session_redirect s) w = (p, w')"
  shows "healthy w'" "admins (db w') = admins (db w)" "admin_seq (db w') = admin_seq (db w)"
  using assms
  by (auto simp: session_redirect_def startSession_def newSessionToken_def CreateSession_def
      run_exec_sql_healthy sql_insert_session_def Let_def split: if_splits)

end
