(* ===== verification/Json_Text.thy ===== *)
theory Json_Text
  imports Encoding
begin

text \<open>
  The strings of \<open>encoding/json\<close>: how they are quoted (with the HTML escapes that \<open>json.Marshal\<close> makes)
  and how a quoted text is read back. Bytes that are not UTF-8 are replaced by U+FFFD in both
  directions, so a string is read back as it was exactly when it is valid UTF-8.
\<close>

section \<open>Runes\<close>

text \<open>\<open>utf8.DecodeRune\<close>: the size of the sequence that a text begins with, 0 where it is not one.\<close>

definition rune_size :: "bytes \<Rightarrow> nat" where
  "rune_size s =
     (case s of
        [] \<Rightarrow> 0
      | c # cs \<Rightarrow>
          (case utf8_size c of
             0 \<Rightarrow> 0
           | Suc n \<Rightarrow>
               if n \<le> length cs \<and> (n = 0 \<or> utf8_second c (hd cs)) \<and> list_all (in_range 0x80 0xBF) (take n cs)
               then Suc n else 0))"

text \<open>\<open>utf8.AppendRune\<close> of a code point.\<close>

definition utf8_encode :: "nat \<Rightarrow> bytes" where
  "utf8_encode r =
     (if r < 0x80 then [byte_of r]
      else if r < 0x800 then [byte_of (0xC0 + r div 64), byte_of (0x80 + r mod 64)]
      else if r < 0x10000 then
        [byte_of (0xE0 + r div 4096), byte_of (0x80 + r div 64 mod 64), byte_of (0x80 + r mod 64)]
      else
        [byte_of (0xF0 + r div 262144), byte_of (0x80 + r div 4096 mod 64),
         byte_of (0x80 + r div 64 mod 64), byte_of (0x80 + r mod 64)])"

definition replacement_char :: bytes where
  "replacement_char = utf8_encode 0xFFFD"

lemma utf8_valid_Cons:
  "utf8_valid (c # cs) \<longleftrightarrow> (\<exists>n. rune_size (c # cs) = Suc n \<and> utf8_valid (drop n cs))"
  by (auto simp: utf8_valid.simps rune_size_def split: nat.splits)

lemma rune_size_bounds:
  assumes "rune_size (c # cs) = Suc n"
  shows "n \<le> length cs" "list_all (in_range 0x80 0xBF) (take n cs)" "byte_val c < 0x80 \<longleftrightarrow> n = 0"
  using assms by (auto simp: rune_size_def utf8_size_def in_range_def split: nat.splits if_splits)

lemma rune_size_append:
  assumes "rune_size (c # cs) = Suc n"
  shows "rune_size (c # take n cs @ t) = Suc n"
proof -
  have "utf8_size c = Suc n" "n \<le> length cs" "n = 0 \<or> utf8_second c (hd cs)"
    "list_all (in_range 0x80 0xBF) (take n cs)"
    using assms by (auto simp: rune_size_def split: nat.splits if_splits)
  then show ?thesis
    by (cases n; cases cs) (simp_all add: rune_size_def)
qed

section \<open>Quoting\<close>

definition escape_ascii :: "char \<Rightarrow> string" where
  "escape_ascii c =
     (if c = CHR 0x22 \<or> c = CHR 0x5C then [CHR 0x5C, c]
      else if c = CHR 0x08 then [CHR 0x5C, CHR ''b'']
      else if c = CHR 0x0C then [CHR 0x5C, CHR ''f'']
      else if c = CHR 0x0A then [CHR 0x5C, CHR ''n'']
      else if c = CHR 0x0D then [CHR 0x5C, CHR ''r'']
      else if c = CHR 0x09 then [CHR 0x5C, CHR ''t'']
      else if byte_val c < 0x20 \<or> c = CHR ''<'' \<or> c = CHR ''>'' \<or> c = CHR ''&'' then
        [CHR 0x5C, CHR ''u'', CHR ''0'', CHR ''0'', hex_digit (byte_val c div 16), hex_digit (byte_val c mod 16)]
      else [c])"

text \<open>U+2028 and U+2029 are escaped as well; \<open>c # cs\<close> is their UTF-8 sequence.\<close>

definition escape_rune :: "bytes \<Rightarrow> string" where
  "escape_rune s =
     (if s = [CHR 0xE2, CHR 0x80, CHR 0xA8] then CHR 0x5C # ''u2028''
      else if s = [CHR 0xE2, CHR 0x80, CHR 0xA9] then CHR 0x5C # ''u2029''
      else s)"

function json_escape :: "string \<Rightarrow> string" where
  "json_escape [] = []"
| "json_escape (c # cs) =
     (if byte_val c < 0x80 then escape_ascii c @ json_escape cs
      else case rune_size (c # cs) of
          0 \<Rightarrow> (CHR 0x5C # ''ufffd'') @ json_escape cs
        | Suc n \<Rightarrow> escape_rune (c # take n cs) @ json_escape (drop n cs))"
  by pat_completeness auto
termination by (relation "measure length") auto

section \<open>Reading a string\<close>

definition simple_escape :: "char \<Rightarrow> char option" where
  "simple_escape c = map_of
     [(CHR 0x22, CHR 0x22), (CHR 0x5C, CHR 0x5C), (CHR ''/'', CHR ''/''), (CHR ''b'', CHR 0x08),
      (CHR ''f'', CHR 0x0C), (CHR ''n'', CHR 0x0A), (CHR ''r'', CHR 0x0D), (CHR ''t'', CHR 0x09)] c"

text \<open>
  The scanner: the text of a string up to its closing quote, as it stands, and what follows. A
  control character or an escape that there is not is an error.
\<close>

fun scan_string :: "bytes \<Rightarrow> (bytes \<times> bytes) option" where
  "scan_string [] = None"
| "scan_string (c # cs) =
     (if c = CHR 0x22 then Some ([], cs)
      else if c = CHR 0x5C then
        (case cs of
           [] \<Rightarrow> None
         | e # es \<Rightarrow>
             if e = CHR ''u'' then
               (case es of
                  h1 # h2 # h3 # h4 # rest \<Rightarrow>
                    if list_all (\<lambda>h. hex_value h \<noteq> None) [h1, h2, h3, h4]
                    then map_option (apfst ((@) [c, e, h1, h2, h3, h4])) (scan_string rest)
                    else None
                | _ \<Rightarrow> None)
             else if simple_escape e \<noteq> None then map_option (apfst ((@) [c, e])) (scan_string es)
             else None)
      else if byte_val c < 0x20 then None
      else map_option (apfst ((#) c)) (scan_string cs))"

text \<open>\<open>getu4\<close>: the number of an escape with \<open>u\<close> at the beginning of the text.\<close>

definition getu4 :: "bytes \<Rightarrow> nat option" where
  "getu4 s =
     (case s of
        b # u # h1 # h2 # h3 # h4 # _ \<Rightarrow>
          if b = CHR 0x5C \<and> u = CHR ''u'' then
            (case map hex_value [h1, h2, h3, h4] of
               [Some d1, Some d2, Some d3, Some d4] \<Rightarrow> Some (((d1 * 16 + d2) * 16 + d3) * 16 + d4)
             | _ \<Rightarrow> None)
          else None
      | _ \<Rightarrow> None)"

definition surrogate :: "nat \<Rightarrow> bool" where
  "surrogate r \<longleftrightarrow> 0xD800 \<le> r \<and> r < 0xE000"

text \<open>\<open>utf16.DecodeRune\<close>.\<close>

definition surrogate_pair :: "nat \<Rightarrow> nat \<Rightarrow> nat option" where
  "surrogate_pair r s =
     (if 0xD800 \<le> r \<and> r < 0xDC00 \<and> 0xDC00 \<le> s \<and> s < 0xE000
      then Some (0x10000 + (r - 0xD800) * 0x400 + (s - 0xDC00)) else None)"

text \<open>\<open>unquote\<close>, on the text between the quotes.\<close>

function json_unescape :: "bytes \<Rightarrow> string option" where
  "json_unescape [] = Some []"
| "json_unescape (c # cs) =
     (if c = CHR 0x5C then
        (case cs of
           [] \<Rightarrow> None
         | e # es \<Rightarrow>
             if e = CHR ''u'' then
               (case getu4 (c # cs) of
                  None \<Rightarrow> None
                | Some r \<Rightarrow>
                    if surrogate r then
                      (case Option.bind (getu4 (drop 5 cs)) (surrogate_pair r) of
                         Some q \<Rightarrow> map_option ((@) (utf8_encode q)) (json_unescape (drop 11 cs))
                       | None \<Rightarrow> map_option ((@) replacement_char) (json_unescape (drop 5 cs)))
                    else map_option ((@) (utf8_encode r)) (json_unescape (drop 5 cs)))
             else
               (case simple_escape e of
                  None \<Rightarrow> None
                | Some d \<Rightarrow> map_option ((#) d) (json_unescape es)))
      else if c = CHR 0x22 \<or> byte_val c < 0x20 then None
      else if byte_val c < 0x80 then map_option ((#) c) (json_unescape cs)
      else (case rune_size (c # cs) of
          0 \<Rightarrow> map_option ((@) replacement_char) (json_unescape cs)
        | Suc n \<Rightarrow> map_option ((@) (c # take n cs)) (json_unescape (drop n cs))))"
  by pat_completeness auto
termination by (relation "measure length") auto

declare json_escape.simps(2) [simp del] json_unescape.simps(2) [simp del] scan_string.simps(2) [simp del]

section \<open>What was quoted is read back\<close>

lemma ascii_step:
  assumes "0x20 \<le> byte_val c" and "byte_val c < 0x80" and "c \<noteq> CHR 0x22" and "c \<noteq> CHR 0x5C"
  shows "scan_string (c # t) = map_option (apfst ((#) c)) (scan_string t)"
    "json_unescape (c # t) = map_option ((#) c) (json_unescape t)"
  using assms by (simp_all add: scan_string.simps json_unescape.simps)

lemma escape_step:
  assumes "simple_escape e = Some c"
  shows "scan_string (CHR 0x5C # e # t) = map_option (apfst ((@) [CHR 0x5C, e])) (scan_string t)"
    "json_unescape (CHR 0x5C # e # t) = map_option ((#) c) (json_unescape t)"
proof -
  have "e \<noteq> CHR ''u''" using assms by (auto simp: simple_escape_def split: if_splits)
  with assms show "scan_string (CHR 0x5C # e # t) = map_option (apfst ((@) [CHR 0x5C, e])) (scan_string t)"
    "json_unescape (CHR 0x5C # e # t) = map_option ((#) c) (json_unescape t)"
    by (simp_all add: scan_string.simps json_unescape.simps)
qed

lemma unicode_step:
  assumes "map hex_value [h1, h2, h3, h4] = [Some d1, Some d2, Some d3, Some d4]"
    and "r = ((d1 * 16 + d2) * 16 + d3) * 16 + d4"
  shows "scan_string (CHR 0x5C # CHR ''u'' # h1 # h2 # h3 # h4 # t) =
      map_option (apfst ((@) [CHR 0x5C, CHR ''u'', h1, h2, h3, h4])) (scan_string t)"
    "\<not> surrogate r \<Longrightarrow> json_unescape (CHR 0x5C # CHR ''u'' # h1 # h2 # h3 # h4 # t) =
      map_option ((@) (utf8_encode r)) (json_unescape t)"
  using assms by (simp_all add: scan_string.simps json_unescape.simps getu4_def)

lemma append_single: "(@) [c] = (#) c"
  by (rule ext) simp

lemma escape_ascii_steps:
  assumes "byte_val c < 0x80"
  shows "scan_string (escape_ascii c @ t) = map_option (apfst ((@) (escape_ascii c))) (scan_string t)"
    "json_unescape (escape_ascii c @ t) = map_option ((#) c) (json_unescape t)"
proof -
  have u: "scan_string (CHR 0x5C # CHR ''u'' # CHR ''0'' # CHR ''0'' # hex_digit (n div 16) # hex_digit (n mod 16) # t) =
      map_option (apfst ((@) [CHR 0x5C, CHR ''u'', CHR ''0'', CHR ''0'', hex_digit (n div 16), hex_digit (n mod 16)])) (scan_string t)"
    "json_unescape (CHR 0x5C # CHR ''u'' # CHR ''0'' # CHR ''0'' # hex_digit (n div 16) # hex_digit (n mod 16) # t) =
      map_option ((@) [byte_of n]) (json_unescape t)" if "n < 0x80" for n
  proof -
    have h: "map hex_value [CHR ''0'', CHR ''0'', hex_digit (n div 16), hex_digit (n mod 16)] =
        [Some 0, Some 0, Some (n div 16), Some (n mod 16)]"
      using that hex_value_digit [of "n div 16"] hex_value_digit [of "n mod 16"]
      by (simp add: hex_value_def in_range_def)
    show "scan_string (CHR 0x5C # CHR ''u'' # CHR ''0'' # CHR ''0'' # hex_digit (n div 16) # hex_digit (n mod 16) # t) =
      map_option (apfst ((@) [CHR 0x5C, CHR ''u'', CHR ''0'', CHR ''0'', hex_digit (n div 16), hex_digit (n mod 16)])) (scan_string t)"
      by (rule unicode_step(1) [OF h refl])
    have "json_unescape (CHR 0x5C # CHR ''u'' # CHR ''0'' # CHR ''0'' # hex_digit (n div 16) # hex_digit (n mod 16) # t) =
        map_option ((@) (utf8_encode n)) (json_unescape t)"
      by (rule unicode_step(2) [OF h]) (use that in \<open>simp_all add: surrogate_def\<close>)
    then show "json_unescape (CHR 0x5C # CHR ''u'' # CHR ''0'' # CHR ''0'' # hex_digit (n div 16) # hex_digit (n mod 16) # t) =
      map_option ((@) [byte_of n]) (json_unescape t)"
      using that by (simp add: utf8_encode_def)
  qed
  have s: "simple_escape CHR 0x22 = Some CHR 0x22" "simple_escape CHR 0x5C = Some CHR 0x5C"
    "simple_escape CHR ''b'' = Some CHR 0x08" "simple_escape CHR ''f'' = Some CHR 0x0C"
    "simple_escape CHR ''n'' = Some CHR 0x0A" "simple_escape CHR ''r'' = Some CHR 0x0D"
    "simple_escape CHR ''t'' = Some CHR 0x09"
    by (simp_all add: simple_escape_def)
  show "scan_string (escape_ascii c @ t) = map_option (apfst ((@) (escape_ascii c))) (scan_string t)"
    using u(1) [OF assms] assms
    by (auto simp: escape_ascii_def escape_step(1) [OF s(1)] escape_step(1) [OF s(2)] escape_step(1) [OF s(3)]
        escape_step(1) [OF s(4)] escape_step(1) [OF s(5)] escape_step(1) [OF s(6)] escape_step(1) [OF s(7)]
        ascii_step(1) append_single)
  show "json_unescape (escape_ascii c @ t) = map_option ((#) c) (json_unescape t)"
    using u(2) [OF assms] assms
    by (auto simp: escape_ascii_def escape_step(2) [OF s(1)] escape_step(2) [OF s(2)] escape_step(2) [OF s(3)]
        escape_step(2) [OF s(4)] escape_step(2) [OF s(5)] escape_step(2) [OF s(6)] escape_step(2) [OF s(7)]
        ascii_step(2) append_single)
qed

lemma scan_high:
  "list_all (\<lambda>c. 0x80 \<le> byte_val c) xs \<Longrightarrow>
    scan_string (xs @ t) = map_option (apfst ((@) xs)) (scan_string t)"
proof (induction xs)
  case Nil
  show ?case by (cases "scan_string t") (auto simp: prod_eq_iff)
next
  case (Cons c xs)
  then have "c \<noteq> CHR 0x22" "c \<noteq> CHR 0x5C" "\<not> byte_val c < 0x20" by auto
  with Cons show ?case
    by (simp add: scan_string.simps) (cases "scan_string t"; simp add: prod_eq_iff)
qed

lemma rune_high:
  assumes "rune_size (c # cs) = Suc n" and "0x80 \<le> byte_val c"
  shows "list_all (\<lambda>c. 0x80 \<le> byte_val c) (c # take n cs)"
  using rune_size_bounds(2) [OF assms(1)] assms(2) by (auto simp: list_all_iff in_range_def)

lemma escape_rune_steps:
  assumes "rune_size (c # cs) = Suc n" and "0x80 \<le> byte_val c"
  shows "scan_string (escape_rune (c # take n cs) @ t) =
      map_option (apfst ((@) (escape_rune (c # take n cs)))) (scan_string t)"
    "json_unescape (escape_rune (c # take n cs) @ t) = map_option ((@) (c # take n cs)) (json_unescape t)"
proof -
  have h: "map hex_value [CHR ''2'', CHR ''0'', CHR ''2'', CHR ''8''] = [Some 2, Some 0, Some 2, Some 8]"
    "map hex_value [CHR ''2'', CHR ''0'', CHR ''2'', CHR ''9''] = [Some 2, Some 0, Some 2, Some 9]"
    by (simp_all add: hex_value_def in_range_def)
  have e: "utf8_encode 0x2028 = [CHR 0xE2, CHR 0x80, CHR 0xA8]" "utf8_encode 0x2029 = [CHR 0xE2, CHR 0x80, CHR 0xA9]"
    by (simp_all add: utf8_encode_def char_of_def bit_Suc_0_iff)
  have "c \<noteq> CHR 0x22" "c \<noteq> CHR 0x5C" "\<not> byte_val c < 0x20" using assms(2) by auto
  then have "json_unescape (c # take n cs @ t) = map_option ((@) (c # take n cs)) (json_unescape t)"
    using assms rune_size_append [OF assms(1), of t] rune_size_bounds(1) [OF assms(1)]
    by (simp add: json_unescape.simps)
  then show "json_unescape (escape_rune (c # take n cs) @ t) = map_option ((@) (c # take n cs)) (json_unescape t)"
    using unicode_step(2) [OF h(1) refl, of t] unicode_step(2) [OF h(2) refl, of t]
    by (auto simp: escape_rune_def e surrogate_def)
  show "scan_string (escape_rune (c # take n cs) @ t) =
      map_option (apfst ((@) (escape_rune (c # take n cs)))) (scan_string t)"
    using unicode_step(1) [OF h(1) refl, of t] unicode_step(1) [OF h(2) refl, of t]
      scan_high [OF rune_high [OF assms], of t]
    by (auto simp: escape_rune_def)
qed

text \<open>Every quoted text is scanned up to its closing quote, and valid UTF-8 is unquoted to itself.\<close>

lemma scan_escape: "scan_string (json_escape s @ CHR 0x22 # t) = Some (json_escape s, t)"
proof (induction s rule: json_escape.induct)
  case 1
  show ?case by (simp add: scan_string.simps)
next
  case (2 c cs)
  show ?case
  proof (cases "byte_val c < 0x80")
    case True
    with 2(1) show ?thesis by (simp add: json_escape.simps escape_ascii_steps(1))
  next
    case high: False
    show ?thesis
    proof (cases "rune_size (c # cs)")
      case 0
      have h: "map hex_value [CHR ''f'', CHR ''f'', CHR ''f'', CHR ''d''] = [Some 15, Some 15, Some 15, Some 13]"
        by (simp add: hex_value_def in_range_def)
      from unicode_step(1) [OF h refl] 2(2) [OF high 0] high 0 show ?thesis
        by (simp add: json_escape.simps)
    next
      case (Suc n)
      from escape_rune_steps(1) [OF Suc] 2(3) [OF high Suc] high Suc show ?thesis
        by (simp add: json_escape.simps)
    qed
  qed
qed

lemma json_unescape_escape: "utf8_valid s \<Longrightarrow> json_unescape (json_escape s) = Some s"
proof (induction s rule: json_escape.induct)
  case (2 c cs)
  obtain n where n: "rune_size (c # cs) = Suc n" "utf8_valid (drop n cs)"
    using 2(4) by (auto simp: utf8_valid_Cons)
  show ?case
  proof (cases "byte_val c < 0x80")
    case True
    with n rune_size_bounds(3) [OF n(1)] 2(1) show ?thesis
      by (simp add: json_escape.simps escape_ascii_steps(2))
  next
    case high: False
    with escape_rune_steps(2) [OF n(1)] 2(3) [OF high n] n show ?thesis
      by (simp add: json_escape.simps)
  qed
qed simp

end
