(* ===== verification/Json_Value.thy ===== *)
theory Json_Value
  imports Json_Text
begin

text \<open>
  JSON values as \<open>encoding/json\<close> scans and writes them. A string and a number are kept as they stand
  in the text (\<open>JString\<close> without its quotes), since the reader of a field decides what it makes of
  them. The parser takes the nesting that is still allowed, 10000 levels in Go.
\<close>

datatype json =
    JNull
  | JBool bool
  | JNumber string
  | JString string
  | JArray "json list"
  | JObject "(string \<times> json) list"

section \<open>Scanning\<close>

definition json_space :: "char \<Rightarrow> bool" where
  "json_space c \<longleftrightarrow> c = CHR '' '' \<or> c = CHR 0x09 \<or> c = CHR 0x0A \<or> c = CHR 0x0D"

definition skip_space :: "bytes \<Rightarrow> bytes" where
  "skip_space = dropWhile json_space"

definition scan_digits :: "bytes \<Rightarrow> (bytes \<times> bytes) option" where
  "scan_digits s =
     (if takeWhile is_digit s = [] then None else Some (takeWhile is_digit s, dropWhile is_digit s))"

definition scan_int :: "bytes \<Rightarrow> (bytes \<times> bytes) option" where
  "scan_int s =
     (case s of [] \<Rightarrow> None | c # cs \<Rightarrow> if c = CHR ''0'' then Some ([c], cs) else scan_digits s)"

definition scan_fraction :: "bytes \<Rightarrow> (bytes \<times> bytes) option" where
  "scan_fraction s =
     (case s of
        [] \<Rightarrow> Some ([], [])
      | c # cs \<Rightarrow> if c = CHR ''.'' then map_option (apfst ((#) c)) (scan_digits cs) else Some ([], s))"

definition scan_exponent :: "bytes \<Rightarrow> (bytes \<times> bytes) option" where
  "scan_exponent s =
     (case s of
        [] \<Rightarrow> Some ([], [])
      | c # cs \<Rightarrow>
          if c = CHR ''e'' \<or> c = CHR ''E'' then
            (case cs of
               [] \<Rightarrow> None
             | g # gs \<Rightarrow>
                 if g = CHR ''+'' \<or> g = CHR ''-'' then map_option (apfst (\<lambda>ds. c # g # ds)) (scan_digits gs)
                 else map_option (apfst ((#) c)) (scan_digits cs))
          else Some ([], s))"

definition scan_unsigned :: "bytes \<Rightarrow> (bytes \<times> bytes) option" where
  "scan_unsigned s =
     (case scan_int s of
        None \<Rightarrow> None
      | Some (i, s2) \<Rightarrow>
          (case scan_fraction s2 of
             None \<Rightarrow> None
           | Some (f, s3) \<Rightarrow>
               (case scan_exponent s3 of None \<Rightarrow> None | Some (e, s4) \<Rightarrow> Some (i @ f @ e, s4))))"

definition scan_number :: "bytes \<Rightarrow> (bytes \<times> bytes) option" where
  "scan_number s =
     (case s of
        [] \<Rightarrow> None
      | c # cs \<Rightarrow>
          if c = CHR ''-'' then map_option (apfst ((#) c)) (scan_unsigned cs) else scan_unsigned s)"

section \<open>Parsing\<close>

lemma skip_space_length: "length (skip_space s) \<le> length s"
  by (simp add: skip_space_def length_dropWhile_le)

lemma skip_space_less: "length s < n \<Longrightarrow> length (skip_space s) < n"
  using skip_space_length [of s] by simp

lemma skip_space_Cons: "skip_space s = c # r \<Longrightarrow> length r < length s"
  using skip_space_length [of s] by simp

lemma scan_string_elim:
  assumes "scan_string s = Some (x, r)"
  obtains (close) "s = CHR 0x22 # r" "x = []"
  | (plain) c cs y where "s = c # cs" "x = c # y" "c \<noteq> CHR 0x22" "c \<noteq> CHR 0x5C" "\<not> byte_val c < 0x20"
      "scan_string cs = Some (y, r)"
  | (escape) e es y where "s = CHR 0x5C # e # es" "x = CHR 0x5C # e # y" "e \<noteq> CHR ''u''"
      "simple_escape e \<noteq> None" "scan_string es = Some (y, r)"
  | (unicode) h1 h2 h3 h4 es y where "s = CHR 0x5C # CHR ''u'' # h1 # h2 # h3 # h4 # es"
      "x = CHR 0x5C # CHR ''u'' # h1 # h2 # h3 # h4 # y"
      "list_all (\<lambda>h. hex_value h \<noteq> None) [h1, h2, h3, h4]" "scan_string es = Some (y, r)"
proof (cases s)
  case (Cons c cs)
  have unfolded: "(if c = CHR 0x22 then Some ([], cs)
      else if c = CHR 0x5C then
        (case cs of
           [] \<Rightarrow> None
         | e # es \<Rightarrow>
             if e = CHR ''u'' then
               (case es of
                  h1 # h2 # h3 # h4 # rest \<Rightarrow>
                    if list_all (\<lambda>h. hex_value h \<noteq> None) [h1, h2, h3, h4]
                    then map_option (apfst ((@) [c, e, h1, h2, h3, h4])) (scan_string rest)
                    else None
                | _ \<Rightarrow> None)
             else if simple_escape e \<noteq> None then map_option (apfst ((@) [c, e])) (scan_string es)
             else None)
      else if byte_val c < 0x20 then None
      else map_option (apfst ((#) c)) (scan_string cs)) = Some (x, r)"
    using assms unfolding Cons scan_string.simps(2) .
  consider "c = CHR 0x22" | "c = CHR 0x5C" | "c \<noteq> CHR 0x22" "c \<noteq> CHR 0x5C" by blast
  then show thesis
  proof cases
    case 1
    with unfolded Cons show thesis by (intro close) simp_all
  next
    case 2
    with unfolded Cons show thesis
      by (auto simp: apfst_def split: list.splits if_splits intro: escape unicode)
  next
    case 3
    with unfolded Cons show thesis by (auto split: if_splits intro: plain)
  qed
qed (use assms in simp)

text \<open>What a string leaves is what stands behind its quote.\<close>

lemma scan_string_split: "scan_string s = Some (x, r) \<Longrightarrow> s = x @ CHR 0x22 # r"
proof (induction s arbitrary: x rule: measure_induct_rule [of length])
  case (less s)
  from less.prems show ?case
    by (cases rule: scan_string_elim) (use less.IH in auto)
qed

lemma scan_string_length: "scan_string s = Some (x, r) \<Longrightarrow> length r < length s"
  using scan_string_split [of s x r] by simp

text \<open>
  The comparison of lengths before the next member or element always holds: a value takes at least
  a byte of the text.
\<close>

function parse_value :: "nat \<Rightarrow> bytes \<Rightarrow> (json \<times> bytes) option"
  and parse_members :: "nat \<Rightarrow> bytes \<Rightarrow> ((string \<times> json) list \<times> bytes) option"
  and parse_elements :: "nat \<Rightarrow> bytes \<Rightarrow> (json list \<times> bytes) option" where
  "parse_value d s =
     (case s of
        [] \<Rightarrow> None
      | c # cs \<Rightarrow>
          if c = CHR 0x22 then map_option (apfst JString) (scan_string cs)
          else if c = CHR ''{'' then
            (if d = 0 then None
             else case skip_space cs of
                 [] \<Rightarrow> None
               | e # r \<Rightarrow>
                   if e = CHR ''}'' then Some (JObject [], r)
                   else map_option (apfst JObject) (parse_members (d - 1) (e # r)))
          else if c = CHR ''['' then
            (if d = 0 then None
             else case skip_space cs of
                 [] \<Rightarrow> None
               | e # r \<Rightarrow>
                   if e = CHR '']'' then Some (JArray [], r)
                   else map_option (apfst JArray) (parse_elements (d - 1) (e # r)))
          else if take 4 s = ''null'' then Some (JNull, drop 4 s)
          else if take 4 s = ''true'' then Some (JBool True, drop 4 s)
          else if take 5 s = ''false'' then Some (JBool False, drop 5 s)
          else map_option (apfst JNumber) (scan_number s))"
| "parse_members d s =
     (case s of
        [] \<Rightarrow> None
      | q # cs \<Rightarrow>
          if q \<noteq> CHR 0x22 then None
          else case scan_string cs of
              None \<Rightarrow> None
            | Some (k, r1) \<Rightarrow>
                (case skip_space r1 of
                   [] \<Rightarrow> None
                 | colon # r2 \<Rightarrow>
                     if colon \<noteq> CHR '':'' then None
                     else case parse_value d (skip_space r2) of
                         None \<Rightarrow> None
                       | Some (v, r3) \<Rightarrow>
                           (case skip_space r3 of
                              [] \<Rightarrow> None
                            | e # r4 \<Rightarrow>
                                if e = CHR ''}'' then Some ([(k, v)], r4)
                                else if e = CHR '','' \<and> length r4 < length s
                                then map_option (apfst ((#) (k, v))) (parse_members d (skip_space r4))
                                else None)))"
| "parse_elements d s =
     (case parse_value d s of
        None \<Rightarrow> None
      | Some (v, r) \<Rightarrow>
          (case skip_space r of
             [] \<Rightarrow> None
           | e # r2 \<Rightarrow>
               if e = CHR '']'' then Some ([v], r2)
               else if e = CHR '','' \<and> length r2 < length s
               then map_option (apfst ((#) v)) (parse_elements d (skip_space r2))
               else None))"
  by pat_completeness auto

termination
proof (relation "measures
    [case_sum (length \<circ> snd) (case_sum (length \<circ> snd) (length \<circ> snd)),
     case_sum (\<lambda>_. 0) (\<lambda>_. 1 :: nat)]")
qed (auto dest!: scan_string_length skip_space_Cons intro!: skip_space_less)

declare parse_value.simps [simp del] parse_members.simps [simp del] parse_elements.simps [simp del]

section \<open>Writing\<close>

text \<open>
  \<open>json.Marshal\<close> writes no space; \<open>json.MarshalIndent\<close> begins a line for each member (\<open>nl l\<close>, at the
  nesting \<open>l\<close>) and puts a space behind a colon (\<open>sp\<close>).
\<close>

fun json_print :: "(nat \<Rightarrow> string) \<Rightarrow> string \<Rightarrow> nat \<Rightarrow> json \<Rightarrow> string"
  and print_members :: "(nat \<Rightarrow> string) \<Rightarrow> string \<Rightarrow> nat \<Rightarrow> (string \<times> json) list \<Rightarrow> string"
  and print_elements :: "(nat \<Rightarrow> string) \<Rightarrow> string \<Rightarrow> nat \<Rightarrow> json list \<Rightarrow> string" where
  "json_print nl sp l JNull = ''null''"
| "json_print nl sp l (JBool b) = (if b then ''true'' else ''false'')"
| "json_print nl sp l (JNumber n) = n"
| "json_print nl sp l (JString s) = CHR 0x22 # s @ [CHR 0x22]"
| "json_print nl sp l (JArray vs) =
     (if vs = [] then ''[]'' else CHR ''['' # print_elements nl sp (Suc l) vs @ nl l @ '']'')"
| "json_print nl sp l (JObject ms) =
     (if ms = [] then ''{}'' else CHR ''{'' # print_members nl sp (Suc l) ms @ nl l @ ''}'')"
| "print_members nl sp l [] = []"
| "print_members nl sp l ((k, v) # ms) =
     nl l @ CHR 0x22 # k @ CHR 0x22 # CHR '':'' # sp @ json_print nl sp l v @
       (if ms = [] then [] else CHR '','' # print_members nl sp l ms)"
| "print_elements nl sp l [] = []"
| "print_elements nl sp l (v # vs) =
     nl l @ json_print nl sp l v @ (if vs = [] then [] else CHR '','' # print_elements nl sp l vs)"

definition json_compact :: "json \<Rightarrow> string" where
  "json_compact = json_print (\<lambda>l. []) [] 0"

definition json_indented :: "json \<Rightarrow> string" where
  "json_indented = json_print (\<lambda>l. CHR 0x0A # concat (replicate l ''  '')) '' '' 0"

section \<open>What was written is read back\<close>

text \<open>Strings and numbers that the scanner takes as a whole, and a nesting that is allowed.\<close>

definition string_ok :: "string \<Rightarrow> bool" where
  "string_ok s \<longleftrightarrow> scan_string (s @ [CHR 0x22]) = Some (s, [])"

definition number_ok :: "string \<Rightarrow> bool" where
  "number_ok n \<longleftrightarrow> scan_number n = Some (n, [])"

fun json_ok :: "nat \<Rightarrow> json \<Rightarrow> bool" where
  "json_ok d JNull = True"
| "json_ok d (JBool b) = True"
| "json_ok d (JNumber n) = number_ok n"
| "json_ok d (JString s) = string_ok s"
| "json_ok d (JArray vs) = (0 < d \<and> (\<forall>v \<in> set vs. json_ok (d - 1) v))"
| "json_ok d (JObject ms) = (0 < d \<and> (\<forall>(k, v) \<in> set ms. string_ok k \<and> json_ok (d - 1) v))"

lemma scan_string_append: "scan_string s = Some (x, r) \<Longrightarrow> scan_string (s @ t) = Some (x, r @ t)"
proof (induction s arbitrary: x rule: measure_induct_rule [of length])
  case (less s)
  from less.prems show ?case
  proof (cases rule: scan_string_elim)
    case (plain c cs y)
    with less.IH [of cs y] show ?thesis by (simp add: scan_string.simps)
  next
    case (escape e es y)
    with less.IH [of es y] show ?thesis by (simp add: scan_string.simps)
  next
    case (unicode h1 h2 h3 h4 es y)
    with less.IH [of es y] show ?thesis by (simp add: scan_string.simps)
  qed (simp add: scan_string.simps)
qed

lemma string_ok_scan: "string_ok s \<Longrightarrow> scan_string (s @ CHR 0x22 # t) = Some (s, t)"
  using scan_string_append [of "s @ [CHR 0x22]" s "[]" t] by (simp add: string_ok_def)

text \<open>A number ends before any byte that cannot go on with it.\<close>

definition number_end :: "bytes \<Rightarrow> bool" where
  "number_end t \<longleftrightarrow>
     (case t of [] \<Rightarrow> True | c # _ \<Rightarrow> \<not> is_digit c \<and> c \<noteq> CHR ''.'' \<and> c \<noteq> CHR ''e'' \<and> c \<noteq> CHR ''E'')"


lemma takeWhile_stop:
  assumes "dropWhile P s = [] \<Longrightarrow> (case t of [] \<Rightarrow> True | c # _ \<Rightarrow> \<not> P c)"
  shows "takeWhile P (s @ t) = takeWhile P s" "dropWhile P (s @ t) = dropWhile P s @ t"
  using assms by (induction s) (auto split: list.splits if_splits)

lemma stops_digitsD:
  assumes "scan_digits s = Some (x, r)" and "r = [] \<Longrightarrow> number_end t"
  shows "scan_digits (s @ t) = Some (x, r @ t)"
proof -
  have "dropWhile is_digit s = [] \<Longrightarrow> (case t of [] \<Rightarrow> True | c # _ \<Rightarrow> \<not> is_digit c)"
    using assms by (auto simp: scan_digits_def number_end_def split: if_splits list.splits)
  note takeWhile_stop [OF this]
  with assms(1) show ?thesis by (auto simp: scan_digits_def split: if_splits)
qed

lemma stops_int:
  assumes "scan_int s = Some (x, r)" and "r = [] \<Longrightarrow> number_end t"
  shows "scan_int (s @ t) = Some (x, r @ t)"
proof (cases s)
  case (Cons c cs)
  show ?thesis
  proof (cases "c = CHR ''0''")
    case False
    with assms(1) Cons have "scan_digits s = Some (x, r)" by (simp add: scan_int_def)
    from stops_digitsD [OF this assms(2)] False Cons show ?thesis by (simp add: scan_int_def)
  qed (use assms Cons in \<open>simp add: scan_int_def\<close>)
qed (use assms in \<open>simp add: scan_int_def\<close>)

lemma stops_fraction:
  assumes "scan_fraction s = Some (x, r)" and "r = [] \<Longrightarrow> number_end t"
  shows "scan_fraction (s @ t) = Some (x, r @ t)"
proof (cases s)
  case Nil
  with assms show ?thesis by (auto simp: scan_fraction_def number_end_def split: list.split)
next
  case (Cons c cs)
  with assms show ?thesis
    by (auto simp: scan_fraction_def split: if_splits dest: stops_digitsD [of _ _ _ t])
qed

lemma stops_exponent:
  assumes "scan_exponent s = Some (x, r)" and "r = [] \<Longrightarrow> number_end t"
  shows "scan_exponent (s @ t) = Some (x, r @ t)"
proof (cases s)
  case Nil
  with assms show ?thesis by (auto simp: scan_exponent_def number_end_def split: list.split)
next
  case (Cons c cs)
  show ?thesis
  proof (cases cs)
    case Nil
    with Cons assms show ?thesis
      by (auto simp: scan_exponent_def split: if_splits)
  next
    case (Cons g gs)
    with \<open>s = c # cs\<close> assms show ?thesis
      using stops_digitsD [of gs _ _ t] stops_digitsD [of cs _ _ t]
      by (auto simp: scan_exponent_def split: if_splits)
  qed
qed

lemma stops_unsigned:
  assumes "scan_unsigned s = Some (x, [])" and "number_end t"
  shows "scan_unsigned (s @ t) = Some (x, t)"
proof -
  obtain i s2 f s3 e where p: "scan_int s = Some (i, s2)" "scan_fraction s2 = Some (f, s3)"
      "scan_exponent s3 = Some (e, [])" "x = i @ f @ e"
    using assms(1) by (auto simp: scan_unsigned_def split: option.splits)
  from stops_int [OF p(1) assms(2)] stops_fraction [OF p(2) assms(2)] stops_exponent [OF p(3) assms(2)] p(4)
  show ?thesis by (simp add: scan_unsigned_def)
qed

lemma number_ok_scan:
  assumes "number_ok n" and "number_end t"
  shows "scan_number (n @ t) = Some (n, t)"
proof (cases n)
  case (Cons c cs)
  with assms show ?thesis
    using stops_unsigned [OF _ assms(2), of n] stops_unsigned [OF _ assms(2), of cs]
    by (auto simp: number_ok_def scan_number_def split: if_splits)
qed (use assms in \<open>simp add: number_ok_def scan_number_def\<close>)

definition blank :: "string \<Rightarrow> bool" where
  "blank s \<longleftrightarrow> list_all json_space s"

lemma skip_blank: "blank b \<Longrightarrow> skip_space (b @ t) = skip_space t"
  by (simp add: blank_def skip_space_def list_all_iff dropWhile_append3)

lemma skip_head: "\<not> json_space c \<Longrightarrow> skip_space (c # t) = c # t"
  by (simp add: skip_space_def)

lemma space_not_digit: "json_space c \<Longrightarrow> \<not> is_digit c"
  by (auto simp: json_space_def is_digit_def in_range_def)

lemma number_end_blank: "blank b \<Longrightarrow> c = CHR '','' \<or> c = CHR ''}'' \<or> c = CHR '']'' \<Longrightarrow> number_end (b @ c # t)"
  by (cases b) (auto simp: number_end_def blank_def json_space_def is_digit_def in_range_def)

lemma number_ok_head:
  assumes "number_ok n"
  obtains c cs where "n = c # cs" "is_digit c \<or> c = CHR ''-''"
proof (cases n)
  case (Cons c cs)
  have "is_digit c \<or> c = CHR ''-''"
  proof (rule ccontr)
    assume "\<not> (is_digit c \<or> c = CHR ''-'')"
    moreover have "is_digit (CHR ''0'')" by (simp add: is_digit_def in_range_def)
    ultimately have "scan_int n = None"
      using Cons by (auto simp: scan_int_def scan_digits_def)
    with assms Cons \<open>\<not> (is_digit c \<or> c = CHR ''-'')\<close> show False
      by (simp add: number_ok_def scan_number_def scan_unsigned_def)
  qed
  with Cons that show thesis by blast
qed (use assms in \<open>simp add: number_ok_def scan_number_def\<close>)

lemma json_print_head:
  assumes "json_ok d j"
  shows "\<exists>c cs. json_print nl sp l j = c # cs \<and> \<not> json_space c \<and> c \<noteq> CHR '']''"
proof (cases j)
  case (JNumber n)
  with assms obtain c cs where "n = c # cs" "is_digit c \<or> c = CHR ''-''"
    by (auto elim: number_ok_head)
  moreover from this(2) have "\<not> json_space c" "c \<noteq> CHR '']''"
    by (auto simp: json_space_def is_digit_def in_range_def)
  ultimately show ?thesis using JNumber by simp
qed (simp_all add: json_space_def)

text \<open>The leading byte tells the parser which kind of value follows.\<close>

lemma parse_value_string: "string_ok s \<Longrightarrow> parse_value d (CHR 0x22 # s @ CHR 0x22 # t) = Some (JString s, t)"
  by (simp add: parse_value.simps string_ok_scan)

lemma parse_value_number:
  assumes "number_ok n" and "number_end t"
  shows "parse_value d (n @ t) = Some (JNumber n, t)"
proof -
  obtain c cs where c: "n = c # cs" "is_digit c \<or> c = CHR ''-''"
    using assms(1) by (rule number_ok_head)
  then have "c \<noteq> CHR 0x22" "c \<noteq> CHR ''{''" "c \<noteq> CHR ''[''" "c \<noteq> CHR ''n''" "c \<noteq> CHR ''t''" "c \<noteq> CHR ''f''"
    by (auto simp: is_digit_def in_range_def)
  with number_ok_scan [OF assms] c(1) show ?thesis
    by (simp add: parse_value.simps)
qed

lemma parse_value_object:
  assumes "parse_members d (skip_space s) = Some (ms, t)" and "skip_space s = CHR 0x22 # u"
  shows "parse_value (Suc d) (CHR ''{'' # s) = Some (JObject ms, t)"
  using assms by (simp add: parse_value.simps)

lemma parse_value_array:
  assumes "parse_elements d (skip_space s) = Some (vs, t)" and "skip_space s = c # u" and "c \<noteq> CHR '']''"
  shows "parse_value (Suc d) (CHR ''['' # s) = Some (JArray vs, t)"
  using assms by (simp add: parse_value.simps)

lemma parse_members_step:
  assumes "string_ok k" and "parse_value d (skip_space s) = Some (v, r)"
  shows "skip_space r = CHR ''}'' # t \<Longrightarrow>
      parse_members d (CHR 0x22 # k @ CHR 0x22 # CHR '':'' # s) = Some ([(k, v)], t)"
    "skip_space r = CHR '','' # t \<Longrightarrow> length t < length s \<Longrightarrow> parse_members d (skip_space t) = Some (ms, u) \<Longrightarrow>
      parse_members d (CHR 0x22 # k @ CHR 0x22 # CHR '':'' # s) = Some ((k, v) # ms, u)"
proof -
  have colon: "skip_space (CHR '':'' # s) = CHR '':'' # s"
    by (rule skip_head) (simp add: json_space_def)
  note scan = string_ok_scan [OF assms(1), of "CHR '':'' # s"]
  show "skip_space r = CHR ''}'' # t \<Longrightarrow>
      parse_members d (CHR 0x22 # k @ CHR 0x22 # CHR '':'' # s) = Some ([(k, v)], t)"
    by (subst parse_members.simps) (simp add: scan colon assms(2))
  show "skip_space r = CHR '','' # t \<Longrightarrow> length t < length s \<Longrightarrow> parse_members d (skip_space t) = Some (ms, u) \<Longrightarrow>
      parse_members d (CHR 0x22 # k @ CHR 0x22 # CHR '':'' # s) = Some ((k, v) # ms, u)"
    by (subst parse_members.simps) (simp add: scan colon assms(2))
qed

lemma parse_elements_step:
  assumes "parse_value d s = Some (v, r)"
  shows "skip_space r = CHR '']'' # t \<Longrightarrow> parse_elements d s = Some ([v], t)"
    "skip_space r = CHR '','' # t \<Longrightarrow> length t < length s \<Longrightarrow> parse_elements d (skip_space t) = Some (vs, u) \<Longrightarrow>
      parse_elements d s = Some (v # vs, u)"
  using assms by (simp_all add: parse_elements.simps [of d s])

lemma parse_print:
  "json_ok d j \<Longrightarrow> number_end t \<Longrightarrow> (\<And>i. blank (nl i)) \<Longrightarrow> blank sp \<Longrightarrow>
    parse_value d (json_print nl sp l j @ t) = Some (j, t)"
  "ms \<noteq> [] \<Longrightarrow> (\<forall>(k, v) \<in> set ms. string_ok k \<and> json_ok d v) \<Longrightarrow> blank b \<Longrightarrow> (\<And>i. blank (nl i)) \<Longrightarrow> blank sp \<Longrightarrow>
    parse_members d (skip_space (print_members nl sp l ms @ b @ CHR ''}'' # t)) = Some (ms, t)"
  "vs \<noteq> [] \<Longrightarrow> (\<forall>v \<in> set vs. json_ok d v) \<Longrightarrow> blank b \<Longrightarrow> (\<And>i. blank (nl i)) \<Longrightarrow> blank sp \<Longrightarrow>
    parse_elements d (skip_space (print_elements nl sp l vs @ b @ CHR '']'' # t)) = Some (vs, t)"
proof (induction nl sp l j and nl sp l ms and nl sp l vs arbitrary: d t and d b t and d b t
    rule: json_print_print_members_print_elements.induct)
  case (3 nl sp l n)
  then show ?case by (simp add: parse_value_number)
next
  case (4 nl sp l s)
  then show ?case by (simp add: parse_value_string)
next
  case (5 nl sp l vs)
  show ?case
  proof (cases "vs = []")
    case True
    with 5(2) show ?thesis by (simp add: parse_value.simps skip_head json_space_def)
  next
    case False
    then obtain v ws where vs: "vs = v # ws" by (cases vs) auto
    obtain e where d: "d = Suc e" using 5(2) by (cases d) auto
    obtain c cs where c: "json_print nl sp (Suc l) v = c # cs" "\<not> json_space c" "c \<noteq> CHR '']''"
      using 5(2) vs d json_print_head [of e v nl sp "Suc l"] by auto
    have "skip_space (print_elements nl sp (Suc l) vs @ nl l @ CHR '']'' # t) =
        c # cs @ (if ws = [] then [] else CHR '','' # print_elements nl sp (Suc l) ws) @ nl l @ CHR '']'' # t"
      using c by (simp add: vs skip_blank [OF 5(4)] skip_head)
    moreover have "parse_elements e (skip_space (print_elements nl sp (Suc l) vs @ nl l @ CHR '']'' # t)) = Some (vs, t)"
      using 5(1) [OF False False, of e "nl l" t] 5(2,4,5) d by auto
    ultimately show ?thesis
      using False d c(3) parse_value_array [of e "print_elements nl sp (Suc l) vs @ nl l @ CHR '']'' # t"] by simp
  qed
next
  case (6 nl sp l ms)
  show ?case
  proof (cases "ms = []")
    case True
    with 6(2) show ?thesis by (simp add: parse_value.simps skip_head json_space_def)
  next
    case False
    then obtain k v ns where ms: "ms = (k, v) # ns" by (cases ms) auto
    obtain e where d: "d = Suc e" using 6(2) by (cases d) auto
    have q: "\<not> json_space (CHR 0x22)" by (simp add: json_space_def)
    have "\<exists>u. skip_space (print_members nl sp (Suc l) ms @ nl l @ CHR ''}'' # t) = CHR 0x22 # u"
      by (simp add: ms skip_blank [OF 6(4)] skip_head [OF q])
    moreover have "parse_members e (skip_space (print_members nl sp (Suc l) ms @ nl l @ CHR ''}'' # t)) = Some (ms, t)"
      using 6(1) [OF False False, of e "nl l" t] 6(2,4,5) d by auto
    ultimately show ?thesis
      using False d parse_value_object [of e "print_members nl sp (Suc l) ms @ nl l @ CHR ''}'' # t"] by auto
  qed
next
  case (8 nl sp l k v ms)
  have q: "\<not> json_space (CHR 0x22)" "\<not> json_space (CHR '','')" "\<not> json_space (CHR ''}'')"
    by (simp_all add: json_space_def)
  obtain c cs where c: "json_print nl sp l v = c # cs" "\<not> json_space c"
    using 8(4) json_print_head [of d v nl sp l] by auto
  let ?rest = "(if ms = [] then [] else CHR '','' # print_members nl sp l ms) @ b @ CHR ''}'' # t"
  have "number_end ?rest"
    using number_end_blank [OF 8(5), of "CHR ''}''" t] number_end_blank [of "[]" "CHR '',''"]
    by (auto simp: blank_def)
  then have v: "parse_value d (skip_space (sp @ json_print nl sp l v @ ?rest)) = Some (v, ?rest)"
    using 8(1) [of d ?rest] 8(4,6,7) c by (simp add: skip_blank [OF 8(7)] skip_head)
  have k: "string_ok k" using 8(4) by simp
  show ?case
  proof (cases "ms = []")
    case True
    with parse_members_step(1) [OF k v, of t] show ?thesis
      by (simp add: skip_blank [OF 8(6)] skip_blank [OF 8(5)] skip_head q)
  next
    case False
    have "parse_members d (skip_space (print_members nl sp l ms @ b @ CHR ''}'' # t)) = Some (ms, t)"
      using 8(2) [OF False False, of d b t] 8(4-7) by auto
    with False parse_members_step(2) [OF k v, of "print_members nl sp l ms @ b @ CHR ''}'' # t" ms t] show ?thesis
      by (simp add: skip_blank [OF 8(6)] skip_head q)
  qed
next
  case (10 nl sp l v vs)
  have q: "\<not> json_space (CHR '','')" "\<not> json_space (CHR '']'')"
    by (simp_all add: json_space_def)
  obtain c cs where c: "json_print nl sp l v = c # cs" "\<not> json_space c"
    using 10(4) json_print_head [of d v nl sp l] by auto
  let ?rest = "(if vs = [] then [] else CHR '','' # print_elements nl sp l vs) @ b @ CHR '']'' # t"
  have "number_end ?rest"
    using number_end_blank [OF 10(5), of "CHR '']''" t] number_end_blank [of "[]" "CHR '',''"]
    by (auto simp: blank_def)
  then have v: "parse_value d (skip_space (nl l @ json_print nl sp l v @ ?rest)) = Some (v, ?rest)"
    using 10(1) [of d ?rest] 10(4,6,7) c by (simp add: skip_blank [OF 10(6)] skip_head)
  show ?case
  proof (cases "vs = []")
    case True
    with parse_elements_step(1) [OF v, of t] show ?thesis
      by (simp add: skip_blank [OF 10(5)] skip_head q)
  next
    case False
    have "parse_elements d (skip_space (print_elements nl sp l vs @ b @ CHR '']'' # t)) = Some (vs, t)"
      using 10(2) [OF False False, of d b t] 10(4-7) by auto
    with False c parse_elements_step(2) [OF v, of "print_elements nl sp l vs @ b @ CHR '']'' # t" vs t] show ?thesis
      by (simp add: skip_blank [OF 10(6)] skip_head q)
  qed
qed (simp_all add: parse_value.simps)

section \<open>Whole texts\<close>

definition max_nesting :: nat where
  "max_nesting = 10000"

text \<open>
  \<open>json.Unmarshal\<close> demands that the text is one value; a \<open>json.Decoder\<close> takes the first value and
  leaves what follows.
\<close>

definition json_whole :: "bytes \<Rightarrow> json option" where
  "json_whole s =
     (case parse_value max_nesting (skip_space s) of
        None \<Rightarrow> None
      | Some (j, r) \<Rightarrow> if skip_space r = [] then Some j else None)"

definition json_first :: "bytes \<Rightarrow> json option" where
  "json_first s = map_option fst (parse_value max_nesting (skip_space s))"

lemma json_whole_first: "json_whole s = Some j \<Longrightarrow> json_first s = Some j"
  by (auto simp: json_whole_def json_first_def split: option.splits if_splits)

lemma string_ok_escape [simp]: "string_ok (json_escape s)"
  by (simp add: string_ok_def scan_escape)

lemma string_ok_plain:
  "list_all (\<lambda>c. 0x20 \<le> byte_val c \<and> c \<noteq> CHR 0x22 \<and> c \<noteq> CHR 0x5C) s \<Longrightarrow> string_ok s"
  unfolding string_ok_def
  by (induction s) (auto simp: scan_string.simps)

lemma nat_dec_leading: "0 < n \<Longrightarrow> \<exists>c cs. nat_dec n = c # cs \<and> c \<noteq> CHR ''0''"
proof (induction n rule: nat_dec.induct)
  case (1 n)
  show ?case
  proof (cases "n < 10")
    case True
    have "byte_val (digit n) \<noteq> 48" using True 1(2) by (simp add: byte_val_digit)
    with True show ?thesis by (subst nat_dec.simps) auto
  next
    case False
    then have "0 < n div 10" by simp
    with 1(1) [OF False] False show ?thesis by (subst nat_dec.simps) auto
  qed
qed

lemma scan_nat_dec: "scan_unsigned (nat_dec n) = Some (nat_dec n, [])"
proof -
  have "scan_int (nat_dec n) = Some (nat_dec n, [])"
  proof (cases "n = 0")
    case True
    then show ?thesis by (simp add: nat_dec.simps digit_def scan_int_def char_of_def bit_Suc_0_iff)
  next
    case False
    then obtain c cs where "nat_dec n = c # cs" "c \<noteq> CHR ''0''"
      using nat_dec_leading by blast
    with nat_dec_digits [of n] show ?thesis
      by (auto simp: scan_int_def scan_digits_def list_all_iff takeWhile_eq_all_conv)
  qed
  then show ?thesis by (simp add: scan_unsigned_def scan_fraction_def scan_exponent_def)
qed

lemma number_ok_Itoa [simp]: "number_ok (Itoa i)"
proof (cases "i < 0")
  case True
  then show ?thesis by (simp add: number_ok_def Itoa_def scan_number_def scan_nat_dec)
next
  case False
  obtain k ds where "nat_dec (nat i) = digit k # ds" "k < 10" using nat_dec_Cons by blast
  with False scan_nat_dec [of "nat i"] digit_not_sign [of k] show ?thesis
    by (simp add: number_ok_def Itoa_def scan_number_def)
qed

lemma json_whole_print:
  assumes "json_ok max_nesting j" and "\<And>i. blank (nl i)" and "blank sp" and "blank t"
  shows "json_whole (json_print nl sp l j @ t) = Some j"
proof -
  obtain c cs where "json_print nl sp l j = c # cs" "\<not> json_space c"
    using json_print_head [OF assms(1)] by blast
  moreover have "number_end t"
    using assms(4) by (cases t) (auto simp: number_end_def blank_def json_space_def is_digit_def in_range_def)
  moreover have "skip_space t = []"
    using skip_blank [OF assms(4), of "[]"] by (simp add: skip_space_def)
  ultimately show ?thesis
    using parse_print(1) [of max_nesting j t nl sp l] assms by (simp add: json_whole_def skip_head)
qed

lemma json_whole_compact: "json_ok max_nesting j \<Longrightarrow> json_whole (json_compact j) = Some j"
  using json_whole_print [of j "\<lambda>l. []" "[]" "[]" 0] by (simp add: json_compact_def blank_def)

lemma json_whole_line: "json_ok max_nesting j \<Longrightarrow> json_whole (json_compact j @ [CHR 0x0A]) = Some j"
  using json_whole_print [of j "\<lambda>l. []" "[]" "[CHR 0x0A]" 0]
  by (simp add: json_compact_def blank_def json_space_def)

lemma json_whole_indented: "json_ok max_nesting j \<Longrightarrow> json_whole (json_indented j) = Some j"
  using json_whole_print [of j "\<lambda>l. CHR 0x0A # concat (replicate l ''  '')" "'' ''" "[]" 0]
  by (auto simp: json_indented_def blank_def json_space_def list_all_iff)

end
