(* ===== verification/Json_Struct.thy ===== *)
theory Json_Struct
  imports Json_Value "HOL-Library.List_Lexorder" "HOL-Library.Char_ord"
begin

text \<open>
  Go structs as JSON: what \<open>encoding/json\<close> makes of an object whose members belong to the fields of a
  struct, and the values that \<open>json.Marshal\<close> writes for strings, numbers and maps of strings. A field
  is its name with the function that stores a value in the struct; the function fails where Go reports
  an \<open>UnmarshalTypeError\<close> or an error of the field's own \<open>UnmarshalJSON\<close>.
\<close>

section \<open>Names\<close>

text \<open>
  \<open>foldName\<close>: names match without regard to case. The Kelvin sign (U+212A) and the long s (U+017F)
  fold to the letters k and s; other characters beyond ASCII fold to no ASCII character, and no field
  has one in its name, so they may stay.
\<close>

definition to_upper :: "char \<Rightarrow> char" where
  "to_upper c = (if in_range 97 122 c then byte_of (byte_val c - 32) else c)"

function fold_name :: "string \<Rightarrow> string" where
  "fold_name [] = []"
| "fold_name (c # cs) =
     (if take 3 (c # cs) = [CHR 0xE2, CHR 0x84, CHR 0xAA] then CHR ''K'' # fold_name (drop 2 cs)
      else if take 2 (c # cs) = [CHR 0xC5, CHR 0xBF] then CHR ''S'' # fold_name (drop 1 cs)
      else to_upper c # fold_name cs)"
  by pat_completeness auto
termination by (relation "measure length") auto

type_synonym 'a json_field = "string \<times> (json \<Rightarrow> 'a \<Rightarrow> 'a option)"

text \<open>The field of a name: the one of that very name, else one that folds to the same.\<close>

definition find_field :: "'a json_field list \<Rightarrow> string \<Rightarrow> (json \<Rightarrow> 'a \<Rightarrow> 'a option) option" where
  "find_field fs k =
     (case map_of fs k of
        Some f \<Rightarrow> Some f
      | None \<Rightarrow> map_option snd (List.find (\<lambda>(n, _). fold_name n = fold_name k) fs))"

section \<open>Reading a struct\<close>

text \<open>
  The members are stored one after another, so that the last of several with a name wins. A member
  that no field takes is ignored, or is an error with \<open>DisallowUnknownFields\<close> (\<open>strict\<close>). A \<open>null\<close>
  leaves everything as it is.
\<close>

fun decode_members :: "bool \<Rightarrow> 'a json_field list \<Rightarrow> (string \<times> json) list \<Rightarrow> 'a \<Rightarrow> 'a option" where
  "decode_members strict fs [] x = Some x"
| "decode_members strict fs ((k, v) # ms) x =
     (case json_unescape k of
        None \<Rightarrow> None
      | Some n \<Rightarrow>
          (case find_field fs n of
             None \<Rightarrow> if strict then None else decode_members strict fs ms x
           | Some f \<Rightarrow> (case f v x of None \<Rightarrow> None | Some y \<Rightarrow> decode_members strict fs ms y)))"

definition decode_struct :: "bool \<Rightarrow> 'a json_field list \<Rightarrow> json \<Rightarrow> 'a \<Rightarrow> 'a option" where
  "decode_struct strict fs j x =
     (case j of
        JNull \<Rightarrow> Some x
      | JObject ms \<Rightarrow> decode_members strict fs ms x
      | _ \<Rightarrow> None)"

definition string_field :: "(string \<Rightarrow> 'a \<Rightarrow> 'a) \<Rightarrow> json \<Rightarrow> 'a \<Rightarrow> 'a option" where
  "string_field store v x =
     (case v of
        JNull \<Rightarrow> Some x
      | JString s \<Rightarrow> map_option (\<lambda>t. store t x) (json_unescape s)
      | _ \<Rightarrow> None)"

definition bool_field :: "(bool \<Rightarrow> 'a \<Rightarrow> 'a) \<Rightarrow> json \<Rightarrow> 'a \<Rightarrow> 'a option" where
  "bool_field store v x =
     (case v of
        JNull \<Rightarrow> Some x
      | JBool b \<Rightarrow> Some (store b x)
      | _ \<Rightarrow> None)"

text \<open>An \<open>int\<close> takes the numbers that \<open>strconv.ParseInt\<close> reads: no fraction, no exponent, 64 bits.\<close>

definition int_field :: "(int \<Rightarrow> 'a \<Rightarrow> 'a) \<Rightarrow> json \<Rightarrow> 'a \<Rightarrow> 'a option" where
  "int_field store v x =
     (case v of
        JNull \<Rightarrow> Some x
      | JNumber n \<Rightarrow> (case Atoi n of Inl _ \<Rightarrow> None | Inr i \<Rightarrow> Some (store i x))
      | _ \<Rightarrow> None)"

definition struct_field ::
  "bool \<Rightarrow> 'b json_field list \<Rightarrow> ('a \<Rightarrow> 'b) \<Rightarrow> ('b \<Rightarrow> 'a \<Rightarrow> 'a) \<Rightarrow> json \<Rightarrow> 'a \<Rightarrow> 'a option" where
  "struct_field strict fs get store v x = map_option (\<lambda>y. store y x) (decode_struct strict fs v (get x))"

section \<open>Writing\<close>

definition json_text :: "string \<Rightarrow> json" where
  "json_text s = JString (json_escape s)"

definition json_int :: "int \<Rightarrow> json" where
  "json_int i = JNumber (Itoa i)"

text \<open>The members of a map are written in the order of their keys.\<close>

definition json_map :: "(string \<times> string) list \<Rightarrow> json" where
  "json_map kv = JObject (map (\<lambda>(k, v). (json_escape k, json_text v)) (sort_key fst kv))"

section \<open>Lemmas\<close>

text \<open>A text of printable ASCII characters without quotes and backslashes stands for itself.\<close>

definition plain :: "string \<Rightarrow> bool" where
  "plain s \<longleftrightarrow> list_all (\<lambda>c. 0x20 \<le> byte_val c \<and> byte_val c < 0x80 \<and> c \<noteq> CHR 0x22 \<and> c \<noteq> CHR 0x5C) s"

lemma unescape_plain: "plain s \<Longrightarrow> json_unescape s = Some s"
  unfolding plain_def
  by (induction s) (simp_all add: ascii_step)

lemma string_ok_if_plain: "plain s \<Longrightarrow> string_ok s"
  by (rule string_ok_plain) (auto simp: plain_def list_all_iff)

lemma plain_utf8: "plain s \<Longrightarrow> utf8_valid s"
  by (rule utf8_valid_ascii) (auto simp: plain_def list_all_iff)

lemma json_ok_text [simp]: "json_ok d (json_text s)"
  by (simp add: json_text_def)

lemma json_ok_int [simp]: "json_ok d (json_int i)"
  by (simp add: json_int_def)

lemma json_ok_map [simp]: "0 < d \<Longrightarrow> json_ok d (json_map kv)"
  by (auto simp: json_map_def)

lemma string_field_text [simp]: "utf8_valid s \<Longrightarrow> string_field store (json_text s) x = Some (store s x)"
  by (simp add: string_field_def json_text_def json_unescape_escape)

lemma int_field_int [simp]:
  "- (2 ^ 63) \<le> i \<Longrightarrow> i < 2 ^ 63 \<Longrightarrow> int_field store (json_int i) x = Some (store i x)"
  by (simp add: int_field_def json_int_def Atoi_Itoa)

lemma bool_field_bool [simp]: "bool_field store (JBool b) x = Some (store b x)"
  by (simp add: bool_field_def)

declare decode_members.simps(2) [simp del]

lemma decode_struct_object: "decode_struct strict fs (JObject ms) x = decode_members strict fs ms x"
  by (simp add: decode_struct_def)

lemma decode_member:
  assumes "plain k" and "map_of fs k = Some f"
  shows "decode_members strict fs ((k, v) # ms) x =
    (case f v x of None \<Rightarrow> None | Some y \<Rightarrow> decode_members strict fs ms y)"
  using assms by (simp add: decode_members.simps(2) unescape_plain find_field_def)

end
