(* ===== verification/Rfc3339.thy ===== *)
theory Rfc3339
  imports Calendar
begin

text \<open>
  Instants as text: what \<open>time.Time\<close> writes into JSON and what it reads, with
  the strict form of RFC 3339 (\<open>parseStrictRFC3339\<close>). Only the years from 0 to 9999 can be written.
\<close>

section \<open>Every day has a date\<close>

lemma split_years_sound:
  assumes "split_years z = (y, t)"
  shows "days_before_year y + t = z" "0 \<le> t" "t < (if leap_year y then 366 else 365)"
proof -
  define a where "a = z div 146097"
  define r400 where "r400 = z mod 146097"
  define b where "b = min 3 (r400 div 36524)"
  define r100 where "r100 = r400 - 36524 * b"
  define c where "c = r100 div 1461"
  define r4 where "r4 = r100 mod 1461"
  define e where "e = min 3 (r4 div 365)"
  have y: "y = 400 * a + 100 * b + 4 * c + e + 1" and t: "t = r4 - 365 * e"
    using assms by (simp_all add: split_years_def Let_def a_def r400_def b_def r100_def c_def r4_def e_def)
  have z: "z = 146097 * a + r400" "0 \<le> r400" "r400 \<le> 146096"
    by (simp_all add: a_def r400_def)
  have "0 \<le> b \<and> b < 4 \<and> (b = 3 \<or> r400 < 36524 * (b + 1)) \<and> 36524 * b \<le> r400"
    using z(2) by (auto simp: b_def min_def; presburger)
  then have b: "0 \<le> b" "b < 4" "b = 3 \<or> r400 < 36524 * (b + 1)" "36524 * b \<le> r400" by simp_all
  have r100: "0 \<le> r100" "r100 \<le> 36524" "b \<noteq> 3 \<Longrightarrow> r100 < 36524"
    using b z(3) by (auto simp: r100_def)
  have r4: "0 \<le> r4" "r4 \<le> 1460"
    using pos_mod_bound [of 1461 r100] by (simp_all add: r4_def)
  have c3: "r100 = 1461 * c + r4" by (simp add: c_def r4_def)
  with r4 r100(1,2) have c: "0 \<le> c" "c < 25" "r100 = 1461 * c + r4" by simp_all
  have "0 \<le> e \<and> e < 4 \<and> (e = 3 \<or> r4 < 365 * (e + 1)) \<and> 365 * e \<le> r4"
    using r4(1) by (auto simp: e_def min_def; presburger)
  then have e: "0 \<le> e" "e < 4" "e = 3 \<or> r4 < 365 * (e + 1)" "365 * e \<le> r4" by simp_all
  show "0 \<le> t" using e(4) t by simp
  have days: "days_before_year y = 146097 * a + 36524 * b + 1461 * c + 365 * e"
    by (simp add: days_before_year_def Let_def y cycles_divs [OF b(1,2) c(1,2) e(1,2)])
  show "days_before_year y + t = z"
    using days t z(1) c(3) by (simp add: r100_def)
  have leap: "leap_year y \<longleftrightarrow> e = 3 \<and> (c \<noteq> 24 \<or> b = 3)"
    unfolding y by (rule cycles_leap [OF b(1,2) c(1,2) e(1,2)])
  show "t < (if leap_year y then 366 else 365)"
  proof (cases "e = 3 \<and> t = 365")
    case True
    then have "r4 = 1460" using t by simp
    then have "c = 24 \<Longrightarrow> r100 = 36524" using c(3) by simp
    then have "c \<noteq> 24 \<or> b = 3" using r100(3) by auto
    with True leap show ?thesis by simp
  next
    case False
    have "t \<le> 365" using e(2,3) r4(2) t by auto
    moreover have "e \<noteq> 3 \<Longrightarrow> t < 365" using e(3) t by simp
    ultimately show ?thesis using False by auto
  qed
qed

lemma split_months_sound:
  assumes "\<forall>l \<in> set ls. 0 \<le> l" and "0 \<le> t" and "t < sum_list ls"
  shows "\<exists>k d. k < length ls \<and> split_months ls m t = (m + int k, d + 1) \<and> 0 \<le> d \<and> d < ls ! k \<and>
    t = sum_list (take k ls) + d"
  using assms
proof (induction ls arbitrary: m t)
  case (Cons l ls)
  show ?case
  proof (cases "t < l")
    case True
    with Cons.prems(2) show ?thesis by (intro exI [of _ 0] exI [of _ t]) simp
  next
    case False
    then obtain k d where "k < length ls" "split_months ls (m + 1) (t - l) = (m + 1 + int k, d + 1)"
        "0 \<le> d" "d < ls ! k" "t - l = sum_list (take k ls) + d"
      using Cons.IH [of "t - l" "m + 1"] Cons.prems by auto
    with False show ?thesis by (intro exI [of _ "Suc k"] exI [of _ d]) simp
  qed
qed simp

lemma civil_date_sound:
  assumes "civil_date n = (y, m, d)"
  shows "valid_date y m d" "day_number y m d = n"
proof -
  obtain t where t: "split_years (n + unix_epoch_day) = (y, t)" "split_months (month_lengths y) 1 t = (m, d)"
    using assms by (auto simp: civil_date_def split: prod.splits)
  note s = split_years_sound [OF t(1)]
  obtain k e where k: "k < 12" "m = 1 + int k" "d = e + 1" "0 \<le> e" "e < month_lengths y ! k"
      "t = sum_list (take k (month_lengths y)) + e"
    using split_months_sound [OF month_lengths_nonneg, of t y 1] s(2,3) t(2) sum_month_lengths [of y] by auto
  then show "valid_date y m d" by (auto simp: valid_date_def daysIn_def)
  show "day_number y m d = n"
    using s(1) k by (simp add: day_number_def year_day_def)
qed

section \<open>Writing an instant\<close>

definition minute :: duration where
  "minute = 60 * second"

definition pad_nat :: "nat \<Rightarrow> int \<Rightarrow> string" where
  "pad_nat width i = pad_left width (nat_dec (nat i))"

definition strip_zeros :: "string \<Rightarrow> string" where
  "strip_zeros s = rev (dropWhile (\<lambda>c. c = CHR ''0'') (rev s))"

text \<open>The nanoseconds of a second, without trailing zeros, or nothing.\<close>

definition format_fraction :: "int \<Rightarrow> string" where
  "format_fraction ns = (if ns = 0 then [] else CHR ''.'' # strip_zeros (pad_nat 9 ns))"

definition format_clock :: "int \<Rightarrow> string" where
  "format_clock r =
     pad_nat 2 (r div hour) @ CHR '':'' # pad_nat 2 (r div minute mod 60) @ CHR '':'' #
       pad_nat 2 (r div second mod 60) @ format_fraction (r mod second)"

text \<open>The offset from UTC, in minutes.\<close>

definition format_zone :: "int \<Rightarrow> string" where
  "format_zone z =
     (if z = 0 then ''Z''
      else (if z < 0 then CHR ''-'' else CHR ''+'') # pad_nat 2 (\<bar>z\<bar> div 60) @ CHR '':'' # pad_nat 2 (\<bar>z\<bar> mod 60))"

definition year_of :: "gotime \<Rightarrow> int" where
  "year_of t = fst (civil_date (t div day_length))"

text \<open>\<open>Time.MarshalJSON\<close>, without the quotes, of an instant in a location with the offset \<open>z\<close>.\<close>

definition marshal_time :: "int \<Rightarrow> gotime \<Rightarrow> gerror + string" where
  "marshal_time z t =
     (let l = t + z * minute in
      if year_of l < 0 \<or> 9999 < year_of l
      then Inl (LibError ''Time.MarshalJSON: year outside of range [0,9999]'')
      else if 24 \<le> \<bar>z\<bar> div 60
      then Inl (LibError ''Time.MarshalJSON: timezone hour outside of range [0,23]'')
      else Inr (format_date l @ CHR ''T'' # format_clock (l mod day_length) @ format_zone z))"

section \<open>Reading an instant\<close>

text \<open>A number of exactly \<open>w\<close> digits, below \<open>limit\<close>.\<close>

definition parse_field :: "nat \<Rightarrow> nat \<Rightarrow> bytes \<Rightarrow> (int \<times> bytes) option" where
  "parse_field w limit s =
     (if length s < w then None
      else case parse_nat (take w s) of
          None \<Rightarrow> None
        | Some n \<Rightarrow> if n < limit then Some (int n, drop w s) else None)"

definition expect :: "char \<Rightarrow> bytes \<Rightarrow> bytes option" where
  "expect c s = (case s of [] \<Rightarrow> None | x # xs \<Rightarrow> if x = c then Some xs else None)"

text \<open>Digits behind the ninth are dropped; a point that no digit follows belongs to the zone.\<close>

definition parse_fraction :: "bytes \<Rightarrow> int \<times> bytes" where
  "parse_fraction s =
     (case s of
        [] \<Rightarrow> (0, [])
      | c # cs \<Rightarrow>
          let ds = takeWhile is_digit cs in
          if c = CHR ''.'' \<and> ds \<noteq> [] then
            (case parse_nat (take 9 (ds @ replicate 9 (CHR ''0''))) of
               None \<Rightarrow> (0, s) | Some n \<Rightarrow> (int n, dropWhile is_digit cs))
          else (0, s))"

text \<open>The offset of a zone from UTC.\<close>

definition parse_zone :: "bytes \<Rightarrow> int option" where
  "parse_zone s =
     (if s = ''Z'' then Some 0
      else if length s \<noteq> 6 \<or> (hd s \<noteq> CHR ''+'' \<and> hd s \<noteq> CHR ''-'') then None
      else
        Option.bind (parse_field 2 24 (tl s)) (\<lambda>(h, r).
        Option.bind (expect (CHR '':'') r) (\<lambda>r.
        Option.bind (parse_field 2 60 r) (\<lambda>(m, _).
        let z = h * hour + m * minute in Some (if hd s = CHR ''-'' then - z else z)))))"

definition unmarshal_time :: "bytes \<Rightarrow> gotime option" where
  "unmarshal_time s =
     (case parse_date (take 10 s) of
        Inl _ \<Rightarrow> None
      | Inr day \<Rightarrow>
          Option.bind (expect (CHR ''T'') (drop 10 s)) (\<lambda>r.
          Option.bind (parse_field 2 24 r) (\<lambda>(h, r).
          Option.bind (expect (CHR '':'') r) (\<lambda>r.
          Option.bind (parse_field 2 60 r) (\<lambda>(m, r).
          Option.bind (expect (CHR '':'') r) (\<lambda>r.
          Option.bind (parse_field 2 60 r) (\<lambda>(sec, r).
          case parse_fraction r of
            (ns, r) \<Rightarrow>
              map_option (\<lambda>z. day + h * hour + m * minute + sec * second + ns - z) (parse_zone r))))))))"

section \<open>An instant that was written is read back\<close>

lemma digits_value_zeros: "digits_value 0 (replicate k (CHR ''0'') @ s) = digits_value 0 s"
  by (induction k) (simp_all add: digit_value_def in_range_def)

lemma parse_pad: "parse_nat (pad_left w (nat_dec n)) = Some n"
proof -
  have "nat_dec n \<noteq> []" using nat_dec_Cons [of n] by auto
  then show ?thesis
    using parse_nat_dec [of n] by (simp add: parse_nat_def pad_left_def digits_value_zeros)
qed

lemma length_nat_dec: "n < 10 ^ w \<Longrightarrow> 0 < w \<Longrightarrow> length (nat_dec n) \<le> w"
proof (induction n arbitrary: w rule: nat_dec.induct)
  case (1 n)
  show ?case
  proof (cases "n < 10")
    case True
    with 1(3) show ?thesis by (subst nat_dec.simps) simp
  next
    case False
    obtain v where w: "w = Suc v" using 1(3) by (cases w) auto
    have "v \<noteq> 0" using False 1(2) w by (intro notI) simp
    moreover have "n div 10 < 10 ^ v" using 1(2) w by (simp add: div_less_iff_less_mult)
    ultimately have "length (nat_dec (n div 10)) \<le> v" using 1(1) [OF False] by simp
    with False w show ?thesis by (subst nat_dec.simps) simp
  qed
qed

lemma length_pad: "n < 10 ^ w \<Longrightarrow> 0 < w \<Longrightarrow> length (pad_left w (nat_dec n)) = w"
  using length_nat_dec [of n w] by (simp add: pad_left_def)

lemma pad_nat_length: "0 \<le> i \<Longrightarrow> i < 10 ^ w \<Longrightarrow> 0 < w \<Longrightarrow> length (pad_nat w i) = w"
  using length_pad [of "nat i" w] by (simp add: pad_nat_def nat_less_iff)

lemma parse_field_pad:
  assumes "0 \<le> i" and "i < int limit" and "limit \<le> 10 ^ w" and "0 < w"
  shows "parse_field w limit (pad_nat w i @ s) = Some (i, s)"
proof -
  have "i < 10 ^ w" using assms(2,3) by (metis less_le_trans of_nat_le_iff of_nat_numeral of_nat_power)
  with assms(1,4) have "length (pad_nat w i) = w" by (intro pad_nat_length)
  with assms(1,2) show ?thesis
    by (simp add: parse_field_def pad_nat_def parse_pad nat_less_iff)
qed

lemma parse_date_of:
  assumes "0 \<le> y" and "y \<le> 9999" and "valid_date y m d"
  shows "parse_date (append_int 4 y @ ''-'' @ append_int 2 m @ ''-'' @ append_int 2 d) =
    Inr (day_number y m d * day_length)"
proof -
  have "l \<le> 31" if "l \<in> set (month_lengths y)" for l
    using that by (auto simp: month_lengths_def)
  moreover have "daysIn m y \<in> set (month_lengths y)"
    using assms(3) by (auto simp: daysIn_def valid_date_def intro!: nth_mem)
  ultimately have "d \<le> 31" using assms(3) by (fastforce simp: valid_date_def)
  with assms have b: "0 \<le> m" "m < 100" "0 \<le> d" "d < 100" "y < 10000"
    by (simp_all add: valid_date_def)
  have e: "append_int w i = pad_nat w i" if "0 \<le> i" for w i
    using that by (simp add: append_int_def pad_nat_def)
  have l: "length (pad_nat 4 y) = 4" "length (pad_nat 2 m) = 2" "length (pad_nat 2 d) = 2"
    using b assms(1) by (simp_all add: pad_nat_length)
  have v: "parse_nat (pad_nat w i) = Some (nat i)" for w i
    by (simp add: pad_nat_def parse_pad)
  from assms b l show ?thesis
    by (simp add: parse_date_def e v nth_append)
qed

lemma parse_format_date:
  assumes "0 \<le> year_of t" and "year_of t \<le> 9999"
  shows "parse_date (format_date t) = Inr (t div day_length * day_length)"
proof -
  obtain y m d where c: "civil_date (t div day_length) = (y, m, d)" by (metis prod_cases3)
  with parse_date_of [OF _ _ civil_date_sound(1) [OF c]] civil_date_sound(2) [OF c] assms
  show ?thesis by (simp add: format_date_def year_of_def)
qed

lemma length_format_date:
  "parse_date (format_date t) = Inr u \<Longrightarrow> length (format_date t) = 10"
  by (auto simp: parse_date_def split: if_splits)

lemma strip_zeros_pad: "strip_zeros s @ replicate (length s - length (strip_zeros s)) (CHR ''0'') = s"
proof -
  let ?z = "\<lambda>c. c = CHR ''0''"
  have "takeWhile ?z (rev s) = replicate (length (takeWhile ?z (rev s))) (CHR ''0'')"
    by (rule replicate_length_same [symmetric]) (auto dest: set_takeWhileD)
  moreover have "length (takeWhile ?z (rev s)) = length s - length (strip_zeros s)"
    using arg_cong [OF takeWhile_dropWhile_id [of ?z "rev s"], of length]
    unfolding strip_zeros_def length_append length_rev by linarith
  moreover have "strip_zeros s @ rev (takeWhile ?z (rev s)) = s"
    unfolding strip_zeros_def rev_append [symmetric] takeWhile_dropWhile_id by simp
  ultimately show ?thesis by (metis rev_replicate)
qed

lemma pad_nat_digits: "list_all is_digit (pad_nat w i)"
  using nat_dec_digits [of "nat i"]
  by (auto simp: pad_nat_def pad_left_def list_all_iff is_digit_def in_range_def)

text \<open>A zone's text begins with a byte that is neither a digit nor a point.\<close>

lemma format_zone_head: "\<exists>c cs. format_zone z = c # cs \<and> \<not> is_digit c \<and> c \<noteq> CHR ''.''"
  by (simp add: format_zone_def is_digit_def in_range_def)

lemma parse_format_fraction:
  assumes "0 \<le> ns" and "ns < second"
  shows "parse_fraction (format_fraction ns @ format_zone z) = (ns, format_zone z)"
proof -
  obtain c cs where z: "format_zone z = c # cs" "\<not> is_digit c" "c \<noteq> CHR ''.''"
    using format_zone_head by blast
  show ?thesis
  proof (cases "ns = 0")
    case True
    with z show ?thesis by (simp add: format_fraction_def parse_fraction_def Let_def)
  next
    case False
    let ?p = "pad_nat 9 ns" and ?s = "strip_zeros (pad_nat 9 ns)"
    have p: "length ?p = 9" "parse_nat ?p = Some (nat ns)"
    proof -
      show "length ?p = 9" using assms by (intro pad_nat_length) (simp_all add: second_def)
    qed (simp add: pad_nat_def parse_pad)
    have len: "length ?s \<le> 9"
      using arg_cong [OF strip_zeros_pad [of ?p], of length] p(1) by simp
    then have "?p = take 9 (?s @ replicate 9 (CHR ''0''))"
      using strip_zeros_pad [of ?p] p(1) by simp
    moreover have "list_all is_digit ?s"
      using pad_nat_digits [of 9 ns] strip_zeros_pad [of ?p] by (metis list_all_append)
    then have "takeWhile is_digit (?s @ format_zone z) = ?s" "dropWhile is_digit (?s @ format_zone z) = format_zone z"
      using z by (auto simp: list_all_iff takeWhile_append2 dropWhile_append3)
    moreover have "?s \<noteq> []"
    proof
      assume "?s = []"
      with calculation(1) have "?p = replicate 9 (CHR ''0'') @ []" by simp
      then have "digits_value 0 ?p = Some 0" by (simp only: digits_value_zeros digits_value.simps)
      with p False assms show False by (simp add: parse_nat_def split: if_splits)
    qed
    ultimately show ?thesis
      using p(2) False assms by (simp add: format_fraction_def parse_fraction_def Let_def)
  qed
qed

lemma parse_format_zone:
  assumes "\<bar>z\<bar> div 60 < 24"
  shows "parse_zone (format_zone z) = Some (z * minute)"
proof (cases "z = 0")
  case False
  let ?h = "pad_nat 2 (\<bar>z\<bar> div 60)" and ?m = "pad_nat 2 (\<bar>z\<bar> mod 60)"
  have h: "0 \<le> \<bar>z\<bar> div 60" by simp
  then have "length ?h = 2" using assms by (intro pad_nat_length) simp_all
  moreover have "length ?m = 2" by (intro pad_nat_length) (simp_all add: order.strict_trans1 [OF _ pos_mod_bound])
  moreover have "parse_field 2 24 (?h @ s) = Some (\<bar>z\<bar> div 60, s)" for s
    using assms h by (intro parse_field_pad) simp_all
  moreover have "parse_field 2 60 ?m = Some (\<bar>z\<bar> mod 60, [])"
    using parse_field_pad [of "\<bar>z\<bar> mod 60" 60 2 "[]"] by simp
  moreover have "\<bar>z\<bar> div 60 * hour + \<bar>z\<bar> mod 60 * minute = \<bar>z\<bar> * minute"
  proof -
    have "\<bar>z\<bar> = 60 * (\<bar>z\<bar> div 60) + \<bar>z\<bar> mod 60" by simp
    then show ?thesis unfolding hour_def minute_def second_def by linarith
  qed
  ultimately show ?thesis
    using False by (simp add: format_zone_def parse_zone_def expect_def Let_def)
qed (simp add: format_zone_def parse_zone_def)

text \<open>The fields of a time of day make it up.\<close>

lemma clock_fields:
  fixes r :: int
  assumes "0 \<le> r" and "r < day_length"
  shows "0 \<le> r div hour" "r div hour < 24"
    "r div hour * hour + r div minute mod 60 * minute + r div second mod 60 * second + r mod second = r"
proof -
  show "0 \<le> r div hour" using assms(1) by (simp add: pos_imp_zdiv_nonneg_iff hour_def second_def)
  show "r div hour < 24"
    using assms(2) by (simp add: day_length_def hour_def second_def div_less_iff_less_mult)
  have "r div minute = r div second div 60" "r div hour = r div second div 60 div 60"
    using zdiv_zmult2_eq [of 60 r "second"] zdiv_zmult2_eq [of 60 r "second * 60"]
    by (simp_all add: hour_def minute_def mult.commute)
  moreover have "r div second div 60 div 60 * hour + r div second div 60 mod 60 * minute +
      r div second mod 60 * second + r mod second = r"
  proof -
    have e: "q div 60 * (60 * k) + q mod 60 * k = q * k" for q k :: int
      by (metis distrib_right div_mult_mod_eq mult.assoc)
    have "hour = 60 * minute" "minute = 60 * second" by (simp_all add: hour_def minute_def)
    then show ?thesis
      using e [of "r div second div 60" minute] e [of "r div second" second] div_mult_mod_eq [of r second] by simp
  qed
  ultimately show "r div hour * hour + r div minute mod 60 * minute + r div second mod 60 * second + r mod second = r"
    by simp
qed

lemma unmarshal_marshal_time:
  assumes "marshal_time z t = Inr s"
  shows "unmarshal_time s = Some t"
proof -
  define l where "l = t + z * minute"
  define r where "r = l mod day_length"
  have y: "0 \<le> year_of l" "year_of l \<le> 9999" "\<bar>z\<bar> div 60 < 24"
    and s: "s = format_date l @ CHR ''T'' # format_clock r @ format_zone z"
    using assms by (auto simp: marshal_time_def Let_def l_def r_def split: if_splits)
  note date = parse_format_date [OF y(1,2)]
  note len = length_format_date [OF date]
  have r: "0 \<le> r" "r < day_length" using day_length_pos by (simp_all add: r_def)
  note f = clock_fields [OF r]
  have h: "parse_field 2 24 (pad_nat 2 (r div hour) @ u) = Some (r div hour, u)" for u
    using f by (intro parse_field_pad) simp_all
  have m: "parse_field 2 60 (pad_nat 2 (i mod 60) @ u) = Some (i mod 60, u)" for i u
    by (intro parse_field_pad) simp_all
  have ns: "parse_fraction (format_fraction (r mod second) @ format_zone z) = (r mod second, format_zone z)"
    by (rule parse_format_fraction) (simp_all add: second_def)
  have "l div day_length * day_length + r = l" by (simp add: r_def)
  with f(3) have "l div day_length * day_length + r div hour * hour + r div minute mod 60 * minute +
      r div second mod 60 * second + r mod second - z * minute = t"
    unfolding l_def by linarith
  with y(3) show ?thesis
    by (simp add: s unmarshal_time_def format_clock_def date len expect_def h m ns parse_format_zone)
qed

text \<open>The offset from UTC that a text read by \<open>unmarshal_time\<close> names: what follows the seconds.\<close>

definition time_offset :: "bytes \<Rightarrow> duration" where
  "time_offset s = (case parse_zone (snd (parse_fraction (drop 19 s))) of None \<Rightarrow> 0 | Some z \<Rightarrow> z)"

lemma time_offset_marshal:
  assumes "marshal_time z t = Inr s"
  shows "time_offset s = z * minute"
proof -
  define l where "l = t + z * minute"
  define r where "r = l mod day_length"
  have y: "0 \<le> year_of l" "year_of l \<le> 9999" "\<bar>z\<bar> div 60 < 24"
    and s: "s = format_date l @ CHR ''T'' # format_clock r @ format_zone z"
    using assms by (auto simp: marshal_time_def Let_def l_def r_def split: if_splits)
  note len = length_format_date [OF parse_format_date [OF y(1,2)]]
  have r: "0 \<le> r" "r < day_length" using day_length_pos by (simp_all add: r_def)
  have "length (pad_nat 2 (r div hour)) = 2" "length (pad_nat 2 (i mod 60)) = 2" for i
    using clock_fields(1,2) [OF r] by (intro pad_nat_length; simp add: order.strict_trans1 [OF _ pos_mod_bound])+
  moreover have "parse_fraction (format_fraction (r mod second) @ format_zone z) = (r mod second, format_zone z)"
    by (rule parse_format_fraction) (simp_all add: second_def)
  ultimately show ?thesis
    by (simp add: s time_offset_def format_clock_def len parse_format_zone [OF y(3)])
qed

text \<open>The text of an instant needs no escape.\<close>

definition time_char :: "char \<Rightarrow> bool" where
  "time_char c \<longleftrightarrow> is_digit c \<or> c \<in> set ''-:T.Z+''"

lemma pad_nat_time: "list_all time_char (pad_nat w i)"
  using pad_nat_digits [of w i] by (simp add: list_all_iff time_char_def)

lemma marshal_time_plain:
  assumes "marshal_time z t = Inr s"
  shows "list_all (\<lambda>c. 0x20 \<le> byte_val c \<and> c \<noteq> CHR 0x22 \<and> c \<noteq> CHR 0x5C) s"
proof -
  have p: "list_all time_char (append_int w i)" if "0 \<le> i" for w i
    using pad_nat_time [of w i] that by (simp add: append_int_def pad_nat_def)
  have "list_all time_char (strip_zeros u)" if "list_all time_char u" for u
    using that strip_zeros_pad [of u] by (metis list_all_append)
  then have f: "list_all time_char (format_fraction ns)" for ns
    using pad_nat_time by (simp add: format_fraction_def time_char_def)
  obtain y m d where c: "civil_date ((t + z * minute) div day_length) = (y, m, d)" by (metis prod_cases3)
  then have "0 \<le> y" "0 \<le> m" "0 \<le> d"
    using assms civil_date_sound(1) [OF c] by (auto simp: marshal_time_def year_of_def valid_date_def Let_def split: if_splits)
  with p have "list_all time_char (format_date (t + z * minute))"
    by (simp add: format_date_def c time_char_def)
  with assms f have "list_all time_char s"
    by (auto simp: marshal_time_def Let_def format_clock_def format_zone_def pad_nat_time time_char_def
        split: if_splits)
  then show ?thesis
    by (auto simp: list_all_iff time_char_def is_digit_def in_range_def)
qed

end
