(* ===== verification/Json_Codec.thy ===== *)
theory Json_Codec
  imports Json_Struct Rfc3339 Service
begin

text \<open>
  The JSON of tokens and envelopes: \<open>json.Marshal\<close> and \<open>json.Unmarshal\<close> for the structs of token.go and
  envelope.go, and the platform that they make together with Ed25519. What \<open>encoding/json\<close> depends on
  beyond the value is a record: the offset from UTC, in minutes, that the server's location has at an
  instant, and the error that a text is refused with, by the name of the Go type.
\<close>

section \<open>Times\<close>

record json_setting =
  js_zone :: "gotime \<Rightarrow> int"
  js_error :: "string \<Rightarrow> bytes \<Rightarrow> gerror"

definition time_json :: "string \<Rightarrow> int \<Rightarrow> gotime \<Rightarrow> gerror + json" where
  "time_json ty z t =
     (case marshal_time z t of
        Inl e \<Rightarrow> Inl (ErrWrap (''json: error calling MarshalJSON for type '' @ ty @ '': '') e '''')
      | Inr s \<Rightarrow> Inr (JString s))"

definition time_field :: "(gotime \<Rightarrow> 'a \<Rightarrow> 'a) \<Rightarrow> json \<Rightarrow> 'a \<Rightarrow> 'a option" where
  "time_field store v x =
     (case v of
        JNull \<Rightarrow> Some x
      | JString s \<Rightarrow> map_option (\<lambda>t. store t x) (unmarshal_time s)
      | _ \<Rightarrow> None)"

text \<open>A pointer is set to nil by a \<open>null\<close>.\<close>

definition time_pointer_field :: "(gotime option \<Rightarrow> 'a \<Rightarrow> 'a) \<Rightarrow> json \<Rightarrow> 'a \<Rightarrow> 'a option" where
  "time_pointer_field store v x =
     (case v of
        JNull \<Rightarrow> Some (store None x)
      | JString s \<Rightarrow> map_option (\<lambda>t. store (Some t) x) (unmarshal_time s)
      | _ \<Rightarrow> None)"

text \<open>Go's zero time, the first instant of the year 1.\<close>

definition zero_time :: gotime where
  "zero_time = - unix_epoch_day * day_length"

lemma time_json_Inr:
  assumes "time_json ty z t = Inr j"
  shows "json_ok d j" "time_field store j x = Some (store t x)"
    "time_pointer_field store' j x = Some (store' (Some t) x)"
proof -
  obtain s where s: "marshal_time z t = Inr s" "j = JString s"
    using assms by (auto simp: time_json_def split: sum.splits)
  from unmarshal_marshal_time [OF s(1)] s(2)
  show "time_field store j x = Some (store t x)" "time_pointer_field store' j x = Some (store' (Some t) x)"
    by (simp_all add: time_field_def time_pointer_field_def)
  from marshal_time_plain [OF s(1)] s(2) show "json_ok d j"
    by (simp add: string_ok_plain list_all_iff)
qed

section \<open>Tokens\<close>

text \<open>
  \<open>issued_at\<close> is written in the location of \<open>time.Now\<close>; \<open>valid_until\<close> is so too, unless it is the end of
  the license, which the database gives in UTC.
\<close>

definition valid_until_zone :: "json_setting \<Rightarrow> token \<Rightarrow> int" where
  "valid_until_zone js tok =
     (if tok_license_exp tok = Some (tok_valid_until tok) then 0 else js_zone js (tok_valid_until tok))"

definition license_exp_member :: "gotime option \<Rightarrow> gerror + (string \<times> json) list" where
  "license_exp_member exp =
     (case exp of
        None \<Rightarrow> Inr []
      | Some t \<Rightarrow>
          (case time_json ''*time.Time'' 0 t of
             Inl e \<Rightarrow> Inl e | Inr j \<Rightarrow> Inr [(''license_expires_at'', j)]))"

definition token_json :: "json_setting \<Rightarrow> token \<Rightarrow> gerror + json" where
  "token_json js tok =
     (case time_json ''time.Time'' (js_zone js (tok_issued_at tok)) (tok_issued_at tok) of
        Inl e \<Rightarrow> Inl e
      | Inr issued \<Rightarrow>
          (case time_json ''time.Time'' (valid_until_zone js tok) (tok_valid_until tok) of
             Inl e \<Rightarrow> Inl e
           | Inr valid \<Rightarrow>
               (case license_exp_member (tok_license_exp tok) of
                  Inl e \<Rightarrow> Inl e
                | Inr exp \<Rightarrow>
                    Inr (JObject
                      ([(''license_key'', json_text (tok_license_key tok)),
                        (''product'', json_text (tok_product tok)),
                        (''customer_name'', json_text (tok_customer_name tok)),
                        (''device_id'', json_text (tok_device_id tok)),
                        (''seats_max'', json_int (tok_seats_max tok)),
                        (''seats_used'', json_int (tok_seats_used tok)),
                        (''status'', json_text (tok_status tok)),
                        (''issued_at'', issued),
                        (''valid_until'', valid)] @ exp @
                       [(''offline'', JBool (tok_offline tok))])))))"

definition token_fields :: "token json_field list" where
  "token_fields =
     [(''license_key'', string_field (\<lambda>s t. t\<lparr>tok_license_key := s\<rparr>)),
      (''product'', string_field (\<lambda>s t. t\<lparr>tok_product := s\<rparr>)),
      (''customer_name'', string_field (\<lambda>s t. t\<lparr>tok_customer_name := s\<rparr>)),
      (''device_id'', string_field (\<lambda>s t. t\<lparr>tok_device_id := s\<rparr>)),
      (''seats_max'', int_field (\<lambda>i t. t\<lparr>tok_seats_max := i\<rparr>)),
      (''seats_used'', int_field (\<lambda>i t. t\<lparr>tok_seats_used := i\<rparr>)),
      (''status'', string_field (\<lambda>s t. t\<lparr>tok_status := s\<rparr>)),
      (''issued_at'', time_field (\<lambda>u t. t\<lparr>tok_issued_at := u\<rparr>)),
      (''valid_until'', time_field (\<lambda>u t. t\<lparr>tok_valid_until := u\<rparr>)),
      (''license_expires_at'', time_pointer_field (\<lambda>u t. t\<lparr>tok_license_exp := u\<rparr>)),
      (''offline'', bool_field (\<lambda>b t. t\<lparr>tok_offline := b\<rparr>))]"

definition zero_token :: token where
  "zero_token =
     \<lparr>tok_license_key = '''', tok_product = '''', tok_customer_name = '''', tok_device_id = '''',
      tok_seats_max = 0, tok_seats_used = 0, tok_status = '''', tok_issued_at = zero_time,
      tok_valid_until = zero_time, tok_license_exp = None, tok_offline = False\<rparr>"

definition marshal_token :: "json_setting \<Rightarrow> token \<Rightarrow> gerror + bytes" where
  "marshal_token js tok =
     (case token_json js tok of Inl e \<Rightarrow> Inl e | Inr j \<Rightarrow> Inr (json_compact j))"

text \<open>\<open>json.Unmarshal\<close> into a fresh struct.\<close>

definition unmarshal_struct ::
  "json_setting \<Rightarrow> string \<Rightarrow> 'a json_field list \<Rightarrow> 'a \<Rightarrow> bytes \<Rightarrow> gerror + 'a" where
  "unmarshal_struct js ty fs zero data =
     (case Option.bind (json_whole data) (\<lambda>j. decode_struct False fs j zero) of
        None \<Rightarrow> Inl (js_error js ty data)
      | Some x \<Rightarrow> Inr x)"

definition unmarshal_token :: "json_setting \<Rightarrow> bytes \<Rightarrow> gerror + token" where
  "unmarshal_token js = unmarshal_struct js ''license.Token'' token_fields zero_token"

definition go_platform :: "ed25519 \<Rightarrow> json_setting \<Rightarrow> platform" where
  "go_platform E js =
     \<lparr>ed = E, json_Marshal_token = marshal_token js, json_Unmarshal_token = unmarshal_token js\<rparr>"

section \<open>What is read back\<close>

lemma plain_names:
  "plain ''license_key''" "plain ''product''" "plain ''customer_name''" "plain ''device_id''"
  "plain ''seats_max''" "plain ''seats_used''" "plain ''status''" "plain ''issued_at''"
  "plain ''valid_until''" "plain ''license_expires_at''" "plain ''offline''"
  by (simp_all add: plain_def)

lemma token_field_names:
  "map_of token_fields ''license_key'' = Some (string_field (\<lambda>s t. t\<lparr>tok_license_key := s\<rparr>))"
  "map_of token_fields ''product'' = Some (string_field (\<lambda>s t. t\<lparr>tok_product := s\<rparr>))"
  "map_of token_fields ''customer_name'' = Some (string_field (\<lambda>s t. t\<lparr>tok_customer_name := s\<rparr>))"
  "map_of token_fields ''device_id'' = Some (string_field (\<lambda>s t. t\<lparr>tok_device_id := s\<rparr>))"
  "map_of token_fields ''seats_max'' = Some (int_field (\<lambda>i t. t\<lparr>tok_seats_max := i\<rparr>))"
  "map_of token_fields ''seats_used'' = Some (int_field (\<lambda>i t. t\<lparr>tok_seats_used := i\<rparr>))"
  "map_of token_fields ''status'' = Some (string_field (\<lambda>s t. t\<lparr>tok_status := s\<rparr>))"
  "map_of token_fields ''issued_at'' = Some (time_field (\<lambda>u t. t\<lparr>tok_issued_at := u\<rparr>))"
  "map_of token_fields ''valid_until'' = Some (time_field (\<lambda>u t. t\<lparr>tok_valid_until := u\<rparr>))"
  "map_of token_fields ''license_expires_at'' = Some (time_pointer_field (\<lambda>u t. t\<lparr>tok_license_exp := u\<rparr>))"
  "map_of token_fields ''offline'' = Some (bool_field (\<lambda>b t. t\<lparr>tok_offline := b\<rparr>))"
  by (simp_all add: token_fields_def)

lemmas decode_token_member =
  decode_member [OF plain_names(1) token_field_names(1)] decode_member [OF plain_names(2) token_field_names(2)]
  decode_member [OF plain_names(3) token_field_names(3)] decode_member [OF plain_names(4) token_field_names(4)]
  decode_member [OF plain_names(5) token_field_names(5)] decode_member [OF plain_names(6) token_field_names(6)]
  decode_member [OF plain_names(7) token_field_names(7)] decode_member [OF plain_names(8) token_field_names(8)]
  decode_member [OF plain_names(9) token_field_names(9)] decode_member [OF plain_names(10) token_field_names(10)]
  decode_member [OF plain_names(11) token_field_names(11)]

lemma license_exp_member_Inr:
  assumes "license_exp_member exp = Inr ms"
  shows "\<forall>(k, v) \<in> set ms. string_ok k \<and> json_ok d v"
    "decode_members b token_fields (ms @ ns) x =
      (case exp of None \<Rightarrow> decode_members b token_fields ns x
       | Some t \<Rightarrow> decode_members b token_fields ns (x\<lparr>tok_license_exp := Some t\<rparr>))"
proof -
  show "\<forall>(k, v) \<in> set ms. string_ok k \<and> json_ok d v"
    using assms plain_names time_json_Inr(1)
    by (auto simp: license_exp_member_def string_ok_if_plain split: option.splits sum.splits)
  show "decode_members b token_fields (ms @ ns) x =
      (case exp of None \<Rightarrow> decode_members b token_fields ns x
       | Some t \<Rightarrow> decode_members b token_fields ns (x\<lparr>tok_license_exp := Some t\<rparr>))"
    using assms
    by (auto simp: license_exp_member_def time_json_Inr(3) decode_token_member(10)
        split: option.splits sum.splits)
qed

lemma unmarshal_marshal_token:
  assumes "marshal_token js tok = Inr data" and "token_ok tok"
  shows "unmarshal_token js' data = Inr tok"
proof -
  obtain issued valid exp where j: "data = json_compact (JObject
      ([(''license_key'', json_text (tok_license_key tok)),
        (''product'', json_text (tok_product tok)),
        (''customer_name'', json_text (tok_customer_name tok)),
        (''device_id'', json_text (tok_device_id tok)),
        (''seats_max'', json_int (tok_seats_max tok)),
        (''seats_used'', json_int (tok_seats_used tok)),
        (''status'', json_text (tok_status tok)),
        (''issued_at'', issued),
        (''valid_until'', valid)] @ exp @
       [(''offline'', JBool (tok_offline tok))]))"
    and t: "time_json ''time.Time'' (js_zone js (tok_issued_at tok)) (tok_issued_at tok) = Inr issued"
      "time_json ''time.Time'' (valid_until_zone js tok) (tok_valid_until tok) = Inr valid"
      "license_exp_member (tok_license_exp tok) = Inr exp"
    using assms(1) by (auto simp: marshal_token_def token_json_def split: sum.splits)
  have "json_whole data = Some (JObject
      ([(''license_key'', json_text (tok_license_key tok)),
        (''product'', json_text (tok_product tok)),
        (''customer_name'', json_text (tok_customer_name tok)),
        (''device_id'', json_text (tok_device_id tok)),
        (''seats_max'', json_int (tok_seats_max tok)),
        (''seats_used'', json_int (tok_seats_used tok)),
        (''status'', json_text (tok_status tok)),
        (''issued_at'', issued),
        (''valid_until'', valid)] @ exp @
       [(''offline'', JBool (tok_offline tok))]))"
    unfolding j using time_json_Inr(1) [OF t(1)] time_json_Inr(1) [OF t(2)] license_exp_member_Inr(1) [OF t(3)]
    by (intro json_whole_compact) (simp add: plain_names string_ok_if_plain max_nesting_def)
  with assms(2-) show ?thesis
    by (cases "tok_license_exp tok")
      (simp_all add: unmarshal_token_def unmarshal_struct_def decode_struct_def decode_token_member
        license_exp_member_Inr(2) [OF t(3)] time_json_Inr(2) [OF t(1)] time_json_Inr(2) [OF t(2)]
        token_ok_def int64_def zero_token_def)
qed

text \<open>A license that ends after the year 9999 has no token.\<close>

lemma marshal_token_far:
  assumes "\<exists>t. tok_license_exp tok = Some t \<and> 9999 < fst (civil_date (t div day_length))"
  shows "\<exists>e. marshal_token js tok = Inl e"
proof -
  have "\<exists>e. license_exp_member (tok_license_exp tok) = Inl e"
    using assms by (auto simp: license_exp_member_def time_json_def marshal_time_def Let_def year_of_def)
  then show ?thesis by (auto simp: marshal_token_def token_json_def split: sum.split)
qed

text \<open>What a server signs, a client with a codec of its own reads back.\<close>

lemma go_platform_sel [simp]:
  "ed (go_platform E js) = E" "json_Marshal_token (go_platform E js) = marshal_token js"
  "json_Unmarshal_token (go_platform E js) = unmarshal_token js"
  by (simp_all add: go_platform_def)

lemma sign_verifies:
  assumes "ed25519_laws E" and "keypair E (svc_priv s) (svc_pub s)"
    and "token_ok (token_for lic x n now off)" and "sign (go_platform E js) s lic x n now off = Inr env"
  shows "Verify E (unmarshal_token js') (svc_pub s) env = Inr (token_for lic x n now off)"
proof -
  obtain data where data: "marshal_token js (token_for lic x n now off) = Inr data"
    using assms(4) by (auto simp: sign_def Sign_Inr_iff)
  with unmarshal_marshal_token [OF data assms(3)]
    Verify_Sign [where u = "unmarshal_token js'", OF assms(1,2) assms(4) [unfolded sign_def go_platform_sel]]
  show ?thesis by simp
qed

section \<open>Envelopes\<close>

definition envelope_json :: "envelope \<Rightarrow> json" where
  "envelope_json env =
     JObject [(''payload'', json_text (env_payload env)), (''signature'', json_text (env_signature env))]"

definition envelope_fields :: "envelope json_field list" where
  "envelope_fields =
     [(''payload'', string_field (\<lambda>s e. e\<lparr>env_payload := s\<rparr>)),
      (''signature'', string_field (\<lambda>s e. e\<lparr>env_signature := s\<rparr>))]"

definition zero_envelope :: envelope where
  "zero_envelope = \<lparr>env_payload = '''', env_signature = ''''\<rparr>"

definition envelope_ok :: "envelope \<Rightarrow> bool" where
  "envelope_ok env \<longleftrightarrow> utf8_valid (env_payload env) \<and> utf8_valid (env_signature env)"

lemma json_ok_envelope: "0 < d \<Longrightarrow> json_ok d (envelope_json env)"
  by (simp add: envelope_json_def string_ok_if_plain plain_def)

lemma decode_envelope:
  assumes "envelope_ok env"
  shows "decode_struct b envelope_fields (envelope_json env) x = Some env"
proof -
  have n: "plain ''payload''" "plain ''signature''" by (simp_all add: plain_def)
  have f: "map_of envelope_fields ''payload'' = Some (string_field (\<lambda>s e. e\<lparr>env_payload := s\<rparr>))"
    "map_of envelope_fields ''signature'' = Some (string_field (\<lambda>s e. e\<lparr>env_signature := s\<rparr>))"
    by (simp_all add: envelope_fields_def)
  from assms show ?thesis
    by (simp add: decode_struct_def envelope_json_def decode_member [OF n(1) f(1)] decode_member [OF n(2) f(2)]
        envelope_ok_def)
qed

text \<open>An envelope of \<open>Sign\<close> is ASCII.\<close>

lemma b64_utf8: "utf8_valid (b64_encode b)"
proof (rule utf8_valid_ascii)
  have "\<forall>c \<in> set (CHR ''='' # b64_alphabet). byte_val c < 0x80"
    by (simp add: b64_alphabet_def)
  with b64_encode_chars [of b] show "\<forall>c \<in> set (b64_encode b). byte_val c < 0x80" by auto
qed

lemma Sign_envelope_ok: "Sign E m priv p = Inr env \<Longrightarrow> envelope_ok env"
  by (auto simp: Sign_Inr_iff envelope_ok_def b64_utf8)

end
