(* ===== verification/Sha256.thy ===== *)
theory Sha256
  imports Encoding "HOL-Library.Word"
begin

text \<open>
  SHA-256 as \<open>crypto/sha256\<close> computes it (FIPS 180-4), on words of 32 bits, and the HMAC of
  \<open>crypto/hmac\<close> over it.
\<close>

unbundle bit_operations_syntax

section \<open>SHA-256\<close>

type_synonym word32 = "32 word"

text \<open>
  The constants come from the primes: the first 32 bits behind the point of the cube roots of the first
  64 of them, and of the square roots of the first eight. A root is found bit by bit, scaled by 2 to
  the 32; \<open>of_nat\<close> drops the bits before the point.
\<close>

fun root_bits :: "nat \<Rightarrow> nat \<Rightarrow> nat \<Rightarrow> nat \<Rightarrow> nat" where
  "root_bits e n 0 r = r"
| "root_bits e n (Suc b) r = root_bits e n b (if (r + 2 ^ b) ^ e \<le> n then r + 2 ^ b else r)"

definition root_word :: "nat \<Rightarrow> nat \<Rightarrow> word32" where
  "root_word e p = of_nat (root_bits e (p * 2 ^ (32 * e)) 37 0)"

definition small_primes :: "nat list" where
  "small_primes = filter (\<lambda>p. list_all (\<lambda>d. p mod d \<noteq> 0) [2..<p]) [2..<312]"

definition sha256_K :: "word32 list" where
  "sha256_K = map (root_word 3) small_primes"

record sha_state =
  sh_a :: word32
  sh_b :: word32
  sh_c :: word32
  sh_d :: word32
  sh_e :: word32
  sh_f :: word32
  sh_g :: word32
  sh_h :: word32

definition sha256_init :: sha_state where
  "sha256_init =
     (let h = (\<lambda>i. root_word 2 (small_primes ! i))
      in \<lparr>sh_a = h 0, sh_b = h 1, sh_c = h 2, sh_d = h 3, sh_e = h 4, sh_f = h 5, sh_g = h 6, sh_h = h 7\<rparr>)"

definition rotr :: "nat \<Rightarrow> word32 \<Rightarrow> word32" where
  "rotr n w = drop_bit n w OR push_bit (32 - n) w"

definition sha_choose :: "word32 \<Rightarrow> word32 \<Rightarrow> word32 \<Rightarrow> word32" where
  "sha_choose x y z = (x AND y) XOR (NOT x AND z)"

definition sha_majority :: "word32 \<Rightarrow> word32 \<Rightarrow> word32 \<Rightarrow> word32" where
  "sha_majority x y z = (x AND y) XOR (x AND z) XOR (y AND z)"

definition sha_Sigma0 :: "word32 \<Rightarrow> word32" where
  "sha_Sigma0 x = rotr 2 x XOR rotr 13 x XOR rotr 22 x"

definition sha_Sigma1 :: "word32 \<Rightarrow> word32" where
  "sha_Sigma1 x = rotr 6 x XOR rotr 11 x XOR rotr 25 x"

definition sha_sigma0 :: "word32 \<Rightarrow> word32" where
  "sha_sigma0 x = rotr 7 x XOR rotr 18 x XOR drop_bit 3 x"

definition sha_sigma1 :: "word32 \<Rightarrow> word32" where
  "sha_sigma1 x = rotr 17 x XOR rotr 19 x XOR drop_bit 10 x"

text \<open>The message schedule, the latest word first.\<close>

fun sha_extend :: "nat \<Rightarrow> word32 list \<Rightarrow> word32 list" where
  "sha_extend 0 ws = ws"
| "sha_extend (Suc n) ws =
     sha_extend n ((sha_sigma1 (ws ! 1) + ws ! 6 + sha_sigma0 (ws ! 14) + ws ! 15) # ws)"

definition sha_round :: "word32 \<times> word32 \<Rightarrow> sha_state \<Rightarrow> sha_state" where
  "sha_round kw s =
     (let t1 = sh_h s + sha_Sigma1 (sh_e s) + sha_choose (sh_e s) (sh_f s) (sh_g s) + fst kw + snd kw;
          t2 = sha_Sigma0 (sh_a s) + sha_majority (sh_a s) (sh_b s) (sh_c s)
      in \<lparr>sh_a = t1 + t2, sh_b = sh_a s, sh_c = sh_b s, sh_d = sh_c s,
          sh_e = sh_d s + t1, sh_f = sh_e s, sh_g = sh_f s, sh_h = sh_g s\<rparr>)"

definition word_of_bytes :: "bytes \<Rightarrow> word32" where
  "word_of_bytes bs = foldl (\<lambda>w b. push_bit 8 w OR of_char b) 0 bs"

fun sha_words :: "nat \<Rightarrow> bytes \<Rightarrow> word32 list" where
  "sha_words 0 bs = []"
| "sha_words (Suc n) bs = word_of_bytes (take 4 bs) # sha_words n (drop 4 bs)"

definition sha_block :: "bytes \<Rightarrow> sha_state \<Rightarrow> sha_state" where
  "sha_block bs s =
     (let r = fold sha_round (zip sha256_K (rev (sha_extend 48 (rev (sha_words 16 bs))))) s
      in \<lparr>sh_a = sh_a s + sh_a r, sh_b = sh_b s + sh_b r, sh_c = sh_c s + sh_c r, sh_d = sh_d s + sh_d r,
          sh_e = sh_e s + sh_e r, sh_f = sh_f s + sh_f r, sh_g = sh_g s + sh_g r, sh_h = sh_h s + sh_h r\<rparr>)"

fun sha_blocks :: "nat \<Rightarrow> bytes \<Rightarrow> sha_state \<Rightarrow> sha_state" where
  "sha_blocks 0 bs s = s"
| "sha_blocks (Suc n) bs s = sha_blocks n (drop 64 bs) (sha_block (take 64 bs) s)"

text \<open>The last \<open>k\<close> bytes of a word, the most significant first.\<close>

fun big_endian :: "nat \<Rightarrow> 'a::len word \<Rightarrow> bytes" where
  "big_endian 0 w = []"
| "big_endian (Suc k) w = big_endian k (drop_bit 8 w) @ [char_of (uint w)]"

definition sha_pad :: "bytes \<Rightarrow> bytes" where
  "sha_pad bs =
     bs @ CHR 0x80 # replicate ((119 - length bs mod 64) mod 64) (CHR 0x00) @
       big_endian 8 (of_nat (8 * length bs) :: 64 word)"

definition sha_digest :: "sha_state \<Rightarrow> bytes" where
  "sha_digest s = concat (map (big_endian 4)
     [sh_a s, sh_b s, sh_c s, sh_d s, sh_e s, sh_f s, sh_g s, sh_h s])"

definition sha256 :: "bytes \<Rightarrow> bytes" where
  "sha256 bs = (let p = sha_pad bs in sha_digest (sha_blocks (length p div 64) p sha256_init))"

lemma length_big_endian [simp]: "length (big_endian k w) = k"
  by (induction k arbitrary: w) simp_all

lemma length_sha256 [simp]: "length (sha256 bs) = 32"
  by (simp add: sha256_def sha_digest_def Let_def)

text \<open>The padded message is a whole number of blocks.\<close>

lemma length_sha_pad: "length (sha_pad bs) mod 64 = 0"
proof -
  have pad: "(m + (9 + (119 - m mod 64) mod 64)) mod 64 = 0" for m :: nat
  proof -
    define q r where "q = m div 64" and "r = m mod 64"
    have m: "m = 64 * q + r" "r < 64" by (simp_all add: q_def r_def)
    have "(119 - r) mod 64 = (if r \<le> 55 then 55 - r else 119 - r)"
      using m(2) by (auto simp: mod_if)
    with m have "m + (9 + (119 - r) mod 64) = 64 * (if r \<le> 55 then q + 1 else q + 2)"
      by simp
    then show ?thesis by (simp add: r_def)
  qed
  show ?thesis using pad [of "length bs"] by (simp add: sha_pad_def)
qed

section \<open>HMAC\<close>

definition xor_byte :: "nat \<Rightarrow> char \<Rightarrow> char" where
  "xor_byte n c = byte_of (byte_val c XOR n)"

definition hmac_key :: "bytes \<Rightarrow> bytes" where
  "hmac_key key =
     (let k = (if 64 < length key then sha256 key else key)
      in k @ replicate (64 - length k) (CHR 0x00))"

definition hmac_sum :: "bytes \<Rightarrow> bytes \<Rightarrow> bytes" where
  "hmac_sum key msg =
     (let k = hmac_key key
      in sha256 (map (xor_byte 0x5c) k @ sha256 (map (xor_byte 0x36) k @ msg)))"

lemma length_hmac_key: "length (hmac_key key) = 64"
  by (simp add: hmac_key_def Let_def)

lemma length_hmac_sum [simp]: "length (hmac_sum key msg) = 32"
  by (simp add: hmac_sum_def Let_def)

end
