(* ===== verification/Webhook.thy ===== *)
theory Webhook
  imports Json_Codec Sha256
begin

text \<open>
  \<open>internal/webhook\<close>: signing an event, delivering it with one retry, and \<open>Notify\<close>, which starts a
  delivery in the background. The network is a stream of outcomes, one for each request that the
  client sends, and the model records what was sent, the pauses and the log lines.
\<close>

section \<open>Signatures\<close>

definition SignatureHeader :: string where
  "SignatureHeader = ''X-Seatkey-Signature''"

definition webhook_Sign :: "string \<Rightarrow> bytes \<Rightarrow> string" where
  "webhook_Sign secret body = hex_encode (hmac_sum secret body)"

text \<open>\<open>hmac.Equal\<close> compares in constant time; its value is equality.\<close>

definition webhook_Verify :: "string \<Rightarrow> bytes \<Rightarrow> string \<Rightarrow> bool" where
  "webhook_Verify secret body signature \<longleftrightarrow> webhook_Sign secret body = signature"

section \<open>Delivery\<close>

record http_post =
  post_url :: string
  post_headers :: "(string \<times> string) list"
  post_body :: bytes

text \<open>
  \<open>outcomes\<close> holds what the coming calls of \<open>client.Do\<close> give: an error or the status of the
  response. \<open>request_error\<close> is what \<open>http.NewRequest\<close> makes of a URL.
\<close>

record network =
  outcomes :: "(gerror + int) stream"
  sent :: "http_post list"
  pauses :: "duration list"
  log_lines :: "string list"

record transport =
  request_error :: "string \<Rightarrow> gerror option"

text \<open>The JSON of an event: a map, so its members come in the order of their names.\<close>

definition marshal_event :: "notification \<Rightarrow> gerror + bytes" where
  "marshal_event n =
     (case time_json ''time.Time'' 0 (n_timestamp n) of
        Inl e \<Rightarrow> Inl e
      | Inr timestamp \<Rightarrow>
          Inr (json_compact (JObject
            [(''customer_name'', json_text (n_customer_name n)), (''device_id'', json_text (n_device_id n)),
             (''event'', json_text (n_event n)), (''license_key'', json_text (n_license_key n)),
             (''product'', json_text (n_product n)), (''timestamp'', timestamp)])))"

definition client_Do :: "http_post \<Rightarrow> (network, gerror + int) state" where
  "client_Do req = State (\<lambda>n.
     (shd (outcomes n), n\<lparr>outcomes := stl (outcomes n), sent := sent n @ [req]\<rparr>))"

definition time_Sleep :: "duration \<Rightarrow> (network, unit) state" where
  "time_Sleep d = State (\<lambda>n. ((), n\<lparr>pauses := pauses n @ [d]\<rparr>))"

definition log_Printf :: "string \<Rightarrow> (network, unit) state" where
  "log_Printf s = State (\<lambda>n. ((), n\<lparr>log_lines := log_lines n @ [s]\<rparr>))"

lemma run_network [run_simps, simp]:
  "run_state (client_Do req) n =
     (shd (outcomes n), n\<lparr>outcomes := stl (outcomes n), sent := sent n @ [req]\<rparr>)"
  "run_state (time_Sleep d) n = ((), n\<lparr>pauses := pauses n @ [d]\<rparr>)"
  "run_state (log_Printf s) n = ((), n\<lparr>log_lines := log_lines n @ [s]\<rparr>)"
  by (simp_all add: client_Do_def time_Sleep_def log_Printf_def)

definition event_post :: "transport \<Rightarrow> string \<Rightarrow> string \<Rightarrow> bytes \<Rightarrow> http_post" where
  "event_post T url secret body =
     \<lparr>post_url = url,
      post_headers = (''Content-Type'', ''application/json'')
        # (if secret \<noteq> '''' then [(SignatureHeader, webhook_Sign secret body)] else []),
      post_body = body\<rparr>"

definition attempt :: "transport \<Rightarrow> string \<Rightarrow> string \<Rightarrow> bytes \<Rightarrow> (network, gerror + unit) state" where
  "attempt T url secret body =
     (case request_error T url of
        Some err \<Rightarrow> fail err
      | None \<Rightarrow> do {
          resp \<leftarrow> client_Do (event_post T url secret body);
          case resp of
            Inl err \<Rightarrow> fail err
          | Inr status \<Rightarrow>
              if 300 \<le> status then fail (LibError (''webhook endpoint returned status '' @ Itoa status))
              else ok ()
        })"

text \<open>
  The loop of \<open>deliver\<close> over the attempts still to make, with \<open>lastErr\<close> as it is before them; its
  value is \<open>None\<close> when an attempt succeeded, which returns from \<open>deliver\<close>.
\<close>

fun deliver_loop ::
  "transport \<Rightarrow> string \<Rightarrow> string \<Rightarrow> bytes \<Rightarrow> gerror option \<Rightarrow> nat list \<Rightarrow> (network, gerror option) state" where
  "deliver_loop T url secret body lastErr [] = State_Monad.return lastErr"
| "deliver_loop T url secret body lastErr (i # is) = do {
     (if 0 < i then time_Sleep second else State_Monad.return ());
     r \<leftarrow> attempt T url secret body;
     case r of
       Inr _ \<Rightarrow> State_Monad.return None
     | Inl err \<Rightarrow> deliver_loop T url secret body (Some err) is
   }"

definition deliver :: "transport \<Rightarrow> string \<Rightarrow> string \<Rightarrow> notification \<Rightarrow> (network, unit) state" where
  "deliver T url secret data =
     (case marshal_event data of
        Inl err \<Rightarrow> log_Printf (''webhook: marshal event: '' @ error_text err)
      | Inr body \<Rightarrow> do {
          lastErr \<leftarrow> deliver_loop T url secret body None [0..<2];
          case lastErr of
            None \<Rightarrow> State_Monad.return ()
          | Some err \<Rightarrow>
              log_Printf (''webhook: delivery to '' @ url @ '' failed after retry: '' @ error_text err)
        })"

definition Sender_Notify :: "(string \<times> string) program \<Rightarrow> notifier" where
  "Sender_Notify lookup event data = do {
     us \<leftarrow> lookup;
     (if fst us = '''' then State_Monad.return ()
      else spawn \<lparr>dl_url = fst us, dl_secret = snd us, dl_data = data\<rparr>)
   }"

section \<open>Lemmas\<close>

lemma Verify_iff: "webhook_Verify secret body sig \<longleftrightarrow> sig = webhook_Sign secret body"
  by (auto simp: webhook_Verify_def)

lemma webhook_Sign_eq_iff:
  "webhook_Sign s b = webhook_Sign s' b' \<longleftrightarrow> hmac_sum s b = hmac_sum s' b'"
  by (simp add: webhook_Sign_def hex_encode_inject)

definition attempt_succeeds :: "gerror + int \<Rightarrow> bool" where
  "attempt_succeeds r = (case r of Inl _ \<Rightarrow> False | Inr status \<Rightarrow> status < 300)"

definition attempt_result :: "gerror + int \<Rightarrow> gerror + unit" where
  "attempt_result r = (case r of
       Inl e \<Rightarrow> Inl e
     | Inr status \<Rightarrow>
         if 300 \<le> status then Inl (LibError (''webhook endpoint returned status '' @ Itoa status))
         else Inr ())"

lemma attempt_result_iff: "attempt_result r = Inr () \<longleftrightarrow> attempt_succeeds r"
  by (auto simp: attempt_result_def attempt_succeeds_def split: sum.split)

lemma run_attempt:
  "request_error T url = None \<Longrightarrow> run_state (attempt T url secret body) n =
    (attempt_result (shd (outcomes n)),
     n\<lparr>outcomes := stl (outcomes n), sent := sent n @ [event_post T url secret body]\<rparr>)"
  by (auto simp: attempt_def attempt_result_def split: sum.split)

lemma run_attempt_bad_url:
  "request_error T url = Some e \<Longrightarrow> run_state (attempt T url secret body) n = (Inl e, n)"
  by (simp add: attempt_def)

text \<open>The requests and pauses of a delivery, by the outcomes of its attempts.\<close>

lemma run_deliver:
  assumes "marshal_event data = Inr body" and "request_error T url = None"
  shows "run_state (deliver T url secret data) n =
    (let p = event_post T url secret body; os = outcomes n in
     case attempt_result (shd os) of
       Inr _ \<Rightarrow> ((), n\<lparr>outcomes := stl os, sent := sent n @ [p]\<rparr>)
     | Inl _ \<Rightarrow>
        (case attempt_result (shd (stl os)) of
           Inr _ \<Rightarrow> ((), n\<lparr>outcomes := stl (stl os), sent := sent n @ [p, p], pauses := pauses n @ [second]\<rparr>)
         | Inl e \<Rightarrow> ((), n\<lparr>outcomes := stl (stl os), sent := sent n @ [p, p], pauses := pauses n @ [second],
             log_lines := log_lines n @
               [''webhook: delivery to '' @ url @ '' failed after retry: '' @ error_text e]\<rparr>)))"
  using assms by (auto simp: deliver_def run_attempt upt_rec Let_def split: sum.split)

end
