(* ===== verification/Seatkeyd.thy ===== *)
theory Seatkeyd
  imports Web_Sessions Webhook
begin

text \<open>
  \<open>cmd/seatkeyd/main.go\<close>: the server's start. \<open>env\<close> is \<open>os.Getenv\<close>; \<open>templates\<close> is what parsing the
  embedded templates gives; \<open>disk\<close> is the database file; a run ends with the version printed, with
  a fatal error, or with a server that listens.
\<close>

section \<open>The signing key\<close>

definition loadOrCreateKeypair :: "ed25519 \<Rightarrow> (gerror + bytes \<times> bytes) program" where
  "loadOrCreateKeypair E = do {
     g \<leftarrow> GetSetting ''signing_key_seed'';
     case g of
       (seed, found, err) \<Rightarrow>
         (case err of
            Some e \<Rightarrow> fail e
          | None \<Rightarrow>
              if \<not> found then do {
                n \<leftarrow> GenerateSeed;
                case n of
                  Inl e \<Rightarrow> fail e
                | Inr new \<Rightarrow> do {
                    u \<leftarrow> SetSetting ''signing_key_seed'' new;
                    case u of
                      Inl e \<Rightarrow> fail e
                    | Inr _ \<Rightarrow> State_Monad.return (KeypairFromSeed E new)
                  }
              }
              else State_Monad.return (KeypairFromSeed E seed))
   }"

section \<open>The notifier\<close>

definition settings_lookup :: "(string \<times> string) program" where
  "settings_lookup = do {
     url \<leftarrow> GetSetting ''webhook_url'';
     secret \<leftarrow> GetSetting ''webhook_secret'';
     State_Monad.return (fst url, fst secret)
   }"

definition webhook_notifier :: notifier where
  "webhook_notifier = Sender_Notify settings_lookup"

section \<open>main\<close>

definition envOr :: "(string \<Rightarrow> string) \<Rightarrow> string \<Rightarrow> string \<Rightarrow> string" where
  "envOr env key def_value = (let v = env key in if v \<noteq> '''' then v else def_value)"

definition NewServer ::
  "gerror + (string \<Rightarrow> page \<Rightarrow> gerror option) \<Rightarrow> service \<Rightarrow> bool \<Rightarrow> gerror + server" where
  "NewServer templates svc cookieSecure =
     (case templates of
        Inl err \<Rightarrow> Inl err
      | Inr tmpl \<Rightarrow>
          Inr \<lparr>srv_licenses = svc, srv_cookie_secure = cookieSecure, srv_template = tmpl\<rparr>)"

datatype outcome =
    PrintVersion string
  | Fatal string
  | Listen string server "string list"

text \<open>The two lines of the log before the server listens.\<close>

definition startup_log :: "string \<Rightarrow> string \<Rightarrow> string \<Rightarrow> bytes \<Rightarrow> string list" where
  "startup_log version addr dbPath pub =
     [''seatkeyd '' @ version @ '' listening on '' @ addr @ '' (db: '' @ dbPath @ '')'',
      ''public key (embed in clients for offline verification): '' @ EncodePublicKey pub]"

definition seatkeyd_start ::
  "ed25519 \<Rightarrow> gerror + (string \<Rightarrow> page \<Rightarrow> gerror option) \<Rightarrow> string \<Rightarrow> string \<Rightarrow> (string \<Rightarrow> string) \<Rightarrow>
     outcome program" where
  "seatkeyd_start E templates version dbPath env = do {
     let addr = envOr env ''SEATKEY_ADDR'' '':8080'';
     let cookieSecure = (envOr env ''SEATKEY_COOKIE_SECURE'' ''false'' = ''true'');
     k \<leftarrow> loadOrCreateKeypair E;
     case k of
       Inl err \<Rightarrow> State_Monad.return (Fatal (''load signing key: '' @ error_text err))
     | Inr (priv, pub) \<Rightarrow>
         let svc = SetNotifier (Some webhook_notifier) (NewService priv pub) in
         (case NewServer templates svc cookieSecure of
            Inl err \<Rightarrow> State_Monad.return (Fatal (''build server: '' @ error_text err))
          | Inr srv \<Rightarrow> State_Monad.return (Listen addr srv (startup_log version addr dbPath pub)))
   }"

definition seatkeyd_main ::
  "ed25519 \<Rightarrow> gerror + (string \<Rightarrow> page \<Rightarrow> gerror option) \<Rightarrow> string \<Rightarrow> string list \<Rightarrow>
     (string \<Rightarrow> string) \<Rightarrow> string option \<times> string option \<Rightarrow> database option \<Rightarrow> outcome program" where
  "seatkeyd_main E templates version args env open_faults disk =
     (if 1 < length args \<and> (args ! 1 = ''--version'' \<or> args ! 1 = ''version'')
      then State_Monad.return (PrintVersion (''seatkeyd '' @ version))
      else
        let dbPath = envOr env ''SEATKEY_DB_PATH'' ''seatkey.db'' in
        (case Open (fst open_faults) (snd open_faults) dbPath disk of
           Inl err \<Rightarrow>
             State_Monad.return (Fatal (''open database '' @ dbPath @ '': '' @ error_text err))
         | Inr d \<Rightarrow> do {
             State (\<lambda>w. ((), w\<lparr>db := d\<rparr>));
             seatkeyd_start E templates version dbPath env
           }))"

text \<open>
  How \<open>main\<close> ends when \<open>ListenAndServe\<close> returns: normally, or with a fatal error unless the server was
  closed.
\<close>

definition ErrServerClosed :: gerror where
  "ErrServerClosed = LibError ''http: Server closed''"

definition serve_end :: "gerror option \<Rightarrow> string option" where
  "serve_end r =
     (case r of
        None \<Rightarrow> None
      | Some err \<Rightarrow> if \<not> errors_Is err ErrServerClosed then Some (''serve: '' @ error_text err) else None)"

section \<open>The service relies on a quiet notifier: it has one\<close>

lemma run_settings_lookup_quiet:
  "db (snd (run_state settings_lookup w)) = db w"
  "\<exists>f. snd (run_state settings_lookup w) = w\<lparr>faults := f\<rparr> \<and> (healthy w \<longrightarrow> f = faults w)"
  by (auto simp: settings_lookup_def GetSetting_def run_exec_sql sql_select_setting_def
      split: option.split sum.split prod.split if_split)

interpretation settings_notifier: quiet_notifier webhook_notifier
proof unfold_locales
  fix e n w
  obtain f where f: "snd (run_state settings_lookup w) = w\<lparr>faults := f\<rparr>" "healthy w \<longrightarrow> f = faults w"
    using run_settings_lookup_quiet(2) by blast
  obtain us where us: "run_state settings_lookup w = (us, w\<lparr>faults := f\<rparr>)"
    using f(1) by (metis prod.collapse)
  show "\<exists>f p. snd (run_state (webhook_notifier e n) w) = w\<lparr>faults := f, spawned := p\<rparr> \<and>
      (healthy w \<longrightarrow> f = faults w)"
  proof (cases "fst us = ''''")
    case True
    then have "snd (run_state (webhook_notifier e n) w) = w\<lparr>faults := f, spawned := spawned w\<rparr>"
      by (simp add: webhook_notifier_def Sender_Notify_def us)
    with f(2) show ?thesis by blast
  next
    case False
    then have "snd (run_state (webhook_notifier e n) w) =
        w\<lparr>faults := f, spawned := spawned w @ [\<lparr>dl_url = fst us, dl_secret = snd us, dl_data = n\<rparr>]\<rparr>"
      by (simp add: webhook_notifier_def Sender_Notify_def us)
    with f(2) show ?thesis by blast
  qed
qed

text \<open>One delivery for an event while a URL is set, with the settings of that moment.\<close>

lemma run_webhook_notifier:
  assumes "healthy w"
  shows "run_state (webhook_notifier e n) w =
    ((), w\<lparr>spawned := spawned w @
      (case fetch_setting ''webhook_url'' (db w) of
         None \<Rightarrow> []
       | Some url \<Rightarrow>
           if url = '''' then []
           else [\<lparr>dl_url = url,
                  dl_secret = (case fetch_setting ''webhook_secret'' (db w) of None \<Rightarrow> '''' | Some k \<Rightarrow> k),
                  dl_data = n\<rparr>])\<rparr>)"
  using assms
  by (simp add: webhook_notifier_def Sender_Notify_def settings_lookup_def run_GetSetting
      fetch_setting_def split: option.split)

section \<open>The key of a database\<close>

lemma run_loadOrCreateKeypair_found:
  "healthy w \<Longrightarrow> fetch_setting ''signing_key_seed'' (db w) = Some seed \<Longrightarrow>
    run_state (loadOrCreateKeypair E) w = (KeypairFromSeed E seed, w)"
  by (simp add: loadOrCreateKeypair_def run_GetSetting fetch_setting_def)

lemma run_loadOrCreateKeypair_new:
  "healthy w \<Longrightarrow> fetch_setting ''signing_key_seed'' (db w) = None \<Longrightarrow>
    run_state (loadOrCreateKeypair E) w =
      (Inr (NewKeyFromSeed E (stake SeedSize (entropy w)), ed_public E (stake SeedSize (entropy w))),
       w\<lparr>entropy := sdrop SeedSize (entropy w),
         db := put_setting ''signing_key_seed'' (b64_encode (stake SeedSize (entropy w))) (db w)\<rparr>)"
  by (simp add: loadOrCreateKeypair_def run_GetSetting fetch_setting_def GenerateSeed_def
      run_SetSetting KeypairFromSeed_encode)

text \<open>With a key pair returned, the database holds its seed, whatever the driver does.\<close>

lemma loadOrCreateKeypair_stored:
  assumes "run_state (loadOrCreateKeypair E) w = (Inr kp, w')"
  shows "\<exists>seed. fetch_setting ''signing_key_seed'' (db w') = Some seed \<and> KeypairFromSeed E seed = Inr kp"
  using assms
  by (auto simp: loadOrCreateKeypair_def GetSetting_def SetSetting_def GenerateSeed_def run_exec_sql
      sql_select_setting_fetch sql_upsert_setting_put
      split: option.splits sum.splits prod.splits if_splits)

lemma keeps_db_ok_loadOrCreateKeypair: "keeps (\<lambda>w. db_ok (db w)) (loadOrCreateKeypair E)"
  unfolding loadOrCreateKeypair_def GenerateSeed_def
  by (intro keeps_steps keeps_GetSetting keeps_SetSetting)

end
