(* ===== verification/Concurrency.thy ===== *)
theory Concurrency
  imports Licensing
begin

text \<open>
  Activations that run at the same time. \<open>net/http\<close> serves each request in a goroutine of its own,
  and \<open>activate\<close> holds no lock and opens no transaction, so its SQL statements interleave with
  those of other requests. A thread is one call of \<open>activate\<close>, its program counter the next
  statement with the values that the code holds at that point; a step runs one statement of one
  thread. The notification sends no statement that writes and is left out of the steps.
\<close>

section \<open>One call of activate, statement by statement\<close>

datatype position =
    AwaitLicense
  | AwaitDevice license
  | AwaitCount license
  | AwaitInsert license
  | AwaitTouch license int
  | AwaitSeats license bool
  | Done "gerror + license \<times> int" bool

text \<open>
  \<open>th_now\<close> is the thread's \<open>s.now()\<close>, \<open>th_store_now\<close> the time that its write stores. The flag of the
  last two positions tells whether the thread has passed the seat check.
\<close>

record thread =
  th_key :: string
  th_device :: string
  th_name :: string
  th_now :: gotime
  th_store_now :: gotime
  th_pos :: position

definition act_next :: "thread \<Rightarrow> database \<Rightarrow> position \<times> database" where
  "act_next t d =
     (case th_pos t of
        AwaitLicense \<Rightarrow>
          (case license_by_key (th_key t) d of
             None \<Rightarrow> (Done (Inl ErrNotFound) False, d)
           | Some lic \<Rightarrow>
               if Status lic (th_now t) \<noteq> ''active''
               then (Done (Inl (status_error (Status lic (th_now t)))) False, d)
               else (AwaitDevice lic, d))
      | AwaitDevice lic \<Rightarrow>
          (case active_device (lic_id lic) (th_device t) d of
             None \<Rightarrow> (AwaitCount lic, d)
           | Some r \<Rightarrow> (AwaitTouch lic (dev_id r), d))
      | AwaitCount lic \<Rightarrow>
          if lic_max_devices lic \<le> seat_count (lic_id lic) d then (Done (Inl ErrDeviceLimit) False, d)
          else (AwaitInsert lic, d)
      | AwaitInsert lic \<Rightarrow>
          (case sql_upsert_device (new_device (lic_id lic) (th_device t) (th_name t) (th_store_now t)) d of
             Inl e \<Rightarrow> (Done (Inl e) True, d)
           | Inr (i, d') \<Rightarrow> (AwaitSeats lic True, d'))
      | AwaitTouch lic i \<Rightarrow> (AwaitSeats lic False, touched (th_store_now t) i d)
      | AwaitSeats lic f \<Rightarrow> (Done (Inr (lic, seat_count (lic_id lic) d)) f, d)
      | Done r f \<Rightarrow> (Done r f, d))"

definition act_step :: "thread \<times> database \<Rightarrow> thread \<times> database" where
  "act_step c = (case c of (t, d) \<Rightarrow> case act_next t d of (p, d') \<Rightarrow> (t\<lparr>th_pos := p\<rparr>, d'))"

definition start_thread :: "string \<Rightarrow> string \<Rightarrow> string \<Rightarrow> gotime \<Rightarrow> gotime \<Rightarrow> thread" where
  "start_thread key x name now store_now =
     \<lparr>th_key = key, th_device = x, th_name = name, th_now = now, th_store_now = store_now,
      th_pos = AwaitLicense\<rparr>"

text \<open>Five statements are the most that a call runs. Alone, they are \<open>activate\<close>.\<close>

definition act_alone :: "string \<Rightarrow> string \<Rightarrow> string \<Rightarrow> gotime \<Rightarrow> gotime \<Rightarrow> database \<Rightarrow> thread \<times> database" where
  "act_alone key x name now store_now d = (act_step ^^ 5) (start_thread key x name now store_now, d)"

named_theorems act_steps \<open>what a thread's next statement does, by its position\<close>

lemma act_step_license [act_steps]:
  "license_by_key key d = None \<Longrightarrow>
    act_step (\<lparr>th_key = key, th_device = x, th_name = n, th_now = t, th_store_now = u, th_pos = AwaitLicense\<rparr>, d) =
      (\<lparr>th_key = key, th_device = x, th_name = n, th_now = t, th_store_now = u,
        th_pos = Done (Inl ErrNotFound) False\<rparr>, d)"
  "license_by_key key d = Some lic \<Longrightarrow>
    act_step (\<lparr>th_key = key, th_device = x, th_name = n, th_now = t, th_store_now = u, th_pos = AwaitLicense\<rparr>, d) =
      (\<lparr>th_key = key, th_device = x, th_name = n, th_now = t, th_store_now = u,
        th_pos = (if Status lic t \<noteq> ''active'' then Done (Inl (status_error (Status lic t))) False
                  else AwaitDevice lic)\<rparr>, d)"
  by (simp_all add: act_step_def act_next_def)

lemma act_step_device [act_steps]:
  "act_step (\<lparr>th_key = key, th_device = x, th_name = n, th_now = t, th_store_now = u, th_pos = AwaitDevice lic\<rparr>, d) =
    (\<lparr>th_key = key, th_device = x, th_name = n, th_now = t, th_store_now = u,
      th_pos = (case active_device (lic_id lic) x d of None \<Rightarrow> AwaitCount lic
                | Some r \<Rightarrow> AwaitTouch lic (dev_id r))\<rparr>, d)"
  by (simp add: act_step_def act_next_def split: option.split)

lemma act_step_count [act_steps]:
  "act_step (\<lparr>th_key = key, th_device = x, th_name = n, th_now = t, th_store_now = u, th_pos = AwaitCount lic\<rparr>, d) =
    (\<lparr>th_key = key, th_device = x, th_name = n, th_now = t, th_store_now = u,
      th_pos = (if lic_max_devices lic \<le> seat_count (lic_id lic) d then Done (Inl ErrDeviceLimit) False
                else AwaitInsert lic)\<rparr>, d)"
  by (simp add: act_step_def act_next_def)

lemma act_step_insert [act_steps]:
  "sql_upsert_device (new_device (lic_id lic) x n u) d = Inr (i, d') \<Longrightarrow>
    act_step (\<lparr>th_key = key, th_device = x, th_name = n, th_now = t, th_store_now = u, th_pos = AwaitInsert lic\<rparr>, d) =
      (\<lparr>th_key = key, th_device = x, th_name = n, th_now = t, th_store_now = u,
        th_pos = AwaitSeats lic True\<rparr>, d')"
  by (simp add: act_step_def act_next_def)

lemma act_step_rest [act_steps]:
  "act_step (\<lparr>th_key = key, th_device = x, th_name = n, th_now = t, th_store_now = u, th_pos = AwaitTouch lic i\<rparr>, d) =
    (\<lparr>th_key = key, th_device = x, th_name = n, th_now = t, th_store_now = u,
      th_pos = AwaitSeats lic False\<rparr>, touched u i d)"
  "act_step (\<lparr>th_key = key, th_device = x, th_name = n, th_now = t, th_store_now = u, th_pos = AwaitSeats lic f\<rparr>, d) =
    (\<lparr>th_key = key, th_device = x, th_name = n, th_now = t, th_store_now = u,
      th_pos = Done (Inr (lic, seat_count (lic_id lic) d)) f\<rparr>, d)"
  "act_step (\<lparr>th_key = key, th_device = x, th_name = n, th_now = t, th_store_now = u, th_pos = Done r f\<rparr>, d) =
    (\<lparr>th_key = key, th_device = x, th_name = n, th_now = t, th_store_now = u, th_pos = Done r f\<rparr>, d)"
  by (simp_all add: act_step_def act_next_def)

lemma act_alone_steps:
  "act_alone key x name now store_now d =
    act_step (act_step (act_step (act_step (act_step (start_thread key x name now store_now, d)))))"
  by (simp add: act_alone_def eval_nat_numeral)

lemmas alone_simps = act_alone_steps start_thread_def act_steps

lemma alone_refused:
  assumes "license_by_key key d = None \<or>
      (\<exists>lic. license_by_key key d = Some lic \<and> Status lic now \<noteq> ''active'')"
  shows "th_pos (fst (act_alone key x name now sn d)) =
      Done (Inl (case license_by_key key d of None \<Rightarrow> ErrNotFound
                 | Some lic \<Rightarrow> status_error (Status lic now))) False
    \<and> snd (act_alone key x name now sn d) = d"
  using assms by (auto simp: alone_simps)

lemma alone_held:
  assumes "license_by_key key d = Some lic" and "Status lic now = ''active''"
    and "active_device (lic_id lic) x d = Some r"
  shows "th_pos (fst (act_alone key x name now sn d)) =
      Done (Inr (lic, seat_count (lic_id lic) d)) False
    \<and> snd (act_alone key x name now sn d) = touched sn (dev_id r) d"
  using assms by (simp add: alone_simps)

lemma alone_full:
  assumes "license_by_key key d = Some lic" and "Status lic now = ''active''"
    and "active_device (lic_id lic) x d = None" and "lic_max_devices lic \<le> seat_count (lic_id lic) d"
  shows "th_pos (fst (act_alone key x name now sn d)) = Done (Inl ErrDeviceLimit) False
    \<and> snd (act_alone key x name now sn d) = d"
  using assms by (simp add: alone_simps)

lemma alone_new:
  assumes "license_by_key key d = Some lic" and "Status lic now = ''active''"
    and "active_device (lic_id lic) x d = None" and "seat_count (lic_id lic) d < lic_max_devices lic"
    and "sql_upsert_device (new_device (lic_id lic) x name sn) d = Inr (i, d')"
  shows "th_pos (fst (act_alone key x name now sn d)) = Done (Inr (lic, seat_count (lic_id lic) d')) True
    \<and> snd (act_alone key x name now sn d) = d'"
  using assms by (simp add: alone_simps)

text \<open>The verdict of a finished thread.\<close>

definition verdict :: "thread \<Rightarrow> gerror + license \<times> int" where
  "verdict t = (case th_pos t of Done r f \<Rightarrow> r | _ \<Rightarrow> Inl ErrNoRows)"

lemma alone_is_activate:
  assumes h: "healthy w" and q: "quiet_notifier (svc_notifier s)"
    and run: "run_state (activate P s key x name off) w = (r, w')"
    and alone: "act_alone key x name (shd (clock w)) (shd (stl (clock w))) (db w) = (t, d)"
  shows "db w' = d \<and> r = answer P s x (shd (clock w)) off (verdict t)"
proof -
  let ?now = "shd (clock w)" and ?sn = "shd (stl (clock w))"
  have t: "t = fst (act_alone key x name ?now ?sn (db w))" "d = snd (act_alone key x name ?now ?sn (db w))"
    using alone by simp_all
  show ?thesis
  proof (cases "license_by_key key (db w)")
    case None
    with alone_refused [of key "db w" ?now x name ?sn] h run show ?thesis
      by (auto simp: t verdict_def activate_def run_GetLicenseByKey)
  next
    case (Some lic)
    show ?thesis
    proof (cases "Status lic ?now = ''active''")
      case False
      with alone_refused [of key "db w" ?now x name ?sn] h run Some show ?thesis
        by (auto simp: t verdict_def activate_def run_GetLicenseByKey)
    next
      case active: True
      show ?thesis
      proof (cases "active_device (lic_id lic) x (db w)")
        case held: (Some dev)
        with alone_held [OF Some active held, of name ?sn] h run Some active show ?thesis
          by (auto simp: t verdict_def activate_def run_GetLicenseByKey run_GetActiveDevice
              run_touch_held run_ActiveDeviceCount)
      next
        case None
        show ?thesis
        proof (cases "lic_max_devices lic \<le> seat_count (lic_id lic) (db w)")
          case True
          with alone_full [OF Some active None True, of name ?sn] h run Some active None show ?thesis
            by (auto simp: t verdict_def activate_def run_GetLicenseByKey run_GetActiveDevice
                take_or_touch_def run_ActiveDeviceCount)
        next
          case False
          then have room: "seat_count (lic_id lic) (db w) < lic_max_devices lic" by simp
          obtain i d' where up: "sql_upsert_device (new_device (lic_id lic) x name ?sn) (db w) = Inr (i, d')"
            using sql_upsert_device_total [OF license_row_exists [OF Some]] by blast
          define w0 where "w0 = w\<lparr>db := d', clock := stl (stl (stl (clock w)))\<rparr>"
          have "licenses d' = licenses (db w)" using up by (cases rule: sql_upsert_device_cases) simp_all
          with h have h0: "healthy w0" by (simp add: w0_def)
          note quiet = quiet_notifier.db_kept [OF q] quiet_notifier.healthy_kept [OF q h0]
          have db0: "db w0 = d'" by (simp add: w0_def)
          from alone_new [OF Some active None room up] h run Some active None room up h0 show ?thesis
            by (auto simp: t verdict_def activate_def run_GetLicenseByKey run_GetActiveDevice
                take_or_touch_def run_ActiveDeviceCount run_ActivateDevice notify_def quiet db0
                case_prod_unfold w0_def [symmetric])
        qed
      qed
    qed
  qed
qed

section \<open>Interleavings\<close>

text \<open>
  Any thread may run its next statement; meanwhile other requests may free a seat or revoke a
  license, each of which is one statement.
\<close>

type_synonym schedule = "thread list \<times> database"

inductive interleave :: "schedule \<Rightarrow> schedule \<Rightarrow> bool" where
  run_thread: "i < length ts \<Longrightarrow> act_step (ts ! i, d) = (t', d') \<Longrightarrow>
    interleave (ts, d) (ts[i := t'], d')"
| free_seat: "sql_deactivate_device t l x d = Inr (n, d') \<Longrightarrow> interleave (ts, d) (ts, d')"
| revoke: "sql_revoke_license t i d = Inr (n, d') \<Longrightarrow> interleave (ts, d) (ts, d')"

inductive_cases interleaveE [elim]: "interleave (ts, d) (ts', d')"

inductive_simps Done_stuck: "interleave ([], d) (ts', d')"

inductive interleaves :: "schedule \<Rightarrow> schedule \<Rightarrow> bool" where
  no_step: "interleaves c c"
| more_steps: "interleaves c c' \<Longrightarrow> interleave c' c'' \<Longrightarrow> interleaves c c''"

lemma interleaves_trans [trans]: "interleaves b c \<Longrightarrow> interleaves a b \<Longrightarrow> interleaves a c"
  by (induction rule: interleaves.induct) (auto intro: interleaves.intros)

section \<open>How far the limit can be exceeded\<close>

definition position_license :: "position \<Rightarrow> license option" where
  "position_license p = (case p of
       AwaitDevice lic \<Rightarrow> Some lic | AwaitCount lic \<Rightarrow> Some lic | AwaitInsert lic \<Rightarrow> Some lic
     | AwaitTouch lic i \<Rightarrow> Some lic | AwaitSeats lic f \<Rightarrow> Some lic | _ \<Rightarrow> None)"

definition passed_check :: "thread \<Rightarrow> bool" where
  "passed_check t = (case th_pos t of
       AwaitInsert lic \<Rightarrow> True | AwaitSeats lic f \<Rightarrow> f | Done r f \<Rightarrow> f | _ \<Rightarrow> False)"

definition will_insert :: "string \<Rightarrow> thread \<Rightarrow> bool" where
  "will_insert l t = (case th_pos t of AwaitInsert lic \<Rightarrow> lic_id lic = l | _ \<Rightarrow> False)"

definition limit_is :: "string \<Rightarrow> int \<Rightarrow> database \<Rightarrow> bool" where
  "limit_is l m d \<longleftrightarrow> (\<forall>r \<in> set (licenses d). row_id r = l \<longrightarrow> row_max_devices r = m)"

definition knows_limit :: "string \<Rightarrow> int \<Rightarrow> thread \<Rightarrow> bool" where
  "knows_limit l m t \<longleftrightarrow>
     (\<forall>lic. position_license (th_pos t) = Some lic \<longrightarrow> lic_id lic = l \<longrightarrow> lic_max_devices lic = m)"

text \<open>Seats taken and seats about to be taken are within the limit and one more for each further check passed.\<close>

definition bounded :: "string \<Rightarrow> int \<Rightarrow> schedule \<Rightarrow> bool" where
  "bounded l m c \<longleftrightarrow> (case c of (ts, d) \<Rightarrow>
     devices_ok d \<and> limit_is l m d \<and> (\<forall>t \<in> set ts. knows_limit l m t) \<and>
     seat_count l d + count_where (will_insert l) ts \<le> max 0 m - 1 + max 1 (count_where passed_check ts))"

lemma count_where_update:
  "i < length ts \<Longrightarrow> count_where c (ts[i := t]) =
    count_where c ts - (if c (ts ! i) then 1 else 0) + (if c t then 1 else 0)"
proof (induction ts arbitrary: i)
  case (Cons x xs)
  then show ?case by (cases i) auto
qed simp

lemma will_insert_le_passed: "count_where (will_insert l) ts \<le> count_where passed_check ts"
  by (rule count_where_mono) (auto simp: will_insert_def passed_check_def split: position.splits)

text \<open>One step of one thread, with what it does to the seats and to the two counts.\<close>

lemma act_step_effect:
  assumes "act_step (t, d) = (t', d')" and "devices_ok d" and "limit_is l m d" and "knows_limit l m t"
  shows "devices_ok d' \<and> limit_is l m d' \<and> knows_limit l m t'"
    "passed_check t \<Longrightarrow> passed_check t'"
    "will_insert l t' \<Longrightarrow> \<not> will_insert l t \<Longrightarrow> seat_count l d < m \<and> \<not> passed_check t \<and> d' = d"
    "seat_count l d' \<le> seat_count l d + (if will_insert l t \<and> \<not> will_insert l t' then 1 else 0)"
proof -
  have t': "t' = t\<lparr>th_pos := fst (act_next t d)\<rparr>" and d': "d' = snd (act_next t d)"
    using assms(1) by (auto simp: act_step_def split: prod.splits)
  have insert: "devices_ok e \<and> limit_is l m e \<and>
      seat_count l e \<le> seat_count l d + (if lic_id lic = l then 1 else 0)"
    if "sql_upsert_device (new_device (lic_id lic) x n u) d = Inr (i, e)" for lic x n u i e
  proof -
    have "takes_seat (lic_id lic) x d e"
      unfolding takes_seat_def using that by (intro exI conjI) auto
    then have "seat_count l e \<le> seat_count l d + (if lic_id lic = l then 1 else 0)"
      using device_table.tally_takes [of "lic_id lic" x d e l] assms(2) by auto
    moreover have "licenses e = licenses d"
      using that by (cases rule: sql_upsert_device_cases) auto
    ultimately show ?thesis
      using sql_upsert_device_ok [OF that assms(2)] assms(3) by (simp add: limit_is_def)
  qed
  note defs = act_next_def knows_limit_def position_license_def passed_check_def will_insert_def
  show "devices_ok d' \<and> limit_is l m d' \<and> knows_limit l m t'"
  proof (cases "th_pos t")
    case AwaitLicense
    then show ?thesis
      using assms(2,3) unfolding t' d'
      by (auto simp: defs limit_is_def dest!: license_by_key_row split: option.splits)
  next
    case (AwaitTouch lic i)
    then show ?thesis
      using assms(2-4) unfolding t' d' by (auto simp: defs limit_is_def)
  next
    case (AwaitInsert lic)
    then show ?thesis
      using assms(2-4) unfolding t' d' by (auto simp: defs dest: insert split: sum.splits)
  qed (use assms(2-4) in \<open>auto simp: t' d' defs split: option.splits\<close>)
  show "passed_check t \<Longrightarrow> passed_check t'"
    unfolding t' by (auto simp: defs split: position.splits sum.splits)
  show "will_insert l t' \<Longrightarrow> \<not> will_insert l t \<Longrightarrow> seat_count l d < m \<and> \<not> passed_check t \<and> d' = d"
    using assms(4) unfolding t' d'
    by (auto simp: defs split: position.splits option.splits sum.splits if_splits)
  show "seat_count l d' \<le> seat_count l d + (if will_insert l t \<and> \<not> will_insert l t' then 1 else 0)"
  proof (cases "th_pos t")
    case (AwaitInsert lic)
    show ?thesis
    proof (cases "sql_upsert_device (new_device (lic_id lic) (th_device t) (th_name t) (th_store_now t)) d")
      case (Inr p)
      obtain i e where p: "p = (i, e)" by (cases p)
      from AwaitInsert insert [OF Inr [unfolded p]] Inr p show ?thesis
        unfolding t' d' by (simp add: defs)
    qed (use AwaitInsert in \<open>simp add: t' d' defs\<close>)
  qed (auto simp: t' d' defs split: option.splits)
qed

lemma bounded_step:
  assumes "interleave c c'" and "bounded l m c"
  shows "bounded l m c'"
  using assms
proof (cases rule: interleave.cases)
  case (run_thread i ts d t' d')
  have d: "devices_ok d" "limit_is l m d" and ts: "\<forall>t \<in> set ts. knows_limit l m t"
    and b: "seat_count l d + count_where (will_insert l) ts \<le> max 0 m - 1 + max 1 (count_where passed_check ts)"
    using assms(2) run_thread(1) by (simp_all add: bounded_def)
  have k: "knows_limit l m (ts ! i)" using ts run_thread(3) by simp
  note eff = act_step_effect [OF run_thread(4) d k]
  have ts': "\<forall>t \<in> set (ts[i := t']). knows_limit l m t"
    using ts eff(1) by (auto dest!: set_update_subset_insert [THEN subsetD])
  have le: "count_where (will_insert l) ts \<le> count_where passed_check ts"
    by (rule will_insert_le_passed)
  have pass: "will_insert l t \<Longrightarrow> passed_check t" for t
    by (auto simp: will_insert_def passed_check_def split: position.splits)
  have "seat_count l d' + count_where (will_insert l) (ts[i := t']) \<le>
      max 0 m - 1 + max 1 (count_where passed_check (ts[i := t']))"
  proof (cases "will_insert l t' \<and> \<not> will_insert l (ts ! i)")
    case True
    with eff(3) pass have "seat_count l d < m" "\<not> passed_check (ts ! i)" "d' = d" "passed_check t'"
      by auto
    with True le show ?thesis by (simp add: count_where_update run_thread(3))
  next
    case False
    let ?a = "count_where (will_insert l) (ts[i := t'])" and ?p = "count_where passed_check (ts[i := t'])"
    have "count_where passed_check ts \<le> ?p"
      using eff(2) by (simp add: count_where_update run_thread(3))
    moreover have "seat_count l d' + ?a \<le> seat_count l d + count_where (will_insert l) ts"
      using eff(4) False by (auto simp: count_where_update run_thread(3) split: if_splits)
    ultimately show ?thesis using b by linarith
  qed
  with eff(1) ts' show ?thesis by (simp add: bounded_def run_thread(2))
next
  case (free_seat t k x d n d' ts)
  have d: "devices_ok d" using assms(2) free_seat(1) by (simp add: bounded_def)
  have fr: "frees_seat k x d d'" using free_seat(3) by (auto simp: frees_seat_def)
  have "licenses d' = licenses d"
    using free_seat(3) by (auto simp: sql_deactivate_device_def Let_def)
  with assms(2) free_seat(1,2) sql_deactivate_device_ok [OF free_seat(3) d]
    device_table.tally_frees [OF fr d, of l]
  show ?thesis by (auto simp: bounded_def limit_is_def split: if_splits)
next
  case (revoke t k d n d' ts)
  have "d' = d\<lparr>licenses := licenses d'\<rparr>" "limit_is l m d \<Longrightarrow> limit_is l m d'"
    using revoke(3)
    by (auto simp: sql_revoke_license_def Let_def limit_is_def set_update_where)
  moreover from this have "devices d' = devices d" "devices_ok d' = devices_ok d"
    by (metis database.select_convs(8) database.surjective database.update_convs(7),
        metis devices_ok_other(2))
  ultimately show ?thesis
    using assms(2) revoke(1,2) by (simp add: bounded_def seat_count_def)
qed

lemma bounded_run: "interleaves c c' \<Longrightarrow> bounded l m c \<Longrightarrow> bounded l m c'"
  by (induction rule: interleaves.induct) (auto intro: bounded_step)

definition fresh_thread :: "thread \<Rightarrow> bool" where
  "fresh_thread t \<longleftrightarrow> th_pos t = AwaitLicense"

lemma bounded_start:
  assumes "\<forall>t \<in> set ts. fresh_thread t" and "db_ok d" and "r \<in> set (licenses d)"
  shows "bounded (row_id r) (row_max_devices r) (ts, d)"
proof -
  have "devices_ok d" "limit_is (row_id r) (row_max_devices r) d"
    "seat_count (row_id r) d \<le> max 0 (row_max_devices r)"
    using assms(2,3) by (auto simp: db_ok_defs limit_is_def distinct_map inj_on_def)
  moreover have "knows_limit l m t" "\<not> will_insert l t" if "t \<in> set ts" for t l m
    using assms(1) that
    by (auto simp: fresh_thread_def knows_limit_def position_license_def will_insert_def)
  then have c0: "count_where (will_insert (row_id r)) ts = 0"
    and "\<forall>t \<in> set ts. knows_limit (row_id r) (row_max_devices r) t"
    by auto
  moreover have "1 \<le> max 1 (count_where passed_check ts)" by simp
  ultimately show ?thesis unfolding bounded_def prod.case c0 by linarith
qed

lemma interleaves_length: "interleaves c c' \<Longrightarrow> length (fst c') = length (fst c)"
  by (induction rule: interleaves.induct) (auto elim: interleave.cases)

lemma interleaves_seats:
  assumes "interleaves (ts, d) (ts', d')" and "\<forall>t \<in> set ts. fresh_thread t" and "db_ok d"
    and "r \<in> set (licenses d)" and "ts \<noteq> []"
  shows "seat_count (row_id r) d' \<le> max 0 (row_max_devices r) + int (length ts) - 1"
proof -
  have b: "bounded (row_id r) (row_max_devices r) (ts', d')"
    by (rule bounded_run [OF assms(1) bounded_start [OF assms(2-4)]])
  have "count_where passed_check ts' \<le> int (length ts)"
    using count_where_le_length [of passed_check ts'] interleaves_length [OF assms(1)] by simp
  moreover have "1 \<le> int (length ts)" using assms(5) by (cases ts) auto
  moreover have "0 \<le> count_where (will_insert (row_id r)) ts'" by simp
  ultimately show ?thesis using b unfolding bounded_def prod.case by linarith
qed

end
