(* ===== verification/Json_Web.thy ===== *)
theory Json_Web
  imports Json_Codec Web_Api
begin

text \<open>
  The JSON of the HTTP API: how \<open>decodeJSON\<close> reads a request, what \<open>writeJSON\<close> writes for each answer,
  and the two uses of JSON in the offline activation of the dashboard. The API's requests are read with
  unknown fields refused, and only the first value of the body counts.
\<close>

section \<open>Requests\<close>

definition request_fields :: "activateRequest json_field list" where
  "request_fields =
     [(''license_key'', string_field (\<lambda>s q. q\<lparr>req_license_key := s\<rparr>)),
      (''device_id'', string_field (\<lambda>s q. q\<lparr>req_device_id := s\<rparr>)),
      (''device_name'', string_field (\<lambda>s q. q\<lparr>req_device_name := s\<rparr>))]"

definition zero_request :: activateRequest where
  "zero_request = \<lparr>req_license_key = [], req_device_id = [], req_device_name = []\<rparr>"

definition decodeJSON :: "json_setting \<Rightarrow> bytes \<Rightarrow> gerror + activateRequest" where
  "decodeJSON js body =
     (case Option.bind (json_first body) (\<lambda>j. decode_struct True request_fields j zero_request) of
        None \<Rightarrow> Inl (js_error js ''web.activateRequest'' body)
      | Some q \<Rightarrow> Inr q)"

definition offline_fields :: "offline_request json_field list" where
  "offline_fields =
     [(''device_id'', string_field (\<lambda>s q. q\<lparr>off_device_id := s\<rparr>)),
      (''device_name'', string_field (\<lambda>s q. q\<lparr>off_device_name := s\<rparr>))]"

definition zero_offline_request :: offline_request where
  "zero_offline_request = \<lparr>off_device_id = [], off_device_name = []\<rparr>"

definition go_web_json :: "json_setting \<Rightarrow> web_json" where
  "go_web_json js =
     \<lparr>decode_activate = decodeJSON js,
      unmarshal_offline = unmarshal_struct js ''struct'' offline_fields zero_offline_request,
      indent_envelope = (\<lambda>env. Inr (json_indented (envelope_json env)))\<rparr>"

section \<open>Answers\<close>

text \<open>\<open>json.Encoder.Encode\<close> ends its text with a line break.\<close>

definition json_line :: "json \<Rightarrow> bytes" where
  "json_line j = json_compact j @ [CHR 0x0A]"

text \<open>The bodies that \<open>writeJSON\<close> writes, none for the answers of the dashboard.\<close>

definition api_body :: "content \<Rightarrow> bytes option" where
  "api_body c =
     (case c of
        JsonError code message \<Rightarrow> Some (json_line (json_map [(''error'', code), (''message'', message)]))
      | JsonEnvelope env \<Rightarrow> Some (json_line (envelope_json env))
      | JsonOk \<Rightarrow> Some (json_line (JObject [(''ok'', JBool True)]))
      | JsonPubkey key algorithm \<Rightarrow> Some (json_line (json_map [(''public_key'', key), (''algorithm'', algorithm)]))
      | _ \<Rightarrow> None)"

section \<open>What is read back\<close>

lemma go_web_json_sel [simp]:
  "decode_activate (go_web_json js) = decodeJSON js"
  "unmarshal_offline (go_web_json js) = unmarshal_struct js ''struct'' offline_fields zero_offline_request"
  "indent_envelope (go_web_json js) env = Inr (json_indented (envelope_json env))"
  by (simp_all add: go_web_json_def)

lemma json_ok_pairs:
  "list_all (plain \<circ> fst) kv \<Longrightarrow> 0 < d \<Longrightarrow> json_ok d (JObject (map (\<lambda>(k, v). (k, json_text v)) kv))"
  by (auto simp: list_all_iff string_ok_if_plain)

lemma escape_plain: "plain k \<Longrightarrow> plain (json_escape k) \<Longrightarrow> json_escape k = k"
  using unescape_plain [of "json_escape k"] json_unescape_escape [of k] plain_utf8 [of k] by simp

lemma escape_names [simp]:
  "json_escape ''license_key'' = ''license_key''" "json_escape ''device_id'' = ''device_id''"
  "json_escape ''device_name'' = ''device_name''" "json_escape ''error'' = ''error''"
  "json_escape ''message'' = ''message''" "json_escape ''public_key'' = ''public_key''"
  "json_escape ''algorithm'' = ''algorithm''" "json_escape ''license_key_hint'' = ''license_key_hint''"
  by (simp_all add: json_escape.simps escape_ascii_def)

text \<open>The members of the maps, in the order in which they are written.\<close>

lemma map_orders:
  "json_map [(''license_key'', k), (''device_id'', d), (''device_name'', n)] =
    JObject [(''device_id'', json_text d), (''device_name'', json_text n), (''license_key'', json_text k)]"
  "json_map [(''license_key'', k), (''device_id'', d)] =
    JObject [(''device_id'', json_text d), (''license_key'', json_text k)]"
  "json_map [(''device_id'', d), (''device_name'', n)] =
    JObject [(''device_id'', json_text d), (''device_name'', json_text n)]"
  "json_map [(''error'', k), (''message'', d)] =
    JObject [(''error'', json_text k), (''message'', json_text d)]"
  "json_map [(''public_key'', k), (''algorithm'', d)] =
    JObject [(''algorithm'', json_text d), (''public_key'', json_text k)]"
  by (simp_all add: json_map_def)

lemma decode_request:
  assumes "utf8_valid k" and "utf8_valid d" and "utf8_valid n"
  shows "decode_struct b request_fields (json_map [(''license_key'', k), (''device_id'', d), (''device_name'', n)]) x =
      Some (x\<lparr>req_license_key := k, req_device_id := d, req_device_name := n\<rparr>)"
    "decode_struct b request_fields (json_map [(''license_key'', k), (''device_id'', d)]) x =
      Some (x\<lparr>req_license_key := k, req_device_id := d\<rparr>)"
proof -
  have p: "plain ''license_key''" "plain ''device_id''" "plain ''device_name''" by (simp_all add: plain_def)
  have f: "map_of request_fields ''license_key'' = Some (string_field (\<lambda>s q. q\<lparr>req_license_key := s\<rparr>))"
    "map_of request_fields ''device_id'' = Some (string_field (\<lambda>s q. q\<lparr>req_device_id := s\<rparr>))"
    "map_of request_fields ''device_name'' = Some (string_field (\<lambda>s q. q\<lparr>req_device_name := s\<rparr>))"
    by (simp_all add: request_fields_def)
  note step = decode_member [OF p(1) f(1)] decode_member [OF p(2) f(2)] decode_member [OF p(3) f(3)]
  from assms show "decode_struct b request_fields (json_map [(''license_key'', k), (''device_id'', d), (''device_name'', n)]) x =
      Some (x\<lparr>req_license_key := k, req_device_id := d, req_device_name := n\<rparr>)"
    "decode_struct b request_fields (json_map [(''license_key'', k), (''device_id'', d)]) x =
      Some (x\<lparr>req_license_key := k, req_device_id := d\<rparr>)"
    by (simp_all add: map_orders decode_struct_object step)
qed

lemma decodeJSON_compact:
  assumes "json_ok max_nesting j"
  shows "decodeJSON js (json_compact j) =
    (case decode_struct True request_fields j zero_request of
       None \<Rightarrow> Inl (js_error js ''web.activateRequest'' (json_compact j)) | Some q \<Rightarrow> Inr q)"
  using json_whole_first [OF json_whole_compact [OF assms]] by (simp add: decodeJSON_def)

lemma max_nesting_pos [simp]: "0 < max_nesting"
  by (simp add: max_nesting_def)

text \<open>The bodies that a client posts are read as it meant them.\<close>

lemma decodeJSON_map:
  assumes "utf8_valid k" and "utf8_valid d" and "utf8_valid n"
  shows "decodeJSON js (json_compact (json_map [(''license_key'', k), (''device_id'', d), (''device_name'', n)])) =
      Inr \<lparr>req_license_key = k, req_device_id = d, req_device_name = n\<rparr>"
    "decodeJSON js (json_compact (json_map [(''license_key'', k), (''device_id'', d)])) =
      Inr \<lparr>req_license_key = k, req_device_id = d, req_device_name = []\<rparr>"
  using assms by (simp_all add: decodeJSON_compact decode_request zero_request_def)

text \<open>
  The text that \<open>offline-request\<close> prints, pasted into the dashboard: a browser submits the line breaks of
  a text area as CR LF, which are spaces of JSON too. The hint that the text may carry is ignored.
\<close>

definition crlf :: "string \<Rightarrow> string" where
  "crlf s = concat (map (\<lambda>c. if c = CHR 0x0A then [CHR 0x0D, CHR 0x0A] else [c]) s)"

definition request_members :: "string \<Rightarrow> string \<Rightarrow> string \<Rightarrow> (string \<times> string) list" where
  "request_members key device name =
     [(''device_id'', device), (''device_name'', name)] @ (if key \<noteq> '''' then [(''license_key_hint'', key)] else [])"

lemma crlf_simps [simp]:
  "crlf [] = []" "crlf (a @ b) = crlf a @ crlf b"
  "c \<noteq> CHR 0x0A \<Longrightarrow> crlf (c # s) = c # crlf s" "crlf (CHR 0x0A # s) = CHR 0x0D # CHR 0x0A # crlf s"
  by (simp_all add: crlf_def)

lemma crlf_id: "list_all (\<lambda>c. 0x20 \<le> byte_val c) s \<Longrightarrow> crlf s = s"
proof (induction s)
  case (Cons c s)
  then have "c \<noteq> CHR 0x0A" by auto
  with Cons show ?case by simp
qed simp

lemma scan_string_printable: "scan_string s = Some (x, r) \<Longrightarrow> list_all (\<lambda>c. 0x20 \<le> byte_val c) x"
proof (induction s arbitrary: x rule: measure_induct_rule [of length])
  case (less s)
  have hex: "0x20 \<le> byte_val h" if "hex_value h \<noteq> None" for h
    using that by (auto simp: hex_value_def in_range_def split: if_splits)
  from less.prems show ?case
  proof (cases rule: scan_string_elim)
    case (escape e es y)
    have "0x20 \<le> byte_val e"
      using escape(4) by (auto simp: simple_escape_def split: if_splits)
    with escape less.IH [of es y] show ?thesis by simp
  next
    case (unicode h1 h2 h3 h4 es y)
    with hex [of h1] hex [of h2] hex [of h3] hex [of h4] less.IH [of es y] show ?thesis by simp
  qed (use less.IH in \<open>auto simp: not_less\<close>)
qed

lemma crlf_escape [simp]: "crlf (json_escape s) = json_escape s"
  using string_ok_escape [of s] by (intro crlf_id) (auto simp: string_ok_def dest: scan_string_printable)

lemma crlf_print_members:
  "crlf (print_members nl sp l (map (\<lambda>(k, v). (json_escape k, json_text v)) kv)) =
    print_members (\<lambda>l. crlf (nl l)) (crlf sp) l (map (\<lambda>(k, v). (json_escape k, json_text v)) kv)"
  by (induction kv) (auto simp: json_text_def)

lemma json_whole_crlf: "json_whole (crlf (json_indented (json_map kv))) = Some (json_map kv)"
proof -
  have "crlf (json_indented (json_map kv)) =
      json_print (\<lambda>l. crlf (CHR 0x0A # concat (replicate l ''  ''))) '' '' 0 (json_map kv)"
    by (simp add: json_indented_def json_map_def crlf_print_members)
  moreover have "blank (crlf (CHR 0x0A # concat (replicate l ''  '')))" for l
    by (auto simp: crlf_def blank_def json_space_def list_all_iff split: if_splits)
  ultimately show ?thesis
    using json_whole_print [of "json_map kv" "\<lambda>l. crlf (CHR 0x0A # concat (replicate l ''  ''))" "'' ''" "[]" 0]
    by (simp add: blank_def json_space_def)
qed

lemma unmarshal_offline_request:
  assumes "utf8_valid device" and "utf8_valid name"
    and "json_whole data = Some (json_map (request_members key device name))"
  shows "unmarshal_struct js ty offline_fields zero_offline_request data =
    Inr \<lparr>off_device_id = device, off_device_name = name\<rparr>"
proof -
  have p: "plain ''device_id''" "plain ''device_name''" "plain ''license_key_hint''" by (simp_all add: plain_def)
  have f: "map_of offline_fields ''device_id'' = Some (string_field (\<lambda>s q. q\<lparr>off_device_id := s\<rparr>))"
    "map_of offline_fields ''device_name'' = Some (string_field (\<lambda>s q. q\<lparr>off_device_name := s\<rparr>))"
    by (simp_all add: offline_fields_def)
  note step = decode_member [OF p(1) f(1)] decode_member [OF p(2) f(2)]
  have "find_field offline_fields ''license_key_hint'' = None"
    by (simp add: find_field_def offline_fields_def to_upper_def in_range_def)
  then have hint: "decode_members False offline_fields ((''license_key_hint'', v) # ms) x =
      decode_members False offline_fields ms x" for v ms x
    by (simp add: decode_members.simps(2) unescape_plain [OF p(3)])
  have j: "json_map (request_members key device name) =
      JObject ([(''device_id'', json_text device), (''device_name'', json_text name)] @
        (if key \<noteq> '''' then [(''license_key_hint'', json_text key)] else []))"
    by (simp add: request_members_def json_map_def)
  from assms show ?thesis
    by (simp add: unmarshal_struct_def j decode_struct_object step hint zero_offline_request_def)
qed

end
