(* ===== verification/Filepath.thy ===== *)
theory Filepath
  imports Main
begin

text \<open>
  \<open>filepath.Clean\<close> and \<open>filepath.Join\<close> of two elements, for paths with slashes. Cleaning drops empty
  components and \<open>.\<close>, and lets \<open>..\<close> cancel the component before it.
\<close>

fun path_parts :: "string \<Rightarrow> string list" where
  "path_parts [] = [[]]"
| "path_parts (c # cs) =
     (if c = CHR ''/'' then [] # path_parts cs
      else (c # hd (path_parts cs)) # tl (path_parts cs))"

fun join_parts :: "string list \<Rightarrow> string" where
  "join_parts [] = []"
| "join_parts [p] = p"
| "join_parts (p # q # ps) = p @ CHR ''/'' # join_parts (q # ps)"

text \<open>The components so far are kept in reverse.\<close>

definition clean_step :: "bool \<Rightarrow> string list \<Rightarrow> string \<Rightarrow> string list" where
  "clean_step rooted out p =
     (if p = '''' \<or> p = ''.'' then out
      else if p = ''..'' then
        (case out of
           [] \<Rightarrow> if rooted then [] else [p]
         | q # qs \<Rightarrow> if q = ''..'' then p # out else qs)
      else p # out)"

definition filepath_Clean :: "string \<Rightarrow> string" where
  "filepath_Clean path =
     (let rooted = (path \<noteq> '''' \<and> hd path = CHR ''/'');
          clean = join_parts (rev (foldl (clean_step rooted) [] (path_parts path)))
      in if rooted then CHR ''/'' # clean else if clean = '''' then ''.'' else clean)"

definition filepath_Join :: "string \<Rightarrow> string \<Rightarrow> string" where
  "filepath_Join dir file =
     (if dir = '''' then if file = '''' then '''' else filepath_Clean file
      else filepath_Clean (if file = '''' then dir else dir @ CHR ''/'' # file))"

lemma path_parts_not_Nil [simp]: "path_parts s \<noteq> []"
  by (induction s) simp_all

lemma path_parts_append: "path_parts (s @ CHR ''/'' # t) = path_parts s @ path_parts t"
  by (induction s) simp_all

lemma path_parts_single: "CHR ''/'' \<notin> set s \<Longrightarrow> path_parts s = [s]"
  by (induction s) auto

lemma join_parts_snoc: "join_parts (ps @ [p]) = concat (map (\<lambda>q. q @ ''/'') ps) @ p"
  by (induction ps rule: join_parts.induct) simp_all

text \<open>A file name of a directory: what comes before it depends on the directory only.\<close>

definition file_name :: "string \<Rightarrow> bool" where
  "file_name f \<longleftrightarrow> CHR ''/'' \<notin> set f \<and> f \<notin> {'''', ''.'', ''..''}"

lemma Join_name:
  obtains pre where "\<And>f. file_name f \<Longrightarrow> filepath_Join dir f = pre @ f"
proof -
  let ?rooted = "dir \<noteq> '''' \<and> hd dir = CHR ''/''"
  let ?out = "if dir = '''' then [] else foldl (clean_step ?rooted) [] (path_parts dir)"
  let ?pre = "(if ?rooted then ''/'' else '''') @ concat (map (\<lambda>q. q @ ''/'') (rev ?out))"
  have "filepath_Join dir f = ?pre @ f" if "file_name f" for f
  proof -
    have "f \<noteq> ''''" "hd f \<noteq> CHR ''/''" "path_parts f = [f]" "\<And>r ps. clean_step r ps f = f # ps"
      using that by (cases f; auto simp: file_name_def path_parts_single clean_step_def)+
    then show ?thesis
      by (auto simp: filepath_Join_def filepath_Clean_def Let_def path_parts_append join_parts_snoc)
  qed
  then show thesis by (rule that)
qed

lemma Join_inject: "file_name f \<Longrightarrow> file_name g \<Longrightarrow> filepath_Join dir f = filepath_Join dir g \<longleftrightarrow> f = g"
  by (rule Join_name [of dir]) simp

end
