(* ===== verification/Democli.thy ===== *)
theory Democli
  imports Service Calendar Filepath
begin

text \<open>
  \<open>cmd/democli\<close>: the reference client, with its cached state on disk and its calls of the server.
  The client's world is its files, its clock, the coming outcomes of its HTTP calls and what it has
  sent and printed. \<open>cw_io\<close> says for each file operation whether it fails for a reason of its own, and what
  the file then holds if the operation was a write.
  The JSON texts are the fields of \<open>client_json\<close>; a token is read by the platform's codec.
\<close>

section \<open>The client's world\<close>

record http_call =
  call_method :: string
  call_url :: string
  call_body :: bytes

record client_world =
  cw_files :: "string \<Rightarrow> bytes option"
  cw_io :: "(gerror \<times> bytes option) option stream"
  cw_clock :: "gotime stream"
  cw_http :: "(gerror + int \<times> bytes) stream"
  cw_sent :: "http_call list"
  cw_out :: "string list"

type_synonym 'a client = "(client_world, 'a) state"

record cachedState =
  cs_envelope :: envelope
  cs_device_id :: string
  cs_server :: string

record client_json =
  marshal_strings :: "(string \<times> string) list \<Rightarrow> gerror + bytes"
  indent_strings :: "(string \<times> string) list \<Rightarrow> gerror + bytes"
  indent_state :: "cachedState \<Rightarrow> gerror + bytes"
  unmarshal_state :: "bytes \<Rightarrow> gerror + cachedState"
  unmarshal_envelope :: "bytes \<Rightarrow> gerror + envelope"
  unmarshal_message :: "bytes \<Rightarrow> gerror + string"
  decode_public_key :: "bytes \<Rightarrow> gerror + string"
  valid_until_offset :: "bytes \<Rightarrow> duration"

definition not_exist :: "string \<Rightarrow> gerror" where
  "not_exist path = LibError (''open '' @ path @ '': no such file or directory'')"

definition os_ReadFile :: "string \<Rightarrow> (gerror + bytes) client" where
  "os_ReadFile path = State (\<lambda>w.
     ((case shd (cw_io w) of
         Some (e, _) \<Rightarrow> Inl e
       | None \<Rightarrow> (case cw_files w path of None \<Rightarrow> Inl (not_exist path) | Some b \<Rightarrow> Inr b)),
      w\<lparr>cw_io := stl (cw_io w)\<rparr>))"

text \<open>A write that fails may have truncated the file, or written some of the data.\<close>

definition os_WriteFile :: "string \<Rightarrow> bytes \<Rightarrow> (gerror + unit) client" where
  "os_WriteFile path data = State (\<lambda>w.
     (case shd (cw_io w) of
        Some (e, left) \<Rightarrow>
          (Inl e, w\<lparr>cw_io := stl (cw_io w), cw_files := (cw_files w)(path := left)\<rparr>)
      | None \<Rightarrow> (Inr (), w\<lparr>cw_io := stl (cw_io w), cw_files := (cw_files w)(path \<mapsto> data)\<rparr>)))"

definition os_Remove :: "string \<Rightarrow> (gerror + unit) client" where
  "os_Remove path = State (\<lambda>w.
     (case shd (cw_io w) of
        Some (e, _) \<Rightarrow> (Inl e, w\<lparr>cw_io := stl (cw_io w)\<rparr>)
      | None \<Rightarrow>
          ((if cw_files w path = None then Inl (not_exist path) else Inr ()),
           w\<lparr>cw_io := stl (cw_io w), cw_files := (cw_files w)(path := None)\<rparr>)))"

definition http_Do :: "http_call \<Rightarrow> (gerror + int \<times> bytes) client" where
  "http_Do c = State (\<lambda>w. (shd (cw_http w), w\<lparr>cw_http := stl (cw_http w), cw_sent := cw_sent w @ [c]\<rparr>))"

definition http_Post :: "string \<Rightarrow> bytes \<Rightarrow> (gerror + int \<times> bytes) client" where
  "http_Post url body = http_Do \<lparr>call_method = ''POST'', call_url = url, call_body = body\<rparr>"

definition http_Get :: "string \<Rightarrow> (gerror + int \<times> bytes) client" where
  "http_Get url = http_Do \<lparr>call_method = ''GET'', call_url = url, call_body = []\<rparr>"

definition client_Now :: "gotime client" where
  "client_Now = State (\<lambda>w. (shd (cw_clock w), w\<lparr>cw_clock := stl (cw_clock w)\<rparr>))"

definition fmt_Println :: "string \<Rightarrow> unit client" where
  "fmt_Println s = State (\<lambda>w. ((), w\<lparr>cw_out := cw_out w @ [s]\<rparr>))"

lemmas client_prims = os_ReadFile_def os_WriteFile_def os_Remove_def http_Do_def http_Post_def
  http_Get_def client_Now_def fmt_Println_def

section \<open>Cached state\<close>

definition licensePath :: "string \<Rightarrow> string" where
  "licensePath home = filepath_Join home ''license.json''"

definition pubkeyPath :: "string \<Rightarrow> string" where
  "pubkeyPath home = filepath_Join home ''pubkey.txt''"

lemma paths_differ: "licensePath home \<noteq> pubkeyPath home"
  by (simp add: licensePath_def pubkeyPath_def Join_inject file_name_def)

definition saveState :: "client_json \<Rightarrow> string \<Rightarrow> cachedState \<Rightarrow> (gerror + unit) client" where
  "saveState J home st =
     (case indent_state J st of
        Inl err \<Rightarrow> fail err
      | Inr data \<Rightarrow> os_WriteFile (licensePath home) data)"

definition loadState :: "client_json \<Rightarrow> string \<Rightarrow> (gerror + cachedState) client" where
  "loadState J home = do {
     r \<leftarrow> os_ReadFile (licensePath home);
     case r of Inl err \<Rightarrow> fail err | Inr data \<Rightarrow> State_Monad.return (unmarshal_state J data)
   }"

definition savePubkey :: "string \<Rightarrow> string \<Rightarrow> (gerror + unit) client" where
  "savePubkey home pub = os_WriteFile (pubkeyPath home) pub"

definition loadPubkey :: "string \<Rightarrow> (gerror + string) client" where
  "loadPubkey home = os_ReadFile (pubkeyPath home)"

section \<open>Server calls\<close>

text \<open>What a status of 300 or more is reported as.\<close>

definition rejection :: "client_json \<Rightarrow> int \<Rightarrow> bytes \<Rightarrow> gerror" where
  "rejection J status body =
     (case unmarshal_message J body of
        Inr m \<Rightarrow> if m \<noteq> '''' then LibError (''server rejected request: '' @ m)
                else LibError (''server returned status '' @ Itoa status)
      | Inl _ \<Rightarrow> LibError (''server returned status '' @ Itoa status))"

definition contact_error :: "string \<Rightarrow> gerror \<Rightarrow> gerror" where
  "contact_error srv err = ErrWrap (''contact '' @ srv @ '': '') err ''''"

definition postJSON ::
  "client_json \<Rightarrow> string \<Rightarrow> string \<Rightarrow> (string \<times> string) list \<Rightarrow> (gerror + envelope) client" where
  "postJSON J srv path body =
     (case marshal_strings J body of
        Inl err \<Rightarrow> fail err
      | Inr data \<Rightarrow> do {
          resp \<leftarrow> http_Post (srv @ path) data;
          case resp of
            Inl err \<Rightarrow> fail (contact_error srv err)
          | Inr (status, respBody) \<Rightarrow>
              if 300 \<le> status then fail (rejection J status respBody)
              else (case unmarshal_envelope J respBody of
                  Inl err \<Rightarrow> fail (ErrWrap ''decode response: '' err '''')
                | Inr env \<Rightarrow> ok env)
        })"

definition postJSONOK ::
  "client_json \<Rightarrow> string \<Rightarrow> string \<Rightarrow> (string \<times> string) list \<Rightarrow> (gerror + unit) client" where
  "postJSONOK J srv path body =
     (case marshal_strings J body of
        Inl err \<Rightarrow> fail err
      | Inr data \<Rightarrow> do {
          resp \<leftarrow> http_Post (srv @ path) data;
          case resp of
            Inl err \<Rightarrow> fail (contact_error srv err)
          | Inr (status, respBody) \<Rightarrow>
              if 300 \<le> status then fail (rejection J status respBody) else ok ()
        })"

definition fetchPubkey :: "client_json \<Rightarrow> string \<Rightarrow> (gerror + string) client" where
  "fetchPubkey J srv = do {
     resp \<leftarrow> http_Get (srv @ ''/v1/pubkey'');
     case resp of
       Inl err \<Rightarrow> fail (contact_error srv err)
     | Inr (status, body) \<Rightarrow> State_Monad.return (decode_public_key J body)
   }"

section \<open>Commands\<close>

definition check_mark :: string where
  "check_mark = [CHR 0xE2, CHR 0x9C, CHR 0x93]"

definition em_dash :: string where
  "em_dash = [CHR 0xE2, CHR 0x80, CHR 0x94]"

text \<open>
  A token's end is printed in the location that its text names: \<open>valid_until_offset\<close> reads the offset from
  UTC of that member of a payload.
\<close>

definition valid_until_date :: "client_json \<Rightarrow> envelope \<Rightarrow> token \<Rightarrow> string" where
  "valid_until_date J env tok =
     format_date (tok_valid_until tok +
       (case b64_decode (env_payload env) of Inl _ \<Rightarrow> 0 | Inr payload \<Rightarrow> valid_until_offset J payload))"

definition token_tail :: "token \<Rightarrow> string" where
  "token_tail tok =
     ''seat '' @ tok_device_id tok @ '', '' @ Itoa (tok_seats_used tok) @ ''/'' @ Itoa (tok_seats_max tok)"

definition printToken :: "platform \<Rightarrow> client_json \<Rightarrow> string \<Rightarrow> envelope \<Rightarrow> (gerror + unit) client" where
  "printToken P J pub env =
     (case DecodePublicKey pub of
        Inl err \<Rightarrow> fail err
      | Inr pubKey \<Rightarrow>
          (case Verify (ed P) (json_Unmarshal_token P) pubKey env of
             Inl err \<Rightarrow> fail err
           | Inr tok \<Rightarrow> do {
               let mode = (if tok_offline tok then ''offline'' else ''online'');
               fmt_Println (check_mark @ '' activated ('' @ mode @ '') '' @ em_dash @ '' '' @
                 tok_customer_name tok @ '', '' @ token_tail tok @ '' seats, valid until '' @
                 valid_until_date J env tok);
               ok ()
             }))"

definition mustDecodePayload :: "envelope \<Rightarrow> gerror + bytes" where
  "mustDecodePayload env =
     (case b64_decode (env_payload env) of
        Inl err \<Rightarrow> Inl (ErrWrap ''corrupted cached license state: '' err '''')
      | Inr data \<Rightarrow> Inr data)"

definition cmdActivate ::
  "platform \<Rightarrow> client_json \<Rightarrow> string \<Rightarrow> string \<Rightarrow> string \<Rightarrow> string \<Rightarrow> string \<Rightarrow> (gerror + unit) client" where
  "cmdActivate P J home srv key device name =
     (if key = '''' \<or> device = '''' then fail (LibError ''--key and --device are required'')
      else do {
        e \<leftarrow> postJSON J srv ''/v1/activate''
               [(''license_key'', key), (''device_id'', device), (''device_name'', name)];
        case e of
          Inl err \<Rightarrow> fail err
        | Inr env \<Rightarrow> do {
            p \<leftarrow> fetchPubkey J srv;
            case p of
              Inl err \<Rightarrow> fail err
            | Inr pub \<Rightarrow> do {
                sp \<leftarrow> savePubkey home pub;
                case sp of
                  Inl err \<Rightarrow> fail err
                | Inr _ \<Rightarrow> do {
                    ss \<leftarrow> saveState J home
                            \<lparr>cs_envelope = env, cs_device_id = device, cs_server = srv\<rparr>;
                    case ss of
                      Inl err \<Rightarrow> fail err
                    | Inr _ \<Rightarrow> printToken P J pub env
                  }
              }
          }
      })"

definition cmdValidate ::
  "platform \<Rightarrow> client_json \<Rightarrow> string \<Rightarrow> string \<Rightarrow> (gerror + unit) client" where
  "cmdValidate P J home srv = do {
     l \<leftarrow> loadState J home;
     case l of
       Inl err \<Rightarrow>
         fail (ErrWrap ''no cached activation found, run `democli activate` first: '' err '''')
     | Inr st \<Rightarrow>
         (case mustDecodePayload (cs_envelope st) of
            Inl err \<Rightarrow> fail err
          | Inr payload \<Rightarrow>
              (case json_Unmarshal_token P payload of
                 Inl err \<Rightarrow> fail err
               | Inr tok \<Rightarrow> do {
                   e \<leftarrow> postJSON J srv ''/v1/validate''
                          [(''license_key'', tok_license_key tok), (''device_id'', cs_device_id st)];
                   case e of
                     Inl err \<Rightarrow> fail err
                   | Inr env \<Rightarrow> do {
                       ss \<leftarrow> saveState J home (st\<lparr>cs_envelope := env\<rparr>);
                       case ss of
                         Inl err \<Rightarrow> fail err
                       | Inr _ \<Rightarrow> do {
                           p \<leftarrow> loadPubkey home;
                           case p of
                             Inl err \<Rightarrow> fail err
                           | Inr pub \<Rightarrow> printToken P J pub env
                         }
                     }
                 }))
   }"

definition cmdDeactivate ::
  "platform \<Rightarrow> client_json \<Rightarrow> string \<Rightarrow> string \<Rightarrow> (gerror + unit) client" where
  "cmdDeactivate P J home srv = do {
     l \<leftarrow> loadState J home;
     case l of
       Inl err \<Rightarrow> fail (ErrWrap ''no cached activation found: '' err '''')
     | Inr st \<Rightarrow>
         (case mustDecodePayload (cs_envelope st) of
            Inl err \<Rightarrow> fail err
          | Inr payload \<Rightarrow>
              (case json_Unmarshal_token P payload of
                 Inl err \<Rightarrow> fail err
               | Inr tok \<Rightarrow> do {
                   r \<leftarrow> postJSONOK J srv ''/v1/deactivate''
                          [(''license_key'', tok_license_key tok), (''device_id'', cs_device_id st)];
                   case r of
                     Inl err \<Rightarrow> fail err
                   | Inr _ \<Rightarrow> do {
                       _ \<leftarrow> os_Remove (licensePath home);
                       fmt_Println ''deactivated - seat freed'';
                       ok ()
                     }
                 }))
   }"

text \<open>The text of the instant in \<open>cmdRun\<close>'s error is the RFC 3339 form; the argument \<open>rfc\<close> writes it.\<close>

definition cmdRun :: "platform \<Rightarrow> client_json \<Rightarrow> (gotime \<Rightarrow> string) \<Rightarrow> string \<Rightarrow> (gerror + unit) client" where
  "cmdRun P J rfc home = do {
     l \<leftarrow> loadState J home;
     case l of
       Inl err \<Rightarrow> fail (ErrWrap ''not activated - run `democli activate` first: '' err '''')
     | Inr st \<Rightarrow> do {
         p \<leftarrow> loadPubkey home;
         case p of
           Inl err \<Rightarrow>
             fail (ErrWrap ''no cached public key - run `democli activate` or `offline-activate` first: '' err '''')
         | Inr pub \<Rightarrow>
             (case DecodePublicKey pub of
                Inl err \<Rightarrow> fail err
              | Inr pubKey \<Rightarrow>
                  (case Verify (ed P) (json_Unmarshal_token P) pubKey (cs_envelope st) of
                     Inl err \<Rightarrow>
                       fail (ErrWrap ''license signature invalid, refusing to run: '' err '''')
                   | Inr tok \<Rightarrow> do {
                       now \<leftarrow> client_Now;
                       if time_After now (tok_valid_until tok) then
                         (let kind = (if tok_offline tok then ''offline activation''
                                      else ''cached grace period'')
                          in fail (LibError (''license check expired ('' @ kind @ '' ended '' @
                               rfc (tok_valid_until tok) @
                               '') - reconnect and run `democli validate`'')))
                       else do {
                         fmt_Println (check_mark @ '' licensed to '' @ tok_customer_name tok @ '' ('' @
                           tok_product tok @ '') '' @ em_dash @ '' '' @ token_tail tok @
                           '' seats in use, valid until '' @ valid_until_date J (cs_envelope st) tok);
                         ok ()
                       }
                     }))
       }
   }"

definition cmdOfflineRequest :: "client_json \<Rightarrow> string \<Rightarrow> string \<Rightarrow> string \<Rightarrow> (gerror + unit) client" where
  "cmdOfflineRequest J key device name =
     (if device = '''' then fail (LibError ''--device is required'')
      else
        let req = [(''device_id'', device), (''device_name'', name)]
                    @ (if key \<noteq> '''' then [(''license_key_hint'', key)] else [])
        in case indent_strings J req of
             Inl err \<Rightarrow> fail err
           | Inr out \<Rightarrow> do { fmt_Println out; ok () })"

definition cmdOfflineActivate ::
  "platform \<Rightarrow> client_json \<Rightarrow> string \<Rightarrow> string \<Rightarrow> string \<Rightarrow> (gerror + unit) client" where
  "cmdOfflineActivate P J home file pubkey =
     (if file = '''' then fail (LibError ''--file is required'')
      else do {
        f \<leftarrow> os_ReadFile file;
        case f of
          Inl err \<Rightarrow> fail err
        | Inr data \<Rightarrow>
            (case unmarshal_envelope J data of
               Inl err \<Rightarrow> fail (ErrWrap (file @ '' is not a valid activation file: '') err '''')
             | Inr env \<Rightarrow> do {
                 p \<leftarrow> (if pubkey = '''' then loadPubkey home else ok pubkey);
                 case p of
                   Inl err \<Rightarrow> fail (ErrWrap (''no public key available - pass --pubkey ''
                     @ ''(get it once from a vendor or /v1/pubkey while online): '') err '''')
                 | Inr pub \<Rightarrow>
                     (case DecodePublicKey pub of
                        Inl err \<Rightarrow> fail err
                      | Inr pubKey \<Rightarrow>
                          (case Verify (ed P) (json_Unmarshal_token P) pubKey env of
                             Inl err \<Rightarrow> fail (ErrWrap ''activation file signature invalid: '' err '''')
                           | Inr tok \<Rightarrow> do {
                               sp \<leftarrow> savePubkey home pub;
                               case sp of
                                 Inl err \<Rightarrow> fail err
                               | Inr _ \<Rightarrow> do {
                                   ss \<leftarrow> saveState J home
                                     \<lparr>cs_envelope = env, cs_device_id = tok_device_id tok, cs_server = ''''\<rparr>;
                                   case ss of
                                     Inl err \<Rightarrow> fail err
                                   | Inr _ \<Rightarrow> do {
                                       fmt_Println (''offline activation verified and cached - ''
                                         @ ''`democli run` now works with no network.'');
                                       printToken P J pub env
                                     }
                                 }
                             }))
               })
      })"

section \<open>The command line\<close>

text \<open>
  The flags of the package \<open>flag\<close>, all of them strings: one or two dashes, the value after \<open>=\<close> or in
  the next argument; parsing stops at the first argument that is not a flag. A bad flag exits with
  status 2 and \<open>-h\<close> or \<open>-help\<close> with 0 (\<open>flag.ExitOnError\<close>); what the package then prints is left out.
\<close>

fun parse_flags :: "(string \<Rightarrow> string option) \<Rightarrow> string list \<Rightarrow> int + (string \<Rightarrow> string option)" where
  "parse_flags vals [] = Inr vals"
| "parse_flags vals (s # args) =
     (if length s < 2 \<or> hd s \<noteq> CHR ''-'' then Inr vals
      else
        let name0 = (if s ! 1 = CHR ''-'' then drop 2 s else drop 1 s) in
        if name0 = [] then Inr vals
        else if hd name0 = CHR ''-'' \<or> hd name0 = CHR ''='' then Inl 2
        else
          let name = takeWhile (\<lambda>c. c \<noteq> CHR ''='') name0; rest = dropWhile (\<lambda>c. c \<noteq> CHR ''='') name0 in
          if vals name = None then Inl (if name = ''help'' \<or> name = ''h'' then 0 else 2)
          else if rest \<noteq> [] then parse_flags (vals(name \<mapsto> tl rest)) args
          else (case args of [] \<Rightarrow> Inl 2 | v # args' \<Rightarrow> parse_flags (vals(name \<mapsto> v)) args'))"

definition default_server :: string where
  "default_server = ''http://localhost:8080''"

text \<open>A command with its flags: their names and defaults, and what to run with the values.\<close>

definition with_flags ::
  "(string \<times> string) list \<Rightarrow> string list \<Rightarrow> ((string \<Rightarrow> string) \<Rightarrow> (gerror + unit) client) \<Rightarrow>
     (int \<times> string + gerror + unit) client" where
  "with_flags defaults args cmd =
     (case parse_flags (map_of defaults) args of
        Inl code \<Rightarrow> State_Monad.return (Inl (code, ''''))
      | Inr vals \<Rightarrow> do {
          r \<leftarrow> cmd (\<lambda>name. the (vals name));
          State_Monad.return (Inr r)
        })"

definition usage :: string where
  "usage = concat (map (\<lambda>line. line @ [CHR 0x0A])
     [''democli - a demo app that licenses itself against a running seatkeyd'',
      '''',
      ''Usage:'',
      ''  democli activate         --server URL --key KEY --device ID [--name NAME]'',
      ''  democli validate         --server URL'',
      ''  democli deactivate       --server URL'',
      ''  democli run'',
      ''  democli offline-request  --key KEY --device ID [--name NAME]'',
      ''  democli offline-activate --file PATH --pubkey BASE64'',
      '''',
      ''State (cached license + device id) is stored under $SEATKEY_DEMO_HOME'',
      ''(default ~/.seatkey-demo).''])"

definition run_command ::
  "platform \<Rightarrow> client_json \<Rightarrow> (gotime \<Rightarrow> string) \<Rightarrow> string \<Rightarrow> string \<Rightarrow> string list \<Rightarrow>
     (int \<times> string + gerror + unit) client" where
  "run_command P J rfc home name args =
     (if name = ''activate'' then
        with_flags [(''server'', default_server), (''key'', ''''), (''device'', ''''), (''name'', '''')] args
          (\<lambda>f. cmdActivate P J home (f ''server'') (f ''key'') (f ''device'') (f ''name''))
      else if name = ''validate'' then
        with_flags [(''server'', default_server)] args (\<lambda>f. cmdValidate P J home (f ''server''))
      else if name = ''deactivate'' then
        with_flags [(''server'', default_server)] args (\<lambda>f. cmdDeactivate P J home (f ''server''))
      else if name = ''run'' then do { r \<leftarrow> cmdRun P J rfc home; State_Monad.return (Inr r) }
      else if name = ''offline-request'' then
        with_flags [(''key'', ''''), (''device'', ''''), (''name'', '''')] args
          (\<lambda>f. cmdOfflineRequest J (f ''key'') (f ''device'') (f ''name''))
      else if name = ''offline-activate'' then
        with_flags [(''file'', ''''), (''pubkey'', '''')] args
          (\<lambda>f. cmdOfflineActivate P J home (f ''file'') (f ''pubkey''))
      else if name = ''-h'' \<or> name = ''--help'' \<or> name = ''help'' then State_Monad.return (Inl (0, usage))
      else State_Monad.return (Inl (2, usage)))"

definition stateDir :: "(string \<Rightarrow> string) \<Rightarrow> gerror + string \<Rightarrow> string" where
  "stateDir env user_home =
     (let dir = env ''SEATKEY_DEMO_HOME'' in
      if dir \<noteq> '''' then dir
      else filepath_Join (case user_home of Inl _ \<Rightarrow> ''.'' | Inr h \<Rightarrow> h) ''.seatkey-demo'')"

text \<open>\<open>main\<close>: the exit status and what is written to the standard error output.\<close>

definition fatalf :: "string \<Rightarrow> int \<times> string" where
  "fatalf msg = (1, ''democli: '' @ msg @ [CHR 0x0A])"

definition democli_main ::
  "platform \<Rightarrow> client_json \<Rightarrow> (gotime \<Rightarrow> string) \<Rightarrow> (string \<Rightarrow> string) \<Rightarrow> gerror + string \<Rightarrow>
     (string \<Rightarrow> gerror option) \<Rightarrow> string list \<Rightarrow> (int \<times> string) client" where
  "democli_main P J rfc env user_home mkdir args =
     (case args of
        _ # name # rest \<Rightarrow>
          let home = stateDir env user_home in
          (case mkdir home of
             Some err \<Rightarrow> State_Monad.return
               (fatalf (''create state dir '' @ home @ '': '' @ error_text err))
           | None \<Rightarrow> do {
               r \<leftarrow> run_command P J rfc home name rest;
               State_Monad.return
                 (case r of
                    Inl left \<Rightarrow> left
                  | Inr (Inl err) \<Rightarrow> fatalf (error_text err)
                  | Inr (Inr _) \<Rightarrow> (0, ''''))
             })
      | _ \<Rightarrow> State_Monad.return (2, usage))"

section \<open>What the commands do\<close>

lemma run_client [run_simps, simp]:
  "run_state client_Now w = (shd (cw_clock w), w\<lparr>cw_clock := stl (cw_clock w)\<rparr>)"
  "run_state (fmt_Println t) w = ((), w\<lparr>cw_out := cw_out w @ [t]\<rparr>)"
  "run_state (http_Post u b) w = (shd (cw_http w), w\<lparr>cw_http := stl (cw_http w),
     cw_sent := cw_sent w @ [\<lparr>call_method = ''POST'', call_url = u, call_body = b\<rparr>]\<rparr>)"
  "run_state (http_Get u) w = (shd (cw_http w), w\<lparr>cw_http := stl (cw_http w),
     cw_sent := cw_sent w @ [\<lparr>call_method = ''GET'', call_url = u, call_body = []\<rparr>]\<rparr>)"
  by (simp_all add: client_prims)

text \<open>What a cached state lets \<open>run\<close> accept.\<close>

definition cached_token :: "platform \<Rightarrow> client_json \<Rightarrow> string \<Rightarrow> (string \<Rightarrow> bytes option) \<Rightarrow> token option" where
  "cached_token P J home files =
     (case (files (licensePath home), files (pubkeyPath home)) of
        (Some data, Some pub) \<Rightarrow>
          (case (unmarshal_state J data, DecodePublicKey pub) of
             (Inr st, Inr key) \<Rightarrow>
               (case Verify (ed P) (json_Unmarshal_token P) key (cs_envelope st) of
                  Inr tok \<Rightarrow> Some tok | Inl _ \<Rightarrow> None)
           | _ \<Rightarrow> None)
      | _ \<Rightarrow> None)"

definition io_works :: "client_world \<Rightarrow> bool" where
  "io_works w \<longleftrightarrow> cw_io w = sconst None"

lemma run_files_works [run_simps]:
  assumes "io_works w"
  shows "run_state (os_ReadFile p) w =
      ((case cw_files w p of None \<Rightarrow> Inl (not_exist p) | Some b \<Rightarrow> Inr b), w)"
    "run_state (os_WriteFile p b) w = (Inr (), w\<lparr>cw_files := (cw_files w)(p \<mapsto> b)\<rparr>)"
    "run_state (os_Remove p) w =
      ((if cw_files w p = None then Inl (not_exist p) else Inr ()), w\<lparr>cw_files := (cw_files w)(p := None)\<rparr>)"
proof -
  have "shd (cw_io w) = None" "w\<lparr>cw_io := stl (cw_io w)\<rparr> = w"
    using assms by (simp_all add: io_works_def)
  moreover from this(2) have "w\<lparr>cw_io := stl (cw_io w), cw_files := f\<rparr> = w\<lparr>cw_files := f\<rparr>" for f
    by metis
  ultimately show "run_state (os_ReadFile p) w =
      ((case cw_files w p of None \<Rightarrow> Inl (not_exist p) | Some b \<Rightarrow> Inr b), w)"
    "run_state (os_WriteFile p b) w = (Inr (), w\<lparr>cw_files := (cw_files w)(p \<mapsto> b)\<rparr>)"
    "run_state (os_Remove p) w =
      ((if cw_files w p = None then Inl (not_exist p) else Inr ()), w\<lparr>cw_files := (cw_files w)(p := None)\<rparr>)"
    by (simp_all add: client_prims)
qed

lemma run_cmdRun:
  assumes "io_works w"
  shows "(\<exists>u. fst (run_state (cmdRun P J rfc home) w) = Inr u) \<longleftrightarrow>
    (\<exists>tok. cached_token P J home (cw_files w) = Some tok \<and> shd (cw_clock w) \<le> tok_valid_until tok)"
  using assms
  by (auto simp: cmdRun_def loadState_def loadPubkey_def run_files_works cached_token_def time_After_def
      Let_def split: option.split sum.split if_split)

text \<open>Running asks nobody and writes nothing, whatever the disk does.\<close>

lemma cmdRun_offline:
  "cw_sent (snd (run_state (cmdRun P J rfc home) w)) = cw_sent w \<and>
   cw_http (snd (run_state (cmdRun P J rfc home) w)) = cw_http w \<and>
   cw_files (snd (run_state (cmdRun P J rfc home) w)) = cw_files w"
  by (auto simp: cmdRun_def loadState_def loadPubkey_def os_ReadFile_def Let_def
      split: option.split sum.split if_split)

text \<open>An offline activation writes files only for an envelope that verifies.\<close>

definition offline_verified :: "platform \<Rightarrow> client_json \<Rightarrow> string \<Rightarrow> string \<Rightarrow> string \<Rightarrow> (string \<Rightarrow> bytes option) \<Rightarrow> bool" where
  "offline_verified P J home file pubkey files \<longleftrightarrow>
     (\<exists>data env pub key tok. files file = Some data \<and> unmarshal_envelope J data = Inr env \<and>
        (if pubkey = '''' then files (pubkeyPath home) = Some pub else pub = pubkey) \<and>
        DecodePublicKey pub = Inr key \<and> Verify (ed P) (json_Unmarshal_token P) key env = Inr tok)"

lemma printToken_files [simp]:
  "cw_files (snd (run_state (printToken P J pub env) w)) = cw_files w"
  by (auto simp: printToken_def Let_def split: sum.split)

lemma cmdOfflineActivate_verified:
  assumes "\<not> offline_verified P J home file pubkey (cw_files w)"
  shows "cw_files (snd (run_state (cmdOfflineActivate P J home file pubkey) w)) = cw_files w"
    "\<exists>e. fst (run_state (cmdOfflineActivate P J home file pubkey) w) = Inl e"
  using assms
  by (auto simp: cmdOfflineActivate_def loadPubkey_def os_ReadFile_def offline_verified_def
      split: option.split sum.split if_split)

text \<open>The state that a successful \<open>activate\<close> leaves.\<close>

lemma run_cmdActivate:
  assumes "io_works w" and "key \<noteq> ''''" and "device \<noteq> ''''"
    and "marshal_strings J [(''license_key'', key), (''device_id'', device), (''device_name'', name)] = Inr body"
    and "shd (cw_http w) = Inr (s1, b1)" and "s1 < 300" and "unmarshal_envelope J b1 = Inr env"
    and "shd (stl (cw_http w)) = Inr (s2, b2)" and "decode_public_key J b2 = Inr pub"
    and "indent_state J \<lparr>cs_envelope = env, cs_device_id = device, cs_server = srv\<rparr> = Inr data"
  shows "cw_files (snd (run_state (cmdActivate P J home srv key device name) w)) =
      (cw_files w)(pubkeyPath home \<mapsto> pub, licensePath home \<mapsto> data)"
proof -
  have io: "io_works (w\<lparr>cw_http := h, cw_sent := t\<rparr>)" "io_works (w\<lparr>cw_http := h, cw_sent := t, cw_files := f\<rparr>)"
    for h t f using assms(1) by (simp_all add: io_works_def)
  from assms(2-) show ?thesis
    by (simp add: cmdActivate_def postJSON_def fetchPubkey_def savePubkey_def saveState_def
        run_files_works io)
qed

lemma cached_token_activate:
  assumes "unmarshal_state J data = Inr st"
  shows "cached_token P J home (f(pubkeyPath home \<mapsto> pub, licensePath home \<mapsto> data)) =
    (case DecodePublicKey pub of
       Inl e \<Rightarrow> None
     | Inr key \<Rightarrow> (case Verify (ed P) (json_Unmarshal_token P) key (cs_envelope st) of
           Inl e \<Rightarrow> None | Inr tok \<Rightarrow> Some tok))"
proof -
  from assms paths_differ [of home] show ?thesis
    by (simp add: cached_token_def split: sum.split)
qed

lemma run_printToken:
  assumes "DecodePublicKey pub = Inr pk" and "Verify (ed P) (json_Unmarshal_token P) pk env = Inr tok"
  shows "fst (run_state (printToken P J pub env) w) = Inr ()"
  using assms by (simp add: printToken_def Let_def)

lemma run_cmdActivate_result:
  assumes "io_works w" and "key \<noteq> ''''" and "device \<noteq> ''''"
    and "marshal_strings J [(''license_key'', key), (''device_id'', device), (''device_name'', name)] = Inr body"
    and "shd (cw_http w) = Inr (s1, b1)" and "s1 < 300" and "unmarshal_envelope J b1 = Inr env"
    and "shd (stl (cw_http w)) = Inr (s2, b2)" and "decode_public_key J b2 = Inr pub"
    and "indent_state J \<lparr>cs_envelope = env, cs_device_id = device, cs_server = srv\<rparr> = Inr data"
    and "DecodePublicKey pub = Inr pk" and "Verify (ed P) (json_Unmarshal_token P) pk env = Inr tok"
  shows "fst (run_state (cmdActivate P J home srv key device name) w) = Inr ()"
proof -
  have io: "io_works (w\<lparr>cw_http := h, cw_sent := t\<rparr>)" "io_works (w\<lparr>cw_http := h, cw_sent := t, cw_files := f\<rparr>)"
    for h t f using assms(1) by (simp_all add: io_works_def)
  from assms(2-10) run_printToken [OF assms(11,12)] show ?thesis
    by (simp add: cmdActivate_def postJSON_def fetchPubkey_def savePubkey_def saveState_def
        run_files_works io)
qed

text \<open>The first request of an activation is its post.\<close>

lemma cmdActivate_posts:
  assumes "marshal_strings J [(''license_key'', key), (''device_id'', device), (''device_name'', name)] = Inr body"
    and "key \<noteq> ''''" and "device \<noteq> ''''"
    and "run_state (cmdActivate P J home srv key device name) w = (r, w')"
  obtains calls where "cw_sent w' =
    cw_sent w @ \<lparr>call_method = ''POST'', call_url = srv @ ''/v1/activate'', call_body = body\<rparr> # calls"
proof -
  have "\<exists>cs. cw_sent (snd (run_state (cmdActivate P J home srv key device name) w)) =
      cw_sent w @ \<lparr>call_method = ''POST'', call_url = srv @ ''/v1/activate'', call_body = body\<rparr> # cs"
    using assms(1-3)
    by (auto simp: cmdActivate_def postJSON_def fetchPubkey_def savePubkey_def saveState_def printToken_def
        client_prims Let_def split: sum.split prod.split option.split if_split)
  with assms(4) that show thesis by auto
qed

lemma cmdActivate_sent:
  assumes "marshal_strings J [(''license_key'', key), (''device_id'', device), (''device_name'', name)] = Inr body"
    and "run_state (cmdActivate P J home srv key device name) w = (r, w')"
    and "cw_sent w' = cw_sent w @ call # calls"
  shows "key \<noteq> ''''" "device \<noteq> ''''"
    "call = \<lparr>call_method = ''POST'', call_url = srv @ ''/v1/activate'', call_body = body\<rparr>"
proof -
  have "key = '''' \<or> device = '''' \<Longrightarrow> w' = w"
    using assms(2) by (auto simp: cmdActivate_def)
  with assms(3) show ne: "key \<noteq> ''''" "device \<noteq> ''''" by auto
  from cmdActivate_posts [OF assms(1) ne assms(2)] assms(3)
  show "call = \<lparr>call_method = ''POST'', call_url = srv @ ''/v1/activate'', call_body = body\<rparr>" by auto
qed

section \<open>Offline activation\<close>

lemma run_cmdOfflineRequest:
  assumes "device \<noteq> ''''"
    and "indent_strings J ([(''device_id'', device), (''device_name'', name)] @
      (if key \<noteq> '''' then [(''license_key_hint'', key)] else [])) = Inr text"
  shows "run_state (cmdOfflineRequest J key device name) w = (Inr (), w\<lparr>cw_out := cw_out w @ [text]\<rparr>)"
  using assms by (simp add: cmdOfflineRequest_def fmt_Println_def Let_def)

lemma run_cmdOfflineActivate:
  assumes "io_works w" and "path \<noteq> ''''" and "cw_files w path = Some data"
    and "unmarshal_envelope J data = Inr env" and "pub \<noteq> ''''" and "DecodePublicKey pub = Inr key"
    and "Verify (ed P) (json_Unmarshal_token P) key env = Inr tok"
    and "indent_state J \<lparr>cs_envelope = env, cs_device_id = tok_device_id tok, cs_server = ''''\<rparr> = Inr out"
  shows "fst (run_state (cmdOfflineActivate P J home path pub) w) = Inr ()"
    "cw_files (snd (run_state (cmdOfflineActivate P J home path pub) w)) =
      (cw_files w)(pubkeyPath home \<mapsto> pub, licensePath home \<mapsto> out)"
proof -
  have io: "io_works (w\<lparr>cw_files := f\<rparr>)" for f using assms(1) by (simp add: io_works_def)
  from assms show "fst (run_state (cmdOfflineActivate P J home path pub) w) = Inr ()"
    "cw_files (snd (run_state (cmdOfflineActivate P J home path pub) w)) =
      (cw_files w)(pubkeyPath home \<mapsto> pub, licensePath home \<mapsto> out)"
    by (simp_all add: cmdOfflineActivate_def savePubkey_def saveState_def run_files_works io fmt_Println_def
        run_printToken)
qed

text \<open>A refused activation ends with the server's message and leaves the files alone.\<close>

lemma run_cmdActivate_refused:
  assumes "key \<noteq> ''''" and "device \<noteq> ''''"
    and "marshal_strings J [(''license_key'', key), (''device_id'', device), (''device_name'', name)] = Inr body"
    and "shd (cw_http w) = Inr (status, b)" and "300 \<le> status"
    and "unmarshal_message J b = Inr message" and "message \<noteq> ''''"
  shows "fst (run_state (cmdActivate P J home srv key device name) w) =
      Inl (LibError (''server rejected request: '' @ message))"
    "cw_files (snd (run_state (cmdActivate P J home srv key device name) w)) = cw_files w"
  using assms by (simp_all add: cmdActivate_def postJSON_def http_Post_def http_Do_def rejection_def)

section \<open>Commands on a cached activation\<close>

text \<open>
  The token that a cached state carries, as \<open>validate\<close> and \<open>deactivate\<close> read it: its signature is not
  looked at.
\<close>

definition cached_payload :: "platform \<Rightarrow> client_json \<Rightarrow> bytes \<Rightarrow> gerror + cachedState \<times> token" where
  "cached_payload P J data =
     (case unmarshal_state J data of
        Inl err \<Rightarrow> Inl err
      | Inr st \<Rightarrow>
          (case mustDecodePayload (cs_envelope st) of
             Inl err \<Rightarrow> Inl err
           | Inr payload \<Rightarrow> map_sum id (Pair st) (json_Unmarshal_token P payload)))"

lemma cached_payload_Inr:
  assumes "cached_payload P J data = Inr (st, tok)"
  obtains payload where "unmarshal_state J data = Inr st" "mustDecodePayload (cs_envelope st) = Inr payload"
    "json_Unmarshal_token P payload = Inr tok"
  using assms that
  by (auto simp: cached_payload_def map_sum_def split: sum.splits)

lemma io_works_update [simp]:
  "io_works (w\<lparr>cw_http := h\<rparr>) = io_works w" "io_works (w\<lparr>cw_sent := t\<rparr>) = io_works w"
  "io_works (w\<lparr>cw_files := f\<rparr>) = io_works w" "io_works (w\<lparr>cw_out := out\<rparr>) = io_works w"
  by (simp_all add: io_works_def)

lemma printToken_sent [simp]:
  "cw_sent (snd (run_state (printToken P J pub env) w)) = cw_sent w"
  by (auto simp: printToken_def Let_def split: sum.split)

lemma cmdValidate_posts:
  assumes "io_works w" and "cw_files w (licensePath home) = Some data"
    and "cached_payload P J data = Inr (st, tok)"
    and "marshal_strings J [(''license_key'', tok_license_key tok), (''device_id'', cs_device_id st)] = Inr body"
  shows "cw_sent (snd (run_state (cmdValidate P J home srv) w)) =
    cw_sent w @ [\<lparr>call_method = ''POST'', call_url = srv @ ''/v1/validate'', call_body = body\<rparr>]"
  using assms
  by (auto simp: cmdValidate_def loadState_def loadPubkey_def saveState_def postJSON_def run_files_works
      elim!: cached_payload_Inr split: sum.split prod.split option.split if_split)

lemma run_cmdValidate:
  assumes "io_works w" and "cw_files w (licensePath home) = Some data"
    and "cached_payload P J data = Inr (st, tok)"
    and "marshal_strings J [(''license_key'', tok_license_key tok), (''device_id'', cs_device_id st)] = Inr body"
    and "shd (cw_http w) = Inr (status, b)" and "status < 300" and "unmarshal_envelope J b = Inr env"
    and "indent_state J (st\<lparr>cs_envelope := env\<rparr>) = Inr out"
    and "cw_files w (pubkeyPath home) = Some pub" and "DecodePublicKey pub = Inr key"
    and "Verify (ed P) (json_Unmarshal_token P) key env = Inr tok'"
  shows "fst (run_state (cmdValidate P J home srv) w) = Inr ()"
    "cw_files (snd (run_state (cmdValidate P J home srv) w)) = (cw_files w)(licensePath home \<mapsto> out)"
proof -
  from assms paths_differ [of home, symmetric] show "fst (run_state (cmdValidate P J home srv) w) = Inr ()"
    "cw_files (snd (run_state (cmdValidate P J home srv) w)) = (cw_files w)(licensePath home \<mapsto> out)"
    by (auto simp: cmdValidate_def loadState_def loadPubkey_def saveState_def postJSON_def run_files_works
        run_printToken elim!: cached_payload_Inr)
qed

lemma cmdDeactivate_posts:
  assumes "io_works w" and "cw_files w (licensePath home) = Some data"
    and "cached_payload P J data = Inr (st, tok)"
    and "marshal_strings J [(''license_key'', tok_license_key tok), (''device_id'', cs_device_id st)] = Inr body"
  shows "cw_sent (snd (run_state (cmdDeactivate P J home srv) w)) =
    cw_sent w @ [\<lparr>call_method = ''POST'', call_url = srv @ ''/v1/deactivate'', call_body = body\<rparr>]"
  using assms
  by (auto simp: cmdDeactivate_def loadState_def postJSONOK_def run_files_works
      elim!: cached_payload_Inr split: sum.split prod.split option.split if_split)

lemma run_cmdDeactivate:
  assumes "io_works w" and "cw_files w (licensePath home) = Some data"
    and "cached_payload P J data = Inr (st, tok)"
    and "marshal_strings J [(''license_key'', tok_license_key tok), (''device_id'', cs_device_id st)] = Inr body"
    and "shd (cw_http w) = Inr (status, b)" and "status < 300"
  shows "fst (run_state (cmdDeactivate P J home srv) w) = Inr ()"
    "cw_files (snd (run_state (cmdDeactivate P J home srv) w)) = (cw_files w)(licensePath home := None)"
  using assms
  by (auto simp: cmdDeactivate_def loadState_def postJSONOK_def run_files_works elim!: cached_payload_Inr)

text \<open>Without a cached state there is nothing to run.\<close>

lemma cmdRun_not_activated:
  assumes "cw_files w (licensePath home) = None"
  shows "\<exists>e. fst (run_state (cmdRun P J rfc home) w) = Inl e"
  using assms by (auto simp: cmdRun_def loadState_def os_ReadFile_def split: option.split)

end
