(* ===== verification/Json_Client.thy ===== *)
theory Json_Client
  imports Json_Web Democli
begin

text \<open>
  The JSON of the reference client: the bodies it posts and the request file it writes (maps of
  strings), its cached state (indented, with the server left out when it is empty), and the answers of
  the server as it reads them. Here unknown members are ignored.
\<close>

section \<open>The codec\<close>

definition state_json :: "cachedState \<Rightarrow> json" where
  "state_json st =
     JObject
       ([(''envelope'', envelope_json (cs_envelope st)), (''device_id'', json_text (cs_device_id st))] @
        (if cs_server st = [] then [] else [(''server'', json_text (cs_server st))]))"

definition state_fields :: "cachedState json_field list" where
  "state_fields =
     [(''envelope'', struct_field False envelope_fields cs_envelope (\<lambda>e st. st\<lparr>cs_envelope := e\<rparr>)),
      (''device_id'', string_field (\<lambda>s st. st\<lparr>cs_device_id := s\<rparr>)),
      (''server'', string_field (\<lambda>s st. st\<lparr>cs_server := s\<rparr>))]"

definition zero_state :: cachedState where
  "zero_state = \<lparr>cs_envelope = zero_envelope, cs_device_id = [], cs_server = []\<rparr>"

text \<open>\<open>apiErrorResponse\<close>, as the pair of its fields, and the anonymous struct of \<open>fetchPubkey\<close>.\<close>

definition api_error_fields :: "(string \<times> string) json_field list" where
  "api_error_fields =
     [(''error'', string_field (\<lambda>s (e, m). (s, m))), (''message'', string_field (\<lambda>s (e, m). (e, s)))]"

definition public_key_fields :: "string json_field list" where
  "public_key_fields = [(''public_key'', string_field (\<lambda>s _. s))]"

text \<open>The offset of the member that \<open>Token.ValidUntil\<close> was read from.\<close>

definition offset_fields :: "duration json_field list" where
  "offset_fields =
     [(''valid_until'', \<lambda>v z. case v of JString s \<Rightarrow> Some (time_offset s) | _ \<Rightarrow> Some z)]"

definition payload_offset :: "bytes \<Rightarrow> duration" where
  "payload_offset data =
     (case Option.bind (json_whole data) (\<lambda>j. decode_struct False offset_fields j 0) of
        None \<Rightarrow> 0 | Some z \<Rightarrow> z)"

definition go_client_json :: "json_setting \<Rightarrow> client_json" where
  "go_client_json js =
     \<lparr>marshal_strings = (\<lambda>kv. Inr (json_compact (json_map kv))),
      indent_strings = (\<lambda>kv. Inr (json_indented (json_map kv))),
      indent_state = (\<lambda>st. Inr (json_indented (state_json st))),
      unmarshal_state = unmarshal_struct js ''main.cachedState'' state_fields zero_state,
      unmarshal_envelope = unmarshal_struct js ''crypto.Envelope'' envelope_fields zero_envelope,
      unmarshal_message = (\<lambda>b. map_sum id snd
        (unmarshal_struct js ''main.apiErrorResponse'' api_error_fields ([], []) b)),
      decode_public_key = (\<lambda>b.
        case Option.bind (json_first b) (\<lambda>j. decode_struct False public_key_fields j []) of
          None \<Rightarrow> Inl (js_error js ''struct'' b) | Some k \<Rightarrow> Inr k),
      valid_until_offset = payload_offset\<rparr>"

section \<open>What is read back\<close>

lemma go_client_json_sel [simp]:
  "marshal_strings (go_client_json js) kv = Inr (json_compact (json_map kv))"
  "indent_strings (go_client_json js) kv = Inr (json_indented (json_map kv))"
  "indent_state (go_client_json js) st = Inr (json_indented (state_json st))"
  "unmarshal_state (go_client_json js) = unmarshal_struct js ''main.cachedState'' state_fields zero_state"
  "unmarshal_envelope (go_client_json js) = unmarshal_struct js ''crypto.Envelope'' envelope_fields zero_envelope"
  by (simp_all add: go_client_json_def)

lemma unmarshal_line:
  "json_ok max_nesting j \<Longrightarrow> unmarshal_struct js ty fs zero (json_line j) =
    (case decode_struct False fs j zero of None \<Rightarrow> Inl (js_error js ty (json_line j)) | Some x \<Rightarrow> Inr x)"
  unfolding json_line_def unmarshal_struct_def by (simp add: json_whole_line)

lemma unmarshal_indented:
  "json_ok max_nesting j \<Longrightarrow> unmarshal_struct js ty fs zero (json_indented j) =
    (case decode_struct False fs j zero of None \<Rightarrow> Inl (js_error js ty (json_indented j)) | Some x \<Rightarrow> Inr x)"
  by (simp add: unmarshal_struct_def json_whole_indented)

text \<open>The answer to an activation, the cached state and the public key are read as they were meant.\<close>

lemma client_reads_envelope:
  assumes "envelope_ok env" and "api_body (JsonEnvelope env) = Some b"
  shows "unmarshal_envelope (go_client_json js) b = Inr env"
  using assms(2) decode_envelope [OF assms(1)]
  by (auto simp: api_body_def unmarshal_line json_ok_envelope)

lemma client_reads_error:
  assumes "utf8_valid code" and "utf8_valid message" and "api_body (JsonError code message) = Some b"
  shows "unmarshal_message (go_client_json js) b = Inr message"
proof -
  have p: "plain ''error''" "plain ''message''" by (simp_all add: plain_def)
  have f: "map_of api_error_fields ''error'' = Some (string_field (\<lambda>s (e, m). (s, m)))"
    "map_of api_error_fields ''message'' = Some (string_field (\<lambda>s (e, m). (e, s)))"
    by (simp_all add: api_error_fields_def)
  have j: "json_ok max_nesting (json_map [(''error'', code), (''message'', message)])" by simp
  from assms show ?thesis
    by (auto simp: api_body_def go_client_json_def unmarshal_line [OF j])
      (simp add: map_orders decode_struct_object decode_member [OF p(1) f(1)] decode_member [OF p(2) f(2)])
qed

lemma client_reads_public_key:
  assumes "utf8_valid key" and "utf8_valid alg" and "api_body (JsonPubkey key alg) = Some b"
  shows "decode_public_key (go_client_json js) b = Inr key"
proof -
  have p: "plain ''public_key''" "plain ''algorithm''" by (simp_all add: plain_def)
  have f: "map_of public_key_fields ''public_key'' = Some (string_field (\<lambda>s _. s))"
    by (simp add: public_key_fields_def)
  have a: "find_field public_key_fields ''algorithm'' = None"
    by (simp add: find_field_def public_key_fields_def to_upper_def in_range_def)
  have s: "decode_members False public_key_fields ((''algorithm'', v) # ms) x =
      decode_members False public_key_fields ms x" for v ms x
    by (simp add: decode_members.simps(2) unescape_plain [OF p(2)] a)
  have j: "json_ok max_nesting (json_map [(''public_key'', key), (''algorithm'', alg)])" by simp
  from assms json_whole_first [OF json_whole_line [OF j]] show ?thesis
    by (auto simp: api_body_def go_client_json_def json_line_def)
      (simp add: map_orders decode_struct_object decode_member [OF p(1) f] s)
qed

definition state_ok :: "cachedState \<Rightarrow> bool" where
  "state_ok st \<longleftrightarrow> envelope_ok (cs_envelope st) \<and> utf8_valid (cs_device_id st) \<and> utf8_valid (cs_server st)"

lemma client_reads_state:
  assumes "state_ok st"
  shows "unmarshal_state (go_client_json js) (json_indented (state_json st)) = Inr st"
proof -
  have p: "plain ''envelope''" "plain ''device_id''" "plain ''server''" by (simp_all add: plain_def)
  have f: "map_of state_fields ''envelope'' =
      Some (struct_field False envelope_fields cs_envelope (\<lambda>e st. st\<lparr>cs_envelope := e\<rparr>))"
    "map_of state_fields ''device_id'' = Some (string_field (\<lambda>s st. st\<lparr>cs_device_id := s\<rparr>))"
    "map_of state_fields ''server'' = Some (string_field (\<lambda>s st. st\<lparr>cs_server := s\<rparr>))"
    by (simp_all add: state_fields_def)
  note step = decode_member [OF p(1) f(1)] decode_member [OF p(2) f(2)] decode_member [OF p(3) f(3)]
  have "json_ok max_nesting (state_json st)"
    using json_ok_envelope [of "max_nesting - 1" "cs_envelope st"] p
    by (simp add: state_json_def string_ok_if_plain max_nesting_def)
  with assms show ?thesis
    by (simp add: unmarshal_indented)
      (simp add: state_json_def decode_struct_object step struct_field_def decode_envelope zero_state_def state_ok_def)
qed

lemma cached_payload_signed:
  assumes "state_ok st" and "Verify (ed P) (json_Unmarshal_token P) key (cs_envelope st) = Inr tok"
  shows "cached_payload P (go_client_json js) (json_indented (state_json st)) = Inr (st, tok)"
  using assms(2)
  by (auto simp: cached_payload_def client_reads_state [OF assms(1)] Verify_Inr_iff mustDecodePayload_def
      simp del: go_client_json_sel)

end
