(* ===== verification/Sample.thy ===== *)
theory Sample
  imports Seatkeyd Concurrency Json_Client
begin

text \<open>
  A concrete installation, at which the theorems with hypotheses are shown to apply: a platform with
  a signature scheme that satisfies the laws and the JSON codecs of a server in UTC, a
  database with one product, a license of one seat that a device holds, an admin and a session, and
  the worlds and requests around it.
\<close>

section \<open>The platform\<close>

definition sample_ed :: ed25519 where
  "sample_ed =
     \<lparr>ed_public = (\<lambda>seed. rev seed), ed_signature = (\<lambda>priv data. rev (take 32 priv) @ data),
      ed_accepts = (\<lambda>pub data sig. sig = pub @ data)\<rparr>"

definition sample_js :: json_setting where
  "sample_js = \<lparr>js_zone = (\<lambda>_. 0), js_error = (\<lambda>ty _. LibError ty)\<rparr>"

definition sample_platform :: platform where
  "sample_platform = go_platform sample_ed sample_js"

lemma sample_ed_laws [simp]: "ed25519_laws sample_ed"
  by (simp add: ed25519_laws_def sample_ed_def NewKeyFromSeed_def key_sizes)

lemma sample_platform_sel [simp]:
  "ed sample_platform = sample_ed" "json_Marshal_token sample_platform = marshal_token sample_js"
  "json_Unmarshal_token sample_platform = unmarshal_token sample_js" "js_zone sample_js t = 0"
  by (simp_all add: sample_platform_def sample_js_def)

definition sample_seed :: bytes where
  "sample_seed = replicate 31 (CHR ''a'') @ ''b''"

definition sample_priv :: bytes where
  "sample_priv = NewKeyFromSeed sample_ed sample_seed"

definition sample_pub :: bytes where
  "sample_pub = ed_public sample_ed sample_seed"

lemma sample_keypair: "keypair sample_ed sample_priv sample_pub"
  unfolding keypair_def sample_priv_def sample_pub_def
  by (rule exI [of _ sample_seed]) (simp add: sample_seed_def SeedSize_def)

definition sample_service :: service where
  "sample_service = NewService sample_priv sample_pub"

definition hooked_service :: service where
  "hooked_service = SetNotifier (Some webhook_notifier) sample_service"

lemma sample_service_sel [simp]:
  "svc_priv sample_service = sample_priv" "svc_pub sample_service = sample_pub"
  "svc_notifier sample_service = noop_Notify"
  "svc_priv hooked_service = sample_priv" "svc_pub hooked_service = sample_pub"
  "svc_notifier hooked_service = webhook_notifier"
  by (simp_all add: sample_service_def hooked_service_def NewService_def SetNotifier_def)

lemma webhook_quiet [simp]: "quiet_notifier webhook_notifier"
  by (rule settings_notifier.quiet_notifier_axioms)

lemma sample_quiet:
  "quiet_notifier (svc_notifier sample_service)" "quiet_notifier (svc_notifier hooked_service)"
  by (simp_all add: noop_notifier.quiet_notifier_axioms settings_notifier.quiet_notifier_axioms)

definition sample_bcrypt :: bcrypt where
  "sample_bcrypt =
     \<lparr>bcrypt_hash = (\<lambda>salt pw. if length pw \<le> 72 then Inr (salt @ pw) else Inl (LibError ''bcrypt'')),
      bcrypt_matches = (\<lambda>h pw. drop 16 h = pw)\<rparr>"

section \<open>The database\<close>

definition sample_product :: product where
  "sample_product = \<lparr>prod_id = ''P1'', prod_name = ''Editor'', prod_created_at = 1\<rparr>"

definition sample_row :: license_row where
  "sample_row =
     \<lparr>row_id = ''L1'', row_product_id = ''P1'', row_key = ''SEAT-1'', row_customer_name = ''Ada'',
      row_customer_email = ''a@b.c'', row_max_devices = 1, row_expires_at = None, row_revoked_at = None,
      row_created_at = 2\<rparr>"

definition sample_device :: device where
  "sample_device =
     \<lparr>dev_id = 1, dev_license_id = ''L1'', dev_device_id = ''laptop'', dev_device_name = ''Laptop'',
      dev_activated_at = 3, dev_last_seen_at = 3, dev_deactivated_at = None\<rparr>"

text \<open>The free database has no device yet, in the full one the only seat is taken.\<close>

definition free_db :: database where
  "free_db =
     \<lparr>foreign_keys = True, settings = [''webhook_url'' \<mapsto> ''http://h'', ''webhook_secret'' \<mapsto> ''k''],
      admins = [\<lparr>adm_id = 1, adm_password_hash = replicate 16 (CHR ''s'') @ ''password'', adm_created_at = 1\<rparr>],
      admin_seq = 1, sessions = [''tok'' \<mapsto> (1, 1000)], products = [sample_product],
      licenses = [sample_row], devices = [], device_seq = 0\<rparr>"

definition full_db :: database where
  "full_db = free_db\<lparr>devices := [sample_device], device_seq := 1\<rparr>"

definition bare_db :: database where
  "bare_db = empty_database True"

lemmas sample_rows = sample_product_def sample_row_def sample_device_def
lemmas sample_dbs = full_db_def free_db_def sample_rows

definition sample_license :: license where
  "sample_license = license_of_row ''Editor'' sample_row"

lemma sample_lookup [simp]:
  "license_by_key ''SEAT-1'' free_db = Some sample_license"
  "license_by_key ''SEAT-1'' full_db = Some sample_license"
  "license_by_id ''L1'' free_db = Some sample_license"
  "license_by_id ''L1'' full_db = Some sample_license"
  by (simp_all add: license_by_key_def license_by_id_def license_where_def license_select_def
      join_product_def List.map_filter_simps sample_license_def sample_dbs)

lemma sample_license_sel [simp]:
  "lic_id sample_license = ''L1''" "lic_key sample_license = ''SEAT-1''"
  "lic_max_devices sample_license = 1" "lic_expires_at sample_license = None"
  "lic_revoked_at sample_license = None" "lic_product_name sample_license = ''Editor''"
  "lic_customer_name sample_license = ''Ada''"
  by (simp_all add: sample_license_def sample_row_def)

lemma sample_Status [simp]: "Status sample_license t = ''active''"
  by (simp add: Status_def)

lemma sample_seats [simp]:
  "seats free_db = {}" "seats full_db = {(''L1'', ''laptop'')}"
  "seat_count ''L1'' free_db = 0" "seat_count ''L1'' full_db = 1"
  by (auto simp: seats_def seats_of_def seat_count_def holds_seat_def sample_dbs)

lemma sample_db_ok [simp]: "db_ok free_db" "db_ok full_db" "db_ok bare_db"
  using db_ok_empty
  by (auto simp: db_ok_defs devices_ok_def admins_ok_def seat_count_def holds_seat_def sample_dbs
      bare_db_def)

section \<open>Worlds\<close>

text \<open>This driver reads back the times before the year 10000.\<close>

definition sample_unreadable :: "gotime \<Rightarrow> string option" where
  "sample_unreadable t =
     (if t < 253402300800 * second then None
      else Some ''sql: Scan error on column index 7, name \"expires_at\"'')"

definition world_of :: "database \<Rightarrow> world" where
  "world_of d =
     \<lparr>db = d, faults = sconst None, clock = sconst 100, entropy = sconst (CHR ''e''),
      uuids = sconst ''U1'', spawned = [], unreadable = sample_unreadable\<rparr>"

text \<open>A driver whose first call fails.\<close>

definition faulty_world :: "database \<Rightarrow> world" where
  "faulty_world d = (world_of d)\<lparr>faults := Some ''disk I/O error'' ## sconst None\<rparr>"

lemma world_of_sel [simp]:
  "db (world_of d) = d" "clock (world_of d) = sconst 100" "faults (world_of d) = sconst None"
  "entropy (world_of d) = sconst (CHR ''e'')" "uuids (world_of d) = sconst ''U1''"
  "spawned (world_of d) = []" "db (faulty_world d) = d"
  "unreadable (world_of d) = sample_unreadable" "faultless (world_of d)"
  by (simp_all add: world_of_def faulty_world_def faultless_def)

lemma healthy_world_of [simp]: "healthy (world_of d) = rows_readable sample_unreadable (licenses d)"
  by (simp add: healthy_def del: healthyD)

lemma sample_readable [simp]:
  "rows_readable sample_unreadable []"
  "rows_readable sample_unreadable (r # rs) \<longleftrightarrow>
    (\<forall>t \<in> row_times r. sample_unreadable t = None) \<and> rows_readable sample_unreadable rs"
  "\<forall>t \<in> row_times sample_row. sample_unreadable t = None"
  by (auto simp: rows_readable_def row_times_def sample_row_def sample_unreadable_def duration_defs)

text \<open>A world whose driver reads every time, for databases that are not spelt out.\<close>

definition reading_world :: "database \<Rightarrow> world" where
  "reading_world d = (world_of d)\<lparr>unreadable := \<lambda>_. None\<rparr>"

lemma reading_world_sel [simp]:
  "healthy (reading_world d)" "db (reading_world d) = d"
  by (simp_all add: reading_world_def world_of_def healthy_def faultless_def rows_readable_def del: healthyD)

lemma sconst_sel [simp]: "shd (sconst x) = x" "stl (sconst x) = sconst x"
  by (simp_all add: siterate.simps)

lemma sample_tables [simp]:
  "licenses free_db = [sample_row]" "licenses full_db = [sample_row]"
  "products free_db = [sample_product]" "products full_db = [sample_product]"
  "row_id sample_row = ''L1''" "row_max_devices sample_row = 1" "row_key sample_row = ''SEAT-1''"
  "row_product_id sample_row = ''P1''" "row_revoked_at sample_row = None" "licenses bare_db = []"
  by (simp_all add: sample_dbs bare_db_def empty_database_def)

lemma sample_settings [simp]:
  "fetch_setting ''webhook_url'' free_db = Some ''http://h''"
  "fetch_setting ''webhook_secret'' free_db = Some ''k''"
  "fetch_setting ''signing_key_seed'' free_db = None"
  "fetch_setting k full_db = fetch_setting k free_db"
  by (simp_all add: fetch_setting_def free_db_def full_db_def)

lemma sample_active_device [simp]:
  "active_device ''L1'' x free_db = None"
  "active_device ''L1'' ''laptop'' full_db = Some sample_device"
  "active_device ''L1'' ''phone'' full_db = None"
  by (simp_all add: active_device_def is_activation_def sample_dbs)

text \<open>Signing a token works, and so do the activations of the sample.\<close>

lemma sample_times:
  assumes "t \<in> {100, 604800000000100, 3153600000000000100}"
  obtains j where "time_json ty 0 t = Inr j"
proof -
  have y: "year_of 100 = 1970" "year_of 604800000000100 = 1970" "year_of 3153600000000000100 = 2069"
    by code_simp+
  then have "0 \<le> year_of t \<and> year_of t \<le> 9999" using assms by auto
  then show thesis using that by (simp add: time_json_def marshal_time_def)
qed

lemma sample_sign:
  obtains env where "sign sample_platform hooked_service sample_license x n 100 off = Inr env"
proof -
  let ?tok = "token_for sample_license x n 100 off"
  have t: "tok_issued_at ?tok = 100" "tok_valid_until ?tok \<in> {604800000000100, 3153600000000000100}"
    "tok_license_exp ?tok = None"
    by (simp_all add: token_for_def Let_def OnlineGracePeriod_def offlineHorizon_def duration_defs)
  obtain i where i: "time_json ''time.Time'' 0 100 = Inr i" by (rule sample_times [of 100]) auto
  obtain v where v: "time_json ''time.Time'' 0 (tok_valid_until ?tok) = Inr v"
    by (rule sample_times [of "tok_valid_until ?tok"]) (use t(2) in auto)
  have "\<exists>data. marshal_token sample_js ?tok = Inr data"
    using i v t(1,3) by (simp add: marshal_token_def token_json_def valid_until_zone_def license_exp_member_def)
  then show thesis
    using that by (auto simp: sign_def Sign_def ed25519_Sign_def sample_priv_def NewKeyFromSeed_def
      sample_ed_def sample_seed_def PrivateKeySize_def)
qed

lemma sample_token_ok [simp]:
  "utf8_valid x \<Longrightarrow> int64 n \<Longrightarrow> token_ok (token_for sample_license x n now off)"
  by (simp add: token_ok_def token_for_def Let_def int64_def)

lemma sample_activate_held:
  obtains env w' where "run_state (activate sample_platform hooked_service ''SEAT-1'' ''laptop'' name off)
      (world_of full_db) = (Inr env, w')"
proof -
  obtain r w' where run: "run_state (activate sample_platform hooked_service ''SEAT-1'' ''laptop'' name off)
      (world_of full_db) = (r, w')" by fastforce
  obtain env where "sign sample_platform hooked_service sample_license ''laptop'' 1 100 off = Inr env"
    by (rule sample_sign)
  with run_activate_abs [OF _ _ sample_quiet(2) run] have "r = Inr env"
    by (simp add: abs_activate_def abs_count_def)
  with run that show thesis by blast
qed

lemma sample_activate_new:
  obtains env w' where "run_state (activate sample_platform hooked_service ''SEAT-1'' x name off)
      (world_of free_db) = (Inr env, w')"
proof -
  obtain r w' where run: "run_state (activate sample_platform hooked_service ''SEAT-1'' x name off)
      (world_of free_db) = (r, w')" by fastforce
  obtain env where "sign sample_platform hooked_service sample_license x 1 100 off = Inr env"
    by (rule sample_sign)
  with run_activate_abs [OF _ _ sample_quiet(2) run] have "r = Inr env"
    by (simp add: abs_activate_def abs_count_def)
  with run that show thesis by blast
qed

text \<open>The seats after them are a number of 64 bits.\<close>

lemma sample_seats_held:
  assumes "run_state (activate P hooked_service ''SEAT-1'' ''laptop'' name off) (world_of full_db) = (r, w')"
  shows "int64 (seat_count ''L1'' (db w'))"
  using run_activate_abs [OF _ _ sample_quiet(2) assms] seat_count_abs [of "db w'" "''L1''"]
  by (simp add: abs_activate_def abs_count_def int64_def)

lemma sample_seats_new:
  assumes "run_state (activate P hooked_service ''SEAT-1'' x name off) (world_of free_db) = (r, w')"
  shows "int64 (seat_count ''L1'' (db w'))"
  using run_activate_abs [OF _ _ sample_quiet(2) assms] seat_count_abs [of "db w'" "''L1''"]
  by (simp add: abs_activate_def abs_count_def int64_def)

lemma sample_validate:
  obtains env w' where "run_state (Validate sample_platform hooked_service ''SEAT-1'' ''laptop'') (world_of full_db) =
      (Inr env, w')" "seat_count ''L1'' (db w') = 1"
proof -
  obtain r w' where run: "run_state (Validate sample_platform hooked_service ''SEAT-1'' ''laptop'')
      (world_of full_db) = (r, w')" by fastforce
  obtain env where "sign sample_platform hooked_service sample_license ''laptop'' 1 100 False = Inr env"
    by (rule sample_sign)
  with run_Validate_abs [OF _ _ run] seat_count_abs [of "db w'" "''L1''"] run that show thesis
    by (simp add: abs_validate_def abs_count_def)
qed

section \<open>The server and its requests\<close>

definition sample_server :: server where
  "sample_server =
     \<lparr>srv_licenses = hooked_service, srv_cookie_secure = False, srv_template = (\<lambda>_ _. None)\<rparr>"

lemma sample_server_sel [simp]:
  "srv_licenses sample_server = hooked_service" "templates_work sample_server"
  by (simp_all add: sample_server_def templates_work_def)

text \<open>Requests of the API are written as the client writes them; the static files are not needed.\<close>

definition sample_json :: web_json where
  "sample_json = go_web_json sample_js"

definition no_static :: handler where
  "no_static r = State_Monad.return http_NotFound"

lemma no_static_files [simp]: "files_only no_static"
  by (simp add: files_only_def no_static_def)

definition form_request :: "string \<Rightarrow> string list \<Rightarrow> (string \<times> string) list \<Rightarrow> http_request" where
  "form_request method path form =
     \<lparr>rq_method = method, rq_path = path,
      rq_form = (\<lambda>k. case map_of form k of None \<Rightarrow> '''' | Some v \<Rightarrow> v), rq_query = (\<lambda>_. ''''),
      rq_cookie = None, rq_body = []\<rparr>"

definition api_request :: "string \<Rightarrow> string \<Rightarrow> string \<Rightarrow> http_request" where
  "api_request op key device =
     \<lparr>rq_method = ''POST'', rq_path = [''v1'', op], rq_form = (\<lambda>_. ''''), rq_query = (\<lambda>_. ''''),
      rq_cookie = None,
      rq_body = json_compact (json_map [(''license_key'', key), (''device_id'', device)])\<rparr>"

lemma form_request_sel [simp]:
  "rq_method (form_request m p f) = m" "rq_path (form_request m p f) = p"
  "rq_form (form_request m p f) k = (case map_of f k of None \<Rightarrow> '''' | Some v \<Rightarrow> v)"
  "rq_cookie (form_request m p f) = None"
  by (simp_all add: form_request_def)

lemma api_request_sel [simp]:
  "rq_method (api_request op k d) = ''POST''" "rq_path (api_request op k d) = [''v1'', op]"
  by (simp_all add: api_request_def)

lemma api_request_decode [simp]:
  "utf8_valid k \<Longrightarrow> utf8_valid d \<Longrightarrow> decode_activate sample_json (rq_body (api_request op k d)) =
    Inr \<lparr>req_license_key = k, req_device_id = d, req_device_name = []\<rparr>"
  by (simp add: sample_json_def api_request_def decodeJSON_map)

end
