(* ===== verification/Seat_Theorems.thy ===== *)
theory Seat_Theorems
  imports Sample
begin

text \<open>
  The properties of the licensing rules: the seat limit under every request and every driver
  error, the refinement of the abstract machine, each branch of an activation, and what happens to
  the limit when activations run at the same time.
\<close>

section \<open>The seat limit\<close>

text \<open>
  C1. The seat limit holds through any sequence of HTTP requests, to the API and to the dashboard,
  served one at a time, whichever of the driver's calls fail: no license ever has more active
  devices than it allows.
\<close>

theorem seat_limit_kept:
  assumes "quiet_notifier (svc_notifier (srv_licenses s))"
    and "files_only static" and "db_ok (db w)"
    and "run_state (serve_requests (ServeHTTP P J B static s) rs) w = (answers, w')"
  shows "list_all (\<lambda>l. seat_count (row_id l) (db w') \<le> max 0 (row_max_devices l)) (licenses (db w'))"
  using whole_server.run_requests [OF assms(1-3), of P J B rs] assms(4)
  by (simp add: db_ok_defs list_all_iff)

theorem seat_limit_kept_witness:
  "\<exists>answers w'. run_state (serve_requests (ServeHTTP sample_platform sample_json sample_bcrypt no_static
       sample_server) [api_request ''activate'' ''SEAT-1'' ''phone'']) (faulty_world full_db) = (answers, w') \<and>
    list_all (\<lambda>l. seat_count (row_id l) (db w') \<le> max 0 (row_max_devices l)) (licenses (db w'))"
proof -
  obtain answers w' where run: "run_state (serve_requests (ServeHTTP sample_platform sample_json sample_bcrypt
      no_static sample_server) [api_request ''activate'' ''SEAT-1'' ''phone'']) (faulty_world full_db) = (answers, w')"
    by fastforce
  from seat_limit_kept [OF _ _ _ run] run show ?thesis by simp
qed

section \<open>Refinement of the abstract machine\<close>

text \<open>Requests to the service one after another, and the same on the set of seats.\<close>

fun serve_all :: "platform \<Rightarrow> service \<Rightarrow> request list \<Rightarrow> (gerror + envelope option) list program" where
  "serve_all P s [] = State_Monad.return []"
| "serve_all P s (q # qs) = do {
     r \<leftarrow> serve P s q;
     rs \<leftarrow> serve_all P s qs;
     State_Monad.return (r # rs)
   }"

fun abs_serve_all ::
  "platform \<Rightarrow> service \<Rightarrow> (string \<Rightarrow> license option) \<Rightarrow> (request \<times> gotime) list \<Rightarrow> seat_set \<Rightarrow>
     (gerror + envelope option) list \<times> seat_set" where
  "abs_serve_all P s find_lic [] S = ([], S)"
| "abs_serve_all P s find_lic ((q, now) # qs) S =
     (case abs_serve P s find_lic now q S of
        (r, S') \<Rightarrow> apfst ((#) r) (abs_serve_all P s find_lic qs S'))"

text \<open>The instant at which each request of a run starts.\<close>

fun request_times :: "platform \<Rightarrow> service \<Rightarrow> request list \<Rightarrow> world \<Rightarrow> (request \<times> gotime) list" where
  "request_times P s [] w = []"
| "request_times P s (q # qs) w =
     (q, shd (clock w)) # request_times P s qs (snd (run_state (serve P s q) w))"

lemma serve_keeps_lookup:
  assumes "quiet_notifier (svc_notifier s)"
  shows "license_by_key k (db (snd (run_state (serve P s q) w))) = license_by_key k (db w)"
proof -
  have "other_tables (db (snd (run_state (serve P s q) w))) = other_tables (db w)"
    using triple_snd [OF license_frame.keeps_serve [OF assms, of "db w" P q], of w] by simp
  from other_tables_eqD [OF this] show ?thesis by (intro license_by_key_cong)
qed

text \<open>
  C2. While the driver works, any sequence of activations, offline activations, validations and
  deactivations returns what the abstract machine on the set of seats returns, and ends with the
  same seats taken.
\<close>

theorem requests_refine_machine:
  assumes "healthy w" and "db_ok (db w)" and "quiet_notifier (svc_notifier s)"
    and "run_state (serve_all P s qs) w = (rs, w')"
  shows "(rs, seats (db w')) =
    abs_serve_all P s (\<lambda>k. license_by_key k (db w)) (request_times P s qs w) (seats (db w))"
  using assms(1,2,4)
proof (induction qs arbitrary: w rs)
  case (Cons q qs)
  obtain r w1 where r: "run_state (serve P s q) w = (r, w1)" by fastforce
  obtain rs' where rs': "run_state (serve_all P s qs) w1 = (rs', w')" "rs = r # rs'"
    using Cons.prems(3) r by (auto split: prod.splits)
  have step: "(r, seats (db w1)) =
      abs_serve P s (\<lambda>k. license_by_key k (db w)) (shd (clock w)) q (seats (db w))"
    "db_ok (db w1)" "healthy w1"
    using serve_abs [OF Cons.prems(1,2) assms(3), of P q] r by simp_all
  have "(\<lambda>k. license_by_key k (db w1)) = (\<lambda>k. license_by_key k (db w))"
    using serve_keeps_lookup [OF assms(3), of _ P q w] r by auto
  with Cons.IH [OF step(3,2) rs'(1), symmetric] step(1) [symmetric] show ?case
    by (simp add: r rs'(2))
qed simp

theorem requests_refine_machine_witness:
  "(fst (run_state (serve_all sample_platform hooked_service
        [RDeactivate ''SEAT-1'' ''laptop'', RActivate ''SEAT-1'' ''phone'' '''']) (world_of full_db)),
    seats (db (snd (run_state (serve_all sample_platform hooked_service
        [RDeactivate ''SEAT-1'' ''laptop'', RActivate ''SEAT-1'' ''phone'' '''']) (world_of full_db))))) =
   abs_serve_all sample_platform hooked_service (\<lambda>k. license_by_key k full_db)
     (request_times sample_platform hooked_service
        [RDeactivate ''SEAT-1'' ''laptop'', RActivate ''SEAT-1'' ''phone'' ''''] (world_of full_db))
     {(''L1'', ''laptop'')}"
  using requests_refine_machine [OF _ _ sample_quiet(2) prod.collapse [symmetric],
      of "world_of full_db" sample_platform "[RDeactivate ''SEAT-1'' ''laptop'', RActivate ''SEAT-1'' ''phone'' '''']"]
  by simp

section \<open>The branches of an activation\<close>

text \<open>
  C3. No envelope without a seat, whichever of the driver's calls fail: when an activation, online or
  offline, returns an envelope, the license exists and the device holds one of its seats.
\<close>

theorem envelope_needs_seat:
  assumes "quiet_notifier (svc_notifier s)"
    and "run_state (activate P s key device name off) w = (Inr env, w')"
  shows "\<exists>lic. license_by_key key (db w') = Some lic \<and> (lic_id lic, device) \<in> seats (db w')"
  using tripleD [OF triple_activate_grants [OF assms(1)] _ assms(2)] by (auto simp: granted_def)

theorem envelope_needs_seat_witness:
  "\<exists>lic. license_by_key ''SEAT-1'' (db (snd (run_state (activate sample_platform hooked_service
       ''SEAT-1'' ''laptop'' '''' False) (world_of full_db)))) = Some lic \<and>
     (lic_id lic, ''laptop'') \<in> seats (db (snd (run_state (activate sample_platform hooked_service
       ''SEAT-1'' ''laptop'' '''' False) (world_of full_db))))"
proof -
  obtain env w' where run: "run_state (activate sample_platform hooked_service ''SEAT-1'' ''laptop'' '''' False)
      (world_of full_db) = (Inr env, w')"
    by (rule sample_activate_held)
  show ?thesis using envelope_needs_seat [OF sample_quiet(2) run] run by simp
qed

text \<open>
  C21. Activating again on a device that holds a seat of an active license returns a signed token
  even when the license is full, takes no further seat and sends no event: the row's last-seen time
  is all that changes in the database.
\<close>

theorem reactivation_is_idempotent:
  assumes "healthy w" and "license_by_key key (db w) = Some lic"
    and "Status lic (shd (clock w)) = ''active''" and "(lic_id lic, device) \<in> seats (db w)"
    and "run_state (activate P s key device name off) w = (r, w')"
  shows "r = sign P s lic device (seat_count (lic_id lic) (db w)) (shd (clock w)) off
    \<and> seats (db w') = seats (db w) \<and> spawned w' = spawned w
    \<and> (\<exists>i. db w' = touched (shd (stl (clock w))) i (db w))"
proof -
  obtain d where "active_device (lic_id lic) device (db w) = Some d"
    using assms(4) active_device_None_iff [of "lic_id lic" device "db w"] by auto
  with assms show ?thesis
    by (auto simp: activate_def run_GetLicenseByKey run_GetActiveDevice run_touch_held run_ActiveDeviceCount)
qed

theorem reactivation_is_idempotent_witness:
  "\<exists>r w'. run_state (activate sample_platform hooked_service ''SEAT-1'' ''laptop'' '''' True) (world_of full_db) = (r, w')
    \<and> r = sign sample_platform hooked_service sample_license ''laptop'' 1 100 True
    \<and> seats (db w') = {(''L1'', ''laptop'')} \<and> spawned w' = []"
proof -
  obtain r w' where run: "run_state (activate sample_platform hooked_service ''SEAT-1'' ''laptop'' '''' True)
      (world_of full_db) = (r, w')" by fastforce
  from reactivation_is_idempotent [OF _ _ _ _ run, of sample_license] show ?thesis
    by (auto simp: run)
qed

text \<open>
  C22. A license that is revoked or expired gives no token, neither to a new device nor to one that
  holds a seat, by activation or validation; nothing is written.
\<close>

theorem inactive_license_refuses:
  assumes "healthy w" and "license_by_key key (db w) = Some lic"
    and "Status lic (shd (clock w)) \<noteq> ''active''"
  shows "run_state (activate P s key device name off) w =
      (Inl (status_error (Status lic (shd (clock w)))), w\<lparr>clock := stl (clock w)\<rparr>)
    \<and> run_state (Validate P s key device) w =
      (Inl (status_error (Status lic (shd (clock w)))), w\<lparr>clock := stl (clock w)\<rparr>)"
  using assms by (simp add: activate_def Validate_def run_GetLicenseByKey)

definition revoked_db :: database where
  "revoked_db = full_db\<lparr>licenses := [sample_row\<lparr>row_revoked_at := Some 50\<rparr>]\<rparr>"

lemma revoked_lookup:
  "license_by_key ''SEAT-1'' revoked_db = Some (sample_license\<lparr>lic_revoked_at := Some 50\<rparr>)"
  by (simp add: license_by_key_def license_where_def license_select_def join_product_def
      List.map_filter_simps sample_license_def license_of_row_def revoked_db_def sample_dbs)

lemma revoked_readable: "healthy (world_of revoked_db)"
  by (simp add: revoked_db_def row_times_def sample_row_def sample_unreadable_def duration_defs)

theorem inactive_license_refuses_witness:
  "fst (run_state (activate sample_platform hooked_service ''SEAT-1'' ''laptop'' '''' False) (world_of revoked_db)) =
    Inl (status_error ''revoked'')"
  using inactive_license_refuses [of "world_of revoked_db" "''SEAT-1''"
      "sample_license\<lparr>lic_revoked_at := Some 50\<rparr>" sample_platform hooked_service "''laptop''" "''''" False]
  revoked_readable by (simp add: revoked_lookup Status_def)

text \<open>
  C20. Deactivating a device frees its seat for another one, also on a license that was full: the
  next activation of a new device succeeds and the two have changed places.
\<close>

theorem freed_seat_is_reusable:
  assumes h: "healthy w" and ok: "db_ok (db w)" and q: "quiet_notifier (svc_notifier s)"
    and key: "license_by_key key (db w) = Some lic"
    and held: "(lic_id lic, old) \<in> seats (db w)" and new: "(lic_id lic, device) \<notin> seats (db w)"
    and run1: "run_state (Deactivate s key old) w = (r1, w1)"
    and active: "Status lic (shd (clock w1)) = ''active''"
    and run2: "run_state (activate P s key device name off) w1 = (r2, w2)"
  shows "r1 = Inr () \<and>
    r2 = sign P s lic device (seat_count (lic_id lic) (db w)) (shd (clock w1)) off \<and>
    seats (db w2) = insert (lic_id lic, device) (seats (db w) - {(lic_id lic, old)})"
proof -
  have d: "r1 = Inr ()" "seats (db w1) = seats (db w) - {(lic_id lic, old)}" "db_ok (db w1)" "healthy w1"
    using run_Deactivate_abs [OF h ok q run1] key held by (simp_all add: abs_deactivate_def)
  have key1: "license_by_key key (db w1) = Some lic"
  proof -
    have "other_tables (db w1) = other_tables (db w)"
      using tripleD [OF license_frame.keeps_Deactivate [OF q, of "db w"] refl run1] .
    from license_by_key_cong [OF other_tables_eqD(1,2) [OF this]] key show ?thesis by simp
  qed
  have split: "{y. (lic_id lic, y) \<in> seats (db w)} = insert old {y. (lic_id lic, y) \<in> seats (db w1)}"
    and old: "(lic_id lic, old) \<notin> seats (db w1)"
    using held by (auto simp: d(2))
  have count: "abs_count (lic_id lic) (seats (db w)) = abs_count (lic_id lic) (seats (db w1)) + 1"
    unfolding abs_count_def split using old finite_seats [of "lic_id lic" "db w1"] by simp
  obtain r where "r \<in> set (licenses (db w))" "row_id r = lic_id lic" "row_max_devices r = lic_max_devices lic"
    using license_by_key_row [OF key] by blast
  then have "seat_count (lic_id lic) (db w) \<le> max 0 (lic_max_devices lic)"
    using ok by (auto simp: db_ok_defs)
  then have "abs_count (lic_id lic) (seats (db w1)) < lic_max_devices lic"
    using count seat_count_abs [OF ok, of "lic_id lic"] by (simp add: abs_count_def split: if_splits)
  then show ?thesis
    using run_activate_abs [OF d(4,3) q run2] key1 active new count seat_count_abs [OF ok, of "lic_id lic"] d(1,2)
    by (simp add: abs_activate_def)
qed

theorem freed_seat_is_reusable_witness:
  "\<exists>r1 w1 r2 w2. run_state (Deactivate hooked_service ''SEAT-1'' ''laptop'') (world_of full_db) = (r1, w1) \<and>
    run_state (activate sample_platform hooked_service ''SEAT-1'' ''phone'' '''' False) w1 = (r2, w2) \<and>
    r1 = Inr () \<and> seats (db w2) = {(''L1'', ''phone'')}"
proof -
  obtain r1 w1 where run1: "run_state (Deactivate hooked_service ''SEAT-1'' ''laptop'') (world_of full_db) = (r1, w1)"
    by fastforce
  obtain r2 w2 where run2: "run_state (activate sample_platform hooked_service ''SEAT-1'' ''phone'' '''' False) w1 = (r2, w2)"
    by fastforce
  from freed_seat_is_reusable [OF _ _ sample_quiet(2) _ _ _ run1 _ run2, of sample_license] run1 run2
  show ?thesis by simp
qed

end
