(* ===== verification/Event_Theorems.thy ===== *)
theory Event_Theorems
  imports Sample
begin

text \<open>
  Events and their delivery: when the service sends one, what a delivery posts, and what an
  activation leaves behind when its token cannot be signed.
\<close>

section \<open>Events of the service\<close>

lemma run_activate_taken:
  assumes h: "healthy w" and ok: "db_ok (db w)" and q: "quiet_notifier (svc_notifier s)"
    and key: "license_by_key key (db w) = Some lic"
    and active: "Status lic (shd (clock w)) = ''active''"
    and new: "(lic_id lic, device) \<notin> seats (db w)"
    and room: "seat_count (lic_id lic) (db w) < lic_max_devices lic"
  obtains w' n w0 where
    "run_state (activate P s key device name off) w =
      (sign P s lic device (seat_count (lic_id lic) (db w')) (shd (clock w)) off, w')"
    "w' = snd (run_state (svc_notifier s ''activation'' n) w0)" "spawned w0 = spawned w"
    "settings (db w0) = settings (db w)" "healthy w0"
    "n_event n = ''activation''" "n_license_key n = lic_key lic" "n_device_id n = device"
    "seats (db w') = insert (lic_id lic, device) (seats (db w))"
proof -
  let ?w1 = "w\<lparr>clock := stl (clock w)\<rparr>"
  have h1: "healthy ?w1" "db_ok (db ?w1)" "license_by_key key (db ?w1) = Some lic"
    "seat_count (lic_id lic) (db ?w1) < lic_max_devices lic"
    using h ok key room by simp_all
  obtain w' n w0 where t: "run_state (take_or_touch s lic device name (Inl ErrNotFound)) ?w1 = (Inr (), w')"
    "w' = snd (run_state (svc_notifier s ''activation'' n) w0)" "spawned w0 = spawned ?w1"
    "db w0 = db w'" "healthy w0" "n_event n = ''activation''" "n_license_key n = lic_key lic"
    "n_device_id n = device" "healthy w'" "seats (db w') = insert (lic_id lic, device) (seats (db ?w1))"
    "settings (db w') = settings (db ?w1)"
    using run_take_new [OF h1(1,2) q h1(3,4), of device name] by metis
  have "run_state (activate P s key device name off) w =
      (sign P s lic device (seat_count (lic_id lic) (db w')) (shd (clock w)) off, w')"
    using h key active t(1,9) new
    by (simp add: activate_def run_GetLicenseByKey run_GetActiveDevice
        active_device_None_iff [THEN iffD2] run_ActiveDeviceCount)
  from that [OF this t(2) _ _ t(5-8)] t(3,4,10,11) show thesis by simp
qed

text \<open>
  C31. A new activation sends exactly one event: with a webhook URL set, one delivery is started, to
  that URL and with the secret of that moment, and its data name the license and the device.
\<close>

theorem activation_sends_one_event:
  assumes "healthy w" and "db_ok (db w)" and "svc_notifier s = webhook_notifier"
    and "license_by_key key (db w) = Some lic" and "Status lic (shd (clock w)) = ''active''"
    and "(lic_id lic, device) \<notin> seats (db w)"
    and "seat_count (lic_id lic) (db w) < lic_max_devices lic"
    and "fetch_setting ''webhook_url'' (db w) = Some url" and "url \<noteq> ''''"
    and "fetch_setting ''webhook_secret'' (db w) = Some secret"
    and "run_state (activate P s key device name off) w = (r, w')"
  shows "\<exists>n. spawned w' = spawned w @ [\<lparr>dl_url = url, dl_secret = secret, dl_data = n\<rparr>] \<and>
    n_event n = ''activation'' \<and> n_license_key n = lic_key lic \<and> n_device_id n = device"
proof -
  have q: "quiet_notifier (svc_notifier s)" by (simp add: assms(3))
  show ?thesis
  proof (rule run_activate_taken [OF assms(1,2) q assms(4-7), of P name off])
    fix w1 n w0
    assume "run_state (activate P s key device name off) w =
        (sign P s lic device (seat_count (lic_id lic) (db w1)) (shd (clock w)) off, w1)"
      and w1: "w1 = snd (run_state (svc_notifier s ''activation'' n) w0)"
      and w0: "spawned w0 = spawned w" "settings (db w0) = settings (db w)" "healthy w0"
      and n: "n_event n = ''activation''" "n_license_key n = lic_key lic" "n_device_id n = device"
    then have "w' = w1" using assms(11) by simp
    moreover have "spawned w1 = spawned w0 @ [\<lparr>dl_url = url, dl_secret = secret, dl_data = n\<rparr>]"
      using w0(2) assms(3,8-10) unfolding w1
      by (simp add: run_webhook_notifier [OF w0(3)] fetch_setting_def)
    ultimately show ?thesis using w0(1) n by (intro exI [of _ n]) simp
  qed
qed

theorem activation_sends_one_event_witness:
  "\<exists>n. spawned (snd (run_state (activate sample_platform hooked_service ''SEAT-1'' ''phone'' '''' False)
        (world_of free_db))) = [\<lparr>dl_url = ''http://h'', dl_secret = ''k'', dl_data = n\<rparr>] \<and>
    n_event n = ''activation'' \<and> n_license_key n = ''SEAT-1'' \<and> n_device_id n = ''phone''"
  using activation_sends_one_event [OF _ _ _ _ _ _ _ _ _ _ prod.collapse [symmetric],
      of "world_of free_db" hooked_service "''SEAT-1''" sample_license "''phone''" "''http://h''" "''k''"]
  by simp

text \<open>
  C32. When the token of a new activation cannot be written as JSON, the call fails but its seat is
  taken: the error comes after the insert, which is not undone.
\<close>

theorem failed_signing_keeps_seat:
  assumes "healthy w" and "db_ok (db w)" and "quiet_notifier (svc_notifier s)"
    and "license_by_key key (db w) = Some lic" and "Status lic (shd (clock w)) = ''active''"
    and "(lic_id lic, device) \<notin> seats (db w)"
    and "seat_count (lic_id lic) (db w) < lic_max_devices lic"
    and "\<And>n. json_Marshal_token P (token_for lic device n (shd (clock w)) off) = Inl e"
    and "run_state (activate P s key device name off) w = (r, w')"
  shows "r = Inl e \<and> seats (db w') = insert (lic_id lic, device) (seats (db w))"
proof -
  show ?thesis
  proof (rule run_activate_taken [OF assms(1-7), of P name off])
    fix w1
    assume "run_state (activate P s key device name off) w =
        (sign P s lic device (seat_count (lic_id lic) (db w1)) (shd (clock w)) off, w1)"
      and "seats (db w1) = insert (lic_id lic, device) (seats (db w))"
    then show ?thesis using assms(8,9) by (simp add: sign_def Sign_def)
  qed
qed

definition mute_platform :: platform where
  "mute_platform = sample_platform\<lparr>json_Marshal_token := (\<lambda>_. Inl (LibError ''year outside of range''))\<rparr>"

theorem failed_signing_keeps_seat_witness:
  "\<exists>r w'. run_state (activate mute_platform hooked_service ''SEAT-1'' ''phone'' '''' False) (world_of free_db) = (r, w')
    \<and> r = Inl (LibError ''year outside of range'') \<and> seats (db w') = {(''L1'', ''phone'')}"
proof -
  obtain r w' where run: "run_state (activate mute_platform hooked_service ''SEAT-1'' ''phone'' '''' False)
      (world_of free_db) = (r, w')" by fastforce
  from failed_signing_keeps_seat [OF _ _ sample_quiet(2) _ _ _ _ _ run, of sample_license] run
  show ?thesis by (simp add: mute_platform_def)
qed

section \<open>Deliveries\<close>

text \<open>
  C30. A delivery posts at most twice, every time the same body to the URL it was given; a second
  post is made only after the first failed, one second later. The signature header is there exactly
  when there is a secret, and then it passes the receiver's \<open>Verify\<close>.
\<close>

theorem delivery_posts:
  assumes "marshal_event data = Inr body" and "request_error T url = None"
    and "run_state (deliver T url secret data) n = (u, n')"
  shows "\<exists>ps. sent n' = sent n @ ps \<and> length ps \<in> {1, 2} \<and>
      (length ps = 1 \<longleftrightarrow> attempt_succeeds (shd (outcomes n))) \<and>
      pauses n' = pauses n @ replicate (length ps - 1) second \<and>
      (\<forall>p \<in> set ps. post_url p = url \<and> post_body p = body \<and>
         (case map_of (post_headers p) SignatureHeader of
            None \<Rightarrow> secret = ''''
          | Some sig \<Rightarrow> secret \<noteq> '''' \<and> webhook_Verify secret body sig))"
proof -
  let ?p = "event_post T url secret body"
  have p: "post_url ?p = url" "post_body ?p = body"
    "case map_of (post_headers ?p) SignatureHeader of
       None \<Rightarrow> secret = ''''
     | Some sig \<Rightarrow> secret \<noteq> '''' \<and> webhook_Verify secret body sig"
    by (auto simp: event_post_def SignatureHeader_def Verify_iff)
  have s: "attempt_result r = Inr v \<longleftrightarrow> attempt_succeeds r" for r and v :: unit
    using attempt_result_iff [of r] by simp
  consider "attempt_succeeds (shd (outcomes n))"
      "sent n' = sent n @ [?p]" "pauses n' = pauses n"
    | "\<not> attempt_succeeds (shd (outcomes n))"
      "sent n' = sent n @ [?p, ?p]" "pauses n' = pauses n @ [second]"
    using assms(3) unfolding run_deliver [OF assms(1,2)] Let_def
    by (auto split: sum.splits simp flip: attempt_result_iff)
  then show ?thesis
  proof cases
    case 1
    with p show ?thesis by (intro exI [of _ "[?p]"]) simp
  next
    case 2
    with p show ?thesis by (intro exI [of _ "[?p, ?p]"]) (simp add: numeral_2_eq_2)
  qed
qed

definition sample_transport :: transport where
  "sample_transport = \<lparr>request_error = (\<lambda>_. None)\<rparr>"

definition sample_event :: notification where
  "sample_event =
     \<lparr>n_event = ''activation'', n_license_key = ''SEAT-1'', n_product = ''Editor'',
      n_customer_name = ''Ada'', n_device_id = ''phone'', n_timestamp = 100\<rparr>"

definition sample_network :: network where
  "sample_network = \<lparr>outcomes = Inr 500 ## sconst (Inr 204), sent = [], pauses = [], log_lines = []\<rparr>"

theorem delivery_posts_witness:
  "length (sent (snd (run_state (deliver sample_transport ''http://h'' ''k'' sample_event) sample_network))) = 2"
proof -
  obtain j where "time_json ''time.Time'' 0 100 = Inr j" by (rule sample_times [of 100]) auto
  then obtain body where "marshal_event sample_event = Inr body"
    by (simp add: marshal_event_def sample_event_def)
  with delivery_posts [of sample_event body sample_transport "''http://h''" "''k''" sample_network,
      OF _ _ prod.collapse [symmetric]]
  show ?thesis by (auto simp: sample_transport_def sample_network_def attempt_succeeds_def)
qed

text \<open>
  What the receiver's \<open>Verify\<close> accepts under a secret is the signature that \<open>Sign\<close> writes for the
  body, and no other text: 64 hexadecimal digits of the HMAC-SHA256.
\<close>

lemma webhook_signature_exact:
  "(webhook_Verify secret body sig \<longleftrightarrow> sig = webhook_Sign secret body) \<and>
    length (webhook_Sign secret body) = 64 \<and>
    set (webhook_Sign secret body) \<subseteq> set ''0123456789abcdef''"
  using hex_encode_chars by (auto simp: Verify_iff webhook_Sign_def)

end
