(* ===== verification/Race_Theorems.thy ===== *)
theory Race_Theorems
  imports Sample
begin

text \<open>
  Activations at the same time: the statements of one thread are the code's \<open>activate\<close>, the check and
  the insert of two threads can interleave so that the limit is exceeded, and the excess is at most
  one seat for each further thread.
\<close>

section \<open>A thread is the code\<close>

text \<open>
  C14. The statement-by-statement form of an activation, run without interruption, is the code's
  \<open>activate\<close>: the same answer and the same database.
\<close>

theorem thread_is_activate:
  assumes "healthy w" and "quiet_notifier (svc_notifier s)"
    and "run_state (activate P s key device name off) w = (r, w')"
    and "act_alone key device name (shd (clock w)) (shd (stl (clock w))) (db w) = (t, d)"
  shows "db w' = d \<and> r = answer P s device (shd (clock w)) off (verdict t)"
  by (rule alone_is_activate [OF assms])

theorem thread_is_activate_witness:
  "db (snd (run_state (activate sample_platform hooked_service ''SEAT-1'' ''phone'' '''' False) (world_of free_db))) =
    snd (act_alone ''SEAT-1'' ''phone'' '''' 100 100 free_db)"
  using thread_is_activate [OF _ sample_quiet(2) prod.collapse [symmetric] prod.collapse [symmetric],
      of "world_of free_db" sample_platform "''SEAT-1''" "''phone''" "''''" False] by simp

section \<open>The limit under concurrency\<close>

text \<open>
  C13. However the statements of \<open>n\<close> activations interleave, with seats being freed and licenses being
  revoked in between, a license has at most \<open>n - 1\<close> devices more than it allows.
\<close>

theorem concurrent_overshoot_bounded:
  assumes "interleaves (ts, d) (ts', d')" and "\<forall>t \<in> set ts. fresh_thread t" and "db_ok d"
    and "r \<in> set (licenses d)" and "ts \<noteq> []"
  shows "seat_count (row_id r) d' \<le> max 0 (row_max_devices r) + int (length ts) - 1"
  by (rule interleaves_seats [OF assms])

definition racing_threads :: "thread list" where
  "racing_threads = [start_thread ''SEAT-1'' ''phone'' '''' 100 100, start_thread ''SEAT-1'' ''tablet'' '''' 100 100]"

theorem concurrent_overshoot_bounded_witness:
  "seat_count ''L1'' free_db \<le> max 0 1 + 2 - 1"
  using concurrent_overshoot_bounded [OF no_step, of racing_threads free_db sample_row]
  by (simp add: racing_threads_def start_thread_def fresh_thread_def)

text \<open>A schedule is the list of the threads whose turn it is.\<close>

fun run_schedule :: "nat list \<Rightarrow> schedule \<Rightarrow> schedule" where
  "run_schedule [] c = c"
| "run_schedule (i # is) (ts, d) =
     (if i < length ts then (case act_step (ts ! i, d) of (t, d') \<Rightarrow> run_schedule is (ts[i := t], d'))
      else run_schedule is (ts, d))"

lemma run_schedule_interleaves: "interleaves c (run_schedule is c)"
proof (induction "is" c rule: run_schedule.induct)
  case (2 i "is" ts d)
  show ?case
  proof (cases "i < length ts")
    case True
    obtain t d' where s: "act_step (ts ! i, d) = (t, d')" by fastforce
    have "interleaves (ts, d) (ts[i := t], d')"
      by (rule more_steps [OF no_step run_thread [OF True s]])
    with 2(1) [OF True s [symmetric]] True s show ?thesis
      by (auto intro: interleaves_trans)
  qed (use 2(2) in simp)
qed (simp add: no_step)

text \<open>
  C12. The limit can be exceeded: two activations of a license with one seat, whose statements
  alternate, both succeed and leave two active devices.
\<close>

theorem race_exceeds_limit:
  "\<exists>ts d. interleaves (racing_threads, free_db) (ts, d) \<and>
    map verdict ts = [Inr (sample_license, 2), Inr (sample_license, 2)] \<and>
    license_by_key ''SEAT-1'' d = Some sample_license \<and> lic_max_devices sample_license = 1 \<and>
    seat_count ''L1'' d = 2"
proof -
  let ?c = "run_schedule [0, 1, 0, 1, 0, 1, 0, 1, 0, 1] (racing_threads, free_db)"
  have "map verdict (fst ?c) = [Inr (sample_license, 2), Inr (sample_license, 2)]"
    by code_simp
  moreover have "license_by_key ''SEAT-1'' (snd ?c) = Some sample_license"
    by code_simp
  moreover have "seat_count ''L1'' (snd ?c) = 2"
    by code_simp
  moreover obtain ts d where c: "?c = (ts, d)" by fastforce
  ultimately have "map verdict ts = [Inr (sample_license, 2), Inr (sample_license, 2)]"
    "license_by_key ''SEAT-1'' d = Some sample_license" "seat_count ''L1'' d = 2"
    by simp_all
  moreover have "interleaves (racing_threads, free_db) (ts, d)"
    using run_schedule_interleaves [of "(racing_threads, free_db)" "[0, 1, 0, 1, 0, 1, 0, 1, 0, 1]"]
    unfolding c .
  ultimately show ?thesis by (intro exI [of _ ts] exI [of _ d]) simp
qed

end
