(* ===== verification/Token_Theorems.thy ===== *)
theory Token_Theorems
  imports Sample
begin

text \<open>
  Tokens, envelopes and keys: what the envelope of an activation proves to its holder and until
  when, what \<open>Verify\<close> does with the text of an envelope, that the signing key outlives restarts, and
  the form of license keys.
\<close>

section \<open>Tokens\<close>

text \<open>
  C4. The envelope of an activation verifies under the server's public key, and the token in it
  names the license and the device, is marked active, counts the seats as they then are, and was
  issued at the instant at which the license was checked.
\<close>

theorem activation_token_verifies:
  assumes "ed25519_laws E" and "keypair E (svc_priv s) (svc_pub s)"
    and "healthy w" and "db_ok (db w)" and "quiet_notifier (svc_notifier s)"
    and "license_by_key key (db w) = Some lic"
    and "run_state (activate (go_platform E js) s key device name off) w = (Inr env, w')"
    and "token_ok (token_for lic device (seat_count (lic_id lic) (db w')) (shd (clock w)) off)"
  shows "\<exists>tok. Verify E (unmarshal_token js') (PublicKey s) env = Inr tok \<and>
    tok_license_key tok = key \<and> tok_device_id tok = device \<and> tok_status tok = ''active'' \<and>
    tok_seats_used tok = seat_count (lic_id lic) (db w') \<and> tok_seats_max tok = lic_max_devices lic \<and>
    tok_issued_at tok = shd (clock w) \<and> tok_offline tok = off"
proof -
  note act = activate_signs [OF assms(3-7)]
  from sign_verifies [OF assms(1,2,8) act(1), of js'] act(2) license_by_key_row [OF assms(6)]
  show ?thesis by (auto simp: PublicKey_def token_for_def Let_def)
qed

theorem activation_token_verifies_witness:
  "\<exists>env w' tok. run_state (activate sample_platform hooked_service ''SEAT-1'' ''laptop'' '''' False)
      (world_of full_db) = (Inr env, w') \<and>
    Verify sample_ed (unmarshal_token sample_js) sample_pub env = Inr tok \<and> tok_device_id tok = ''laptop'' \<and>
    tok_offline tok = False"
proof -
  obtain env w' where run: "run_state (activate sample_platform hooked_service ''SEAT-1'' ''laptop'' '''' False)
      (world_of full_db) = (Inr env, w')"
    by (rule sample_activate_held)
  have "int64 (seat_count ''L1'' (db w'))" by (rule sample_seats_held [OF run])
  with activation_token_verifies [OF sample_ed_laws _ _ _ sample_quiet(2) _ run [unfolded sample_platform_def], of sample_license]
    sample_keypair run
  show ?thesis by (auto simp: PublicKey_def)
qed

text \<open>
  C16. How long a token lasts: it is valid when it is issued for an active license, an online token
  ends after seven days and an offline one after 36500, and neither outlives the license. So a
  client that may be offline acts on a revoked license for at most seven days after its last
  check-in, unless its activation was offline.
\<close>

theorem token_deadline:
  assumes "Status lic now = ''active''"
  shows "now \<le> tok_valid_until (token_for lic device n now off) \<and>
    tok_valid_until (token_for lic device n now off) \<le> now + (if off then 36500 * day_length else 7 * day_length) \<and>
    (\<forall>x. lic_expires_at lic = Some x \<longrightarrow> tok_valid_until (token_for lic device n now off) \<le> x) \<and>
    (lic_expires_at lic = None \<longrightarrow>
      tok_valid_until (token_for lic device n now off) = now + (if off then 36500 * day_length else 7 * day_length))"
proof -
  have "\<forall>x. lic_expires_at lic = Some x \<longrightarrow> now \<le> x"
    using assms by (simp add: Status_active_iff)
  then show ?thesis
    by (auto simp: token_for_def Let_def time_Before_def OnlineGracePeriod_def offlineHorizon_def
        day_length_def duration_defs split: option.split)
qed

theorem token_deadline_witness:
  "tok_valid_until (token_for sample_license ''laptop'' 1 0 False) = 7 * day_length"
  using token_deadline [of sample_license 0 "''laptop''" 1 False] by simp

section \<open>Envelopes\<close>

text \<open>
  An envelope may be wrapped in transport: a line break put anywhere into the text of the payload
  or of the signature changes nothing about what \<open>Verify\<close> answers.
\<close>

lemma line_breaks_are_ignored:
  assumes "c = CHR 0x0A \<or> c = CHR 0x0D"
  shows "Verify E u pub \<lparr>env_payload = xs @ c # ys, env_signature = sig\<rparr> =
      Verify E u pub \<lparr>env_payload = xs @ ys, env_signature = sig\<rparr> \<and>
    Verify E u pub \<lparr>env_payload = p, env_signature = xs @ c # ys\<rparr> =
      Verify E u pub \<lparr>env_payload = p, env_signature = xs @ ys\<rparr>"
proof -
  have e: "b64_decode (xs @ c # ys) = b64_decode (xs @ ys)"
    using assms by (intro b64_decode_line_break) (auto simp: line_break_def)
  show ?thesis unfolding Verify_def envelope.simps e by simp
qed

section \<open>The signing key\<close>

text \<open>
  C23. The signing key survives restarts: once a start has returned a key pair, any later start on the
  same database returns it again, whatever requests were served in between and whichever of the
  driver's calls failed until then.
\<close>

theorem signing_key_survives:
  assumes "run_state (loadOrCreateKeypair E) w = (Inr (priv, pub), w1)"
    and "quiet_notifier (svc_notifier (srv_licenses s))" and "files_only static"
    and "db v = db w1"
    and "run_state (serve_requests (ServeHTTP P J B static s) rs) v = (answers, v')"
    and "healthy u" and "db u = db v'"
  shows "run_state (loadOrCreateKeypair E) u = (Inr (priv, pub), u)"
proof -
  obtain seed where seed: "fetch_setting ''signing_key_seed'' (db w1) = Some seed"
    "KeypairFromSeed E seed = Inr (priv, pub)"
    using loadOrCreateKeypair_stored [OF assms(1)] by blast
  have "settings (db v') ''signing_key_seed'' = Some seed"
    using signing_seed.run_requests [OF assms(2,3), of v "Some seed" P J B rs] seed(1) assms(4,5)
    by (simp add: fetch_setting_def)
  then show ?thesis
    using run_loadOrCreateKeypair_found [OF assms(6), of seed E] seed(2) assms(7)
    by (simp add: fetch_setting_def)
qed

theorem signing_key_survives_witness:
  "\<exists>priv pub w1. run_state (loadOrCreateKeypair sample_ed) (world_of free_db) = (Inr (priv, pub), w1) \<and>
    run_state (loadOrCreateKeypair sample_ed) (reading_world (db w1)) = (Inr (priv, pub), reading_world (db w1))"
proof -
  obtain priv pub w1 where run: "run_state (loadOrCreateKeypair sample_ed) (world_of free_db) = (Inr (priv, pub), w1)"
    using run_loadOrCreateKeypair_new [of "world_of free_db" sample_ed] by simp
  have "run_state (serve_requests (ServeHTTP sample_platform sample_json sample_bcrypt no_static sample_server) [])
      (reading_world (db w1)) = ([], reading_world (db w1))" by simp
  from signing_key_survives [OF run _ no_static_files _ this, of "reading_world (db w1)"] run
  show ?thesis by simp
qed

text \<open>
  C40. What a start on a working database ends in, for the first one and every later one: the seed is
  the stored one, or a new one that is then stored; nothing else in the database changes. A stored seed
  that is not the base64 of 32 bytes is a fatal error, and so are templates that do not parse. Otherwise
  the server listens: its service has the key pair of the seed, whose public key is in the log for the
  clients, it sends events through the webhook settings, and its session cookies are marked secure
  exactly when the environment says \<open>true\<close>.
\<close>

theorem start_listens:
  assumes "healthy w" and "run_state (seatkeyd_start E templates version path env) w = (out, w')"
  shows "\<exists>seed. db w' =
        (case fetch_setting ''signing_key_seed'' (db w) of
           None \<Rightarrow> put_setting ''signing_key_seed'' seed (db w) | Some _ \<Rightarrow> db w) \<and>
      fetch_setting ''signing_key_seed'' (db w') = Some seed \<and>
      (fetch_setting ''signing_key_seed'' (db w) = None \<longrightarrow> seed = b64_encode (stake 32 (entropy w))) \<and>
      (case b64_decode seed of
         Inl err \<Rightarrow> out = Fatal (''load signing key: decode seed: '' @ error_text err)
       | Inr raw \<Rightarrow>
           if length raw \<noteq> 32
           then out = Fatal (''load signing key: seed must be 32 bytes, got '' @ Itoa (int (length raw)))
           else (case templates of
               Inl err \<Rightarrow> out = Fatal (''build server: '' @ error_text err)
             | Inr _ \<Rightarrow> \<exists>srv lines.
                 out = Listen (if env ''SEATKEY_ADDR'' = '''' then '':8080'' else env ''SEATKEY_ADDR'') srv lines \<and>
                 ''public key (embed in clients for offline verification): '' @ EncodePublicKey (PublicKey (srv_licenses srv)) \<in> set lines \<and>
                 svc_priv (srv_licenses srv) = NewKeyFromSeed E raw \<and> svc_pub (srv_licenses srv) = ed_public E raw \<and>
                 svc_notifier (srv_licenses srv) = webhook_notifier \<and>
                 srv_cookie_secure srv = (env ''SEATKEY_COOKIE_SECURE'' = ''true'')))"
proof -
  let ?K = "''signing_key_seed''"
  define seed where "seed = (case fetch_setting ?K (db w) of
    None \<Rightarrow> b64_encode (stake SeedSize (entropy w)) | Some s \<Rightarrow> s)"
  obtain w1 where key: "run_state (loadOrCreateKeypair E) w = (KeypairFromSeed E seed, w1)"
    and db1: "db w1 = (case fetch_setting ?K (db w) of None \<Rightarrow> put_setting ?K seed (db w) | Some _ \<Rightarrow> db w)"
    by (cases "fetch_setting ?K (db w)")
      (auto simp: seed_def run_loadOrCreateKeypair_new [OF assms(1)] run_loadOrCreateKeypair_found [OF assms(1)]
        KeypairFromSeed_encode)
  have w': "w' = w1"
    using assms(2) key by (auto simp: seatkeyd_start_def Let_def split: sum.splits prod.splits)
  have "fetch_setting ?K (db w') = Some seed"
    using db1 w' by (auto simp: seed_def fetch_setting_def put_setting_def split: option.splits)
  moreover have "fetch_setting ?K (db w) = None \<longrightarrow> seed = b64_encode (stake 32 (entropy w))"
    by (simp add: seed_def SeedSize_def)
  moreover have "case KeypairFromSeed E seed of
      Inl err \<Rightarrow> out = Fatal (''load signing key: '' @ error_text err)
    | Inr (priv, pub) \<Rightarrow>
        (case templates of
           Inl err \<Rightarrow> out = Fatal (''build server: '' @ error_text err)
         | Inr _ \<Rightarrow> \<exists>srv lines.
             out = Listen (if env ''SEATKEY_ADDR'' = '''' then '':8080'' else env ''SEATKEY_ADDR'') srv lines \<and>
             ''public key (embed in clients for offline verification): '' @ EncodePublicKey (PublicKey (srv_licenses srv)) \<in> set lines \<and>
             svc_priv (srv_licenses srv) = priv \<and> svc_pub (srv_licenses srv) = pub \<and>
             svc_notifier (srv_licenses srv) = webhook_notifier \<and>
             srv_cookie_secure srv = (env ''SEATKEY_COOKIE_SECURE'' = ''true''))"
  proof (cases "KeypairFromSeed E seed")
    case (Inr kp)
    then show ?thesis
      using assms(2) key
      by (cases kp; cases templates)
        (auto simp: seatkeyd_start_def NewServer_def SetNotifier_def NewService_def envOr_def startup_log_def
          PublicKey_def Let_def)
  qed (use assms(2) key in \<open>simp add: seatkeyd_start_def Let_def\<close>)
  ultimately show ?thesis
    using db1 w'
    by (intro exI [of _ seed])
      (auto simp: KeypairFromSeed_def SeedSize_def PrivateKey_Public_def NewKeyFromSeed_def Let_def split: sum.splits if_splits)
qed

theorem start_listens_witness:
  "\<exists>srv lines w' v'. run_state (seatkeyd_start sample_ed (Inr (\<lambda>_ _. None)) ''dev'' ''seatkey.db'' (\<lambda>_. ''''))
      (world_of bare_db) = (Listen '':8080'' srv lines, w') \<and>
    run_state (seatkeyd_start sample_ed (Inr (\<lambda>_ _. None)) ''dev'' ''seatkey.db'' (\<lambda>_. ''''))
      (world_of (bare_db\<lparr>settings := [''signing_key_seed'' \<mapsto> ''QUJD'']\<rparr>)) =
        (Fatal ''load signing key: seed must be 32 bytes, got 3'', v')"
proof -
  let ?start = "seatkeyd_start sample_ed (Inr (\<lambda>_ _. None)) ''dev'' ''seatkey.db'' (\<lambda>_. '''')"
  let ?bad = "bare_db\<lparr>settings := [''signing_key_seed'' \<mapsto> ''QUJD'']\<rparr>"
  obtain out w' where run: "run_state ?start (world_of bare_db) = (out, w')" by fastforce
  obtain out' v' where run': "run_state ?start (world_of ?bad) = (out', v')" by fastforce
  have none: "fetch_setting ''signing_key_seed'' bare_db = None"
    "fetch_setting ''signing_key_seed'' ?bad = Some ''QUJD''"
    by (simp_all add: fetch_setting_def bare_db_def empty_database_def)
  have bad: "b64_decode ''QUJD'' = Inr ''ABC''" "Itoa 3 = ''3''" by code_simp+
  obtain srv lines where "out = Listen '':8080'' srv lines"
    using start_listens [OF _ run] none(1) by (auto simp: b64_decode_encode)
  moreover have "out' = Fatal ''load signing key: seed must be 32 bytes, got 3''"
    using start_listens [OF _ run'] none(2) bad by auto
  ultimately show ?thesis using run run' by blast
qed

section \<open>License keys\<close>

lemma key_of_bytes_groups:
  "\<exists>a b c d. key_of_bytes buf = ''SEAT-'' @ a @ ''-'' @ b @ ''-'' @ c @ ''-'' @ d \<and>
    map length [a, b, c, d] = [4, 4, 4, 4] \<and> set (a @ b @ c @ d) \<subseteq> set crockford"
proof -
  have mem: "key_char b \<in> set crockford" for b
    unfolding key_char_def by (intro nth_mem mod_less_divisor) (simp add: crockford_def)
  define g where "g i = map (\<lambda>j. key_char (buf ! (i * 4 + j))) [0..<4]" for i
  have "length (g i) = 4 \<and> set (g i) \<subseteq> set crockford" for i
    using mem by (auto simp: g_def)
  moreover have "key_of_bytes buf = ''SEAT-'' @ g 0 @ ''-'' @ g 1 @ ''-'' @ g 2 @ ''-'' @ g 3"
    by (simp add: key_of_bytes_def g_def upt_rec)
  ultimately show ?thesis by (intro exI [of _ "g 0"] exI [of _ "g 1"] exI [of _ "g 2"] exI [of _ "g 3"]) simp
qed

lemma card_filter_upt:
  "card {n \<in> {0..<k}. f n = c} = length (filter (\<lambda>d. d = c) (map f [0..<k]))"
  using distinct_card [of "filter (\<lambda>n. f n = c) [0..<k]"] by (simp add: filter_map comp_def)

lemma map_mod_upt: "map (\<lambda>n. xs ! (n mod length xs)) [0..<k * length xs] = concat (replicate k xs)"
proof (induction k)
  case (Suc k)
  let ?l = "length xs"
  have "map (\<lambda>n. xs ! (n mod ?l)) [k * ?l..<k * ?l + ?l] = map (\<lambda>i. xs ! ((k * ?l + i) mod ?l)) [0..<?l]"
    by (rule nth_equalityI) simp_all
  also have "\<dots> = map ((!) xs) [0..<?l]"
    by (rule map_cong) simp_all
  finally have "map (\<lambda>n. xs ! (n mod ?l)) [k * ?l..<k * ?l + ?l] = xs"
    by (simp add: map_nth)
  moreover have "[0..<Suc k * ?l] = [0..<k * ?l] @ [k * ?l..<k * ?l + ?l]"
    using upt_add_eq_append [of 0 "k * ?l" ?l] by (simp add: add.commute)
  moreover have "concat (replicate (Suc k) xs) = concat (replicate k xs) @ xs"
    by (simp flip: replicate_append_same)
  ultimately show ?case using Suc by simp
qed simp

lemma length_filter_distinct: "distinct xs \<Longrightarrow> c \<in> set xs \<Longrightarrow> length (filter (\<lambda>d. d = c) xs) = 1"
  by (induction xs) (auto simp: filter_empty_conv)

lemma card_key_char:
  assumes c: "c \<in> set crockford"
  shows "card {b. key_char b = c} = 8"
proof -
  have bij: "{b. key_char b = c} = byte_of ` {n \<in> {0..<256}. key_char (byte_of n) = c}"
    by (auto simp: image_iff) (rule_tac x = "byte_val x" in exI, simp)
  have "card {b. key_char b = c} = card {n \<in> {0..<256}. key_char (byte_of n) = c}"
    unfolding bij by (intro card_image inj_onI) (auto dest: arg_cong [where f = byte_val] simp: of_char_of)
  also have "\<dots> = length (filter (\<lambda>d. d = c) (map (\<lambda>n. key_char (byte_of n)) [0..<256]))"
    by (rule card_filter_upt)
  also have "map (\<lambda>n. key_char (byte_of n)) [0..<256] = map (\<lambda>n. crockford ! (n mod 32)) [0..<256]"
    by (rule map_cong [OF refl]) (simp add: key_char_def crockford_def of_char_of)
  also have "\<dots> = concat (replicate 8 crockford)"
    using map_mod_upt [of crockford 8] by (simp add: crockford_def)
  also have "length (filter (\<lambda>d. d = c) (concat (replicate 8 crockford))) = 8 * length (filter (\<lambda>d. d = c) crockford)"
    by (simp add: filter_concat length_concat eval_nat_numeral)
  also have "length (filter (\<lambda>d. d = c) crockford) = 1"
    by (rule length_filter_distinct [OF _ c]) (simp add: crockford_def)
  finally show ?thesis by simp
qed

text \<open>
  C39. A generated key is \<open>SEAT\<close> and four groups of four characters after a dash, all of them from
  the alphabet without I, L, O and U, and reducing a random byte to a character has no bias: each of
  the 32 characters comes from exactly eight of the 256 bytes.
\<close>

theorem license_key_format:
  "(\<exists>a b c d. key_of_bytes buf = ''SEAT-'' @ a @ ''-'' @ b @ ''-'' @ c @ ''-'' @ d \<and>
      map length [a, b, c, d] = [4, 4, 4, 4] \<and>
      set (a @ b @ c @ d) \<subseteq> set ''0123456789ABCDEFGHJKMNPQRSTVWXYZ'') \<and>
    map (\<lambda>c. card {b. key_char b = c}) ''0123456789ABCDEFGHJKMNPQRSTVWXYZ'' = replicate 32 8"
proof -
  have "map (\<lambda>c. card {b. key_char b = c}) crockford = map (\<lambda>_. 8) crockford"
    by (intro map_cong refl) (simp add: card_key_char)
  also have "\<dots> = replicate 32 8"
    by (simp add: map_replicate_const) (simp add: crockford_def)
  finally show ?thesis
    using key_of_bytes_groups [of buf] unfolding crockford_def by blast
qed

end
