(* ===== verification/Access_Theorems.thy ===== *)
theory Access_Theorems
  imports Sample
begin

text \<open>
  Who may use the dashboard: what a request without a session can reach, how long a login lasts and
  what ends it, the one account and its password.
\<close>

section \<open>Requests without a session\<close>

text \<open>
  C11. Without a valid session the dashboard is closed, whichever of the driver's calls fail: no
  product, license or setting changes, and a request for a page of the dashboard is answered with a
  redirect to setup or login (or an internal error) and leaves the whole database as it was.
\<close>

theorem dashboard_needs_session:
  assumes "quiet_notifier (svc_notifier (srv_licenses s))" and "files_only static"
    and "\<not> authenticated r w"
    and "run_state (ServeHTTP P J B static s r) w = (p, w')"
  shows "dashboard_tables (db w') = dashboard_tables (db w) \<and>
    (\<forall>rt h. find_route routes (rq_method r) (rq_path r) = Some rt \<longrightarrow>
       dashboard P J B s rt = Some h \<longrightarrow> turned_away p \<and> untouched w w')"
proof (intro conjI allI impI)
  show "dashboard_tables (db w') = dashboard_tables (db w)"
    using dashboard_frame.ServeHTTP_unauthenticated [OF assms(1,2) refl assms(3), of P J B] assms(4)
    by simp
next
  fix rt h
  assume "find_route routes (rq_method r) (rq_path r) = Some rt" "dashboard P J B s rt = Some h"
  then have "run_state (requireAuth h r) w = (p, w')"
    using assms(4) by (simp add: ServeHTTP_def dispatch_def)
  then show "turned_away p" "untouched w w'"
    using run_requireAuth_denied(1,2) [OF assms(3), of h] by simp_all
qed

theorem dashboard_needs_session_witness:
  "licenses (db (snd (run_state (ServeHTTP sample_platform sample_json sample_bcrypt no_static sample_server
     (form_request ''POST'' [''licenses'', ''L1'', ''revoke''] [])) (faulty_world full_db)))) = [sample_row]"
proof -
  obtain p w' where run: "run_state (ServeHTTP sample_platform sample_json sample_bcrypt no_static sample_server
     (form_request ''POST'' [''licenses'', ''L1'', ''revoke''] [])) (faulty_world full_db) = (p, w')"
    by fastforce
  from dashboard_needs_session [OF _ no_static_files _ run] run show ?thesis
    by (simp add: authenticated_def dashboard_tables_def)
qed

section \<open>Login and logout\<close>


lemma sample_admin [simp]:
  "first_admin free_db = Some \<lparr>adm_id = 1, adm_password_hash = replicate 16 (CHR ''s'') @ ''password'', adm_created_at = 1\<rparr>"
  "first_admin full_db = first_admin free_db"
  by (simp_all add: first_admin_def free_db_def full_db_def)

lemma sample_sessions [simp]: "sessions free_db t = (if t = ''tok'' then Some (1, 1000) else None)"
  by (simp add: free_db_def)

lemma sample_bcrypt_laws: "bcrypt_laws sample_bcrypt"
  by (auto simp: bcrypt_laws_def sample_bcrypt_def)

lemma sample_bare [simp]: "admins bare_db = []" "sessions bare_db t = None"
  by (simp_all add: bare_db_def empty_database_def)

definition login_request :: http_request where
  "login_request = form_request ''POST'' [''login''] [(''password'', ''password'')]"


lemma fresh_token_length: "length (fresh_token w) = 64"
  by (simp add: fresh_token_def)

lemma fresh_token_new [simp]: "fresh_token w \<noteq> ''tok''"
  using fresh_token_length [of w] by auto


text \<open>
  C25. Without the account's password a login sets no cookie and changes nothing, whichever of the
  driver's calls fail; a \<open>GET\<close> never logs in.
\<close>

theorem login_needs_password:
  assumes "rq_method r = ''GET'' \<or>
      (\<forall>a. first_admin (db w) = Some a \<longrightarrow> \<not> bcrypt_matches B (adm_password_hash a) (rq_form r ''password''))"
    and "run_state (handleLogin B s r) w = (p, w')"
  shows "rs_cookie p = None \<and> untouched w w'"
proof -
  have "\<not> logs_in B r (db w)" using assms(1) by (auto simp: logs_in_def)
  from run_handleLogin_out [OF this, of s] assms(2) show ?thesis by simp
qed

theorem login_needs_password_witness:
  "rs_cookie (fst (run_state (handleLogin sample_bcrypt sample_server
     (form_request ''POST'' [''login''] [(''password'', ''guess'')])) (world_of free_db))) = None"
  using login_needs_password [OF _ prod.collapse [symmetric],
      of "form_request ''POST'' [''login''] [(''password'', ''guess'')]" "world_of free_db" sample_bcrypt]
  by (simp add: sample_bcrypt_def)

text \<open>
  C26. Logging out ends the session of the request for good and no other: its token never lets a
  request in again, and every other session is as valid as before.
\<close>

theorem logout_ends_session:
  assumes "healthy w" and "rq_cookie r = Some token"
    and "run_state (handleLogout s r) w = (p, w')"
  shows "rs_cookie p = Some (cleared_cookie s) \<and> \<not> session_valid token n (db w') \<and>
    (other \<noteq> token \<longrightarrow> session_valid other n (db w') = session_valid other n (db w))"
proof -
  have p: "rs_cookie p = Some (cleared_cookie s)" and w': "db w' = without_session token (db w)"
    using assms(2,3) run_handleLogout [OF assms(1), of s r] by auto
  have c: "closes_session token (db w) (db w')"
    unfolding w' by (rule closes_without_session)
  show ?thesis
    using p dashboard_sessions.closes_for_good [OF c] dashboard_sessions.valid_closes [OF c] by simp
qed

theorem logout_ends_session_witness:
  "\<not> session_valid ''tok'' 100 (db (snd (run_state (handleLogout sample_server
     (login_request\<lparr>rq_cookie := Some ''tok''\<rparr>)) (world_of free_db)))) \<and> session_valid ''tok'' 100 free_db"
  using logout_ends_session [OF _ _ prod.collapse [symmetric],
      of "world_of free_db" "login_request\<lparr>rq_cookie := Some ''tok''\<rparr>" "''tok''" sample_server 100]
  by (simp add: session_valid_def)

section \<open>The account\<close>

lemma keeps_session_admins: "keeps (\<lambda>w. Q (admins (db w))) (session_redirect s)"
  unfolding session_redirect_def startSession_def newSessionToken_def CreateSession_def Let_def
  by (intro keeps_steps keeps_exec_sql) (auto simp: sql_insert_session_def split: if_splits)

text \<open>
  C28. There is never a second account: from a database with at most one, any sequence of requests
  served one at a time, whichever of the driver's calls fail, leaves at most one.
\<close>

theorem one_account:
  assumes "quiet_notifier (svc_notifier (srv_licenses s))" and "files_only static"
    and "length (admins (db w)) \<le> 1"
    and "run_state (serve_requests (ServeHTTP P J B static s) rs) w = (answers, w')"
  shows "length (admins (db w')) \<le> 1"
  using single_account.run_requests [OF assms(1,2), of w P J B rs] assms(3,4)
  by (simp add: one_admin_def)

definition setup_request :: "string \<Rightarrow> http_request" where
  "setup_request method =
     form_request method [''setup''] [(''password'', ''password''), (''confirm'', ''password'')]"

theorem one_account_witness:
  "\<exists>answers w'. run_state (serve_requests (ServeHTTP sample_platform sample_json sample_bcrypt no_static
       sample_server) [setup_request ''POST'', setup_request ''POST'']) (faulty_world bare_db) = (answers, w') \<and>
    length (admins (db w')) \<le> 1"
proof -
  obtain answers w' where run: "run_state (serve_requests (ServeHTTP sample_platform sample_json sample_bcrypt
      no_static sample_server) [setup_request ''POST'', setup_request ''POST'']) (faulty_world bare_db) = (answers, w')"
    by fastforce
  from one_account [OF _ _ _ run] run show ?thesis by simp
qed



text \<open>
  C15. Setup forms that are submitted at the same time create more than one account: when both are told
  that there is no account before either inserts its own, both insert one. From then on the password
  of the first one logs in, and the other account is of no use to anybody.
\<close>

theorem setup_race:
  assumes "healthy w" and "admins (db w) = []"
    and "rq_method r1 \<noteq> ''GET''" and "rq_form r1 ''password'' = rq_form r1 ''confirm''"
    and "8 \<le> length (rq_form r1 ''password'')"
    and "rq_method r2 \<noteq> ''GET''" and "rq_form r2 ''password'' = rq_form r2 ''confirm''"
    and "8 \<le> length (rq_form r2 ''password'')"
    and "\<And>salt. bcrypt_hash B salt (rq_form r1 ''password'') = Inr (h1 salt)"
    and "\<And>salt. bcrypt_hash B salt (rq_form r2 ''password'') = Inr (h2 salt)"
    and "run_state HasAdmin w = (a1, w1)" and "run_state HasAdmin w1 = (a2, w2)"
    and "run_state (setup_rest B s r1 a1) w2 = (p1, w3)" and "run_state (setup_rest B s r2 a2) w3 = (p2, w4)"
  shows "length (admins (db w4)) = 2 \<and>
    (logs_in B q (db w4) \<longleftrightarrow>
      rq_method q \<noteq> ''GET'' \<and> bcrypt_matches B (h1 (stake 16 (entropy w))) (rq_form q ''password''))"
proof -
  have w: "a1 = Inr False" "a2 = Inr False" "w2 = w"
    using assms(1,2,11,12) by (simp_all add: run_HasAdmin)
  let ?h1 = "h1 (stake 16 (entropy w))" and ?h2 = "h2 (stake 16 (entropy w3))"
  have "run_state (session_redirect s) (after_setup ?h1 w) = (p1, w3)"
    using assms(13) run_setup_rest [OF assms(1,3-5,9)] w by simp
  moreover have "healthy (after_setup ?h1 w)" using assms(1) by (simp add: after_setup_def with_admin_def)
  ultimately have w3: "healthy w3" "admins (db w3) = admins (db (after_setup ?h1 w))"
      "admin_seq (db w3) = admin_seq (db (after_setup ?h1 w))"
    using run_session_redirect_admins by blast+
  have "run_state (session_redirect s) (after_setup ?h2 w3) = (p2, w4)"
    using assms(14) run_setup_rest [OF w3(1) assms(6-8,10)] w(2) by simp
  moreover have "healthy (after_setup ?h2 w3)" using w3(1) by (simp add: after_setup_def with_admin_def)
  ultimately have "admins (db w4) = admins (db (after_setup ?h2 w3))"
    using run_session_redirect_admins(2) by blast
  then have adm: "admins (db w4) =
      [new_admin (admin_seq (db w) + 1) ?h1 (shd (clock w)), new_admin (admin_seq (db w) + 2) ?h2 (shd (clock w3))]"
    using w3 assms(2) by (simp add: after_setup_def with_admin_def new_admin_def)
  then have "first_admin (db w4) = Some (new_admin (admin_seq (db w) + 1) ?h1 (shd (clock w)))"
    by (simp add: first_admin_def new_admin_def)
  with adm show ?thesis by (simp add: logs_in_def new_admin_def)
qed

definition other_setup :: http_request where
  "other_setup = form_request ''POST'' [''setup''] [(''password'', ''letmeinplease''), (''confirm'', ''letmeinplease'')]"

theorem setup_race_witness:
  "\<exists>a1 a2 w1 w2 p1 p2 w3 w4. run_state HasAdmin (world_of bare_db) = (a1, w1) \<and> run_state HasAdmin w1 = (a2, w2) \<and>
    run_state (setup_rest sample_bcrypt sample_server (setup_request ''POST'') a1) w2 = (p1, w3) \<and>
    run_state (setup_rest sample_bcrypt sample_server other_setup a2) w3 = (p2, w4) \<and>
    length (admins (db w4)) = 2"
proof -
  obtain a1 w1 where 1: "run_state HasAdmin (world_of bare_db) = (a1, w1)" by fastforce
  obtain a2 w2 where 2: "run_state HasAdmin w1 = (a2, w2)" by fastforce
  obtain p1 w3 where 3: "run_state (setup_rest sample_bcrypt sample_server (setup_request ''POST'') a1) w2 = (p1, w3)"
    by fastforce
  obtain p2 w4 where 4: "run_state (setup_rest sample_bcrypt sample_server other_setup a2) w3 = (p2, w4)"
    by fastforce
  have "length (admins (db w4)) = 2"
    using setup_race [OF _ _ _ _ _ _ _ _ _ _ 1 2 3 4, where q = login_request
        and ?h1.0 = "\<lambda>salt. salt @ ''password''" and ?h2.0 = "\<lambda>salt. salt @ ''letmeinplease''"]
    by (simp add: setup_request_def other_setup_def sample_bcrypt_def)
  with 1 2 3 4 show ?thesis by blast
qed

text \<open>
  C37. A \<open>HEAD\<close> request creates the account as well: the routes of \<open>GET\<close> answer \<open>HEAD\<close>, and the
  handler of setup treats every method but \<open>GET\<close> as a submitted form. So does login.
\<close>

theorem head_request_submits_forms:
  assumes "healthy w" and "admins (db w) = []"
    and "rq_method r = ''HEAD''" and "rq_path r = [''setup'']"
    and "rq_form r ''password'' = rq_form r ''confirm''" and "8 \<le> length (rq_form r ''password'')"
    and "bcrypt_hash B (stake 16 (entropy w)) (rq_form r ''password'') = Inr h"
    and "run_state (ServeHTTP P J B static s r) w = (p, w')"
    and "rq_method q = ''HEAD''" and "rq_path q = [''login'']" and "logs_in B q (db v)" and "healthy v"
  shows "length (admins (db w')) = 1 \<and>
    run_state (ServeHTTP P J B static s q) v = run_state (session_redirect s) v"
proof -
  have route: "find_route routes ''HEAD'' [''setup''] = Some Setup"
    "find_route routes ''HEAD'' [''login''] = Some Login"
    by (simp_all add: routes_def match_path_def pattern_method_def method_matches_def)
  have "run_state (session_redirect s) (after_setup h w) = (p, w')"
    using assms(8) run_handleSetup [OF assms(1,2) _ assms(5-7)] assms(3,4)
    by (simp add: ServeHTTP_def dispatch_def route)
  moreover have "length (admins (db (after_setup h w))) = 1"
    using assms(2) by (simp add: after_setup_def with_admin_def)
  ultimately have "length (admins (db w')) = 1"
    using triple_snd [OF keeps_session_admins, of "\<lambda>a. length a = 1" "after_setup h w" s] by simp
  with assms(9-12) show ?thesis
    by (simp add: ServeHTTP_def dispatch_def route run_handleLogin_in)
qed

theorem head_request_submits_forms_witness:
  "length (admins (db (snd (run_state (ServeHTTP sample_platform sample_json sample_bcrypt no_static sample_server
     (setup_request ''HEAD'')) (world_of bare_db))))) = 1"
  using head_request_submits_forms [OF _ _ _ _ _ _ _ prod.collapse [symmetric],
      where w = "world_of bare_db" and r = "setup_request ''HEAD''" and B = sample_bcrypt
        and q = "form_request ''HEAD'' [''login''] [(''password'', ''password'')]" and v = "world_of free_db"]
  by (simp add: setup_request_def logs_in_def sample_bcrypt_def)

text \<open>
  C29. Changing the password with the current one makes the new one the password of the account;
  the sessions are left as they were, also those of other browsers.
\<close>

theorem password_change:
  assumes "healthy w" and "bcrypt_laws B" and "db_ok (db w)" and "first_admin (db w) = Some a"
    and "rq_method r = ''POST''"
    and "bcrypt_matches B (adm_password_hash a) (rq_form r ''current_password'')"
    and "rq_form r ''new_password'' = rq_form r ''confirm_password''"
    and "8 \<le> length (rq_form r ''new_password'')" and "length (rq_form r ''new_password'') \<le> 72"
    and "run_state (handleChangePassword B s r) w = (p, w')"
  shows "p = http_Redirect ''/settings'' \<and> sessions (db w') = sessions (db w) \<and>
    (rq_method q \<noteq> ''GET'' \<and> rq_form q ''password'' = rq_form r ''new_password'' \<longrightarrow> logs_in B q (db w'))"
proof -
  obtain h where h: "bcrypt_hash B (stake 16 (entropy w)) (rq_form r ''new_password'') = Inr h"
    "bcrypt_matches B h (rq_form r ''new_password'')"
    using assms(2,9) unfolding bcrypt_laws_def by (metis length_stake)
  have "p = http_Redirect ''/settings''" "db w' = with_password h (db w)"
    using assms(10) run_handleChangePassword [OF assms(1,5,4,6-8) h(1), of s] by auto
  moreover have "first_admin (with_password h (db w)) = Some (a\<lparr>adm_password_hash := h\<rparr>)"
    using first_admin_with_password [OF _ assms(4)] assms(3) by (simp add: db_ok_defs)
  ultimately show ?thesis
    using h(2) by (simp add: logs_in_def with_password_def)
qed

definition password_request :: http_request where
  "password_request = form_request ''POST'' [''settings'', ''password'']
     [(''current_password'', ''password''), (''new_password'', ''correct horse''),
      (''confirm_password'', ''correct horse'')]"

theorem password_change_witness:
  "logs_in sample_bcrypt (form_request ''POST'' [''login''] [(''password'', ''correct horse'')])
     (db (snd (run_state (handleChangePassword sample_bcrypt sample_server password_request) (world_of free_db))))"
  using password_change [OF _ sample_bcrypt_laws _ _ _ _ _ _ _ prod.collapse [symmetric],
      of "world_of free_db" _ password_request sample_server
        "form_request ''POST'' [''login''] [(''password'', ''correct horse'')]"]
  by (simp add: password_request_def sample_bcrypt_def)

end
