(* ===== verification/Dashboard.thy ===== *)
theory Dashboard
  imports Web_Sessions
begin

text \<open>
  What the dashboard's handlers do to licenses while the driver works: creating, revoking, and the
  offline activation, whose result travels to the next page in the query of a redirect.
  \<open>QueryUnescape\<close> is the decoding of \<open>net/url\<close> that the next page reads it with.
\<close>

section \<open>Query escapes\<close>

fun QueryUnescape :: "string \<Rightarrow> string option" where
  "QueryUnescape [] = Some []"
| "QueryUnescape (c # cs) =
     (if c = CHR ''%'' then
        (case cs of
           a # b # rest \<Rightarrow>
             (case (hex_value a, hex_value b) of
                (Some x, Some y) \<Rightarrow> map_option ((#) (byte_of (16 * x + y))) (QueryUnescape rest)
              | _ \<Rightarrow> None)
         | _ \<Rightarrow> None)
      else map_option ((#) (if c = CHR ''+'' then CHR '' '' else c)) (QueryUnescape cs))"

lemma hex_value_upper: "n < 16 \<Longrightarrow> hex_value (upper_hex n) = Some n"
  using less_16 [of n] by (auto simp: hex_value_def upper_hex_def in_range_def)

lemma upper_hex_mem: "n < 16 \<Longrightarrow> upper_hex n \<in> set ''0123456789ABCDEF''"
  unfolding upper_hex_def by (rule nth_mem) simp

lemma unescape_escape_char:
  "QueryUnescape (escape_char c @ s) = map_option ((#) c) (QueryUnescape s)"
proof -
  have "byte_of (16 * (byte_val c div 16) + byte_val c mod 16) = c"
    by simp
  moreover have "unreserved c \<Longrightarrow> c \<noteq> CHR ''%'' \<and> c \<noteq> CHR ''+''"
    by (auto simp: unreserved_def in_range_def)
  ultimately show ?thesis
    by (auto simp: escape_char_def hex_value_upper)
qed

lemma unescape_escape: "QueryUnescape (urlEscape s) = Some s"
  by (induction s) (simp_all add: urlEscape_def unescape_escape_char)

text \<open>Nothing in an escaped text ends the value of a query or the query itself.\<close>

definition query_safe :: "char \<Rightarrow> bool" where
  "query_safe c \<longleftrightarrow> unreserved c \<or> c = CHR ''%'' \<or> c = CHR ''+''"

lemma upper_hex_unreserved: "n < 16 \<Longrightarrow> unreserved (upper_hex n)"
  using upper_hex_mem [of n] by (auto simp: unreserved_def in_range_def)

lemma escape_char_safe: "list_all query_safe (escape_char c)"
  by (simp add: escape_char_def query_safe_def upper_hex_unreserved)

lemma urlEscape_safe: "list_all query_safe (urlEscape s)"
  using escape_char_safe by (induction s) (auto simp: urlEscape_def)

section \<open>New licenses\<close>

text \<open>The row that \<open>CreateLicense\<close> inserts, and the world it leaves.\<close>

definition new_row :: "create_license_params \<Rightarrow> world \<Rightarrow> license_row" where
  "new_row p w =
     \<lparr>row_id = shd (uuids w), row_product_id = clp_product_id p,
      row_key = key_of_bytes (stake 16 (entropy w)), row_customer_name = clp_customer_name p,
      row_customer_email = clp_customer_email p, row_max_devices = clp_max_devices p,
      row_expires_at = clp_expires_at p, row_revoked_at = None, row_created_at = shd (clock w)\<rparr>"

definition drawn :: "world \<Rightarrow> world" where
  "drawn w = w\<lparr>entropy := sdrop 16 (entropy w), uuids := stl (uuids w), clock := stl (clock w)\<rparr>"

lemma drawn_sel [simp]: "db (drawn w) = db w" "healthy (drawn w) = healthy w"
  by (simp_all add: drawn_def)

definition row_fits :: "license_row \<Rightarrow> database \<Rightarrow> bool" where
  "row_fits r d \<longleftrightarrow> row_id r \<notin> row_id ` set (licenses d) \<and> row_key r \<notin> row_key ` set (licenses d) \<and>
     row_product_id r \<in> prod_id ` set (products d)"

lemma list_ex_image: "list_ex (\<lambda>r. f r = x) rs \<longleftrightarrow> x \<in> f ` set rs"
  by (auto simp: list_ex_iff)

lemma insert_fitting_row:
  "row_fits r d \<Longrightarrow> sql_insert_license r d = Inr ((), d\<lparr>licenses := licenses d @ [r]\<rparr>)"
  by (simp add: row_fits_def sql_insert_license_def list_ex_image)

lemma run_CreateLicense:
  assumes "healthy w" and "row_fits (new_row p w) (db w)"
  shows "run_state (CreateLicense p) w =
    (Inr (license_of_row '''' (new_row p w)),
     (drawn w)\<lparr>db := (db w)\<lparr>licenses := licenses (db w) @ [new_row p w]\<rparr>\<rparr>)"
  using assms insert_fitting_row [OF assms(2)]
  by (simp add: CreateLicense_def GenerateLicenseKey_def Let_def run_exec_sql_healthy drawn_def new_row_def
      license_of_row_def)

text \<open>A key that is taken is reported as \<open>ErrKeyExists\<close>, and the table stays as it is.\<close>

lemma run_CreateLicense_key_taken:
  assumes "healthy w" and "row_id (new_row p w) \<notin> row_id ` set (licenses (db w))"
    and "row_key (new_row p w) \<in> row_key ` set (licenses (db w))"
  shows "run_state (CreateLicense p) w = (Inl ErrKeyExists, drawn w)"
proof -
  have "sql_insert_license (new_row p w) (db w) = Inl (unique_error ''licenses.key'' ''2067'')"
    using assms(2,3) by (simp add: sql_insert_license_def list_ex_image)
  moreover have "strings_contains (error_text (unique_error ''licenses.key'' ''2067''))
      ''UNIQUE constraint failed: licenses.key''"
    by code_simp
  ultimately show ?thesis
    using assms(1)
    by (simp add: CreateLicense_def GenerateLicenseKey_def Let_def run_exec_sql_healthy drawn_def new_row_def)
qed

lemma run_GetProduct [run_simps]:
  "healthy w \<Longrightarrow> run_state (GetProduct i) w =
    ((case find (\<lambda>p. prod_id p = i) (products (db w)) of None \<Rightarrow> Inl ErrNotFound | Some p \<Rightarrow> Inr p), w)"
  by (simp add: GetProduct_def run_exec_sql_healthy sql_select_product_def split: option.split)

definition form_params :: "string \<Rightarrow> http_request \<Rightarrow> create_license_params" where
  "form_params productID r =
     \<lparr>clp_product_id = productID, clp_customer_name = rq_form r ''customer_name'',
      clp_customer_email = rq_form r ''customer_email'',
      clp_max_devices = form_max_devices (rq_form r ''max_devices''),
      clp_expires_at = form_expires_at (rq_form r ''expires_at'')\<rparr>"

lemma run_handleLicenseCreate:
  assumes "healthy w" and "row_fits (new_row (form_params i r) w) (db w)"
  shows "run_state (handleLicenseCreate s i r) w =
    (http_Redirect (''/licenses/'' @ row_id (new_row (form_params i r) w)),
     (drawn w)\<lparr>db := (db w)\<lparr>licenses := licenses (db w) @ [new_row (form_params i r) w]\<rparr>\<rparr>)"
proof -
  have "i \<in> prod_id ` set (products (db w))"
    using assms(2) by (simp add: row_fits_def new_row_def form_params_def)
  then obtain p where "find (\<lambda>p. prod_id p = i) (products (db w)) = Some p"
    by (cases "find (\<lambda>p. prod_id p = i) (products (db w))") (auto simp: find_None_iff)
  with run_CreateLicense [OF assms] assms(1) show ?thesis
    by (simp add: handleLicenseCreate_def run_GetProduct form_params_def)
qed

lemma form_max_devices_pos: "1 \<le> form_max_devices raw"
  by (simp add: form_max_devices_def split: sum.split)

lemma form_expires_at_day:
  "parse_date raw = Inr t \<Longrightarrow> form_expires_at raw = Some (t + day_length)"
  by (auto simp: form_expires_at_def parse_date_def day_length_def)

end
