(* ===== verification/Dashboard_Theorems.thy ===== *)
theory Dashboard_Theorems
  imports Sample Dashboard
begin

text \<open>
  The API's answers and the dashboard's work on licenses: the status codes of an activation, the
  form of a new license and its dates, the finality of a revocation, and the way an offline
  activation comes back to the page.
\<close>

section \<open>The API\<close>

text \<open>
  C9. What \<open>POST /v1/activate\<close> answers, and what it does to the seats: 400 for a body that cannot be
  read or lacks the key or the device, 404 for an unknown key, 403 for a license that is not active,
  409 for a full one, and else 200 with the envelope (or 500 when it cannot be signed). Only the last
  takes a seat.
\<close>

theorem api_activate_answers:
  assumes "healthy w" and "db_ok (db w)" and "quiet_notifier (svc_notifier (srv_licenses s))"
    and "rq_method r = ''POST''" and "rq_path r = [''v1'', ''activate'']"
    and "run_state (ServeHTTP P J B static s r) w = (p, w')"
  shows "case decode_activate J (rq_body r) of
      Inl err \<Rightarrow> p = writeAPIError 400 ''invalid_request'' (error_text err) \<and> w' = w
    | Inr req \<Rightarrow>
        if req_license_key req = '''' \<or> req_device_id req = '''' then
          p = writeAPIError 400 ''invalid_request'' ''license_key and device_id are required'' \<and> w' = w
        else
          (case license_by_key (req_license_key req) (db w) of
             None \<Rightarrow> rs_status p = 404 \<and> seats (db w') = seats (db w)
           | Some lic \<Rightarrow>
               let now = shd (clock w); seat = (lic_id lic, req_device_id req);
                   n = seat_count (lic_id lic) (db w) in
               if Status lic now \<noteq> ''active'' then rs_status p = 403 \<and> seats (db w') = seats (db w)
               else if seat \<notin> seats (db w) \<and> lic_max_devices lic \<le> n
               then rs_status p = 409 \<and> seats (db w') = seats (db w)
               else
                 p = reply_of JsonEnvelope (sign P (srv_licenses s) lic (req_device_id req)
                       (if seat \<in> seats (db w) then n else n + 1) now False) \<and>
                 seats (db w') = insert seat (seats (db w)))"
proof -
  have run: "run_state (handleAPIActivate P J s r) w = (p, w')"
    using assms(6) by (simp add: ServeHTTP_activate [OF assms(4,5)])
  show ?thesis
  proof (cases "well_formed_request (decode_activate J (rq_body r))")
    case False
    with run run_api_refused(1) [OF False, of P s w] show ?thesis
      by (auto simp: refusal_def invalid_request_def well_formed_request_def split: sum.split)
  next
    case True
    then obtain req where req: "decode_activate J (rq_body r) = Inr req"
        "req_license_key req \<noteq> ''''" "req_device_id req \<noteq> ''''"
      by (auto simp: well_formed_request_def split: sum.splits)
    obtain e w1 where act: "run_state (Activate P (srv_licenses s) (req_license_key req) (req_device_id req)
        (req_device_name req)) w = (e, w1)" by fastforce
    then have p: "p = reply_of JsonEnvelope e" "w' = w1"
      using run run_api(1) [OF req] by simp_all
    from run_activate_abs [OF assms(1-3) act [unfolded Activate_def]] show ?thesis
      by (auto simp: req p abs_activate_def Let_def reply_of_def mapLicenseError_cases status_error_def
          seat_count_abs [OF assms(2)] insert_absorb split: option.split if_splits)
  qed
qed

theorem api_activate_answers_witness:
  "rs_status (fst (run_state (ServeHTTP sample_platform sample_json sample_bcrypt no_static sample_server
     (api_request ''activate'' ''SEAT-1'' ''phone'')) (world_of full_db))) = 409"
  using api_activate_answers [OF _ _ _ _ _ prod.collapse [symmetric],
      where w = "world_of full_db" and r = "api_request ''activate'' ''SEAT-1'' ''phone''"
        and J = sample_json and s = sample_server]
  by (simp add: Let_def)

section \<open>New licenses\<close>

text \<open>
  C34. The license form: a license is added for the product of the page, with a key made of random
  bytes, at least one device whatever was entered, and no revocation; an entered date makes it valid
  through the end of that day and no longer.
\<close>

theorem license_form:
  assumes "healthy w" and "row_fits (new_row (form_params i r) w) (db w)"
    and "run_state (handleLicenseCreate s i r) w = (p, w')"
  shows "\<exists>row. licenses (db w') = licenses (db w) @ [row] \<and> p = http_Redirect (''/licenses/'' @ row_id row) \<and>
    row_product_id row = i \<and> row_key row = key_of_bytes (stake 16 (entropy w)) \<and>
    1 \<le> row_max_devices row \<and>
    (\<forall>n. Atoi (rq_form r ''max_devices'') = Inr n \<and> 1 \<le> n \<longrightarrow> row_max_devices row = n) \<and>
    (\<forall>t now. parse_date (rq_form r ''expires_at'') = Inr t \<longrightarrow>
       (Status (license_of_row name row) now = ''active'' \<longleftrightarrow> now \<le> t + day_length))"
proof -
  let ?row = "new_row (form_params i r) w"
  have w: "p = http_Redirect (''/licenses/'' @ row_id ?row)" "licenses (db w') = licenses (db w) @ [?row]"
    using assms(3) run_handleLicenseCreate [OF assms(1,2), of s] by auto
  show ?thesis
  proof (rule exI [of _ ?row], intro conjI allI impI)
    fix t now assume t: "parse_date (rq_form r ''expires_at'') = Inr t"
    have "lic_expires_at (license_of_row name ?row) = Some (t + day_length)"
      "lic_revoked_at (license_of_row name ?row) = None"
      using form_expires_at_day [OF t] by (simp_all add: new_row_def form_params_def)
    then show "Status (license_of_row name ?row) now = ''active'' \<longleftrightarrow> now \<le> t + day_length"
      by (simp add: Status_active_iff)
  qed (use w form_max_devices_pos in \<open>auto simp: new_row_def form_params_def form_max_devices_def\<close>)
qed

definition license_request :: "string \<Rightarrow> http_request" where
  "license_request date =
     form_request ''POST'' [''products'', ''P1'', ''licenses'']
       [(''customer_name'', ''Grace''), (''max_devices'', ''-3''), (''expires_at'', date)]"

lemma key_of_bytes_length: "length (key_of_bytes buf) = 24"
  by (simp add: key_of_bytes_def length_concat upt_rec)

lemma sample_row_fits: "row_fits (new_row (form_params ''P1'' r) (world_of free_db)) free_db"
proof -
  have "row_key (new_row (form_params ''P1'' r) (world_of free_db)) \<noteq> ''SEAT-1''"
    using key_of_bytes_length [of "stake 16 (entropy (world_of free_db))"]
    by (auto simp: new_row_def)
  then show ?thesis
    by (simp add: row_fits_def) (simp add: new_row_def form_params_def sample_product_def)
qed

theorem license_form_witness:
  "\<exists>row. licenses (db (snd (run_state (handleLicenseCreate sample_server ''P1'' (license_request ''2026-12-31''))
      (world_of free_db)))) = [sample_row, row] \<and> 1 \<le> row_max_devices row"
proof -
  obtain p w' where run: "run_state (handleLicenseCreate sample_server ''P1'' (license_request ''2026-12-31''))
      (world_of free_db) = (p, w')" by fastforce
  have "row_fits (new_row (form_params ''P1'' (license_request ''2026-12-31'')) (world_of free_db)) (db (world_of free_db))"
    using sample_row_fits by simp
  from license_form [OF _ this run, of "''Editor''"] run show ?thesis by auto
qed

text \<open>
  C35. The dates of the dashboard: a date that the form accepts is written back as it was read, but
  the page of the license shows the day after it, the midnight at which the license ends.
\<close>

theorem expiry_shows_next_day:
  assumes "healthy w" and "parse_date raw = Inr t" and "lic_expires_at l = form_expires_at raw"
    and "run_state (toLicenseView l) w = (r, w')"
  shows "\<exists>view. r = Inr view \<and> format_date t = raw \<and>
    lv_expires_text view = format_date (t + day_length) \<and>
    lv_status_text view = Status l (shd (clock w)) \<and>
    lv_device_count view = seat_count (lic_id l) (db w)"
  using assms(4) format_parse_date [OF assms(2)] form_expires_at_day [OF assms(2)] assms(1,3)
  by (auto simp: toLicenseView_def run_ActiveDeviceCount Let_def)

theorem expiry_shows_next_day_witness:
  "\<exists>view w'. run_state (toLicenseView (sample_license\<lparr>lic_expires_at := form_expires_at ''2026-12-31''\<rparr>))
      (world_of free_db) = (Inr view, w') \<and> lv_expires_text view = ''2027-01-01''"
proof -
  obtain r w' where run: "run_state (toLicenseView (sample_license\<lparr>lic_expires_at := form_expires_at ''2026-12-31''\<rparr>))
      (world_of free_db) = (r, w')" by fastforce
  have date: "parse_date ''2026-12-31'' = Inr 1798675200000000000"
    "format_date (1798675200000000000 + day_length) = ''2027-01-01''"
    by code_simp+
  from expiry_shows_next_day [OF _ date(1) _ run] run show ?thesis by (auto simp: date(2))
qed

section \<open>Revocation\<close>

text \<open>
  C10. Revocation is final: once the row of a license is revoked, no sequence of requests, whichever
  of the driver's calls fail, makes its key good for a token again.
\<close>

theorem revocation_is_final:
  assumes "quiet_notifier (svc_notifier (srv_licenses s))" and "files_only static" and "db_ok (db w)"
    and "row \<in> set (licenses (db w))" and "row_revoked_at row = Some at"
    and "run_state (serve_requests (ServeHTTP P J B static s) rs) w = (answers, w')"
    and "healthy v" and "db v = db w'"
    and "run_state (activate P' s' (row_key row) x name off) v = (r, v')"
    and "run_state (Validate P' s' (row_key row) x) v = (r2, v2)"
  shows "(\<exists>e. r = Inl e) \<and> (\<exists>e. r2 = Inl e) \<and> db v' = db w' \<and> db v2 = db w'"
proof -
  have "license_kept row (db w)"
    using assms(4) by (auto simp: license_kept_def intro!: exI [of _ "row_revoked_at row"])
  then have kept: "license_kept row (db w')" "db_ok (db w')"
    using kept_license.run_requests [OF assms(1,2), of row w P J B rs]
      whole_server.run_requests [OF assms(1-3), of P J B rs] assms(6) by simp_all
  then have row: "row \<in> set (licenses (db w'))"
    using assms(5) by (auto simp: license_kept_def) (metis license_row.surjective license_row.update_convs(8))
  show ?thesis
  proof (cases "license_by_key (row_key row) (db v)")
    case None
    with assms(7-10) show ?thesis by (auto simp: activate_def Validate_def run_GetLicenseByKey)
  next
    case (Some lic)
    then obtain q where q: "q \<in> set (licenses (db w'))" "row_key q = row_key row"
        "row_revoked_at q = lic_revoked_at lic"
      using license_by_key_row assms(8) by fastforce
    then have "q = row"
      using row kept(2) by (auto simp: db_ok_defs distinct_map dest: inj_onD)
    then have "Status lic (shd (clock v)) = ''revoked''"
      using q(3) assms(5) by (intro Status_revoked [of _ at]) simp
    with Some assms(7-10) show ?thesis by (auto simp: activate_def Validate_def run_GetLicenseByKey)
  qed
qed

definition gone_row :: license_row where
  "gone_row = sample_row\<lparr>row_revoked_at := Some 50\<rparr>"

definition gone_db :: database where
  "gone_db = full_db\<lparr>licenses := [gone_row]\<rparr>"

lemma gone_db_ok: "db_ok gone_db"
  by (auto simp: gone_db_def gone_row_def db_ok_defs devices_ok_def admins_ok_def seat_count_def
      holds_seat_def sample_dbs)

theorem revocation_is_final_witness:
  "\<exists>answers w'. run_state (serve_requests (ServeHTTP sample_platform sample_json sample_bcrypt no_static
       sample_server) [api_request ''activate'' ''SEAT-1'' ''phone'']) (faulty_world gone_db) = (answers, w') \<and>
    (\<exists>e. fst (run_state (Validate sample_platform hooked_service ''SEAT-1'' ''laptop'') (reading_world (db w'))) = Inl e)"
proof -
  obtain answers w' where run: "run_state (serve_requests (ServeHTTP sample_platform sample_json sample_bcrypt
      no_static sample_server) [api_request ''activate'' ''SEAT-1'' ''phone'']) (faulty_world gone_db) = (answers, w')"
    by fastforce
  have row: "row_key gone_row = ''SEAT-1''" "row_revoked_at gone_row = Some 50" "licenses gone_db = [gone_row]"
    by (simp_all add: gone_row_def gone_db_def)
  from revocation_is_final [OF _ _ _ _ row(2) run _ _ prod.collapse [symmetric] prod.collapse [symmetric],
      of "reading_world (db w')" sample_platform hooked_service] gone_db_ok run
  show ?thesis by (auto simp: row)
qed

section \<open>Offline activations\<close>

text \<open>
  C36. The page of an offline activation: the envelope that the service signs is written into the
  query of the redirect so that no character of it ends the query, and reading the query gives the
  envelope back; a refusal is shown as a message instead.
\<close>

theorem offline_result_reaches_page:
  assumes "healthy w" and "license_by_id i (db w) = Some lic"
    and "unmarshal_offline J (rq_form r ''request_json'') = Inr req" and "off_device_id req \<noteq> ''''"
    and "run_state (OfflineActivate P (srv_licenses s) (lic_key lic) (off_device_id req) (off_device_name req)) w = (e, w1)"
    and "run_state (handleLicenseOfflineActivate P J s i r) w = (p, w')"
  shows "w' = w1 \<and>
    (case e of
       Inl err \<Rightarrow> rs_location p =
         Some (''/licenses/'' @ i @ ''?offline_result='' @ urlEscape (offline_error_message err))
     | Inr env \<Rightarrow>
         (case indent_envelope J env of
            Inl _ \<Rightarrow> rs_status p = 500
          | Inr out \<Rightarrow>
              \<exists>q. rs_location p = Some (''/licenses/'' @ i @ ''?offline_result='' @ q) \<and>
                list_all query_safe q \<and> QueryUnescape q = Some out))"
  using assms
  by (cases e)
    (auto simp: handleLicenseOfflineActivate_def run_GetLicense offline_redirect_def urlEscape_safe
      unescape_escape split: sum.splits intro!: exI [of _ "urlEscape _"])

definition offline_form :: http_request where
  "offline_form = form_request ''POST'' [''licenses'', ''L1'', ''offline-activate''] [(''request_json'', json_indented (json_map
     [(''device_id'', ''phone''), (''device_name'', '''')]))]"

theorem offline_result_reaches_page_witness:
  "\<exists>q out. rs_location (fst (run_state (handleLicenseOfflineActivate sample_platform sample_json sample_server ''L1''
      offline_form) (world_of free_db))) = Some (''/licenses/L1?offline_result='' @ q) \<and> QueryUnescape q = Some out"
proof -
  obtain env w1 where act: "run_state (activate sample_platform hooked_service ''SEAT-1'' ''phone'' '''' True)
      (world_of free_db) = (Inr env, w1)"
    by (rule sample_activate_new)
  obtain p w' where run: "run_state (handleLicenseOfflineActivate sample_platform sample_json sample_server ''L1''
      offline_form) (world_of free_db) = (p, w')" by fastforce
  have "unmarshal_offline sample_json (rq_form offline_form ''request_json'') =
      Inr \<lparr>off_device_id = ''phone'', off_device_name = ''''\<rparr>"
    by (simp add: offline_form_def sample_json_def)
      (rule unmarshal_offline_request [of _ _ _ "''''"], simp_all add: request_members_def json_whole_indented)
  from offline_result_reaches_page [OF _ _ this _ _ run, of sample_license "Inr env" w1] act run
  show ?thesis
    by (auto simp: sample_json_def OfflineActivate_def)
qed

section \<open>The last date of the form\<close>

text \<open>The row of a new license, as the queries find it.\<close>

lemma new_row_lookup:
  assumes "row_fits row d"
  shows "\<exists>lic. license_where (\<lambda>l. row_key l = row_key row) (d\<lparr>licenses := licenses d @ [row]\<rparr>) = Some lic \<and>
      license_where (\<lambda>l. row_id l = row_id row) (d\<lparr>licenses := licenses d @ [row]\<rparr>) = Some lic \<and>
      lic \<in> set (license_select (\<lambda>l. row_product_id l = row_product_id row) (d\<lparr>licenses := licenses d @ [row]\<rparr>)) \<and>
      lic_expires_at lic = row_expires_at row"
proof -
  let ?d = "d\<lparr>licenses := licenses d @ [row]\<rparr>"
  have "find (\<lambda>p. prod_id p = row_product_id row) (products d) \<noteq> None"
    using assms by (auto simp: row_fits_def find_None_iff)
  then obtain lic where lic: "join_product ?d row = Some lic" "lic_expires_at lic = row_expires_at row"
    by (auto simp: join_product_def)
  have "filter (\<lambda>l. row_key l = row_key row) (licenses ?d) = [row]"
    "filter (\<lambda>l. row_id l = row_id row) (licenses ?d) = [row]"
    using assms by (auto simp: row_fits_def filter_empty_conv image_iff)
  with lic show ?thesis
    by (auto simp: license_where_def license_select_def List.map_filter_simps set_map_filter_iff)
qed

text \<open>
  C33. A license dated to the last day of the year 9999 is accepted by the form and makes its product
  unusable in the dashboard. It ends in the year 10000; where the driver cannot read such a time back,
  the row is stored all the same, and from then on every activation and validation of the license fails
  with the error of the driver before anything is written, and the pages of the license and of the
  whole product answer with an internal error.
\<close>

theorem last_date_unusable:
  assumes "healthy w" and "row_fits (new_row (form_params i r) w) (db w)"
    and "rq_form r ''expires_at'' = ''9999-12-31''" and "unreadable w (day_number 10000 1 1 * day_length) = Some msg"
    and "run_state (handleLicenseCreate s i r) w = (p, w1)"
  shows "p = http_Redirect (''/licenses/'' @ row_id (new_row (form_params i r) w)) \<and>
    licenses (db w1) = licenses (db w) @ [new_row (form_params i r) w] \<and>
    run_state (activate P sv (row_key (new_row (form_params i r) w)) x name off) w1 = (Inl (DriverError msg), w1) \<and>
    run_state (Validate P sv (row_key (new_row (form_params i r) w)) x) w1 = (Inl (DriverError msg), w1) \<and>
    rs_status (fst (run_state (handleLicenseDetail s (row_id (new_row (form_params i r) w)) q) w1)) = 500 \<and>
    rs_status (fst (run_state (handleProductDetail s i q) w1)) = 500"
proof -
  let ?row = "new_row (form_params i r) w"
  let ?d = "(db w)\<lparr>licenses := licenses (db w) @ [?row]\<rparr>"
  have w1: "p = http_Redirect (''/licenses/'' @ row_id ?row)" "w1 = (drawn w)\<lparr>db := ?d\<rparr>"
    using assms(5) run_handleLicenseCreate [OF assms(1,2)] by simp_all
  then have run1: "faultless w1" "db w1 = ?d" "unreadable w1 = unreadable w"
    using assms(1) by (simp_all add: drawn_def)
  have "form_expires_at ''9999-12-31'' = Some (day_number 10000 1 1 * day_length)" by code_simp
  then have "row_expires_at ?row = Some (day_number 10000 1 1 * day_length)"
    using assms(3) by (simp add: new_row_def form_params_def)
  then obtain lic where lic: "license_where (\<lambda>l. row_key l = row_key ?row) ?d = Some lic"
      "license_where (\<lambda>l. row_id l = row_id ?row) ?d = Some lic"
      "lic \<in> set (license_select (\<lambda>l. row_product_id l = row_product_id ?row) ?d)"
      "lic_expires_at lic = Some (day_number 10000 1 1 * day_length)"
    using new_row_lookup [OF assms(2)] by auto
  have i: "row_product_id ?row = i" by (simp add: new_row_def form_params_def)
  have scan: "run_state (scanLicense lic) w1 = (Inl (DriverError msg), w1)" "scan_fails w1 lic"
    using run_scanLicense_expiry [OF lic(4)] assms(4) run1(3) lic(4)
    by (auto simp: scan_fails_def scan_times_def)
  have get: "run_state (GetLicenseByKey (row_key ?row)) w1 = (Inl (DriverError msg), w1)"
    "run_state (GetLicense (row_id ?row)) w1 = (Inl (DriverError msg), w1)"
    using lic(1,2) scan(1) run1
    by (simp_all add: GetLicenseByKey_def GetLicense_def run_license_queries)
  let ?c = "if i \<noteq> '''' then (\<lambda>l. row_product_id l = i) else (\<lambda>l. True)"
  have "set (license_select (\<lambda>l. row_product_id l = i) ?d) \<subseteq> set (license_select ?c ?d)"
    by (auto simp: license_select_def set_map_filter_iff)
  then obtain m where m: "run_state (ListLicenses i) w1 = (Inl (DriverError m), w1)"
    using run_scan_rows_fails [OF _ scan(2), of "sort_key (\<lambda>l. - lic_created_at l) (license_select ?c ?d)"] lic(3) run1(1,2)
    by (auto simp: ListLicenses_def run_license_queries i split: if_splits)
  obtain pr where "find (\<lambda>p. prod_id p = i) (products ?d) = Some pr"
    using assms(2) i by (cases "find (\<lambda>p. prod_id p = i) (products ?d)") (auto simp: row_fits_def find_None_iff)
  then have "run_state (GetProduct i) w1 = (Inr pr, w1)"
    using run1(1,2) by (auto simp: GetProduct_def run_exec_sql_faultless sql_select_product_def)
  with m have "run_state (handleProductDetail s i q) w1 = (serverError (DriverError m), w1)"
    by (simp add: handleProductDetail_def)
  with w1 run1(2) get show ?thesis
    by (simp add: handleLicenseDetail_def activate_def Validate_def)
qed

theorem last_date_unusable_witness:
  "\<exists>p w1 msg. run_state (handleLicenseCreate sample_server ''P1'' (license_request ''9999-12-31'')) (world_of free_db) = (p, w1) \<and>
    rs_status p = 303 \<and> length (licenses (db w1)) = 2 \<and>
    fst (run_state (activate sample_platform hooked_service
      (row_key (new_row (form_params ''P1'' (license_request ''9999-12-31'')) (world_of free_db))) ''phone'' '''' False) w1) =
      Inl (DriverError msg) \<and>
    rs_status (fst (run_state (handleProductDetail sample_server ''P1'' (license_request '''')) w1)) = 500"
proof -
  obtain p w1 where run: "run_state (handleLicenseCreate sample_server ''P1'' (license_request ''9999-12-31''))
      (world_of free_db) = (p, w1)" by fastforce
  have t: "day_number 10000 1 1 * day_length = 253402300800 * second" by code_simp
  obtain msg where msg: "unreadable (world_of free_db) (day_number 10000 1 1 * day_length) = Some msg"
    by (simp add: t sample_unreadable_def)
  have "row_fits (new_row (form_params ''P1'' (license_request ''9999-12-31'')) (world_of free_db)) (db (world_of free_db))"
    using sample_row_fits by simp
  from last_date_unusable [OF _ this _ msg run, of sample_platform hooked_service "''phone''" "''''" False
      "license_request ''''"] run
  show ?thesis by (simp add: license_request_def http_Redirect_def)
qed

section \<open>Keys that are taken\<close>

text \<open>
  C38. A random key that another license has is never given out twice: the insert reports
  \<open>ErrKeyExists\<close>, told apart from other errors by the text of the driver, no table changes, and the
  form is answered with an internal error (there is no second attempt).
\<close>

theorem taken_key_refused:
  assumes "healthy w" and "row_id (new_row (form_params i r) w) \<notin> row_id ` set (licenses (db w))"
    and "row_key (new_row (form_params i r) w) \<in> row_key ` set (licenses (db w))"
    and "find (\<lambda>p. prod_id p = i) (products (db w)) = Some pr"
    and "run_state (handleLicenseCreate s i r) w = (p, w')"
  shows "fst (run_state (CreateLicense (form_params i r)) w) = Inl ErrKeyExists \<and> rs_status p = 500 \<and>
    db w' = db w"
  using run_CreateLicense_key_taken [OF assms(1-3)] assms(1,4,5)
  by (auto simp: handleLicenseCreate_def run_GetProduct form_params_def)

definition taken_db :: database where
  "taken_db = free_db\<lparr>licenses := [sample_row\<lparr>row_key := key_of_bytes (stake 16 (sconst (CHR ''e'')))\<rparr>]\<rparr>"

theorem taken_key_refused_witness:
  "rs_status (fst (run_state (handleLicenseCreate sample_server ''P1'' (license_request '''')) (world_of taken_db))) = 500"
proof -
  have "row_key (new_row q (world_of taken_db)) = key_of_bytes (stake 16 (sconst (CHR ''e'')))"
    "row_id (new_row q (world_of taken_db)) = ''U1''" for q
    by (simp_all add: new_row_def)
  moreover have "licenses taken_db = [sample_row\<lparr>row_key := key_of_bytes (stake 16 (sconst (CHR ''e'')))\<rparr>]"
    "products taken_db = [sample_product]"
    by (simp_all add: taken_db_def)
  moreover have "prod_id sample_product = ''P1''" by (simp add: sample_product_def)
  ultimately show ?thesis
    using taken_key_refused [OF _ _ _ _ prod.collapse [symmetric],
      where w = "world_of taken_db" and i = "''P1''" and r = "license_request ''''" and s = sample_server] by simp
qed

end
