(* ===== verification/Client_Theorems.thy ===== *)
theory Client_Theorems
  imports Sample Dashboard
begin

text \<open>
  The reference client: what \<open>run\<close> accepts and what it touches, what an offline activation demands of
  its file, and the way of a token from the server's database to a client that runs without network.
\<close>

section \<open>Running\<close>

text \<open>
  C17. \<open>run\<close> succeeds exactly when the cached envelope carries a signature of the cached key over a
  token whose time has not passed; it contacts no server and changes no file, whatever the disk does.
\<close>

theorem run_is_offline:
  assumes "run_state (cmdRun P J rfc home) w = (r, w')"
  shows "(io_works w \<longrightarrow>
      (r = Inr () \<longleftrightarrow>
        (\<exists>tok. cached_token P J home (cw_files w) = Some tok \<and> shd (cw_clock w) \<le> tok_valid_until tok))) \<and>
    cw_sent w' = cw_sent w \<and> cw_files w' = cw_files w"
proof -
  have "r = Inr () \<longleftrightarrow> (\<exists>u. r = Inr u)" by auto
  then show ?thesis
    using run_cmdRun [of w P J rfc home] cmdRun_offline [of P J rfc home w] assms by simp
qed

definition sample_client_json :: client_json where
  "sample_client_json = go_client_json sample_js"

text \<open>A client whose disk works, with the answers that its server will give.\<close>

definition client_of :: "(gerror + int \<times> bytes) list \<Rightarrow> (string \<Rightarrow> bytes option) \<Rightarrow> client_world" where
  "client_of answers files =
     \<lparr>cw_files = files, cw_io = sconst None, cw_clock = sconst 200,
      cw_http = answers @- sconst (Inl (LibError ''offline'')), cw_sent = [], cw_out = []\<rparr>"

lemma client_of_sel [simp]:
  "io_works (client_of as fs)" "cw_files (client_of as fs) = fs" "cw_out (client_of as fs) = []" "shd (cw_clock (client_of as fs)) = 200"
  "cw_http (client_of as fs) = as @- sconst (Inl (LibError ''offline''))" "cw_sent (client_of as fs) = []"
  by (simp_all add: client_of_def io_works_def)

theorem run_is_offline_witness:
  "fst (run_state (cmdRun sample_platform sample_client_json (\<lambda>_. '''') ''/h'') (client_of [] (\<lambda>_. None))) \<noteq> Inr ()"
  using run_is_offline [OF prod.collapse [symmetric],
      where w = "client_of [] (\<lambda>_. None)" and P = sample_platform and J = sample_client_json
        and rfc = "\<lambda>_. ''''" and home = "''/h''"]
  by (simp add: cached_token_def)

text \<open>
  C18. An offline activation trusts nothing that is not signed: unless the file holds an envelope that
  verifies under the key of the flag (or the cached one, without the flag), the command fails and no
  file is written, whatever the disk does.
\<close>

theorem offline_activation_verified:
  assumes "\<And>data env pub key. cw_files w path = Some data \<Longrightarrow> unmarshal_envelope J data = Inr env \<Longrightarrow>
      (if pubkey = '''' then cw_files w (pubkeyPath home) = Some pub else pub = pubkey) \<Longrightarrow>
      DecodePublicKey pub = Inr key \<Longrightarrow> \<exists>e. Verify (ed P) (json_Unmarshal_token P) key env = Inl e"
    and "run_state (cmdOfflineActivate P J home path pubkey) w = (r, w')"
  shows "(\<exists>e. r = Inl e) \<and> cw_files w' = cw_files w"
proof -
  have "\<not> offline_verified P J home path pubkey (cw_files w)"
    unfolding offline_verified_def using assms(1) by (metis Inl_Inr_False)
  from cmdOfflineActivate_verified [OF this] assms(2) show ?thesis by simp
qed

definition envelope_text :: "envelope \<Rightarrow> bytes" where
  "envelope_text env = json_indented (envelope_json env)"

theorem offline_activation_verified_witness:
  "\<exists>e. fst (run_state (cmdOfflineActivate sample_platform sample_client_json ''/h'' ''/f'' (EncodePublicKey sample_pub))
     (client_of [] ((\<lambda>_. None)(''/f'' \<mapsto> envelope_text \<lparr>env_payload = ''QUJD'', env_signature = ''''\<rparr>)))) = Inl e"
proof -
  have "length sample_pub = 32"
    by (simp add: sample_pub_def sample_ed_def sample_seed_def)
  then have key: "DecodePublicKey (EncodePublicKey sample_pub) = Inr sample_pub"
    by (simp add: decode_encode_key PublicKeySize_def)
  have v: "\<exists>e. Verify sample_ed (unmarshal_token sample_js) key \<lparr>env_payload = ''QUJD'', env_signature = ''''\<rparr> = Inl e"
    if "DecodePublicKey (EncodePublicKey sample_pub) = Inr key" for key
  proof -
    have k: "key = sample_pub" using that by (simp add: key)
    have "ed_accepts sample_ed sample_pub data [] \<longleftrightarrow> False" for data
      by (simp add: sample_ed_def sample_pub_def sample_seed_def)
    moreover have "b64_decode [] = Inr []" by code_simp
    ultimately show ?thesis
      by (cases "Verify sample_ed (unmarshal_token sample_js) key \<lparr>env_payload = ''QUJD'', env_signature = ''''\<rparr>")
        (auto simp: k Verify_Inr_iff)
  qed
  have env: "unmarshal_envelope sample_client_json (envelope_text env) = Inr env" if "envelope_ok env" for env
    using that by (simp add: sample_client_json_def envelope_text_def unmarshal_indented json_ok_envelope decode_envelope)
  have ne: "EncodePublicKey sample_pub \<noteq> ''''"
    using key by (auto simp: DecodePublicKey_def b64_decode_def PublicKeySize_def)
  obtain r w' where run: "run_state (cmdOfflineActivate sample_platform sample_client_json ''/h'' ''/f'' (EncodePublicKey sample_pub))
      (client_of [] ((\<lambda>_. None)(''/f'' \<mapsto> envelope_text \<lparr>env_payload = ''QUJD'', env_signature = ''''\<rparr>))) = (r, w')"
    by fastforce
  have "(\<exists>e. r = Inl e) \<and> cw_files w' = cw_files
      (client_of [] ((\<lambda>_. None)(''/f'' \<mapsto> envelope_text \<lparr>env_payload = ''QUJD'', env_signature = ''''\<rparr>)))"
    by (rule offline_activation_verified [OF _ run]) (use v ne in \<open>auto simp: env envelope_ok_def\<close>)
  with run show ?thesis by simp
qed

section \<open>From the client to the server and back\<close>

text \<open>
  C5. Activation end to end: when the server accepts the request that \<open>democli activate\<close> sends, and the
  client receives its answer and the one to \<open>/v1/pubkey\<close>, the files that the client writes let \<open>run\<close>
  start the program, offline, until seven days after the activation or the end of the license,
  whichever is earlier, and not a nanosecond longer.
\<close>

theorem activated_client_runs:
  assumes "ed25519_laws E" and "keypair E (svc_priv (srv_licenses s)) (svc_pub (srv_licenses s))"
    and "healthy w" and "db_ok (db w)" and "quiet_notifier (svc_notifier (srv_licenses s))"
    and "license_by_key key (db w) = Some lic"
    and "run_state (cmdActivate (go_platform E jc) (go_client_json jc) home url key device name) c = (r1, c1)"
    and "cw_sent c1 = cw_sent c @ call # calls"
    and "rq_method q = ''POST''" and "rq_path q = [''v1'', ''activate'']" and "rq_body q = call_body call"
    and "run_state (ServeHTTP (go_platform E js) (go_web_json js) B static s q) w = (p, w')" and "rs_status p = 200"
    and "rq_method q2 = ''GET''" and "rq_path q2 = [''v1'', ''pubkey'']"
    and "run_state (ServeHTTP (go_platform E js) (go_web_json js) B static s q2) v = (p2, v')"
    and "shd (cw_http c) = Inr (rs_status p, b)" and "api_body (rs_content p) = Some b"
    and "shd (stl (cw_http c)) = Inr (rs_status p2, b2)" and "api_body (rs_content p2) = Some b2"
    and "io_works c" and "io_works c2" and "cw_files c2 = cw_files c1"
    and "run_state (cmdRun (go_platform E jc) (go_client_json jc) rfc home) c2 = (r2, c3)"
    and "utf8_valid device" and "utf8_valid name" and "utf8_valid url"
    and "token_ok (token_for lic device (seat_count (lic_id lic) (db w')) (shd (clock w)) False)"
  shows "r1 = Inr () \<and>
    (r2 = Inr () \<longleftrightarrow> shd (cw_clock c2) \<le> shd (clock w) + 7 * day_length \<and>
       (\<forall>e. lic_expires_at lic = Some e \<longrightarrow> shd (cw_clock c2) \<le> e))"
proof -
  let ?P = "go_platform E js" and ?Q = "go_platform E jc" and ?J = "go_client_json jc"
  let ?s = "srv_licenses s"
  let ?pub = "EncodePublicKey (PublicKey ?s)"
  have key: "utf8_valid key"
    using assms(28) license_by_key_row [OF assms(6)] by (auto simp: token_ok_def token_for_def Let_def)
  note sent = cmdActivate_sent [OF go_client_json_sel(1) assms(7,8)]
  have "run_state (handleAPIActivate ?P (go_web_json js) s q) w = (p, w')"
    using assms(12) by (simp add: ServeHTTP_activate [OF assms(9,10)])
  moreover have "decode_activate (go_web_json js) (rq_body q) =
      Inr \<lparr>req_license_key = key, req_device_id = device, req_device_name = name\<rparr>"
    by (simp add: assms(11) sent(3) decodeJSON_map key assms(25,26))
  ultimately obtain env where act: "run_state (activate ?P ?s key device name False) w = (Inr env, w')"
      and p: "rs_content p = JsonEnvelope env"
    using assms(13) sent(1,2) run_api(1) [of "go_web_json js" q _ ?P s w]
    by (cases "run_state (activate ?P ?s key device name False) w")
      (auto simp: Activate_def reply_of_status, auto simp: reply_of_def)
  let ?tok = "token_for lic device (seat_count (lic_id lic) (db w')) (shd (clock w)) False"
  have env: "sign ?P ?s lic device (seat_count (lic_id lic) (db w')) (shd (clock w)) False = Inr env"
    by (rule activate_signs(1) [OF assms(3-6) act])
  have ok: "envelope_ok env" using env by (auto simp: sign_def dest: Sign_envelope_ok)
  have ver: "Verify (ed ?Q) (json_Unmarshal_token ?Q) (svc_pub ?s) env = Inr ?tok"
    using sign_verifies [OF assms(1,2,28) env, of jc] by simp
  have dec: "DecodePublicKey ?pub = Inr (svc_pub ?s)"
    using keypair_length [OF assms(1,2)] by (simp add: decode_encode_key PublicKey_def PublicKeySize_def)
  have h1: "unmarshal_envelope ?J b = Inr env"
    by (rule client_reads_envelope [OF ok]) (use assms(18) p in simp)
  have "p2 = handleAPIPubkey s"
    using assms(16) by (simp add: ServeHTTP_pubkey [OF assms(14,15)])
  then have p2: "rs_status p2 < 300" "rs_content p2 = JsonPubkey ?pub ''ed25519''"
    by (simp_all add: handleAPIPubkey_def)
  have h2: "decode_public_key ?J b2 = Inr ?pub"
    by (rule client_reads_public_key [of _ "''ed25519''"]) (use assms(20) p2 b64_utf8 in \<open>simp_all add: EncodePublicKey_def\<close>)
  let ?st = "\<lparr>cs_envelope = env, cs_device_id = device, cs_server = url\<rparr>"
  have st: "unmarshal_state ?J (json_indented (state_json ?st)) = Inr ?st"
    by (rule client_reads_state) (use ok assms(25,27) in \<open>simp add: state_ok_def\<close>)
  have status: "rs_status p < 300" using assms(13) by simp
  note run = assms(21) sent(1,2) go_client_json_sel(1) assms(17) status h1 assms(19) h2 go_client_json_sel(3)
  have files: "cw_files c1 = (cw_files c)(pubkeyPath home \<mapsto> ?pub, licensePath home \<mapsto> json_indented (state_json ?st))"
    using run_cmdActivate [OF run, where P = ?Q and home = home and name = name and srv = url] assms(7) by simp
  have "r1 = Inr ()"
    using assms(7) run_cmdActivate_result [OF run dec ver, where home = home and name = name and srv = url] by simp
  moreover have "cached_token ?Q ?J home (cw_files c2) = Some ?tok"
    using cached_token_activate [OF st, of ?Q home "cw_files c" ?pub] dec ver
    by (simp add: assms(23) files)
  then have "r2 = Inr () \<longleftrightarrow> shd (cw_clock c2) \<le> tok_valid_until ?tok"
    using run_cmdRun [OF assms(22), of ?Q ?J rfc home] assms(24) by auto
  ultimately show ?thesis
    by (auto simp: token_for_def Let_def time_Before_def OnlineGracePeriod_def day_length_def duration_defs
        split: option.splits)
qed

definition activation_request :: http_request where
  "activation_request = (api_request ''activate'' ''SEAT-1'' ''phone'')\<lparr>rq_body := json_compact (json_map
     [(''license_key'', ''SEAT-1''), (''device_id'', ''phone''), (''device_name'', '''')])\<rparr>"

lemma activation_request_sel [simp]:
  "rq_method activation_request = ''POST''" "rq_path activation_request = [''v1'', ''activate'']"
  by (simp_all add: activation_request_def)

lemma activation_request_decode:
  "decode_activate sample_json (rq_body activation_request) =
    Inr \<lparr>req_license_key = ''SEAT-1'', req_device_id = ''phone'', req_device_name = ''''\<rparr>"
  by (simp add: sample_json_def activation_request_def decodeJSON_map)

theorem activated_client_runs_witness:
  "\<exists>answers p w' c1 c3. run_state (ServeHTTP sample_platform sample_json sample_bcrypt no_static sample_server
      activation_request) (world_of free_db) = (p, w') \<and> rs_status p = 200 \<and>
    run_state (cmdActivate sample_platform sample_client_json ''/h'' ''http://s'' ''SEAT-1'' ''phone'' '''')
      (client_of answers (\<lambda>_. None)) = (Inr (), c1) \<and>
    run_state (cmdRun sample_platform sample_client_json (\<lambda>_. '''') ''/h'') (client_of [] (cw_files c1)) = (Inr (), c3)"
proof -
  obtain env w' where act: "run_state (activate sample_platform hooked_service ''SEAT-1'' ''phone'' '''' False)
      (world_of free_db) = (Inr env, w')"
    by (rule sample_activate_new)
  let ?q = activation_request
  let ?q2 = "form_request ''GET'' [''v1'', ''pubkey''] []"
  let ?serve = "ServeHTTP sample_platform sample_json sample_bcrypt no_static sample_server"
  have "run_state (handleAPIActivate sample_platform sample_json sample_server ?q) (world_of free_db) =
      (respond 200 (JsonEnvelope env), w')"
    using act by (simp add: run_api(1) [of sample_json ?q] activation_request_decode Activate_def reply_of_def)
  then have serve: "run_state (?serve ?q) (world_of free_db) = (respond 200 (JsonEnvelope env), w')"
    by (simp add: ServeHTTP_activate)
  let ?p2 = "handleAPIPubkey sample_server"
  have serve2: "run_state (?serve ?q2) (world_of free_db) = (?p2, world_of free_db)"
    by (simp add: ServeHTTP_pubkey)
  obtain b b2 where b: "api_body (rs_content (respond 200 (JsonEnvelope env))) = Some b"
      "api_body (rs_content ?p2) = Some b2"
    by (simp add: api_body_def handleAPIPubkey_def)
  let ?c = "client_of [Inr (200, b), Inr (200, b2)] (\<lambda>_. None)"
  obtain r1 c1 where cl: "run_state (cmdActivate sample_platform sample_client_json ''/h'' ''http://s'' ''SEAT-1'' ''phone'' '''')
      ?c = (r1, c1)" by fastforce
  obtain r2 c3 where run: "run_state (cmdRun sample_platform sample_client_json (\<lambda>_. '''') ''/h'')
      (client_of [] (cw_files c1)) = (r2, c3)" by fastforce
  obtain calls where sent: "cw_sent c1 = cw_sent ?c @
      \<lparr>call_method = ''POST'', call_url = ''http://s/v1/activate'', call_body = rq_body ?q\<rparr> # calls"
    using cmdActivate_posts [OF _ _ _ cl, of "rq_body ?q"]
    by (auto simp: sample_client_json_def activation_request_def)
  have "r1 = Inr () \<and> r2 = Inr ()"
    using activated_client_runs [OF sample_ed_laws _ _ _ _ _ cl [unfolded sample_platform_def sample_client_json_def] sent
        _ _ _ serve [unfolded sample_platform_def sample_json_def] _ _ _ serve2 [unfolded sample_platform_def sample_json_def]
        _ b(1) _ b(2) _ _ _ run [unfolded sample_platform_def sample_client_json_def], of sample_license]
      sample_keypair act sample_seats_new [OF act]
    by (simp add: day_length_def duration_defs activation_request_def handleAPIPubkey_def)
  with serve cl run show ?thesis by (metis status_respond(1))
qed

text \<open>
  C19. What a user learns of a refusal: when the server refuses the request of \<open>democli activate\<close>, because
  the key is unknown, the license revoked or expired, or its seats taken, the command ends with the
  message for that case, and neither the client's files nor the seats change.
\<close>

theorem client_reports_refusal:
  assumes "healthy w" and "db_ok (db w)" and "quiet_notifier (svc_notifier (srv_licenses s))"
    and "run_state (cmdActivate (go_platform E jc) (go_client_json jc) home url key device name) c = (r1, c1)"
    and "cw_sent c1 = cw_sent c @ call # calls"
    and "rq_method q = ''POST''" and "rq_path q = [''v1'', ''activate'']" and "rq_body q = call_body call"
    and "run_state (ServeHTTP (go_platform E js) (go_web_json js) B static s q) w = (p, w')"
    and "shd (cw_http c) = Inr (rs_status p, b)" and "api_body (rs_content p) = Some b"
    and "utf8_valid key" and "utf8_valid device" and "utf8_valid name"
    and "(case license_by_key key (db w) of
        None \<Rightarrow> Some ''license key or device not found''
      | Some lic \<Rightarrow>
          if Status lic (shd (clock w)) \<noteq> ''active''
          then Some (''license is not active: '' @ Status lic (shd (clock w)))
          else if (lic_id lic, device) \<notin> seats (db w) \<and> lic_max_devices lic \<le> seat_count (lic_id lic) (db w)
          then Some ''this license has reached its device limit''
          else None) = Some message"
  shows "r1 = Inl (LibError (''server rejected request: '' @ message)) \<and> cw_files c1 = cw_files c \<and>
    seats (db w') = seats (db w)"
proof -
  let ?P = "go_platform E js" and ?s = "srv_licenses s"
  note sent = cmdActivate_sent [OF go_client_json_sel(1) assms(4,5)]
  have dec: "decode_activate (go_web_json js) (rq_body q) =
      Inr \<lparr>req_license_key = key, req_device_id = device, req_device_name = name\<rparr>"
    by (simp add: assms(8) sent(3) decodeJSON_map assms(12-14))
  obtain e w1 where act: "run_state (activate ?P ?s key device name False) w = (e, w1)" by fastforce
  have p: "p = reply_of JsonEnvelope e" "w' = w1"
    using assms(9) run_api(1) [OF dec, of ?P s w] sent(1,2) act
    by (simp_all add: ServeHTTP_activate [OF assms(6,7)] Activate_def)
  have e: "(e, seats (db w1)) = apfst (answer ?P ?s device (shd (clock w)) False)
      (abs_activate (license_by_key key (db w)) (shd (clock w)) device (seats (db w)))"
    using run_activate_abs [OF assms(1-3) act] by simp
  have "\<exists>code. rs_content p = JsonError code message \<and> utf8_valid code \<and> utf8_valid message \<and>
      300 \<le> rs_status p \<and> seats (db w') = seats (db w)"
  proof (cases "license_by_key key (db w)")
    case None
    with e assms(15) show ?thesis
      by (auto simp: p reply_of_def abs_activate_def mapLicenseError_def)
  next
    case (Some lic)
    show ?thesis
    proof (cases "Status lic (shd (clock w)) = ''active''")
      case True
      with e Some assms(15) seat_count_abs [OF assms(2), of "lic_id lic"] show ?thesis
        by (auto simp: p reply_of_def abs_activate_def mapLicenseError_def split: if_splits)
    next
      case False
      have "utf8_valid (Status lic (shd (clock w)))"
        by (rule Status_cases [of lic "shd (clock w)"]) simp_all
      with False e Some assms(15) show ?thesis
        by (auto simp: p reply_of_def abs_activate_def mapLicenseError_status_error)
    qed
  qed
  then obtain code where code: "rs_content p = JsonError code message" "utf8_valid code" "utf8_valid message"
      "300 \<le> rs_status p" "seats (db w') = seats (db w)" by blast
  have "unmarshal_message (go_client_json jc) b = Inr message"
    by (rule client_reads_error [OF code(2,3)]) (use assms(11) code(1) in simp)
  moreover have "message \<noteq> ''''"
    using assms(15) by (auto split: option.splits if_splits)
  ultimately show ?thesis
    using run_cmdActivate_refused [OF sent(1,2) go_client_json_sel(1) [of jc] assms(10) code(4),
      where P = "go_platform E jc" and home = home and srv = url and name = name and message = message]
      assms(4) code(5) by simp
qed

theorem client_reports_refusal_witness:
  "\<exists>b p w' c1. run_state (ServeHTTP sample_platform sample_json sample_bcrypt no_static sample_server
      activation_request) (world_of full_db) = (p, w') \<and> api_body (rs_content p) = Some b \<and>
    run_state (cmdActivate sample_platform sample_client_json ''/h'' ''http://s'' ''SEAT-1'' ''phone'' '''')
      (client_of [Inr (rs_status p, b)] (\<lambda>_. None)) =
        (Inl (LibError ''server rejected request: this license has reached its device limit''), c1)"
proof -
  obtain p w' where serve: "run_state (ServeHTTP sample_platform sample_json sample_bcrypt no_static sample_server
      activation_request) (world_of full_db) = (p, w')" by fastforce
  obtain e w1 where act: "run_state (activate sample_platform hooked_service ''SEAT-1'' ''phone'' '''' False)
      (world_of full_db) = (e, w1)" by fastforce
  have "e = Inl ErrDeviceLimit"
    using run_activate_abs [OF _ _ sample_quiet(2) act] by (simp add: abs_activate_def abs_count_def)
  then have "p = mapLicenseError ErrDeviceLimit"
    using serve act run_api(1) [OF activation_request_decode, of sample_platform sample_server]
    by (simp add: ServeHTTP_activate Activate_def reply_of_def)
  then obtain b where b: "api_body (rs_content p) = Some b"
    by (simp add: mapLicenseError_def api_body_def)
  let ?c = "client_of [Inr (rs_status p, b)] (\<lambda>_. None)"
  obtain r1 c1 where cl: "run_state (cmdActivate sample_platform sample_client_json ''/h'' ''http://s'' ''SEAT-1'' ''phone'' '''')
      ?c = (r1, c1)" by fastforce
  obtain calls where sent: "cw_sent c1 = cw_sent ?c @
      \<lparr>call_method = ''POST'', call_url = ''http://s/v1/activate'', call_body = rq_body activation_request\<rparr> # calls"
    using cmdActivate_posts [OF _ _ _ cl, of "rq_body activation_request"]
    by (auto simp: sample_client_json_def activation_request_def)
  have "r1 = Inl (LibError ''server rejected request: this license has reached its device limit'')"
    using client_reports_refusal [OF _ _ _ cl [unfolded sample_platform_def sample_client_json_def] sent _ _ _
      serve [unfolded sample_platform_def sample_json_def] _ b,
      where message = "''this license has reached its device limit''"] by simp
  with serve b cl show ?thesis by blast
qed

text \<open>
  C8. Offline activation end to end: the request that \<open>democli offline-request\<close> prints, pasted into the
  dashboard by a browser, which turns its line breaks into CR LF, is read as it was meant; when the
  service activates the device, the text that the page shows is an activation file that
  \<open>offline-activate\<close> accepts under the server's key, and with it \<open>run\<close> starts the program for 36500
  days or until the license ends.
\<close>

theorem offline_activation_runs:
  assumes "ed25519_laws E" and "keypair E (svc_priv (srv_licenses s)) (svc_pub (srv_licenses s))"
    and "healthy w" and "db_ok (db w)" and "quiet_notifier (svc_notifier (srv_licenses s))"
    and "license_by_id i (db w) = Some lic"
    and "run_state (cmdOfflineRequest (go_client_json jc) hint device name) c = (Inr (), c1)"
    and "cw_out c1 = cw_out c @ [request]" and "rq_form r ''request_json'' = crlf request"
    and "run_state (OfflineActivate (go_platform E js) (srv_licenses s) (lic_key lic) device name) w = (Inr env, w1)"
    and "run_state (handleLicenseOfflineActivate (go_platform E js) (go_web_json js) s i r) w = (p, w')"
    and "rs_location p = Some (''/licenses/'' @ i @ ''?offline_result='' @ q)" and "QueryUnescape q = Some shown"
    and "io_works c2" and "path \<noteq> ''''" and "cw_files c2 path = Some shown"
    and "run_state (cmdOfflineActivate (go_platform E jc) (go_client_json jc) home path
           (EncodePublicKey (PublicKey (srv_licenses s)))) c2 = (r2, c3)"
    and "io_works c4" and "cw_files c4 = cw_files c3"
    and "run_state (cmdRun (go_platform E jc) (go_client_json jc) rfc home) c4 = (r4, c5)"
    and "utf8_valid device" and "utf8_valid name"
    and "token_ok (token_for lic device (seat_count (lic_id lic) (db w')) (shd (clock w)) True)"
  shows "r2 = Inr () \<and> w' = w1 \<and>
    (r4 = Inr () \<longleftrightarrow> shd (cw_clock c4) \<le> shd (clock w) + 36500 * day_length \<and>
       (\<forall>e. lic_expires_at lic = Some e \<longrightarrow> shd (cw_clock c4) \<le> e))"
proof -
  let ?P = "go_platform E js" and ?Q = "go_platform E jc" and ?J = "go_client_json jc"
  let ?s = "srv_licenses s"
  let ?pub = "EncodePublicKey (PublicKey ?s)"
  have device: "device \<noteq> ''''" using assms(7) by (auto simp: cmdOfflineRequest_def)
  have "request = json_indented (json_map (request_members hint device name))"
    using assms(7,8) run_cmdOfflineRequest [OF device, of ?J name hint] by (auto simp: request_members_def)
  then have req: "unmarshal_offline (go_web_json js) (rq_form r ''request_json'') =
      Inr \<lparr>off_device_id = device, off_device_name = name\<rparr>"
    using unmarshal_offline_request [OF assms(21,22) json_whole_crlf, where key = hint] by (simp add: assms(9))
  have p: "p = offline_redirect i (json_indented (envelope_json env))" "w' = w1"
    using assms(3,6,10,11) req device
    by (simp_all add: handleLicenseOfflineActivate_def run_GetLicense Let_def)
  have q: "shown = json_indented (envelope_json env)"
  proof -
    have "q = urlEscape (json_indented (envelope_json env))"
      using assms(12) p(1) by (simp add: offline_redirect_def)
    with assms(13) show ?thesis by (simp only: unescape_escape option.inject)
  qed
  let ?tok = "token_for lic device (seat_count (lic_id lic) (db w')) (shd (clock w)) True"
  have env: "sign ?P ?s lic device (seat_count (lic_id lic) (db w')) (shd (clock w)) True = Inr env"
    using activate_signs(1) [OF assms(3-5) license_by_id_key [OF assms(4,6)] assms(10) [unfolded OfflineActivate_def]] p(2)
    by simp
  have ok: "envelope_ok env" using env by (auto simp: sign_def dest: Sign_envelope_ok)
  have ver: "Verify (ed ?Q) (json_Unmarshal_token ?Q) (svc_pub ?s) env = Inr ?tok"
    using sign_verifies [OF assms(1,2,23) env, of jc] by simp
  have dec: "DecodePublicKey ?pub = Inr (svc_pub ?s)"
    using keypair_length [OF assms(1,2)] by (simp add: decode_encode_key PublicKey_def PublicKeySize_def)
  then have pub: "?pub \<noteq> ''''" by (auto simp: DecodePublicKey_def b64_decode_def PublicKeySize_def)
  have read: "unmarshal_envelope ?J shown = Inr env"
    by (simp add: q unmarshal_indented json_ok_envelope decode_envelope [OF ok])
  let ?st = "\<lparr>cs_envelope = env, cs_device_id = tok_device_id ?tok, cs_server = ''''\<rparr>"
  have st: "unmarshal_state ?J (json_indented (state_json ?st)) = Inr ?st"
    by (rule client_reads_state) (use ok assms(21) in \<open>simp add: state_ok_def token_for_def Let_def\<close>)
  note act = run_cmdOfflineActivate [OF assms(14-16) read pub dec ver go_client_json_sel(3)]
  have "r2 = Inr ()" using act(1) [of home] assms(17) by simp
  moreover have "cached_token ?Q ?J home (cw_files c4) = Some ?tok"
    using cached_token_activate [OF st, of ?Q home "cw_files c2" ?pub] act(2) [of home] dec ver assms(17)
    by (simp add: assms(19))
  then have "r4 = Inr () \<longleftrightarrow> shd (cw_clock c4) \<le> tok_valid_until ?tok"
    using run_cmdRun [OF assms(18), of ?Q ?J rfc home] assms(20) by auto
  ultimately show ?thesis
    using p(2) by (auto simp: token_for_def Let_def time_Before_def offlineHorizon_def day_length_def duration_defs
        split: option.splits)
qed

definition paste_request :: "string \<Rightarrow> http_request" where
  "paste_request text = form_request ''POST'' [''licenses'', ''L1'', ''offline-activate''] [(''request_json'', text)]"

theorem offline_activation_runs_witness:
  "\<exists>request q shown p w' c3 c5.
    run_state (cmdOfflineRequest sample_client_json '''' ''phone'' '''') (client_of [] (\<lambda>_. None)) =
      (Inr (), (client_of [] (\<lambda>_. None))\<lparr>cw_out := [request]\<rparr>) \<and>
    run_state (handleLicenseOfflineActivate sample_platform sample_json sample_server ''L1''
      (paste_request (crlf request))) (world_of free_db) = (p, w') \<and>
    rs_location p = Some (''/licenses/L1?offline_result='' @ q) \<and> QueryUnescape q = Some shown \<and>
    run_state (cmdOfflineActivate sample_platform sample_client_json ''/h'' ''/f'' (EncodePublicKey sample_pub))
      (client_of [] [''/f'' \<mapsto> shown]) = (Inr (), c3) \<and>
    run_state (cmdRun sample_platform sample_client_json (\<lambda>_. '''') ''/h'') (client_of [] (cw_files c3)) = (Inr (), c5)"
proof -
  let ?request = "json_indented (json_map (request_members '''' ''phone'' ''''))"
  let ?c = "client_of [] (\<lambda>_. None)"
  have out: "run_state (cmdOfflineRequest sample_client_json '''' ''phone'' '''') ?c = (Inr (), ?c\<lparr>cw_out := [?request]\<rparr>)"
    using run_cmdOfflineRequest [of "''phone''" sample_client_json "''''" "''''" ?request ?c]
    by (simp add: sample_client_json_def request_members_def client_of_def)
  obtain env w1 where act: "run_state (activate sample_platform hooked_service ''SEAT-1'' ''phone'' '''' True)
      (world_of free_db) = (Inr env, w1)"
    by (rule sample_activate_new)
  let ?r = "paste_request (crlf ?request)"
  have "unmarshal_offline sample_json (rq_form ?r ''request_json'') = Inr \<lparr>off_device_id = ''phone'', off_device_name = ''''\<rparr>"
    using unmarshal_offline_request [of "''phone''" "''''", OF _ _ json_whole_crlf, where key = "''''"]
    by (simp add: sample_json_def paste_request_def)
  then have page: "run_state (handleLicenseOfflineActivate sample_platform sample_json sample_server ''L1'' ?r)
      (world_of free_db) = (offline_redirect ''L1'' (json_indented (envelope_json env)), w1)"
    using act by (simp add: handleLicenseOfflineActivate_def run_GetLicense Let_def OfflineActivate_def)
      (simp add: sample_json_def)
  let ?out = "json_indented (envelope_json env)"
  have loc: "rs_location (offline_redirect ''L1'' ?out) = Some (''/licenses/'' @ ''L1'' @ ''?offline_result='' @ urlEscape ?out)"
    by (simp add: offline_redirect_def)
  let ?c2 = "client_of [] [''/f'' \<mapsto> ?out]"
  obtain r2 c3 where off: "run_state (cmdOfflineActivate sample_platform sample_client_json ''/h'' ''/f''
      (EncodePublicKey (PublicKey (srv_licenses sample_server)))) ?c2 = (r2, c3)" by fastforce
  obtain r4 c5 where run: "run_state (cmdRun sample_platform sample_client_json (\<lambda>_. '''') ''/h'')
      (client_of [] (cw_files c3)) = (r4, c5)" by fastforce
  have "r2 = Inr () \<and> r4 = Inr ()"
    using offline_activation_runs [OF sample_ed_laws _ _ _ _ _ out [unfolded sample_client_json_def] _ _ _
        page [unfolded sample_platform_def sample_json_def] loc unescape_escape _ _ _
        off [unfolded sample_platform_def sample_client_json_def] _ _
        run [unfolded sample_platform_def sample_client_json_def], of sample_license ?request env w1]
      sample_keypair act sample_seats_new [OF act]
    by (simp add: paste_request_def OfflineActivate_def sample_platform_def day_length_def duration_defs)
  then show ?thesis using out page loc off run unescape_escape [of ?out] by (auto simp: PublicKey_def)
qed

end
