(* ===== verification/Renewal_Theorems.thy ===== *)
theory Renewal_Theorems
  imports Client_Theorems
begin

text \<open>
  The later life of a client's activation, over HTTP and JSON like the first: \<open>validate\<close> renews the
  cached token, \<open>deactivate\<close> gives the seat back.
\<close>

section \<open>Renewal\<close>

text \<open>
  C6. Validation end to end: \<open>democli validate\<close> posts the cached key and device to the server of its
  flag, whatever server the cached state names; when that server accepts the request, the renewed
  token lets \<open>run\<close> start the program, offline, until seven days after the validation or the end of the
  license, also where the token before was one of an offline activation.
\<close>

theorem validated_client_runs:
  assumes "ed25519_laws E" and "keypair E (svc_priv (srv_licenses s)) (svc_pub (srv_licenses s))"
    and "healthy w" and "db_ok (db w)" and "license_by_key (tok_license_key tok) (db w) = Some lic"
    and "cw_files c (licensePath home) = Some data"
    and "cached_payload (go_platform E jc) (go_client_json jc) data = Inr (st, tok)"
    and "cw_files c (pubkeyPath home) = Some (EncodePublicKey (PublicKey (srv_licenses s)))"
    and "run_state (cmdValidate (go_platform E jc) (go_client_json jc) home url) c = (r1, c1)"
    and "cw_sent c1 = cw_sent c @ [call]"
    and "rq_method q = ''POST''" and "rq_path q = [''v1'', ''validate'']" and "rq_body q = call_body call"
    and "run_state (ServeHTTP (go_platform E js) (go_web_json js) B static s q) w = (p, w')" and "rs_status p = 200"
    and "shd (cw_http c) = Inr (rs_status p, b)" and "api_body (rs_content p) = Some b"
    and "io_works c" and "io_works c2" and "cw_files c2 = cw_files c1"
    and "run_state (cmdRun (go_platform E jc) (go_client_json jc) rfc home) c2 = (r2, c3)"
    and "utf8_valid (tok_license_key tok)" and "utf8_valid (cs_device_id st)" and "utf8_valid (cs_server st)"
    and "token_ok (token_for lic (cs_device_id st) (seat_count (lic_id lic) (db w')) (shd (clock w)) False)"
  shows "call_url call = url @ ''/v1/validate'' \<and> r1 = Inr () \<and>
    (r2 = Inr () \<longleftrightarrow> shd (cw_clock c2) \<le> shd (clock w) + 7 * day_length \<and>
       (\<forall>e. lic_expires_at lic = Some e \<longrightarrow> shd (cw_clock c2) \<le> e))"
proof -
  let ?P = "go_platform E js" and ?Q = "go_platform E jc" and ?J = "go_client_json jc"
  let ?s = "srv_licenses s" and ?key = "tok_license_key tok" and ?device = "cs_device_id st"
  let ?pub = "EncodePublicKey (PublicKey ?s)"
  have call: "call = \<lparr>call_method = ''POST'', call_url = url @ ''/v1/validate'',
      call_body = json_compact (json_map [(''license_key'', ?key), (''device_id'', ?device)])\<rparr>"
    using cmdValidate_posts [OF assms(18,6,7) go_client_json_sel(1), of url] assms(9,10) by simp
  have "run_state (handleAPIValidate ?P (go_web_json js) s q) w = (p, w')"
    using assms(14) by (simp add: ServeHTTP_validate [OF assms(11,12)])
  moreover have dec: "decode_activate (go_web_json js) (rq_body q) =
      Inr \<lparr>req_license_key = ?key, req_device_id = ?device, req_device_name = ''''\<rparr>"
    by (simp add: assms(13,22,23) call decodeJSON_map [where n = "''''"])
  moreover have "?key \<noteq> ''''" "?device \<noteq> ''''"
    using calculation assms(15) by (auto simp: handleAPIValidate_def)
  ultimately obtain env where act: "run_state (Validate ?P ?s ?key ?device) w = (Inr env, w')"
      and p: "rs_content p = JsonEnvelope env"
    using assms(15) run_api(2) [OF dec, of ?P s w]
    by (cases "run_state (Validate ?P ?s ?key ?device) w")
      (auto simp: reply_of_status, auto simp: reply_of_def)
  let ?tok = "token_for lic ?device (seat_count (lic_id lic) (db w')) (shd (clock w)) False"
  have env: "sign ?P ?s lic ?device (seat_count (lic_id lic) (db w')) (shd (clock w)) False = Inr env"
    by (rule validate_signs [OF assms(3-5) act])
  have ok: "envelope_ok env" using env by (auto simp: sign_def dest: Sign_envelope_ok)
  have ver: "Verify (ed ?Q) (json_Unmarshal_token ?Q) (svc_pub ?s) env = Inr ?tok"
    using sign_verifies [OF assms(1,2,25) env, of jc] by simp
  have key: "DecodePublicKey ?pub = Inr (svc_pub ?s)"
    using keypair_length [OF assms(1,2)] by (simp add: decode_encode_key PublicKey_def PublicKeySize_def)
  have h1: "unmarshal_envelope ?J b = Inr env"
    by (rule client_reads_envelope [OF ok]) (use assms(17) p in simp)
  have status: "rs_status p < 300" using assms(15) by simp
  note run = run_cmdValidate [OF assms(18,6,7) go_client_json_sel(1) assms(16) status h1 go_client_json_sel(3)
      assms(8) key ver, of url]
  have files: "cw_files c2 = (cw_files c)(pubkeyPath home \<mapsto> ?pub,
      licensePath home \<mapsto> json_indented (state_json (st\<lparr>cs_envelope := env\<rparr>)))"
    using run(2) assms(8,9,20) by (simp add: fun_upd_idem)
  have st: "unmarshal_state ?J (json_indented (state_json (st\<lparr>cs_envelope := env\<rparr>))) = Inr (st\<lparr>cs_envelope := env\<rparr>)"
    by (rule client_reads_state) (use ok assms(23,24) in \<open>simp add: state_ok_def\<close>)
  have "cached_token ?Q ?J home (cw_files c2) = Some ?tok"
    using cached_token_activate [OF st, of ?Q home "cw_files c" ?pub] key ver by (simp add: files)
  then have "r2 = Inr () \<longleftrightarrow> shd (cw_clock c2) \<le> tok_valid_until ?tok"
    using run_cmdRun [OF assms(19), of ?Q ?J rfc home] assms(21) by auto
  then show ?thesis
    using call run(1) assms(9)
    by (auto simp: token_for_def Let_def time_Before_def OnlineGracePeriod_def day_length_def duration_defs
        split: option.splits)
qed

text \<open>A client that was activated without network, and that knows of another server.\<close>

lemma sample_cached:
  obtains st where "cached_payload sample_platform sample_client_json (json_indented (state_json st)) =
      Inr (st, token_for sample_license ''laptop'' 1 100 True)"
    "cs_device_id st = ''laptop''" "cs_server st = ''http://other''" "state_ok st"
proof -
  obtain env where env: "sign sample_platform hooked_service sample_license ''laptop'' 1 100 True = Inr env"
    by (rule sample_sign)
  let ?st = "\<lparr>cs_envelope = env, cs_device_id = ''laptop'', cs_server = ''http://other''\<rparr>"
  have ok: "state_ok ?st" using env by (auto simp: state_ok_def sign_def dest: Sign_envelope_ok)
  have "Verify sample_ed (unmarshal_token sample_js) sample_pub env = Inr (token_for sample_license ''laptop'' 1 100 True)"
    using sign_verifies [OF sample_ed_laws, of hooked_service sample_license "''laptop''" 1 100 True sample_js env sample_js]
      sample_keypair env by (simp add: sample_platform_def int64_def)
  then show thesis
    using that [of ?st] cached_payload_signed [OF ok, of sample_platform sample_pub _ sample_js] ok
    by (simp add: sample_client_json_def)
qed

definition laptop_files :: "cachedState \<Rightarrow> string \<Rightarrow> bytes option" where
  "laptop_files st =
     [''/h/license.json'' \<mapsto> json_indented (state_json st), ''/h/pubkey.txt'' \<mapsto> EncodePublicKey sample_pub]"

lemma laptop_files_sel [simp]:
  "laptop_files st (licensePath ''/h'') = Some (json_indented (state_json st))"
  "laptop_files st (pubkeyPath ''/h'') = Some (EncodePublicKey sample_pub)"
proof -
  have "licensePath ''/h'' = ''/h/license.json''" "pubkeyPath ''/h'' = ''/h/pubkey.txt''" by code_simp+
  then show "laptop_files st (licensePath ''/h'') = Some (json_indented (state_json st))"
    "laptop_files st (pubkeyPath ''/h'') = Some (EncodePublicKey sample_pub)"
    by (simp_all add: laptop_files_def)
qed

theorem validated_client_runs_witness:
  "\<exists>b st c1 c3. run_state (cmdValidate sample_platform sample_client_json ''/h'' ''http://s'')
      (client_of [Inr (200, b)] (laptop_files st)) = (Inr (), c1) \<and>
    cs_server st = ''http://other'' \<and> map call_url (cw_sent c1) = [''http://s/v1/validate''] \<and>
    run_state (cmdRun sample_platform sample_client_json (\<lambda>_. '''') ''/h'') (client_of [] (cw_files c1)) = (Inr (), c3)"
proof -
  obtain st where st: "cached_payload sample_platform sample_client_json (json_indented (state_json st)) =
      Inr (st, token_for sample_license ''laptop'' 1 100 True)"
    "cs_device_id st = ''laptop''" "cs_server st = ''http://other''" "state_ok st"
    by (rule sample_cached)
  obtain env w' where act: "run_state (Validate sample_platform hooked_service ''SEAT-1'' ''laptop'') (world_of full_db) =
      (Inr env, w')" "seat_count ''L1'' (db w') = 1"
    by (rule sample_validate)
  let ?q = "api_request ''validate'' ''SEAT-1'' ''laptop''"
  have serve: "run_state (ServeHTTP sample_platform sample_json sample_bcrypt no_static sample_server ?q)
      (world_of full_db) = (respond 200 (JsonEnvelope env), w')"
    using act(1) by (simp add: ServeHTTP_validate run_api(2) [OF api_request_decode] reply_of_def)
  obtain b where b: "api_body (rs_content (respond 200 (JsonEnvelope env))) = Some b"
    by (simp add: api_body_def)
  let ?c = "client_of [Inr (200, b)] (laptop_files st)"
  let ?call = "\<lparr>call_method = ''POST'', call_url = ''http://s/v1/validate'', call_body = rq_body ?q\<rparr>"
  have key: "tok_license_key (token_for sample_license ''laptop'' 1 100 True) = ''SEAT-1''"
    by (simp add: token_for_def Let_def)
  obtain r1 c1 where cl: "run_state (cmdValidate sample_platform sample_client_json ''/h'' ''http://s'') ?c = (r1, c1)"
    by fastforce
  have sent: "cw_sent c1 = cw_sent ?c @ [?call]"
    using cmdValidate_posts [OF _ _ st(1), of ?c "''/h''" "rq_body ?q" "''http://s''"] cl st(2) key
    by (simp add: sample_client_json_def api_request_def)
  obtain r2 c3 where run: "run_state (cmdRun sample_platform sample_client_json (\<lambda>_. '''') ''/h'')
      (client_of [] (cw_files c1)) = (r2, c3)" by fastforce
  have "r1 = Inr () \<and> r2 = Inr ()"
    using validated_client_runs [OF sample_ed_laws _ _ _ _ _ st(1) [unfolded sample_platform_def sample_client_json_def] _
        cl [unfolded sample_platform_def sample_client_json_def] sent _ _ _
        serve [unfolded sample_platform_def sample_json_def] _ _ b _ _ _
        run [unfolded sample_platform_def sample_client_json_def], of sample_license]
      sample_keypair act(2) st(2-4) key
    by (simp add: PublicKey_def day_length_def duration_defs int64_def)
  then show ?thesis using cl sent st(3) run
    by (intro exI [of _ b] exI [of _ st] exI [of _ c1] exI [of _ c3]) simp
qed

section \<open>Giving the seat back\<close>

text \<open>
  C7. Deactivation end to end: \<open>democli deactivate\<close> posts the cached key and device to the server of its
  flag; where the device holds a seat, that seat and no other is freed, also of a license that is
  revoked or expired; with the server's answer the client removes its cached license, and \<open>run\<close> refuses
  from then on.
\<close>

theorem deactivated_client_stops:
  assumes "healthy w" and "db_ok (db w)" and "quiet_notifier (svc_notifier (srv_licenses s))"
    and "license_by_key (tok_license_key tok) (db w) = Some lic" and "(lic_id lic, cs_device_id st) \<in> seats (db w)"
    and "tok_license_key tok \<noteq> ''''" and "cs_device_id st \<noteq> ''''"
    and "cw_files c (licensePath home) = Some data"
    and "cached_payload (go_platform E jc) (go_client_json jc) data = Inr (st, tok)"
    and "run_state (cmdDeactivate (go_platform E jc) (go_client_json jc) home url) c = (r1, c1)"
    and "cw_sent c1 = cw_sent c @ [call]"
    and "rq_method q = ''POST''" and "rq_path q = [''v1'', ''deactivate'']" and "rq_body q = call_body call"
    and "run_state (ServeHTTP P (go_web_json js) B static s q) w = (p, w')"
    and "shd (cw_http c) = Inr (rs_status p, b)" and "io_works c" and "cw_files c2 = cw_files c1"
    and "run_state (cmdRun (go_platform E jc) (go_client_json jc) rfc home) c2 = (r2, c3)"
    and "utf8_valid (tok_license_key tok)" and "utf8_valid (cs_device_id st)"
  shows "call_url call = url @ ''/v1/deactivate'' \<and> seats (db w') = seats (db w) - {(lic_id lic, cs_device_id st)} \<and>
    r1 = Inr () \<and> cw_files c1 = (cw_files c)(licensePath home := None) \<and> (\<exists>e. r2 = Inl e)"
proof -
  let ?J = "go_client_json jc" and ?s = "srv_licenses s"
  let ?key = "tok_license_key tok" and ?device = "cs_device_id st"
  note posts = cmdDeactivate_posts [OF assms(17,8,9) go_client_json_sel(1), of url]
  have call: "call = \<lparr>call_method = ''POST'', call_url = url @ ''/v1/deactivate'',
      call_body = json_compact (json_map [(''license_key'', ?key), (''device_id'', ?device)])\<rparr>"
    using posts assms(10,11) by simp
  have dec: "decode_activate (go_web_json js) (rq_body q) =
      Inr \<lparr>req_license_key = ?key, req_device_id = ?device, req_device_name = ''''\<rparr>"
    by (simp add: assms(14,20,21) call decodeJSON_map [where n = "''''"])
  obtain w1 where act: "run_state (Deactivate ?s ?key ?device) w = (Inr (), w1)"
      and seats: "seats (db w1) = seats (db w) - {(lic_id lic, ?device)}"
    by (rule run_free_held [OF assms(1-5)])
  have "p = respond 200 JsonOk \<and> w' = w1"
    using assms(15) run_api(3) [OF dec, of s w] assms(6,7) act
    by (auto simp: ServeHTTP_deactivate [OF assms(12,13)] reply_of_def)
  then have p: "rs_status p = 200" "w' = w1" by simp_all
  show ?thesis
    using run_cmdDeactivate [OF assms(17,8,9) go_client_json_sel(1) assms(16), of url] assms(10,18,19)
      cmdRun_not_activated [of c2 home "go_platform E jc" ?J rfc] call seats p by simp
qed

theorem deactivated_client_stops_witness:
  "\<exists>st w' c1 e c3. run_state (ServeHTTP sample_platform sample_json sample_bcrypt no_static sample_server
      (api_request ''deactivate'' ''SEAT-1'' ''laptop'')) (world_of full_db) = (respond 200 JsonOk, w') \<and>
    seats (db w') = {} \<and>
    run_state (cmdDeactivate sample_platform sample_client_json ''/h'' ''http://s'')
      (client_of [Inr (200, [])] (laptop_files st)) = (Inr (), c1) \<and>
    run_state (cmdRun sample_platform sample_client_json (\<lambda>_. '''') ''/h'') (client_of [] (cw_files c1)) = (Inl e, c3)"
proof -
  obtain st where st: "cached_payload sample_platform sample_client_json (json_indented (state_json st)) =
      Inr (st, token_for sample_license ''laptop'' 1 100 True)"
    "cs_device_id st = ''laptop''" "cs_server st = ''http://other''" "state_ok st"
    by (rule sample_cached)
  let ?q = "api_request ''deactivate'' ''SEAT-1'' ''laptop''"
  obtain w' where act: "run_state (Deactivate hooked_service ''SEAT-1'' ''laptop'') (world_of full_db) = (Inr (), w')"
    using run_free_held [of "world_of full_db" hooked_service "''SEAT-1''" sample_license "''laptop''"] by auto
  have serve: "run_state (ServeHTTP sample_platform sample_json sample_bcrypt no_static sample_server ?q)
      (world_of full_db) = (respond 200 JsonOk, w')"
    using act by (simp add: ServeHTTP_deactivate run_api(3) [OF api_request_decode] reply_of_def)
  let ?c = "client_of [Inr (200, [])] (laptop_files st)"
  let ?call = "\<lparr>call_method = ''POST'', call_url = ''http://s/v1/deactivate'', call_body = rq_body ?q\<rparr>"
  have key: "tok_license_key (token_for sample_license ''laptop'' 1 100 True) = ''SEAT-1''"
    by (simp add: token_for_def Let_def)
  obtain r1 c1 where cl: "run_state (cmdDeactivate sample_platform sample_client_json ''/h'' ''http://s'') ?c = (r1, c1)"
    by fastforce
  have sent: "cw_sent c1 = cw_sent ?c @ [?call]"
    using cmdDeactivate_posts [OF _ _ st(1), of ?c "''/h''" "rq_body ?q" "''http://s''"] cl st(2) key
    by (simp add: sample_client_json_def api_request_def)
  obtain r2 c3 where run: "run_state (cmdRun sample_platform sample_client_json (\<lambda>_. '''') ''/h'')
      (client_of [] (cw_files c1)) = (r2, c3)" by fastforce
  have "seats (db w') = {} \<and> r1 = Inr () \<and> (\<exists>e. r2 = Inl e)"
    using deactivated_client_stops [OF _ _ _ _ _ _ _ _ st(1) [unfolded sample_platform_def sample_client_json_def]
        cl [unfolded sample_platform_def sample_client_json_def] sent _ _ _
        serve [unfolded sample_json_def] _ _ _
        run [unfolded sample_platform_def sample_client_json_def], of sample_license "[]"]
      st(2) key by simp
  then obtain e where "seats (db w') = {}" "r1 = Inr ()" "r2 = Inl e" by blast
  with serve cl run show ?thesis
    by (intro exI [of _ st] exI [of _ w'] exI [of _ c1] exI [of _ e] exI [of _ c3]) simp
qed

end
