(* ===== verification/Spec2Isabelle.thy ===== *)
theory Spec2Isabelle
  imports Seat_Theorems Event_Theorems Race_Theorems Token_Theorems Access_Theorems Dashboard_Theorems
    Client_Theorems Renewal_Theorems
begin

text \<open>
  Seatkey, a license server with seats: a vendor creates products and licenses in a dashboard, a
  program activates devices over a small API and gets a signed token back, and it goes on running
  offline until the token ends. This library models the server (\<open>cmd/seatkeyd\<close> and \<open>internal/\<close>) and
  the reference client (\<open>cmd/democli\<close>), and proves what they promise.

  \<^bold>\<open>The program and its model.\<close> A request goes from the routes of \<open>internal/web/server.go\<close> to a
  handler (\<open>api.go\<close>, \<open>auth.go\<close>, \<open>admin.go\<close>), from there to the licensing rules of
  \<open>internal/license/service.go\<close>, and from those to the SQL statements of \<open>internal/store\<close>; tokens are
  signed by \<open>internal/crypto\<close>, and events go through the \<open>Notifier\<close> interface to \<open>internal/webhook\<close>.
  The model has the same layers. A Go function is a definition of the same name; one with effects is
  a program in the state monad over the record \<open>world\<close>: the database, the clock, the random bytes and
  UUIDs still to be drawn, the errors that the driver will report (one coming entry for each
  statement, so that every theorem without the hypothesis \<open>healthy\<close> covers all error paths), the times
  that it cannot read back from a column, and the deliveries started. \<open>healthy\<close> says that no statement
  fails and that the times of the stored licenses can be read. A pair of a value and an error is a sum, the error on the left.

  \<^item> \<open>Seat_Prelude\<close>: errors (\<open>gerror\<close>, \<open>errors.Is\<close>), programs and their Hoare triples, the tables'
    \<open>update_where\<close>, and the collections \<open>run_simps\<close>, \<open>triple_rules\<close> and \<open>table_simps\<close>.
  \<^item> \<open>Encoding\<close>, \<open>Calendar\<close>: what the code uses of the standard library: base64, hexadecimal, UTF-8,
    \<open>strconv\<close>, and the dates of \<open>time\<close> in UTC. The base64 decoder is shown to invert the encoder and
    to skip line breaks, a date is shown to be written back as it was read.
  \<^item> \<open>Models\<close>: \<open>store/models.go\<close>, \<open>store/schema.go\<close>; the tables as lists of rows, the effects of a program.
  \<^item> \<open>Store_Devices\<close>, \<open>Store_Licenses\<close>, \<open>Store_Admin\<close>, \<open>Store\<close>: the other files of \<open>store/\<close>. Each SQL
    statement is a function \<open>sql_*\<close> on the database, each method the Go code around it. \<open>db_ok\<close> is the
    invariant of the tables (unique keys, references, seat limits); every statement keeps it. The
    contracts \<open>seat_table\<close>, \<open>key_value\<close> and \<open>session_table\<close> are locales, interpreted on the statements.
  \<^item> \<open>Store_Runs\<close>: what the methods compute while the driver works, and what they keep when it does not.
  \<^item> \<open>Envelope\<close>: \<open>crypto/envelope.go\<close> and \<open>crypto/keys.go\<close>.
  \<^item> \<open>Service\<close>: \<open>license/service.go\<close> and \<open>license/token.go\<close>.
  \<^item> \<open>Licensing\<close>: the abstract machine on sets of seats (\<open>abs_activate\<close>, \<open>abs_validate\<close>, \<open>abs_deactivate\<close>)
    and the proof that the service refines it; the locale \<open>quiet_notifier\<close> is the \<open>Notifier\<close> interface.
  \<^item> \<open>Seat_Safety\<close>: predicates of the database that each request to the service keeps, as the locale
    \<open>device_invariant\<close>, whatever the driver does.
  \<^item> \<open>Concurrency\<close>: \<open>activate\<close> statement by statement, as the threads of an inductive interleaving
    relation with revocations and deactivations in between.
  \<^item> \<open>Json_Text\<close>, \<open>Json_Value\<close>, \<open>Json_Struct\<close>, \<open>Rfc3339\<close>: \<open>encoding/json\<close> and the text of \<open>time.Time\<close>: quoting,
    a parser with Go's limit on nesting, compact and indented writing, and the decoding of structs
    (names without regard to case, unknown members, \<open>null\<close>). What is written is shown to be read back.
  \<^item> \<open>Json_Codec\<close>, \<open>Json_Web\<close>, \<open>Json_Client\<close>: the JSON of tokens and envelopes, of the API's requests and
    answers, and of the client's state. \<open>go_platform\<close>, \<open>go_web_json\<close> and \<open>go_client_json\<close> are the codecs
    that the code uses; theorems that do not depend on the texts hold for any.
  \<^item> \<open>Sha256\<close>, \<open>Webhook\<close>: SHA-256 on words of 32 bits and HMAC; \<open>webhook/webhook.go\<close>, where the goroutine of
    \<open>Notify\<close> is an entry of the list of deliveries.
  \<^item> \<open>Web_Http\<close>, \<open>Web_Auth\<close>, \<open>Web_Api\<close>, \<open>Web_Admin\<close>, \<open>Web_Server\<close>: the handlers of \<open>web/\<close>, and
    \<open>ServeHTTP\<close> with the route table. \<open>Web_Safety\<close> extends the locale of invariants to all requests
    (\<open>public_invariant\<close>, \<open>http_invariant\<close>), with interpretations for the tables' invariant, the signing
    key, the account and the rows of licenses; \<open>Web_Sessions\<close> and \<open>Dashboard\<close> hold what the handlers
    compute.
  \<^item> \<open>Seatkeyd\<close>: \<open>cmd/seatkeyd/main.go\<close>, whose outcome is the fatal error of a start or the listening
    server with its log lines. \<open>Democli\<close>: \<open>cmd/democli/main.go\<close>, with the paths of \<open>Filepath\<close>.
  \<^item> \<open>Sample\<close>: a concrete installation at which the theorems with hypotheses are applied.
  \<^item> \<open>Seat_Theorems\<close>, \<open>Event_Theorems\<close>, \<open>Race_Theorems\<close>, \<open>Token_Theorems\<close>, \<open>Access_Theorems\<close>,
    \<open>Dashboard_Theorems\<close>, \<open>Client_Theorems\<close>, \<open>Renewal_Theorems\<close>: the properties,
    each after its number and statement.

  \<^bold>\<open>What is shown.\<close> No sequence of requests, served one at a time, takes a license above its limit,
  gives an envelope to a device without a seat, makes a revoked license good again, adds a second
  account or changes the signing key, whichever statements fail; the service refines the abstract
  machine; tokens verify under the server's key and end when they should. From the client's command
  line over the bodies of HTTP to the tables and back, an activation, a validation and an offline
  activation let the program run without network exactly as long as the token says, a deactivation
  frees the seat and stops it, and a refusal is reported with its reason. The dashboard needs a
  session; login, logout, setup and password change do what they say. Concurrent activations can
  exceed the limit, by at most one seat for each further thread; \<open>Race_Theorems\<close> has the schedule. Two
  setup forms at the same time can make two accounts. Other theorems state behaviour that may
  surprise: the seat that a failed activation keeps, the form's last date, the day that the dashboard
  shows, \<open>HEAD\<close> requests that submit forms, sessions that outlive a password.

  \<^bold>\<open>Parameters.\<close> Ed25519 (\<open>ed25519\<close>, with the law that a signature of a key pair is accepted), bcrypt
  (\<open>bcrypt_laws\<close>: a hash matches its password, and there is one up to 72 bytes), the offset of the
  server's location and the texts of decoding errors (\<open>json_setting\<close>), the times that the SQL driver
  cannot read back (\<open>unreadable\<close>), the execution of a template,
  the file server below \<open>static/\<close> (it leaves the database alone), and the outcomes of HTTP calls, of
  file operations and of \<open>ListenAndServe\<close>.

  \<^bold>\<open>Bounds.\<close> No loop needs fuel: all recursion is structural, on the digits of a number or on the length
  of a text. \<open>int\<close> of Go has 64 bits in \<open>Atoi\<close> and in the JSON of a token; counts and times are unbounded
  integers elsewhere, times being nanoseconds from the Unix epoch, since no operation of the code comes
  near the bounds of the \<open>time\<close> package. An offset from UTC is a number of minutes.

  \<^bold>\<open>Not modelled.\<close> Templates and static files, the parsing of HTTP (a request is its method, cleaned
  path, form, query, cookie and body), the log lines of the handlers, the modes of the client's files
  and what the package \<open>flag\<close> prints about a bad flag, scripts, tests, containers. Rows that an \<open>ORDER
  BY\<close> does not tell apart keep the order of the table; SQLite may order them in any way. Statements
  are atomic, as a single connection makes them. The driver keeps a time as a text: reading it back
  can fail for the times of a license, where a form sets the expiry; the times of the other tables
  are instants of the clock and are read as written.
\<close>

end
